(* ===== verification/Prelude.thy ===== *)
theory Prelude
  imports Main "HOL-Library.Word" "HOL-Library.AList" "HOL-Library.Char_ord"
    "HOL-Library.List_Lexorder" "HOL-Library.Multiset"
begin

text \<open>
  Shared vocabulary of the development: the Rust integer types as words, byte strings, the
  standard-library operations the sources use (little-endian conversion, saturating
  arithmetic, \<open>Vec::retain\<close>, \<open>HashMap\<close>, \<open>BTreeMap\<close>), the interface of a keyed store as a
  locale with its two standard-library providers, and the locale of a transition system with
  an inductive invariant.

  Conventions. A Rust \<open>String\<close> is its UTF-8 byte sequence, a HOL \<open>string\<close> (a \<open>char\<close> is one
  byte). A \<open>Result\<close> is a sum with the error on the left. \<open>u64\<close> and \<open>u32\<close> arithmetic wraps, as
  Rust's does in the release profile the workspace builds (no profile of the workspace turns
  overflow checks on); a \<open>Vec\<close> length or an index is a \<open>nat\<close>.
\<close>

section \<open>Types\<close>

type_synonym u8 = "8 word"
type_synonym u32 = "32 word"
type_synonym u64 = "64 word"
type_synonym bytes = "u8 list"

text \<open>An \<open>f64\<close> is its IEEE-754 bit pattern: the code only stores and passes such values.\<close>

datatype f64 = F64 u64

section \<open>Collections of facts\<close>

named_theorems frame_simps \<open>fields an operation leaves unchanged\<close>
named_theorems bound_intros \<open>capacity bounds kept by an operation\<close>

section \<open>Little-endian bytes\<close>

text \<open>\<open>to_le_bytes\<close> and \<open>from_le_bytes\<close> of the unsigned integer types, through \<open>nat\<close>.\<close>

primrec nat_to_le :: "nat \<Rightarrow> nat \<Rightarrow> bytes" where
  "nat_to_le 0 k = []"
| "nat_to_le (Suc n) k = word_of_nat (k mod 256) # nat_to_le n (k div 256)"

fun nat_from_le :: "bytes \<Rightarrow> nat" where
  "nat_from_le [] = 0"
| "nat_from_le (b # bs) = unat b + 256 * nat_from_le bs"

definition u32_to_le :: "u32 \<Rightarrow> bytes" where
  "u32_to_le w = nat_to_le 4 (unat w)"

definition u32_from_le :: "bytes \<Rightarrow> u32" where
  "u32_from_le bs = word_of_nat (nat_from_le bs)"

definition u64_to_le :: "u64 \<Rightarrow> bytes" where
  "u64_to_le w = nat_to_le 8 (unat w)"

definition u64_from_le :: "bytes \<Rightarrow> u64" where
  "u64_from_le bs = word_of_nat (nat_from_le bs)"

section \<open>Saturating arithmetic\<close>

definition sat_sub :: "'a::len word \<Rightarrow> 'a word \<Rightarrow> 'a word" where
  "sat_sub a b = (if a < b then 0 else a - b)"

definition sat_add :: "'a::len word \<Rightarrow> 'a word \<Rightarrow> 'a word" where
  "sat_add a b = (if unat a + unat b < 2 ^ LENGTH('a) then a + b else - 1)"

definition sat_mul :: "'a::len word \<Rightarrow> 'a word \<Rightarrow> 'a word" where
  "sat_mul a b = (if unat a * unat b < 2 ^ LENGTH('a) then a * b else - 1)"

text \<open>Decimal formatting of an unsigned number.\<close>

fun show_nat :: "nat \<Rightarrow> string" where
  "show_nat n = (if n < 10 then [char_of (48 + n)] else show_nat (n div 10) @ [char_of (48 + n mod 10)])"

declare show_nat.simps [simp del]

section \<open>Vectors\<close>

text \<open>
  The bounded push the buffers use: \<open>if v.len() >= cap { v.remove(0); } v.push(x)\<close>.
\<close>

definition push_bounded :: "nat \<Rightarrow> 'a \<Rightarrow> 'a list \<Rightarrow> 'a list" where
  "push_bounded cap x xs = (if cap \<le> length xs then drop 1 xs else xs) @ [x]"

text \<open>\<open>while v.len() > cap { v.pop_front(); }\<close>: the last \<open>cap\<close> elements stay.\<close>

definition keep_last :: "nat \<Rightarrow> 'a list \<Rightarrow> 'a list" where
  "keep_last cap xs = drop (length xs - cap) xs"

section \<open>HashMap\<close>

text \<open>
  A \<open>HashMap\<close> is an association list with distinct keys. Its iteration order is unspecified:
  an operation that iterates takes the order as an argument \<open>it\<close>, of which only
  \<open>hash_iter it\<close> is known.
\<close>

type_synonym ('k, 'v) hash_map = "('k \<times> 'v) list"

definition hm_get :: "('k, 'v) hash_map \<Rightarrow> 'k \<Rightarrow> 'v option" where
  "hm_get m k = map_of m k"

definition hm_contains :: "('k, 'v) hash_map \<Rightarrow> 'k \<Rightarrow> bool" where
  "hm_contains m k = (map_of m k \<noteq> None)"

definition hm_insert :: "'k \<Rightarrow> 'v \<Rightarrow> ('k, 'v) hash_map \<Rightarrow> ('k, 'v) hash_map" where
  "hm_insert k v m = AList.update k v m"

definition hm_remove :: "'k \<Rightarrow> ('k, 'v) hash_map \<Rightarrow> ('k, 'v) hash_map" where
  "hm_remove k m = AList.delete k m"

definition hm_retain :: "('k \<Rightarrow> 'v \<Rightarrow> bool) \<Rightarrow> ('k, 'v) hash_map \<Rightarrow> ('k, 'v) hash_map" where
  "hm_retain P m = filter (\<lambda>(k, v). P k v) m"

definition hm_wf :: "('k, 'v) hash_map \<Rightarrow> bool" where
  "hm_wf m = distinct (map fst m)"

definition hash_iter :: "(('k, 'v) hash_map \<Rightarrow> ('k \<times> 'v) list) \<Rightarrow> bool" where
  "hash_iter it \<longleftrightarrow> (\<forall>m. mset (it m) = mset m)"

lemma hm_get_insert: "hm_get (hm_insert k v m) k' = (if k' = k then Some v else hm_get m k')"
  by (simp add: hm_get_def hm_insert_def update_conv)

lemma hm_get_remove: "hm_get (hm_remove k m) k' = (if k' = k then None else hm_get m k')"
  by (simp add: hm_get_def hm_remove_def delete_conv)

text \<open>
  The order a hash function \<open>h\<close> gives; every iteration order of a map is one of these.
\<close>

definition hash_order :: "('k \<Rightarrow> nat) \<Rightarrow> ('k, 'v) hash_map \<Rightarrow> ('k \<times> 'v) list" where
  "hash_order h m = sort_key (\<lambda>kv. h (fst kv)) m"

section \<open>BTreeMap\<close>

text \<open>A \<open>BTreeMap\<close> is an association list in strictly ascending key order.\<close>

type_synonym ('k, 'v) btree_map = "('k \<times> 'v) list"

fun bt_insert :: "'k::linorder \<Rightarrow> 'v \<Rightarrow> ('k, 'v) btree_map \<Rightarrow> ('k, 'v) btree_map" where
  "bt_insert k v [] = [(k, v)]"
| "bt_insert k v ((k', v') # m) =
     (if k < k' then (k, v) # (k', v') # m
      else if k = k' then (k, v) # m
      else (k', v') # bt_insert k v m)"

definition bt_get :: "('k, 'v) btree_map \<Rightarrow> 'k \<Rightarrow> 'v option" where
  "bt_get m k = map_of m k"

definition bt_contains :: "('k, 'v) btree_map \<Rightarrow> 'k \<Rightarrow> bool" where
  "bt_contains m k = (map_of m k \<noteq> None)"

definition bt_remove :: "'k \<Rightarrow> ('k, 'v) btree_map \<Rightarrow> ('k, 'v) btree_map" where
  "bt_remove k m = filter (\<lambda>(k', _). k' \<noteq> k) m"

definition bt_wf :: "('k::linorder, 'v) btree_map \<Rightarrow> bool" where
  "bt_wf m = sorted_wrt (<) (map fst m)"

section \<open>The interface of a keyed store\<close>

text \<open>
  What the trust list, the peer map and the registry rely on: looking a key up after an
  insertion or a removal, and the entries a full traversal sees.
\<close>

locale keyed_store =
  fixes get :: "'m \<Rightarrow> 'k \<Rightarrow> 'v option"
    and ins :: "'k \<Rightarrow> 'v \<Rightarrow> 'm \<Rightarrow> 'm"
    and rem :: "'k \<Rightarrow> 'm \<Rightarrow> 'm"
    and entries :: "'m \<Rightarrow> ('k \<times> 'v) list"
    and invar :: "'m \<Rightarrow> bool"
  assumes get_ins: "invar m \<Longrightarrow> get (ins k v m) k' = (if k' = k then Some v else get m k')"
    and get_rem: "invar m \<Longrightarrow> get (rem k m) k' = (if k' = k then None else get m k')"
    and get_entries: "invar m \<Longrightarrow> get m k = map_of (entries m) k"
    and distinct_entries: "invar m \<Longrightarrow> distinct (map fst (entries m))"
    and invar_ins: "invar m \<Longrightarrow> invar (ins k v m)"
    and invar_rem: "invar m \<Longrightarrow> invar (rem k m)"
begin

lemma dom_entries: "invar m \<Longrightarrow> dom (get m) = set (map fst (entries m))"
proof -
  assume "invar m"
  then have "get m = map_of (entries m)" by (auto simp: get_entries)
  then show "dom (get m) = set (map fst (entries m))" by (simp add: dom_map_of_conv_image_fst)
qed

lemma length_entries: "invar m \<Longrightarrow> length (entries m) = card (dom (get m))"
  using distinct_card [OF distinct_entries [of m]] by (simp add: dom_entries)

lemma finite_dom: "invar m \<Longrightarrow> finite (dom (get m))"
  by (simp add: dom_entries)

lemma dom_ins: "invar m \<Longrightarrow> dom (get (ins k v m)) = insert k (dom (get m))"
  by (auto simp: get_ins split: if_splits)

lemma dom_rem: "invar m \<Longrightarrow> dom (get (rem k m)) = dom (get m) - {k}"
  by (auto simp: get_rem split: if_splits)

lemma length_ins:
  "invar m \<Longrightarrow> length (entries (ins k v m)) =
     (if get m k = None then Suc (length (entries m)) else length (entries m))"
  by (simp add: length_entries invar_ins dom_ins card_insert_if finite_dom domIff)

lemma length_rem:
  "invar m \<Longrightarrow> length (entries (rem k m)) =
     (if get m k = None then length (entries m) else length (entries m) - 1)"
  by (auto simp: length_entries invar_rem dom_rem card_Diff_singleton_if domIff)

lemma ins_all_invar: "invar m \<Longrightarrow> invar (fold (\<lambda>(k, v). ins k v) kvs m)"
  by (induction kvs arbitrary: m) (auto simp: invar_ins)

lemma get_ins_all:
  "invar m \<Longrightarrow> get (fold (\<lambda>(k, v). ins k v) kvs m) k =
     (case map_of (rev kvs) k of Some v \<Rightarrow> Some v | None \<Rightarrow> get m k)"
proof (induction kvs arbitrary: m)
  case (Cons kv kvs)
  obtain k' v' where "kv = (k', v')" by fastforce
  with Cons show ?case
    by (simp add: invar_ins get_ins map_add_def split: option.split)
qed simp

text \<open>Insertion of the absent keys only, counting them, as a merge does.\<close>

lemma ins_absent_all:
  assumes "invar m" and "distinct (map fst kvs)"
    and "fold (\<lambda>(k, v) (m, n). if get m k = None then (ins k v m, Suc n) else (m, n)) kvs (m, n)
         = (m', n')"
  shows "invar m'"
    and "get m' k = (case get m k of Some v \<Rightarrow> Some v | None \<Rightarrow> map_of kvs k)"
    and "n' = n + length (filter (\<lambda>(k, _). get m k = None) kvs)"
    and "length (entries m') + n = length (entries m) + n'"
proof -
  have "invar m' \<and> (\<forall>k. get m' k = (case get m k of Some v \<Rightarrow> Some v | None \<Rightarrow> map_of kvs k))
        \<and> n' = n + length (filter (\<lambda>(k, _). get m k = None) kvs)"
    using assms
  proof (induction kvs arbitrary: m n)
    case (Cons kv kvs)
    obtain a v where kv: "kv = (a, v)" by fastforce
    show ?case
    proof (cases "get m a")
      case None
      have same: "filter (\<lambda>(k, _). get (ins a v m) k = None) kvs =
                  filter (\<lambda>(k, _). get m k = None) kvs"
        using Cons.prems(1,2) kv by (intro filter_cong) (auto simp: get_ins image_iff split: if_splits)
      have "map_of kvs a = None" using Cons.prems(2) kv by (simp add: map_of_eq_None_iff)
      moreover have "invar (ins a v m)" using Cons.prems(1) by (rule invar_ins)
      ultimately show ?thesis
        using Cons.IH [of "ins a v m" "Suc n"] Cons.prems kv None same
        by (auto simp: get_ins split: option.splits)
    next
      case (Some w)
      then show ?thesis
        using Cons.IH [of m n] Cons.prems kv by (auto split: option.splits)
    qed
  qed (auto split: option.split)
  then show "invar m'"
    and "get m' k = (case get m k of Some v \<Rightarrow> Some v | None \<Rightarrow> map_of kvs k)"
    and "n' = n + length (filter (\<lambda>(k, _). get m k = None) kvs)"
    by blast+
  show "length (entries m') + n = length (entries m) + n'"
    using assms(1,3)
  proof (induction kvs arbitrary: m n)
    case (Cons kv kvs)
    obtain a v where kv: "kv = (a, v)" by fastforce
    show ?case
      using Cons.IH [of "ins a v m" "Suc n"] Cons.IH [of m n] Cons.prems kv
      by (auto simp: invar_ins length_ins split: if_splits)
  qed simp
qed

end

subsection \<open>Its providers\<close>

lemma bt_insert_keys: "set (map fst (bt_insert k v m)) = insert k (set (map fst m))"
  by (induction k v m rule: bt_insert.induct) auto

lemma bt_wf_insert [bound_intros]: "bt_wf m \<Longrightarrow> bt_wf (bt_insert k v m)"
  unfolding bt_wf_def
proof (induction k v m rule: bt_insert.induct)
  case (2 k v k' v' m)
  then show ?case using bt_insert_keys [of k v m] by (auto simp del: set_map)
qed simp

lemma bt_wf_remove [bound_intros]: "bt_wf m \<Longrightarrow> bt_wf (bt_remove k m)"
  by (auto simp: bt_wf_def bt_remove_def sorted_wrt_map sorted_wrt_filter)

lemma bt_get_insert: "bt_get (bt_insert k v m) k' = (if k' = k then Some v else bt_get m k')"
  unfolding bt_get_def by (induction k v m rule: bt_insert.induct) auto

lemma bt_get_remove: "bt_get (bt_remove k m) k' = (if k' = k then None else bt_get m k')"
  unfolding bt_get_def bt_remove_def by (induction m) auto

lemma bt_wf_distinct: "bt_wf m \<Longrightarrow> distinct (map fst m)"
  unfolding bt_wf_def using strict_sorted_iff by blast

interpretation bt: keyed_store bt_get bt_insert bt_remove "\<lambda>m. m" bt_wf
  by unfold_locales
     (simp_all add: bt_get_insert bt_get_remove bt_wf_distinct bt_wf_insert bt_wf_remove,
      simp add: bt_get_def)

interpretation hm: keyed_store hm_get hm_insert hm_remove "\<lambda>m. m" hm_wf
  by unfold_locales
     (simp_all add: hm_get_def hm_insert_def hm_remove_def hm_wf_def
        update_conv delete_conv distinct_update distinct_delete)

section \<open>Lemmas on the vocabulary\<close>

lemma length_nat_to_le [simp]: "length (nat_to_le n k) = n"
  by (induction n arbitrary: k) auto

lemma nat_from_to_le: "nat_from_le (nat_to_le n k) = k mod 256 ^ n"
proof (induction n arbitrary: k)
  case (Suc n)
  have "nat_from_le (nat_to_le (Suc n) k) = k mod 256 + 256 * ((k div 256) mod 256 ^ n)"
    using Suc by (simp add: unat_of_nat)
  also have "\<dots> = k mod (256 * 256 ^ n)"
    by (simp add: mod_mult2_eq)
  finally show ?case by simp
qed simp

lemma u32_from_to_le [simp]: "u32_from_le (u32_to_le w) = w"
proof -
  have "unat w < 256 ^ 4" using unsigned_less [of w] by simp
  then show ?thesis by (simp add: u32_from_le_def u32_to_le_def nat_from_to_le)
qed

lemma u64_from_to_le [simp]: "u64_from_le (u64_to_le w) = w"
proof -
  have "unat w < 256 ^ 8" using unsigned_less [of w] by simp
  then show ?thesis by (simp add: u64_from_le_def u64_to_le_def nat_from_to_le)
qed

lemma length_u32_to_le [simp]: "length (u32_to_le w) = 4"
  by (simp add: u32_to_le_def)

lemma length_u64_to_le [simp]: "length (u64_to_le w) = 8"
  by (simp add: u64_to_le_def)

lemma unat_sat_sub: "unat (sat_sub a b) = unat a - unat b"
  by (auto simp: sat_sub_def word_less_nat_alt unat_sub word_le_nat_alt)

lemma unat_sat_add: "unat (sat_add a b) = min (unat a + unat b) (2 ^ LENGTH('a) - 1)"
  for a b :: "'a::len word"
  by (auto simp: sat_add_def unat_word_ariths unsigned_minus_1_eq_mask mask_eq_exp_minus_1)

lemma unat_sat_mul: "unat (sat_mul a b) = min (unat a * unat b) (2 ^ LENGTH('a) - 1)"
  for a b :: "'a::len word"
  by (auto simp: sat_mul_def unat_word_ariths unsigned_minus_1_eq_mask mask_eq_exp_minus_1)

lemma length_push_bounded:
  "length (push_bounded cap x xs) = (if cap \<le> length xs \<and> xs \<noteq> [] then length xs else Suc (length xs))"
  by (auto simp: push_bounded_def Suc_diff_le Suc_le_eq)

lemma push_bounded_le [bound_intros]:
  "0 < cap \<Longrightarrow> length xs \<le> cap \<Longrightarrow> length (push_bounded cap x xs) \<le> cap"
  by (auto simp: push_bounded_def)

lemma set_push_bounded: "set (push_bounded cap x xs) \<subseteq> insert x (set xs)"
  by (auto simp: push_bounded_def dest: in_set_dropD)

lemma keep_last_le [bound_intros]: "length (keep_last cap xs) \<le> cap"
  by (simp add: keep_last_def)

lemma set_keep_last: "set (keep_last cap xs) \<subseteq> set xs"
  by (simp add: keep_last_def set_drop_subset)

lemma keep_last_id [simp]: "length xs \<le> cap \<Longrightarrow> keep_last cap xs = xs"
  by (simp add: keep_last_def)

lemma hash_iter_set: "hash_iter it \<Longrightarrow> set (it m) = set m"
  by (metis hash_iter_def set_mset_mset)

lemma hash_iter_length: "hash_iter it \<Longrightarrow> length (it m) = length m"
  by (metis hash_iter_def size_mset)

lemma hash_iter_id: "hash_iter (\<lambda>m. m)"
  by (simp add: hash_iter_def)

lemma hash_iter_order: "hash_iter (hash_order h)"
  by (simp add: hash_iter_def hash_order_def)

lemma hash_order_complete:
  assumes "hm_wf m" and "mset xs = mset m"
  shows "\<exists>h. hash_order h m = xs"
proof -
  let ?h = "\<lambda>k. the (List.find (\<lambda>i. fst (xs ! i) = k) [0..<length xs])"
  have d: "distinct (map fst xs)"
    using assms unfolding hm_wf_def by (metis mset_eq_imp_distinct_iff mset_map)
  have h: "?h (fst (xs ! i)) = i" if "i < length xs" for i
  proof -
    have "List.find (\<lambda>j. fst (xs ! j) = fst (xs ! i)) [0..<length xs] = Some i"
      using d that by (auto simp: find_Some_iff distinct_conv_nth)
    then show ?thesis by simp
  qed
  have "sort_key (\<lambda>kv. ?h (fst kv)) m = xs"
  proof (rule sort_key_inj_key_eq)
    show "mset m = mset xs" using assms(2) by simp
    have "inj_on (\<lambda>kv. ?h (fst kv)) (set xs)"
    proof (rule inj_onI)
      fix x y assume "x \<in> set xs" "y \<in> set xs" and eq: "?h (fst x) = ?h (fst y)"
      then obtain i j where "i < length xs" "x = xs ! i" "j < length xs" "y = xs ! j"
        by (metis in_set_conv_nth)
      then show "x = y" using eq by (simp add: h)
    qed
    then show "inj_on (\<lambda>kv. ?h (fst kv)) (set m)" using assms(2) by (metis set_mset_mset)
    show "sorted (map (\<lambda>kv. ?h (fst kv)) xs)" by (simp add: sorted_iff_nth_mono h)
  qed
  then show ?thesis by (auto simp: hash_order_def)
qed

lemma hash_iter_rev: "hash_iter rev"
  by (simp add: hash_iter_def)

lemma hm_wf_Nil [simp]: "hm_wf []"
  by (simp add: hm_wf_def)

lemma bt_wf_Nil [simp]: "bt_wf []"
  by (simp add: bt_wf_def)

lemma hm_wf_retain [bound_intros]: "hm_wf m \<Longrightarrow> hm_wf (hm_retain P m)"
  by (auto simp: hm_wf_def hm_retain_def distinct_map inj_on_def)

lemma hm_get_in: "hm_wf m \<Longrightarrow> hm_get m k = Some v \<longleftrightarrow> (k, v) \<in> set m"
  by (simp add: hm_wf_def hm_get_def)

section \<open>Transition systems with an invariant\<close>

text \<open>
  A component whose operations are the steps of a relation: what holds at the start and is
  kept by every step holds in every reachable state.
\<close>

locale step_system =
  fixes init :: "'s \<Rightarrow> bool"
    and step :: "'s \<Rightarrow> 's \<Rightarrow> bool"
    and inv :: "'s \<Rightarrow> bool"
  assumes init_inv: "init s \<Longrightarrow> inv s"
    and step_inv: "inv s \<Longrightarrow> step s t \<Longrightarrow> inv t"
begin

lemma steps_inv: "rtranclp step s t \<Longrightarrow> inv s \<Longrightarrow> inv t"
  by (induction rule: rtranclp_induct) (auto intro: step_inv)

lemma reachable_inv: "init s \<Longrightarrow> rtranclp step s t \<Longrightarrow> inv t"
  by (blast intro: init_inv steps_inv)

end

end
