(* ===== verification/Bloom.thy ===== *)
theory Bloom
  imports Prelude
begin

text \<open>
  The deduplication filter of the SDS layer
  (\<open>crates/logos-messaging-a2a-transport/src/sds/bloom.rs\<close>). The \<open>bloomfilter\<close> crate is a
  parameter of the model, a record of its functions on a filter type \<open>'bf\<close>; what the code relies
  on of it is the named hypothesis \<open>bloom_crate_ok\<close>. The locale \<open>dedup_filter\<close> is the interface
  the message channel relies on, and \<open>sds_filter\<close> shows that the code's filter provides it.
\<close>

type_synonym sip_keys = "(u64 \<times> u64) \<times> (u64 \<times> u64)"

record 'bf bloom_crate =
  new_for_fp_rate :: "nat \<Rightarrow> f64 \<Rightarrow> 'bf"
  crate_check :: "'bf \<Rightarrow> string \<Rightarrow> bool"
  crate_set :: "'bf \<Rightarrow> string \<Rightarrow> 'bf"
  crate_bitmap :: "'bf \<Rightarrow> bytes"
  crate_number_of_bits :: "'bf \<Rightarrow> u64"
  crate_number_of_hash_functions :: "'bf \<Rightarrow> u32"
  crate_sip_keys :: "'bf \<Rightarrow> sip_keys"
  crate_from_existing :: "bytes \<Rightarrow> u64 \<Rightarrow> u32 \<Rightarrow> sip_keys \<Rightarrow> 'bf"

text \<open>
  The documented behaviour of the crate: what has been set is found, nothing set is lost,
  a fresh filter is empty, and a filter rebuilt from its own parts answers alike.
\<close>

definition bloom_crate_ok :: "'bf bloom_crate \<Rightarrow> bool" where
  "bloom_crate_ok B \<longleftrightarrow>
     (\<forall>f m. crate_check B (crate_set B f m) m) \<and>
     (\<forall>f m x. crate_check B f x \<longrightarrow> crate_check B (crate_set B f m) x) \<and>
     (\<forall>n r m. \<not> crate_check B (new_for_fp_rate B n r) m) \<and>
     (\<forall>f m. crate_check B (crate_from_existing B (crate_bitmap B f) (crate_number_of_bits B f)
              (crate_number_of_hash_functions B f) (crate_sip_keys B f)) m = crate_check B f m)"

section \<open>SdsBloomFilter\<close>

definition DEFAULT_CAPACITY :: nat where
  "DEFAULT_CAPACITY = 10000"

text \<open>The literal \<open>0.001\<close> as an IEEE-754 double.\<close>

definition DEFAULT_ERROR_RATE :: f64 where
  "DEFAULT_ERROR_RATE = F64 0x3F50624DD2F1A9FC"

record 'bf sds_bloom =
  sb_inner :: 'bf
  sb_capacity :: nat
  sb_item_count :: nat

definition with_params :: "'bf bloom_crate \<Rightarrow> nat \<Rightarrow> f64 \<Rightarrow> 'bf sds_bloom" where
  "with_params B capacity error_rate =
     \<lparr>sb_inner = new_for_fp_rate B capacity error_rate, sb_capacity = capacity, sb_item_count = 0\<rparr>"

definition bloom_new :: "'bf bloom_crate \<Rightarrow> 'bf sds_bloom" where
  "bloom_new B = with_params B DEFAULT_CAPACITY DEFAULT_ERROR_RATE"

definition bloom_check :: "'bf bloom_crate \<Rightarrow> 'bf sds_bloom \<Rightarrow> string \<Rightarrow> bool" where
  "bloom_check B f message_id = crate_check B (sb_inner f) message_id"

definition bloom_set :: "'bf bloom_crate \<Rightarrow> string \<Rightarrow> 'bf sds_bloom \<Rightarrow> 'bf sds_bloom" where
  "bloom_set B message_id f =
     (let filter = crate_set B (sb_inner f) message_id;
          count = sb_item_count f + 1
      in if sb_capacity f \<le> count
         then f\<lparr>sb_inner := new_for_fp_rate B (sb_capacity f) DEFAULT_ERROR_RATE, sb_item_count := 0\<rparr>
         else f\<lparr>sb_inner := filter, sb_item_count := count\<rparr>)"

definition bloom_check_and_set ::
    "'bf bloom_crate \<Rightarrow> string \<Rightarrow> 'bf sds_bloom \<Rightarrow> bool \<times> 'bf sds_bloom" where
  "bloom_check_and_set B message_id f =
     (let seen = crate_check B (sb_inner f) message_id
      in if \<not> seen
         then (seen, f\<lparr>sb_inner := crate_set B (sb_inner f) message_id,
                       sb_item_count := sb_item_count f + 1\<rparr>)
         else (seen, f))"

definition bloom_to_bytes :: "'bf bloom_crate \<Rightarrow> 'bf sds_bloom \<Rightarrow> bytes" where
  "bloom_to_bytes B f =
     (let filter = sb_inner f; ((a0, b0), (a1, b1)) = crate_sip_keys B filter
      in u64_to_le (crate_number_of_bits B filter)
         @ u32_to_le (crate_number_of_hash_functions B filter)
         @ (u64_to_le a0 @ u64_to_le b0) @ (u64_to_le a1 @ u64_to_le b1)
         @ crate_bitmap B filter)"

definition slice :: "nat \<Rightarrow> nat \<Rightarrow> 'a list \<Rightarrow> 'a list" where
  "slice i j xs = take (j - i) (drop i xs)"

definition bloom_from_bytes :: "'bf bloom_crate \<Rightarrow> bytes \<Rightarrow> 'bf sds_bloom option" where
  "bloom_from_bytes B data =
     (if length data < 44 then None
      else let bitmap_bits = u64_from_le (slice 0 8 data);
               k_num = u32_from_le (slice 8 12 data);
               key = (\<lambda>i. let offset = 12 + i * 16
                          in (u64_from_le (slice offset (offset + 8) data),
                              u64_from_le (slice (offset + 8) (offset + 16) data)));
               bitmap = drop 44 data
           in Some \<lparr>sb_inner = crate_from_existing B bitmap bitmap_bits k_num (key 0, key 1),
                    sb_capacity = DEFAULT_CAPACITY, sb_item_count = 0\<rparr>)"

definition probably_contains :: "'bf bloom_crate \<Rightarrow> 'bf sds_bloom \<Rightarrow> string \<Rightarrow> bool" where
  "probably_contains B f message_id = bloom_check B f message_id"

definition bloom_len :: "'bf sds_bloom \<Rightarrow> nat" where
  "bloom_len f = sb_item_count f"

definition bloom_is_empty :: "'bf sds_bloom \<Rightarrow> bool" where
  "bloom_is_empty f = (bloom_len f = 0)"

text \<open>What every filter the channel uses satisfies: the reset keeps the count below capacity.\<close>

definition bloom_wf :: "'bf sds_bloom \<Rightarrow> bool" where
  "bloom_wf f \<longleftrightarrow> sb_item_count f < sb_capacity f"

definition bloom_room :: "'bf sds_bloom \<Rightarrow> nat" where
  "bloom_room f = sb_capacity f - sb_item_count f"

section \<open>The interface of a deduplication filter\<close>

text \<open>
  \<open>room f\<close> is the number of insertions after which the filter forgets; before that, what has
  been added is found and stays found.
\<close>

locale dedup_filter =
  fixes check :: "'f \<Rightarrow> string \<Rightarrow> bool"
    and add :: "string \<Rightarrow> 'f \<Rightarrow> 'f"
    and room :: "'f \<Rightarrow> nat"
  assumes check_add: "1 < room f \<Longrightarrow> check (add m f) m"
    and check_mono: "1 < room f \<Longrightarrow> check f x \<Longrightarrow> check (add m f) x"
    and room_add: "1 < room f \<Longrightarrow> room (add m f) = room f - 1"
begin

lemma add_all_check:
  "length ms < room f \<Longrightarrow> m \<in> set ms \<or> check f m \<Longrightarrow> check (fold add ms f) m"
proof (induction ms arbitrary: f)
  case (Cons x ms)
  then show ?case by (auto simp: room_add check_add check_mono intro!: Cons.IH)
qed simp

lemma room_add_all: "length ms < room f \<Longrightarrow> room (fold add ms f) = room f - length ms"
  by (induction ms arbitrary: f) (auto simp: room_add)

end

section \<open>Lemmas\<close>

lemma bloom_wf_new [simp]: "bloom_wf (bloom_new B)"
  by (simp add: bloom_wf_def bloom_new_def with_params_def DEFAULT_CAPACITY_def)

lemma bloom_wf_set [bound_intros]: "bloom_wf f \<Longrightarrow> bloom_wf (bloom_set B m f)"
  by (auto simp: bloom_wf_def bloom_set_def Let_def)

lemma bloom_capacity_set [frame_simps]: "sb_capacity (bloom_set B m f) = sb_capacity f"
  by (simp add: bloom_set_def Let_def)

lemma bloom_set_below:
  "1 < bloom_room f \<Longrightarrow> bloom_set B m f =
     f\<lparr>sb_inner := crate_set B (sb_inner f) m, sb_item_count := sb_item_count f + 1\<rparr>"
  by (simp add: bloom_set_def bloom_room_def Let_def)

locale sds_filter =
  fixes B :: "'bf bloom_crate"
  assumes crate_ok: "bloom_crate_ok B"
begin

lemma crate_laws:
  "crate_check B (crate_set B f m) m"
  "crate_check B f x \<Longrightarrow> crate_check B (crate_set B f m) x"
  "\<not> crate_check B (new_for_fp_rate B n r) m"
  "crate_check B (crate_from_existing B (crate_bitmap B f) (crate_number_of_bits B f)
     (crate_number_of_hash_functions B f) (crate_sip_keys B f)) m = crate_check B f m"
  using crate_ok unfolding bloom_crate_ok_def by blast+

end

sublocale sds_filter \<subseteq> dedup_filter "bloom_check B" "bloom_set B" bloom_room
  by unfold_locales
     (auto simp: bloom_set_below bloom_check_def bloom_room_def crate_laws)

section \<open>A concrete crate\<close>

text \<open>
  An instance of the parameter for closed examples: the exact set of the ids, its bitmap a
  self-delimiting listing of them.
\<close>

fun ids_to_bitmap :: "string list \<Rightarrow> bytes" where
  "ids_to_bitmap [] = []"
| "ids_to_bitmap (s # ss) =
     concat (map (\<lambda>c. [1, word_of_nat (of_char c)]) s) @ [0] @ ids_to_bitmap ss"

fun bitmap_to_ids :: "string \<Rightarrow> bytes \<Rightarrow> string list" where
  "bitmap_to_ids acc (t # c # bs) =
     (if t = 0 then rev acc # bitmap_to_ids [] (c # bs)
      else bitmap_to_ids (char_of (unat c) # acc) bs)"
| "bitmap_to_ids acc [t] = (if t = 0 then [rev acc] else [])"
| "bitmap_to_ids acc [] = []"

definition exact_crate :: "string list bloom_crate" where
  "exact_crate = \<lparr>new_for_fp_rate = (\<lambda>_ _. []), crate_check = (\<lambda>f m. m \<in> set f),
     crate_set = (\<lambda>f m. m # f), crate_bitmap = ids_to_bitmap,
     crate_number_of_bits = (\<lambda>_. 0), crate_number_of_hash_functions = (\<lambda>_. 0),
     crate_sip_keys = (\<lambda>_. ((0, 0), (0, 0))),
     crate_from_existing = (\<lambda>b _ _ _. bitmap_to_ids [] b)\<rparr>"

lemma char_word_inverse: "char_of (unat (word_of_nat (of_char c) :: u8)) = c"
proof -
  have "of_char c mod (256::nat) = of_char c" by (rule of_char_mod_256)
  then show ?thesis by (simp add: unat_of_nat)
qed

lemma bitmap_to_ids_string:
  "bitmap_to_ids acc (concat (map (\<lambda>c. [1, word_of_nat (of_char c)]) s) @ 0 # bs) =
     (rev acc @ s) # bitmap_to_ids [] bs"
proof (induction s arbitrary: acc)
  case Nil
  show ?case by (cases bs) auto
next
  case (Cons c s)
  then show ?case by (simp add: char_word_inverse)
qed

lemma bitmap_roundtrip [simp]: "bitmap_to_ids [] (ids_to_bitmap f) = f"
  by (induction f) (simp_all add: bitmap_to_ids_string)

lemma exact_crate_ok: "bloom_crate_ok exact_crate"
  by (simp add: bloom_crate_ok_def exact_crate_def)

interpretation exact_filter: sds_filter exact_crate
  by unfold_locales (rule exact_crate_ok)

section \<open>Properties\<close>

lemma slice_append1 [simp]: "j = length xs \<Longrightarrow> slice 0 j (xs @ ys) = xs"
  by (simp add: slice_def)

lemma slice_append2: "length xs \<le> i \<Longrightarrow> slice i j (xs @ ys) = slice (i - length xs) (j - length xs) ys"
  by (simp add: slice_def)

lemma bloom_from_to_bytes:
  "bloom_from_bytes B (bloom_to_bytes B f) =
     Some \<lparr>sb_inner = crate_from_existing B (crate_bitmap B (sb_inner f))
             (crate_number_of_bits B (sb_inner f)) (crate_number_of_hash_functions B (sb_inner f))
             (crate_sip_keys B (sb_inner f)),
           sb_capacity = DEFAULT_CAPACITY, sb_item_count = 0\<rparr>"
  by (cases "crate_sip_keys B (sb_inner f)")
     (auto simp: bloom_from_bytes_def bloom_to_bytes_def Let_def slice_append2 split: prod.splits)

text \<open>
  Serialization round trip of the filter: the bytes a node puts into its SDS messages are
  read back by a peer as a filter that gives the same answer for every message id.
\<close>

lemma bloom_bytes_roundtrip:
  assumes "bloom_crate_ok B"
  shows "\<exists>g. bloom_from_bytes B (bloom_to_bytes B f) = Some g \<and>
             (\<forall>m. probably_contains B g m = bloom_check B f m) \<and> bloom_is_empty g"
  using assms
  by (simp add: bloom_from_to_bytes probably_contains_def bloom_check_def bloom_is_empty_def
        bloom_len_def bloom_crate_ok_def)

lemma bloom_bytes_roundtrip_witness:
  "bloom_crate_ok exact_crate \<and>
   (\<exists>g. bloom_from_bytes exact_crate
          (bloom_to_bytes exact_crate (bloom_set exact_crate ''m1'' (bloom_new exact_crate))) = Some g \<and>
        (\<forall>m. probably_contains exact_crate g m =
             bloom_check exact_crate (bloom_set exact_crate ''m1'' (bloom_new exact_crate)) m) \<and>
        bloom_is_empty g)"
  using bloom_bytes_roundtrip [OF exact_crate_ok] exact_crate_ok by blast

lemma bloom_set_fold:
  assumes "bloom_crate_ok B" and "0 < cap" and "f = fold (bloom_set B) ids (with_params B cap r)"
  shows "sb_capacity f = cap \<and> bloom_len f = length ids mod cap
    \<and> (\<forall>m \<in> set (drop (length ids - length ids mod cap) ids). bloom_check B f m)
    \<and> (length ids mod cap = 0 \<longrightarrow> (\<forall>m. \<not> bloom_check B f m))"
  using assms(3)
proof (induction ids arbitrary: f rule: rev_induct)
  case Nil
  then show ?case
    using assms(1) by (simp add: with_params_def bloom_len_def bloom_check_def bloom_crate_ok_def)
next
  case (snoc x ids)
  define g where "g = fold (bloom_set B) ids (with_params B cap r)"
  have f: "f = bloom_set B x g" using snoc.prems by (simp add: g_def)
  note IH = snoc.IH [OF g_def]
  let ?n = "length ids"
  show ?case
  proof (cases "?n mod cap + 1 < cap")
    case True
    then have n: "Suc ?n mod cap = Suc (?n mod cap)" by (simp add: mod_Suc)
    have le: "?n mod cap \<le> ?n" by simp
    show ?thesis
      using assms(1) IH True le unfolding f
      by (auto simp: n bloom_set_def Let_def bloom_len_def bloom_check_def bloom_crate_ok_def)
  next
    case False
    then have n: "Suc ?n mod cap = 0"
      using mod_less_divisor [OF assms(2), of ?n] by (auto simp: mod_Suc)
    with False show ?thesis
      using assms(1) IH unfolding f
      by (auto simp: n bloom_set_def Let_def bloom_len_def bloom_check_def bloom_crate_ok_def)
  qed
qed

text \<open>
  What the filter remembers. After any sequence of insertions into a fresh filter of
  capacity \<open>cap\<close>, the counter is the number of insertions modulo the capacity, every id
  inserted since the last reset is found, and right after a reset nothing is found: duplicate
  detection is lost once per \<open>cap\<close> insertions.
\<close>

lemma bloom_remembers_since_reset:
  assumes "bloom_crate_ok B" and "0 < cap"
  shows "let f = fold (bloom_set B) ids (with_params B cap r) in
     bloom_len f = length ids mod cap
     \<and> (\<forall>m \<in> set (drop (length ids - length ids mod cap) ids). bloom_check B f m)
     \<and> (length ids mod cap = 0 \<longrightarrow> (\<forall>m. \<not> bloom_check B f m))"
  using bloom_set_fold [OF assms refl] by (simp add: Let_def)

lemma bloom_remembers_since_reset_witness:
  "let f = fold (bloom_set exact_crate) [''a'', ''b'', ''c''] (with_params exact_crate 2 DEFAULT_ERROR_RATE)
   in bloom_len f = 1 \<and> bloom_check exact_crate f ''c''"
  using bloom_remembers_since_reset
    [OF exact_crate_ok, of 2 "[''a'', ''b'', ''c'']" DEFAULT_ERROR_RATE]
  by (simp add: Let_def)

text \<open>
  Deserialization rejects exactly the inputs shorter than the 44-byte header; any longer
  input is accepted, whatever its header says about the bitmap that follows.
\<close>

lemma bloom_from_bytes_rejects_only_short:
  "bloom_from_bytes B data = None \<longleftrightarrow> length data < 44"
  by (simp add: bloom_from_bytes_def Let_def)

end
