(* ===== verification/Sds_Message.thy ===== *)
theory Sds_Message
  imports Bloom
begin

text \<open>
  The SDS message types (\<open>crates/logos-messaging-a2a-transport/src/sds/message.rs\<close>) and their
  accessors. SHA-256 with hex encoding is the parameter \<open>sha\<close>.
\<close>

record history_entry =
  he_message_id :: string
  he_lamport_timestamp :: u64
  he_retrieval_hint :: "bytes option"

record content_message =
  cm_message_id :: string
  cm_channel_id :: string
  cm_sender_id :: string
  cm_lamport_timestamp :: u64
  cm_causal_history :: "history_entry list"
  cm_bloom_filter :: "bytes option"
  cm_content :: bytes
  cm_repair_request :: "history_entry list"
  cm_retrieval_hint :: "bytes option"

record sync_message =
  sm_message_id :: string
  sm_channel_id :: string
  sm_sender_id :: string
  sm_lamport_timestamp :: u64
  sm_causal_history :: "history_entry list"
  sm_bloom_filter :: "bytes option"
  sm_repair_request :: "history_entry list"

record ephemeral_message =
  em_message_id :: string
  em_channel_id :: string
  em_sender_id :: string
  em_causal_history :: "history_entry list"
  em_bloom_filter :: "bytes option"
  em_content :: bytes
  em_repair_request :: "history_entry list"

datatype sds_message =
    Content content_message
  | Sync sync_message
  | Ephemeral ephemeral_message

fun message_id :: "sds_message \<Rightarrow> string" where
  "message_id (Content m) = cm_message_id m"
| "message_id (Sync m) = sm_message_id m"
| "message_id (Ephemeral m) = em_message_id m"

fun channel_id :: "sds_message \<Rightarrow> string" where
  "channel_id (Content m) = cm_channel_id m"
| "channel_id (Sync m) = sm_channel_id m"
| "channel_id (Ephemeral m) = em_channel_id m"

fun sender_id :: "sds_message \<Rightarrow> string" where
  "sender_id (Content m) = cm_sender_id m"
| "sender_id (Sync m) = sm_sender_id m"
| "sender_id (Ephemeral m) = em_sender_id m"

fun causal_history :: "sds_message \<Rightarrow> history_entry list" where
  "causal_history (Content m) = cm_causal_history m"
| "causal_history (Sync m) = sm_causal_history m"
| "causal_history (Ephemeral m) = em_causal_history m"

fun bloom_filter_bytes :: "sds_message \<Rightarrow> bytes option" where
  "bloom_filter_bytes (Content m) = cm_bloom_filter m"
| "bloom_filter_bytes (Sync m) = sm_bloom_filter m"
| "bloom_filter_bytes (Ephemeral m) = em_bloom_filter m"

fun repair_requests :: "sds_message \<Rightarrow> history_entry list" where
  "repair_requests (Content m) = cm_repair_request m"
| "repair_requests (Sync m) = sm_repair_request m"
| "repair_requests (Ephemeral m) = em_repair_request m"

text \<open>\<open>sha\<close> stands for \<open>hex::encode(Sha256::digest(payload))\<close>.\<close>

definition compute_message_id :: "(bytes \<Rightarrow> string) \<Rightarrow> bytes \<Rightarrow> string" where
  "compute_message_id sha payload = sha payload"

definition content_message_new ::
    "(bytes \<Rightarrow> string) \<Rightarrow> string \<Rightarrow> string \<Rightarrow> u64 \<Rightarrow> bytes \<Rightarrow> content_message" where
  "content_message_new sha chan sender ts content =
     \<lparr>cm_message_id = compute_message_id sha content, cm_channel_id = chan, cm_sender_id = sender,
      cm_lamport_timestamp = ts, cm_causal_history = [], cm_bloom_filter = None,
      cm_content = content, cm_repair_request = [], cm_retrieval_hint = None\<rparr>"

definition ephemeral_message_new ::
    "(bytes \<Rightarrow> string) \<Rightarrow> string \<Rightarrow> string \<Rightarrow> bytes \<Rightarrow> ephemeral_message" where
  "ephemeral_message_new sha chan sender content =
     \<lparr>em_message_id = compute_message_id sha content, em_channel_id = chan, em_sender_id = sender,
      em_causal_history = [], em_bloom_filter = None, em_content = content,
      em_repair_request = []\<rparr>"

fun is_content :: "sds_message \<Rightarrow> bool" where
  "is_content (Content _) = True"
| "is_content _ = False"

text \<open>
  The wire form drops the retrieval hint (\<open>#[serde(skip)]\<close>): what a peer decodes of an encoded
  message.
\<close>

fun wire_view :: "sds_message \<Rightarrow> sds_message" where
  "wire_view (Content m) = Content (m\<lparr>cm_retrieval_hint := None\<rparr>)"
| "wire_view m = m"

lemma wire_view_simps [simp]:
  "message_id (wire_view m) = message_id m"
  "bloom_filter_bytes (wire_view m) = bloom_filter_bytes m"
  "repair_requests (wire_view m) = repair_requests m"
  "causal_history (wire_view m) = causal_history m"
  by (cases m; simp)+

end
