(* ===== verification/Transport.thy ===== *)
theory Transport
  imports Prelude
begin

text \<open>
  The transport abstraction (\<open>crates/logos-messaging-a2a-transport/src/lib.rs\<close>): its error type
  and the \<open>Transport\<close> trait. A backend is a parameter of the model, a record of functions on a
  backend state \<open>'tr\<close>; a subscription is a receiver handle \<open>'rx\<close>. The two receiver fields are
  the tokio receiver operations the sources use: \<open>tp_recv\<close> is
  \<open>tokio::time::timeout(d, rx.recv())\<close> with \<open>d\<close> in milliseconds, \<open>tp_drain\<close> the messages a loop
  \<open>while let Ok(m) = rx.try_recv()\<close> takes before the first \<open>Err\<close>.
\<close>

datatype transport_error =
    TErr_Transport string
  | TErr_Serialization string
  | TErr_Other string

fun show_transport_error :: "transport_error \<Rightarrow> string" where
  "show_transport_error (TErr_Transport s) = s"
| "show_transport_error (TErr_Serialization s) = ''serialization error: '' @ s"
| "show_transport_error (TErr_Other s) = s"

datatype recv_outcome = RecvData bytes | RecvClosed | RecvTimeout

record ('tr, 'rx) transport =
  tp_publish :: "'tr \<Rightarrow> string \<Rightarrow> bytes \<Rightarrow> (transport_error + unit) \<times> 'tr"
  tp_subscribe :: "'tr \<Rightarrow> string \<Rightarrow> (transport_error + 'rx) \<times> 'tr"
  tp_unsubscribe :: "'tr \<Rightarrow> string \<Rightarrow> (transport_error + unit) \<times> 'tr"
  tp_recv :: "'tr \<Rightarrow> 'rx \<Rightarrow> nat \<Rightarrow> recv_outcome \<times> 'tr"
  tp_drain :: "'tr \<Rightarrow> 'rx \<Rightarrow> bytes list \<times> 'tr"

section \<open>A backend with its publications logged\<close>

text \<open>
  A device of the specifications, not of the program: any backend, run beside the list of the
  publications made through it, of the acknowledgement data received from it and of the messages
  drained from its subscriptions.
\<close>

record tp_log =
  log_published :: "(string \<times> bytes) list"
  log_received :: "bytes list"
  log_drained :: "bytes list"

definition logged :: "('tr, 'rx) transport \<Rightarrow> ('tr \<times> tp_log, 'rx) transport" where
  "logged T = \<lparr>
     tp_publish = (\<lambda>(tr, l) topic p. let (r, tr') = tp_publish T tr topic p
                    in (r, (tr', l\<lparr>log_published := log_published l @ [(topic, p)]\<rparr>))),
     tp_subscribe = (\<lambda>(tr, l) topic. let (r, tr') = tp_subscribe T tr topic in (r, (tr', l))),
     tp_unsubscribe = (\<lambda>(tr, l) topic. let (r, tr') = tp_unsubscribe T tr topic in (r, (tr', l))),
     tp_recv = (\<lambda>(tr, l) rx d. let (r, tr') = tp_recv T tr rx d
                 in (r, (tr', case r of
                         RecvData b \<Rightarrow> l\<lparr>log_received := log_received l @ [b]\<rparr>
                       | _ \<Rightarrow> l))),
     tp_drain = (\<lambda>(tr, l) rx. let (ms, tr') = tp_drain T tr rx
                  in (ms, (tr', l\<lparr>log_drained := log_drained l @ ms\<rparr>)))\<rparr>"

lemma logged_simps [simp]:
  "tp_publish (logged T) (tr, l) topic p =
     (fst (tp_publish T tr topic p),
      (snd (tp_publish T tr topic p), l\<lparr>log_published := log_published l @ [(topic, p)]\<rparr>))"
  "tp_subscribe (logged T) (tr, l) topic =
     (fst (tp_subscribe T tr topic), (snd (tp_subscribe T tr topic), l))"
  "tp_unsubscribe (logged T) (tr, l) topic =
     (fst (tp_unsubscribe T tr topic), (snd (tp_unsubscribe T tr topic), l))"
  "tp_recv (logged T) (tr, l) rx d =
     (fst (tp_recv T tr rx d),
      (snd (tp_recv T tr rx d),
       case fst (tp_recv T tr rx d) of
         RecvData b \<Rightarrow> l\<lparr>log_received := log_received l @ [b]\<rparr> | _ \<Rightarrow> l))"
  "tp_drain (logged T) (tr, l) rx =
     (fst (tp_drain T tr rx),
      (snd (tp_drain T tr rx), l\<lparr>log_drained := log_drained l @ fst (tp_drain T tr rx)\<rparr>))"
  by (simp_all add: logged_def case_prod_beta Let_def)

section \<open>The interface of a network\<close>

text \<open>
  What the nodes expect of a transport that works: a publication succeeds and reaches a subscription
  that listens on its topic, behind what already waits there, a drain returns what waits, and
  neither a publication on another topic nor a drain of another subscription disturbs one that listens.
\<close>

locale pubsub =
  fixes T :: "('tr, 'rx) transport"
    and waiting :: "'tr \<Rightarrow> 'rx \<Rightarrow> bytes list"
    and listening :: "'tr \<Rightarrow> string \<Rightarrow> 'rx \<Rightarrow> bool"
  assumes publish_ok: "fst (tp_publish T tr topic p) = Inr ()"
    and publish_listening: "listening tr topic rx \<Longrightarrow> waiting (snd (tp_publish T tr topic p)) rx = waiting tr rx @ [p]"
    and drain_waiting: "fst (tp_drain T tr rx) = waiting tr rx"
    and publish_elsewhere: "listening tr topic rx \<Longrightarrow> topic' \<noteq> topic \<Longrightarrow>
      listening (snd (tp_publish T tr topic' p)) topic rx \<and> waiting (snd (tp_publish T tr topic' p)) rx = waiting tr rx"
    and drain_elsewhere: "listening tr topic rx \<Longrightarrow> rx' \<noteq> rx \<Longrightarrow>
      listening (snd (tp_drain T tr rx')) topic rx \<and> waiting (snd (tp_drain T tr rx')) rx = waiting tr rx"
begin

text \<open>A request that is answered: what the two parties drain.\<close>

lemma request_response:
  assumes "listening tr here rx" and "listening tr there rx'" and "here \<noteq> there" and "rx \<noteq> rx'"
    and "waiting tr rx = []" and "waiting tr rx' = []"
    and "tr1 = snd (tp_publish T tr there p)" and "tr2 = snd (tp_drain T tr1 rx')"
    and "tr3 = snd (tp_publish T tr2 here q)"
  shows "fst (tp_drain T tr1 rx') = [p] \<and> fst (tp_drain T tr3 rx) = [q]"
proof -
  have "listening tr1 here rx \<and> waiting tr1 rx = []" "waiting tr1 rx' = [p]"
    using publish_elsewhere [OF assms(1), of there p] publish_listening [OF assms(2), of p] assms(3,5,6,7) by auto
  moreover from this have "listening tr2 here rx \<and> waiting tr2 rx = []"
    using drain_elsewhere [of tr1 here rx rx'] assms(4,8) by auto
  ultimately show ?thesis
    using publish_listening [of tr2 here rx q] assms(9) by (simp add: drain_waiting)
qed

end

end
