(* ===== verification/Sds_Channel.thy ===== *)
theory Sds_Channel
  imports Sds_Message Transport
begin

text \<open>
  The SDS message channel (\<open>crates/logos-messaging-a2a-transport/src/sds/channel.rs\<close>): its state
  and every operation. The third-party functions it calls are the fields of \<open>sds_env\<close>: the bloom
  filter crate, SHA-256, the JSON codec of the messages and of acknowledgements, and the
  transport backend.

  One operation runs at a time: the compare-and-swap loop of \<open>update_timestamp\<close> then succeeds
  in its first round and each lock is free when it is taken.
\<close>

section \<open>Configuration and state\<close>

definition DEFAULT_CAUSAL_HISTORY_SIZE :: nat where
  "DEFAULT_CAUSAL_HISTORY_SIZE = 200"
definition DEFAULT_POSSIBLE_ACKS_THRESHOLD :: u32 where
  "DEFAULT_POSSIBLE_ACKS_THRESHOLD = 2"
definition DEFAULT_ACK_TIMEOUT :: nat where
  "DEFAULT_ACK_TIMEOUT = 10 * 1000"
definition DEFAULT_MAX_RETRIES :: u32 where
  "DEFAULT_MAX_RETRIES = 3"
definition INCOMING_BUFFER_MAX :: nat where
  "INCOMING_BUFFER_MAX = 256"
definition OUTGOING_BUFFER_MAX :: nat where
  "OUTGOING_BUFFER_MAX = 256"
definition POSSIBLE_ACKS_MAX :: nat where
  "POSSIBLE_ACKS_MAX = 1024"

text \<open>Durations are in milliseconds.\<close>

record channel_config =
  causal_history_size :: nat
  possible_acks_threshold :: u32
  ack_timeout :: nat
  max_retries :: u32
  timeout_for_lost_messages_ms :: "u64 option"

definition config_default :: channel_config where
  "config_default = \<lparr>causal_history_size = DEFAULT_CAUSAL_HISTORY_SIZE,
     possible_acks_threshold = DEFAULT_POSSIBLE_ACKS_THRESHOLD, ack_timeout = DEFAULT_ACK_TIMEOUT,
     max_retries = DEFAULT_MAX_RETRIES, timeout_for_lost_messages_ms = None\<rparr>"

definition fire_and_forget :: channel_config where
  "fire_and_forget = config_default\<lparr>ack_timeout := 0, max_retries := 0\<rparr>"

record ('bf, 'tr) channel =
  ch_channel_id :: string
  ch_sender_id :: string
  ch_transport :: 'tr
  ch_config :: channel_config
  ch_lamport :: u64
  ch_bloom :: "'bf sds_bloom"
  ch_local_history :: "history_entry list"
  ch_outgoing :: "content_message list"
  ch_incoming :: "sds_message list"
  ch_possible_acks :: "(string, u32) hash_map"

text \<open>
  \<open>ack_to_vec id\<close> is the JSON of \<open>{"type": "ack", "message_id": id}\<close>; \<open>ack_message_id data\<close> the
  string member \<open>message_id\<close> of \<open>data\<close> read as a JSON value, if it is one and has one.
\<close>

record ('bf, 'tr, 'rx) sds_env =
  env_bloom :: "'bf bloom_crate"
  env_sha :: "bytes \<Rightarrow> string"
  env_to_vec :: "sds_message \<Rightarrow> string + bytes"
  env_from_slice :: "bytes \<Rightarrow> sds_message option"
  env_ack_to_vec :: "string \<Rightarrow> string + bytes"
  env_ack_message_id :: "bytes \<Rightarrow> string option"
  env_transport :: "('tr, 'rx) transport"

definition channel_with_config ::
    "('bf, 'tr, 'rx) sds_env \<Rightarrow> u64 \<Rightarrow> string \<Rightarrow> string \<Rightarrow> 'tr \<Rightarrow> channel_config \<Rightarrow> ('bf, 'tr) channel"
  where
  "channel_with_config E now_ms cid sid tr config =
     \<lparr>ch_channel_id = cid, ch_sender_id = sid, ch_transport = tr, ch_config = config,
      ch_lamport = now_ms, ch_bloom = bloom_new (env_bloom E), ch_local_history = [],
      ch_outgoing = [], ch_incoming = [], ch_possible_acks = []\<rparr>"

definition channel_new ::
    "('bf, 'tr, 'rx) sds_env \<Rightarrow> u64 \<Rightarrow> string \<Rightarrow> string \<Rightarrow> 'tr \<Rightarrow> ('bf, 'tr) channel" where
  "channel_new E now_ms cid sid tr = channel_with_config E now_ms cid sid tr config_default"

section \<open>Clock and local history\<close>

definition next_timestamp :: "('bf, 'tr) channel \<Rightarrow> u64 \<times> ('bf, 'tr) channel" where
  "next_timestamp ch = (ch_lamport ch + 1, ch\<lparr>ch_lamport := ch_lamport ch + 1\<rparr>)"

definition update_timestamp :: "u64 \<Rightarrow> ('bf, 'tr) channel \<Rightarrow> ('bf, 'tr) channel" where
  "update_timestamp remote_ts ch = ch\<lparr>ch_lamport := max (ch_lamport ch) remote_ts + 1\<rparr>"

definition build_causal_history :: "('bf, 'tr) channel \<Rightarrow> history_entry list" where
  "build_causal_history ch =
     take (causal_history_size (ch_config ch)) (rev (ch_local_history ch))"

definition record_in_history ::
    "string \<Rightarrow> u64 \<Rightarrow> ('bf, 'tr) channel \<Rightarrow> ('bf, 'tr) channel" where
  "record_in_history mid ts ch = ch\<lparr>ch_local_history :=
     keep_last (causal_history_size (ch_config ch) * 2)
       (ch_local_history ch @
        [\<lparr>he_message_id = mid, he_lamport_timestamp = ts, he_retrieval_hint = None\<rparr>])\<rparr>"

text \<open>\<open>self.bloom.set(id)\<close> on the channel.\<close>

definition mark_seen :: "('bf, 'tr, 'rx) sds_env \<Rightarrow> string \<Rightarrow> ('bf, 'tr) channel \<Rightarrow> ('bf, 'tr) channel"
  where
  "mark_seen E mid ch = ch\<lparr>ch_bloom := bloom_set (env_bloom E) mid (ch_bloom ch)\<rparr>"

definition is_duplicate :: "('bf, 'tr, 'rx) sds_env \<Rightarrow> ('bf, 'tr) channel \<Rightarrow> string \<Rightarrow> bool" where
  "is_duplicate E ch mid = bloom_check (env_bloom E) (ch_bloom ch) mid"

definition outgoing_pending :: "('bf, 'tr) channel \<Rightarrow> nat" where
  "outgoing_pending ch = length (ch_outgoing ch)"

definition incoming_pending :: "('bf, 'tr) channel \<Rightarrow> nat" where
  "incoming_pending ch = length (ch_incoming ch)"

section \<open>Sending\<close>

text \<open>\<open>self.transport.publish\<close> on the channel's transport state.\<close>

definition ch_publish ::
    "('bf, 'tr, 'rx) sds_env \<Rightarrow> string \<Rightarrow> bytes \<Rightarrow> ('bf, 'tr) channel
       \<Rightarrow> (transport_error + unit) \<times> ('bf, 'tr) channel" where
  "ch_publish E topic payload ch =
     (let (r, tr) = tp_publish (env_transport E) (ch_transport ch) topic payload
      in (r, ch\<lparr>ch_transport := tr\<rparr>))"

text \<open>The content message both send operations build from the advanced state.\<close>

definition make_content ::
    "('bf, 'tr, 'rx) sds_env \<Rightarrow> ('bf, 'tr) channel \<Rightarrow> u64 \<Rightarrow> bytes \<Rightarrow> content_message" where
  "make_content E ch ts payload =
     \<lparr>cm_message_id = compute_message_id (env_sha E) payload, cm_channel_id = ch_channel_id ch,
      cm_sender_id = ch_sender_id ch, cm_lamport_timestamp = ts,
      cm_causal_history = build_causal_history ch,
      cm_bloom_filter = Some (bloom_to_bytes (env_bloom E) (ch_bloom ch)),
      cm_content = payload, cm_repair_request = [], cm_retrieval_hint = None\<rparr>"

definition send ::
    "('bf, 'tr, 'rx) sds_env \<Rightarrow> string \<Rightarrow> bytes \<Rightarrow> ('bf, 'tr) channel
       \<Rightarrow> (transport_error + content_message) \<times> ('bf, 'tr) channel" where
  "send E topic payload ch =
     (let mid = compute_message_id (env_sha E) payload;
          (ts, ch1) = next_timestamp ch;
          msg = make_content E ch1 ts payload
      in case env_to_vec E (Content msg) of
           Inl e \<Rightarrow> (Inl (TErr_Serialization e), ch1)
         | Inr encoded \<Rightarrow>
            (case ch_publish E topic encoded ch1 of
               (Inl e, ch2) \<Rightarrow>
                 (Inl (TErr_Transport (''SDS: failed to publish content message: ''
                                        @ show_transport_error e)), ch2)
             | (Inr _, ch2) \<Rightarrow>
                 let ch3 = record_in_history mid ts (mark_seen E mid ch2)
                 in (Inr msg, ch3\<lparr>ch_outgoing := push_bounded OUTGOING_BUFFER_MAX msg (ch_outgoing ch3)\<rparr>)))"

definition ack_topic_of :: "string \<Rightarrow> string" where
  "ack_topic_of mid = ''/lmao/1/ack-'' @ mid @ ''/proto''"

text \<open>
  The retransmission loop of \<open>send_reliable\<close>: the first argument counts the rounds left,
  \<open>max_retries + 1\<close> at the start. \<open>Inr True\<close>: the acknowledgement came; \<open>Inr False\<close>: no round
  is left; \<open>Inl\<close>: a publication failed.
\<close>

fun retransmit ::
    "nat \<Rightarrow> ('bf, 'tr, 'rx) sds_env \<Rightarrow> string \<Rightarrow> bytes \<Rightarrow> string \<Rightarrow> nat \<Rightarrow> 'rx \<Rightarrow> 'tr
       \<Rightarrow> (transport_error + bool) \<times> 'tr" where
  "retransmit 0 E topic encoded mid timeout rx tr = (Inr False, tr)"
| "retransmit (Suc n) E topic encoded mid timeout rx tr =
     (case tp_publish (env_transport E) tr topic encoded of
        (Inl e, tr1) \<Rightarrow> (Inl (TErr_Transport (''SDS: publish failed: '' @ show_transport_error e)), tr1)
      | (Inr _, tr1) \<Rightarrow>
         (case tp_recv (env_transport E) tr1 rx timeout of
            (RecvData data, tr2) \<Rightarrow>
              (if env_ack_message_id E data = Some mid then (Inr True, tr2)
               else retransmit n E topic encoded mid timeout rx tr2)
          | (_, tr2) \<Rightarrow> retransmit n E topic encoded mid timeout rx tr2))"

definition send_reliable ::
    "('bf, 'tr, 'rx) sds_env \<Rightarrow> string \<Rightarrow> bytes \<Rightarrow> ('bf, 'tr) channel
       \<Rightarrow> (transport_error + content_message \<times> bool) \<times> ('bf, 'tr) channel" where
  "send_reliable E topic payload ch =
     (let mid = compute_message_id (env_sha E) payload;
          (ts, ch1) = next_timestamp ch;
          ack_topic = ack_topic_of mid;
          msg = make_content E ch1 ts payload
      in case env_to_vec E (Content msg) of
           Inl e \<Rightarrow> (Inl (TErr_Serialization e), ch1)
         | Inr encoded \<Rightarrow>
            (case tp_subscribe (env_transport E) (ch_transport ch1) ack_topic of
               (Inl e, tr1) \<Rightarrow> (Inl e, ch1\<lparr>ch_transport := tr1\<rparr>)
             | (Inr rx, tr1) \<Rightarrow>
                (case retransmit (unat (max_retries (ch_config ch1)) + 1) E topic encoded mid
                        (ack_timeout (ch_config ch1)) rx tr1 of
                   (Inl e, tr2) \<Rightarrow> (Inl e, ch1\<lparr>ch_transport := tr2\<rparr>)
                 | (Inr acked, tr2) \<Rightarrow>
                    let (_, tr3) = tp_unsubscribe (env_transport E) tr2 ack_topic;
                        ch2 = record_in_history mid ts (mark_seen E mid (ch1\<lparr>ch_transport := tr3\<rparr>))
                    in (Inr (msg, acked), ch2))))"

definition send_ack ::
    "('bf, 'tr, 'rx) sds_env \<Rightarrow> string \<Rightarrow> ('bf, 'tr) channel
       \<Rightarrow> (transport_error + unit) \<times> ('bf, 'tr) channel" where
  "send_ack E mid ch =
     (case env_ack_to_vec E mid of
        Inl e \<Rightarrow> (Inl (TErr_Serialization e), ch)
      | Inr payload \<Rightarrow> ch_publish E (ack_topic_of mid) payload ch)"

text \<open>The sync message of \<open>send_sync\<close> and \<open>send_repair_request\<close>.\<close>

definition publish_sync ::
    "('bf, 'tr, 'rx) sds_env \<Rightarrow> string \<Rightarrow> history_entry list \<Rightarrow> ('bf, 'tr) channel
       \<Rightarrow> (transport_error + sync_message) \<times> ('bf, 'tr) channel" where
  "publish_sync E topic missing ch =
     (let (ts, ch1) = next_timestamp ch;
          msg = \<lparr>sm_message_id = compute_message_id (env_sha E) (u64_to_le ts),
                 sm_channel_id = ch_channel_id ch1, sm_sender_id = ch_sender_id ch1,
                 sm_lamport_timestamp = ts, sm_causal_history = build_causal_history ch1,
                 sm_bloom_filter = Some (bloom_to_bytes (env_bloom E) (ch_bloom ch1)),
                 sm_repair_request = missing\<rparr>
      in case env_to_vec E (Sync msg) of
           Inl e \<Rightarrow> (Inl (TErr_Serialization e), ch1)
         | Inr encoded \<Rightarrow>
            (case ch_publish E topic encoded ch1 of
               (Inl e, ch2) \<Rightarrow> (Inl e, ch2)
             | (Inr _, ch2) \<Rightarrow> (Inr msg, ch2)))"

definition send_sync ::
    "('bf, 'tr, 'rx) sds_env \<Rightarrow> string \<Rightarrow> ('bf, 'tr) channel
       \<Rightarrow> (transport_error + sync_message) \<times> ('bf, 'tr) channel" where
  "send_sync E topic ch = publish_sync E topic [] ch"

definition send_batch_ack ::
    "('bf, 'tr, 'rx) sds_env \<Rightarrow> string \<Rightarrow> ('bf, 'tr) channel
       \<Rightarrow> (transport_error + sync_message) \<times> ('bf, 'tr) channel" where
  "send_batch_ack E topic ch = send_sync E topic ch"

definition send_repair_request ::
    "('bf, 'tr, 'rx) sds_env \<Rightarrow> string \<Rightarrow> history_entry list \<Rightarrow> ('bf, 'tr) channel
       \<Rightarrow> (transport_error + sync_message) \<times> ('bf, 'tr) channel" where
  "send_repair_request E topic missing ch = publish_sync E topic missing ch"

definition send_ephemeral ::
    "('bf, 'tr, 'rx) sds_env \<Rightarrow> string \<Rightarrow> bytes \<Rightarrow> ('bf, 'tr) channel
       \<Rightarrow> (transport_error + ephemeral_message) \<times> ('bf, 'tr) channel" where
  "send_ephemeral E topic payload ch =
     (let msg = \<lparr>em_message_id = compute_message_id (env_sha E) payload,
                 em_channel_id = ch_channel_id ch, em_sender_id = ch_sender_id ch,
                 em_causal_history = [], em_bloom_filter = None, em_content = payload,
                 em_repair_request = []\<rparr>
      in case env_to_vec E (Ephemeral msg) of
           Inl e \<Rightarrow> (Inl (TErr_Serialization e), ch)
         | Inr encoded \<Rightarrow>
            (case ch_publish E topic encoded ch of
               (Inl e, ch1) \<Rightarrow> (Inl e, ch1)
             | (Inr _, ch1) \<Rightarrow> (Inr msg, ch1)))"

section \<open>Receiving\<close>

definition dependencies_satisfied ::
    "('bf, 'tr, 'rx) sds_env \<Rightarrow> ('bf, 'tr) channel \<Rightarrow> history_entry list \<Rightarrow> bool" where
  "dependencies_satisfied E ch hist =
     (if hist = [] then True
      else list_all (\<lambda>entry. bloom_check (env_bloom E) (ch_bloom ch) (he_message_id entry)) hist)"

text \<open>
  The closure of \<open>retain\<close> in \<open>check_outgoing_acks\<close>, run over the buffer from left to right: the
  messages kept and the counters.
\<close>

fun ack_retain ::
    "(string \<Rightarrow> bool) \<Rightarrow> u32 \<Rightarrow> content_message list \<Rightarrow> (string, u32) hash_map
       \<Rightarrow> content_message list \<times> (string, u32) hash_map" where
  "ack_retain seen threshold [] acks = ([], acks)"
| "ack_retain seen threshold (msg # rest) acks =
     (if seen (cm_message_id msg) then
        let count = (case hm_get acks (cm_message_id msg) of None \<Rightarrow> 0 | Some c \<Rightarrow> c) + 1
        in if threshold \<le> count
           then ack_retain seen threshold rest (hm_remove (cm_message_id msg) acks)
           else (let (kept, acks') =
                       ack_retain seen threshold rest (hm_insert (cm_message_id msg) count acks)
                 in (msg # kept, acks'))
      else (let (kept, acks') = ack_retain seen threshold rest acks in (msg # kept, acks')))"

definition check_outgoing_acks ::
    "('bf, 'tr, 'rx) sds_env \<Rightarrow> bytes \<Rightarrow> ('bf, 'tr) channel \<Rightarrow> ('bf, 'tr) channel" where
  "check_outgoing_acks E remote_bloom_bytes ch =
     (case bloom_from_bytes (env_bloom E) remote_bloom_bytes of
        None \<Rightarrow> ch
      | Some remote \<Rightarrow>
         let (kept, acks) = ack_retain (probably_contains (env_bloom E) remote)
                              (possible_acks_threshold (ch_config ch))
                              (ch_outgoing ch) (ch_possible_acks ch)
         in ch\<lparr>ch_outgoing := kept,
               ch_possible_acks := (if POSSIBLE_ACKS_MAX < length acks then [] else acks)\<rparr>)"

text \<open>The delivery of one content message: into the filter and into the local history.\<close>

definition deliver ::
    "('bf, 'tr, 'rx) sds_env \<Rightarrow> content_message \<Rightarrow> ('bf, 'tr) channel \<Rightarrow> ('bf, 'tr) channel" where
  "deliver E c ch =
     record_in_history (cm_message_id c) (cm_lamport_timestamp c) (mark_seen E (cm_message_id c) ch)"

text \<open>
  One round of the loop of \<open>resolve_buffered\<close> over the drained buffer: what it delivers, what
  remains, the state. The flag \<open>made_progress\<close> is set when something was delivered.
\<close>

fun resolve_pass ::
    "('bf, 'tr, 'rx) sds_env \<Rightarrow> sds_message list \<Rightarrow> ('bf, 'tr) channel
       \<Rightarrow> content_message list \<times> sds_message list \<times> ('bf, 'tr) channel" where
  "resolve_pass E [] ch = ([], [], ch)"
| "resolve_pass E (msg # rest) ch =
     (case msg of
        Content c \<Rightarrow>
          (if dependencies_satisfied E ch (cm_causal_history c)
           then (let (d, r, ch') = resolve_pass E rest (deliver E c ch) in (c # d, r, ch'))
           else (let (d, r, ch') = resolve_pass E rest ch in (d, msg # r, ch')))
      | _ \<Rightarrow> (let (d, r, ch') = resolve_pass E rest ch in (d, msg # r, ch')))"

lemma resolve_pass_length:
  "resolve_pass E buf ch = (d, r, ch') \<Longrightarrow> length d + length r = length buf"
  by (induction E buf ch arbitrary: d r ch' rule: resolve_pass.induct)
     (auto split: sds_message.splits if_splits prod.splits)

function resolve_loop ::
    "('bf, 'tr, 'rx) sds_env \<Rightarrow> sds_message list \<Rightarrow> ('bf, 'tr) channel
       \<Rightarrow> content_message list \<times> sds_message list \<times> ('bf, 'tr) channel" where
  "resolve_loop E buf ch =
     (let (d, r, ch1) = resolve_pass E buf ch
      in if d = [] then (d, r, ch1)
         else (let (d2, r2, ch2) = resolve_loop E r ch1 in (d @ d2, r2, ch2)))"
  by pat_completeness auto
termination
  by (relation "measure (\<lambda>(E, buf, ch). length buf)")
     (auto dest!: resolve_pass_length [OF sym] simp: neq_Nil_conv)

declare resolve_loop.simps [simp del]

definition resolve_buffered ::
    "('bf, 'tr, 'rx) sds_env \<Rightarrow> ('bf, 'tr) channel \<Rightarrow> content_message list \<times> ('bf, 'tr) channel" where
  "resolve_buffered E ch =
     (let (delivered, remaining, ch') = resolve_loop E (ch_incoming ch) ch
      in (delivered, ch'\<lparr>ch_incoming := remaining\<rparr>))"

text \<open>The body of \<open>receive\<close> on a decoded message.\<close>

definition receive_msg ::
    "('bf, 'tr, 'rx) sds_env \<Rightarrow> sds_message \<Rightarrow> ('bf, 'tr) channel
       \<Rightarrow> content_message list \<times> ('bf, 'tr) channel" where
  "receive_msg E msg ch =
     (if bloom_check (env_bloom E) (ch_bloom ch) (message_id msg) then ([], ch)
      else
        let ch1 = (case bloom_filter_bytes msg of
                     Some remote \<Rightarrow> check_outgoing_acks E remote ch | None \<Rightarrow> ch)
        in case msg of
             Content c \<Rightarrow>
               (let ch2 = update_timestamp (cm_lamport_timestamp c) ch1
                in if dependencies_satisfied E ch2 (cm_causal_history c)
                   then (let (delivered, ch3) = resolve_buffered E (deliver E c ch2)
                         in (c # delivered, ch3))
                   else resolve_buffered E
                          (ch2\<lparr>ch_incoming :=
                             push_bounded INCOMING_BUFFER_MAX (Content c) (ch_incoming ch2)\<rparr>))
           | Sync s \<Rightarrow>
               resolve_buffered E
                 (update_timestamp (sm_lamport_timestamp s) (mark_seen E (sm_message_id s) ch1))
           | Ephemeral e \<Rightarrow> ([], mark_seen E (em_message_id e) ch1))"

definition receive ::
    "('bf, 'tr, 'rx) sds_env \<Rightarrow> bytes \<Rightarrow> ('bf, 'tr) channel
       \<Rightarrow> content_message list \<times> ('bf, 'tr) channel" where
  "receive E raw ch =
     (case env_from_slice E raw of None \<Rightarrow> ([], ch) | Some msg \<Rightarrow> receive_msg E msg ch)"

section \<open>Repair\<close>

definition build_repair_requests ::
    "('bf, 'tr, 'rx) sds_env \<Rightarrow> ('bf, 'tr) channel \<Rightarrow> history_entry list \<Rightarrow> history_entry list" where
  "build_repair_requests E ch hist =
     filter (\<lambda>entry. \<not> bloom_check (env_bloom E) (ch_bloom ch) (he_message_id entry)) hist"

definition messages_to_resend ::
    "history_entry list \<Rightarrow> content_message list \<Rightarrow> content_message list" where
  "messages_to_resend requests outgoing =
     List.map_filter (\<lambda>req. find (\<lambda>m. cm_message_id m = he_message_id req) outgoing) requests"

fun resend_all ::
    "('bf, 'tr, 'rx) sds_env \<Rightarrow> string \<Rightarrow> content_message list \<Rightarrow> nat \<Rightarrow> ('bf, 'tr) channel
       \<Rightarrow> (transport_error + nat) \<times> ('bf, 'tr) channel" where
  "resend_all E topic [] resent ch = (Inr resent, ch)"
| "resend_all E topic (msg # rest) resent ch =
     (case env_to_vec E (Content msg) of
        Inl e \<Rightarrow> (Inl (TErr_Serialization e), ch)
      | Inr encoded \<Rightarrow>
         (case ch_publish E topic encoded ch of
            (Inl e, ch1) \<Rightarrow> (Inl e, ch1)
          | (Inr _, ch1) \<Rightarrow> resend_all E topic rest (resent + 1) ch1))"

definition handle_repair_requests ::
    "('bf, 'tr, 'rx) sds_env \<Rightarrow> string \<Rightarrow> history_entry list \<Rightarrow> ('bf, 'tr) channel
       \<Rightarrow> (transport_error + nat) \<times> ('bf, 'tr) channel" where
  "handle_repair_requests E topic requests ch =
     (if requests = [] then (Inr 0, ch)
      else resend_all E topic (messages_to_resend requests (ch_outgoing ch)) 0 ch)"

definition receive_and_repair ::
    "('bf, 'tr, 'rx) sds_env \<Rightarrow> string \<Rightarrow> bytes \<Rightarrow> ('bf, 'tr) channel
       \<Rightarrow> (transport_error + content_message list) \<times> ('bf, 'tr) channel" where
  "receive_and_repair E topic raw ch =
     (case env_from_slice E raw of
        None \<Rightarrow> (Inr [], ch)
      | Some msg \<Rightarrow>
         (case (if repair_requests msg \<noteq> []
                then handle_repair_requests E topic (repair_requests msg) ch else (Inr 0, ch)) of
            (Inl e, ch1) \<Rightarrow> (Inl e, ch1)
          | (Inr _, ch1) \<Rightarrow> (let (ds, ch2) = receive E raw ch1 in (Inr ds, ch2))))"

end
