(* ===== verification/Sds_Delivery.thy ===== *)
theory Sds_Delivery
  imports Sds_Channel
begin

text \<open>
  The receiving side of the channel: causal order of what is delivered, completeness of the
  dependency resolution, conservation of buffered messages, eventual delivery under any
  arrival order, and the Lamport clock.
\<close>

section \<open>Specification vocabulary\<close>

text \<open>
  A list of content messages is a causal chain from a filter when each one's dependencies are
  in the filter extended by the messages before it.
\<close>

fun causal_chain :: "'bf bloom_crate \<Rightarrow> 'bf sds_bloom \<Rightarrow> content_message list \<Rightarrow> bool" where
  "causal_chain B f [] = True"
| "causal_chain B f (c # cs) =
     (list_all (\<lambda>e. bloom_check B f (he_message_id e)) (cm_causal_history c)
      \<and> causal_chain B (bloom_set B (cm_message_id c) f) cs)"

text \<open>A buffered message that could be delivered now.\<close>

fun ready :: "('bf, 'tr, 'rx) sds_env \<Rightarrow> ('bf, 'tr) channel \<Rightarrow> sds_message \<Rightarrow> bool" where
  "ready E ch (Content c) = dependencies_satisfied E ch (cm_causal_history c)"
| "ready E ch _ = False"

text \<open>Receiving several raw messages one after the other.\<close>

fun receive_all ::
    "('bf, 'tr, 'rx) sds_env \<Rightarrow> bytes list \<Rightarrow> ('bf, 'tr) channel
       \<Rightarrow> content_message list \<times> ('bf, 'tr) channel" where
  "receive_all E [] ch = ([], ch)"
| "receive_all E (raw # raws) ch =
     (let (ds, ch1) = receive E raw ch; (ds', ch2) = receive_all E raws ch1 in (ds @ ds', ch2))"

section \<open>Fields the operations leave unchanged\<close>

lemma deliver_simps [simp]:
  "ch_bloom (deliver E c ch) = bloom_set (env_bloom E) (cm_message_id c) (ch_bloom ch)"
  "ch_incoming (deliver E c ch) = ch_incoming ch"
  "ch_outgoing (deliver E c ch) = ch_outgoing ch"
  "ch_possible_acks (deliver E c ch) = ch_possible_acks ch"
  "ch_lamport (deliver E c ch) = ch_lamport ch"
  "ch_config (deliver E c ch) = ch_config ch"
  by (simp_all add: deliver_def record_in_history_def mark_seen_def)

lemma deliver_all_simps [simp]:
  "ch_bloom (fold (deliver E) cs ch) = fold (bloom_set (env_bloom E)) (map cm_message_id cs) (ch_bloom ch)"
  "ch_incoming (fold (deliver E) cs ch) = ch_incoming ch"
  "ch_outgoing (fold (deliver E) cs ch) = ch_outgoing ch"
  "ch_possible_acks (fold (deliver E) cs ch) = ch_possible_acks ch"
  "ch_lamport (fold (deliver E) cs ch) = ch_lamport ch"
  "ch_config (fold (deliver E) cs ch) = ch_config ch"
  by (induction cs arbitrary: ch) simp_all

lemma update_timestamp_simps [simp]:
  "ch_bloom (update_timestamp ts ch) = ch_bloom ch"
  "ch_incoming (update_timestamp ts ch) = ch_incoming ch"
  "ch_outgoing (update_timestamp ts ch) = ch_outgoing ch"
  "ch_possible_acks (update_timestamp ts ch) = ch_possible_acks ch"
  "ch_local_history (update_timestamp ts ch) = ch_local_history ch"
  "ch_config (update_timestamp ts ch) = ch_config ch"
  by (simp_all add: update_timestamp_def)

lemma mark_seen_simps [simp]:
  "ch_bloom (mark_seen E mid ch) = bloom_set (env_bloom E) mid (ch_bloom ch)"
  "ch_incoming (mark_seen E mid ch) = ch_incoming ch"
  "ch_outgoing (mark_seen E mid ch) = ch_outgoing ch"
  "ch_possible_acks (mark_seen E mid ch) = ch_possible_acks ch"
  "ch_local_history (mark_seen E mid ch) = ch_local_history ch"
  "ch_lamport (mark_seen E mid ch) = ch_lamport ch"
  "ch_config (mark_seen E mid ch) = ch_config ch"
  by (simp_all add: mark_seen_def)

lemma check_outgoing_acks_simps [simp]:
  "ch_bloom (check_outgoing_acks E b ch) = ch_bloom ch"
  "ch_incoming (check_outgoing_acks E b ch) = ch_incoming ch"
  "ch_local_history (check_outgoing_acks E b ch) = ch_local_history ch"
  "ch_lamport (check_outgoing_acks E b ch) = ch_lamport ch"
  "ch_config (check_outgoing_acks E b ch) = ch_config ch"
  by (simp_all add: check_outgoing_acks_def Let_def split: option.split prod.split)

lemma deps_iff:
  "dependencies_satisfied E ch hist \<longleftrightarrow>
     list_all (\<lambda>e. bloom_check (env_bloom E) (ch_bloom ch) (he_message_id e)) hist"
  by (simp add: dependencies_satisfied_def)

lemma ready_cong: "ch_bloom ch' = ch_bloom ch \<Longrightarrow> ready E ch' m = ready E ch m"
  by (cases m) (simp_all add: deps_iff)

section \<open>The resolution loop\<close>

lemma causal_chain_append:
  "causal_chain B f (xs @ ys) \<longleftrightarrow>
     causal_chain B f xs \<and> causal_chain B (fold (bloom_set B) (map cm_message_id xs) f) ys"
  by (induction xs arbitrary: f) auto

lemma resolve_pass_spec:
  "resolve_pass E buf ch = (d, r, ch') \<Longrightarrow>
     causal_chain (env_bloom E) (ch_bloom ch) d \<and> ch' = fold (deliver E) d ch
     \<and> mset (map Content d) + mset r = mset buf
     \<and> (d = [] \<longrightarrow> r = buf \<and> (\<forall>m \<in> set buf. \<not> ready E ch m))"
  by (induction E buf ch arbitrary: d r ch' rule: resolve_pass.induct)
     (auto simp: deps_iff split: sds_message.splits if_splits prod.splits)

lemma resolve_loop_spec:
  "resolve_loop E buf ch = (d, r, ch') \<Longrightarrow>
     causal_chain (env_bloom E) (ch_bloom ch) d \<and> ch' = fold (deliver E) d ch
     \<and> mset (map Content d) + mset r = mset buf \<and> (\<forall>m \<in> set r. \<not> ready E ch' m)"
proof (induction E buf ch arbitrary: d r ch' rule: resolve_loop.induct)
  case (1 E buf ch)
  obtain d1 r1 ch1 where pass: "resolve_pass E buf ch = (d1, r1, ch1)"
    by (metis prod_cases3)
  note spec = resolve_pass_spec [OF pass]
  show ?case
  proof (cases "d1 = []")
    case True
    with "1.prems" pass spec show ?thesis by (auto simp: resolve_loop.simps [of E buf ch])
  next
    case False
    obtain d2 r2 ch2 where rec: "resolve_loop E r1 ch1 = (d2, r2, ch2)"
      by (metis prod_cases3)
    have "d = d1 @ d2" "r = r2" "ch' = ch2"
      using "1.prems" pass rec False by (auto simp: resolve_loop.simps [of E buf ch])
    moreover note "1.IH" [OF pass [symmetric] refl refl False rec]
    ultimately show ?thesis
      using spec by (auto simp: causal_chain_append add.assoc)
  qed
qed

lemma resolve_buffered_spec:
  assumes "resolve_buffered E ch = (d, ch')"
  shows "causal_chain (env_bloom E) (ch_bloom ch) d"
    and "ch' = (fold (deliver E) d ch)\<lparr>ch_incoming := ch_incoming ch'\<rparr>"
    and "mset (map Content d) + mset (ch_incoming ch') = mset (ch_incoming ch)"
    and "m \<in> set (ch_incoming ch') \<Longrightarrow> \<not> ready E ch' m"
proof -
  obtain r ch1 where loop: "resolve_loop E (ch_incoming ch) ch = (d, r, ch1)"
    and ch': "ch' = ch1\<lparr>ch_incoming := r\<rparr>"
    using assms by (auto simp: resolve_buffered_def split: prod.splits)
  have "ready E ch' x = ready E ch1 x" for x
    by (rule ready_cong) (simp add: ch')
  then show "causal_chain (env_bloom E) (ch_bloom ch) d"
    and "ch' = (fold (deliver E) d ch)\<lparr>ch_incoming := ch_incoming ch'\<rparr>"
    and "mset (map Content d) + mset (ch_incoming ch') = mset (ch_incoming ch)"
    and "m \<in> set (ch_incoming ch') \<Longrightarrow> \<not> ready E ch' m"
    using resolve_loop_spec [OF loop] ch' by auto
qed

lemma resolve_buffered_bloom:
  "resolve_buffered E ch = (d, ch') \<Longrightarrow>
     ch_bloom ch' = fold (bloom_set (env_bloom E)) (map cm_message_id d) (ch_bloom ch)"
  using resolve_buffered_spec(2) [of E ch d ch']
  by (metis channel.select_convs(6) channel.surjective channel.update_convs(9) deliver_all_simps(1))

lemma resolve_buffered_frame:
  assumes "resolve_buffered E ch = (d, ch')"
  shows "ch_outgoing ch' = ch_outgoing ch" "ch_possible_acks ch' = ch_possible_acks ch"
    "ch_lamport ch' = ch_lamport ch" "ch_config ch' = ch_config ch"
proof -
  define t where "t = ch_incoming ch'"
  have "ch' = (fold (deliver E) d ch)\<lparr>ch_incoming := t\<rparr>"
    using resolve_buffered_spec(2) [OF assms] by (simp add: t_def)
  then show "ch_outgoing ch' = ch_outgoing ch" "ch_possible_acks ch' = ch_possible_acks ch"
    "ch_lamport ch' = ch_lamport ch" "ch_config ch' = ch_config ch" by simp_all
qed

section \<open>One received message\<close>

text \<open>The state in which the buffer is looked at.\<close>

abbreviation after_acks :: "('bf, 'tr, 'rx) sds_env \<Rightarrow> bytes option \<Rightarrow> ('bf, 'tr) channel \<Rightarrow> ('bf, 'tr) channel" where
  "after_acks E remote ch \<equiv> (case remote of Some r \<Rightarrow> check_outgoing_acks E r ch | None \<Rightarrow> ch)"

lemma after_acks_simps [simp]:
  "ch_bloom (after_acks E remote ch) = ch_bloom ch"
  "ch_incoming (after_acks E remote ch) = ch_incoming ch"
  "ch_lamport (after_acks E remote ch) = ch_lamport ch"
  "ch_local_history (after_acks E remote ch) = ch_local_history ch"
  "ch_config (after_acks E remote ch) = ch_config ch"
  by (simp_all split: option.split)

lemma receive_content_spec:
  assumes "receive_msg E (Content c) ch = (ds, ch')"
    and "\<not> bloom_check (env_bloom E) (ch_bloom ch) (cm_message_id c)"
  shows "causal_chain (env_bloom E) (ch_bloom ch) ds"
    and "ch_bloom ch' = fold (bloom_set (env_bloom E)) (map cm_message_id ds) (ch_bloom ch)"
    and "length (ch_incoming ch) < INCOMING_BUFFER_MAX \<Longrightarrow>
           mset (map Content ds) + mset (ch_incoming ch') = add_mset (Content c) (mset (ch_incoming ch))"
    and "m \<in> set (ch_incoming ch') \<Longrightarrow> \<not> ready E ch' m"
    and "ch_lamport ch' = max (ch_lamport ch) (cm_lamport_timestamp c) + 1"
proof -
  let ?ch2 = "update_timestamp (cm_lamport_timestamp c) (after_acks E (cm_bloom_filter c) ch)"
  have goal: "causal_chain (env_bloom E) (ch_bloom ch) ds
    \<and> ch_bloom ch' = fold (bloom_set (env_bloom E)) (map cm_message_id ds) (ch_bloom ch)
    \<and> (length (ch_incoming ch) < INCOMING_BUFFER_MAX \<longrightarrow>
           mset (map Content ds) + mset (ch_incoming ch') = add_mset (Content c) (mset (ch_incoming ch)))
    \<and> (\<forall>m \<in> set (ch_incoming ch'). \<not> ready E ch' m)
    \<and> ch_lamport ch' = max (ch_lamport ch) (cm_lamport_timestamp c) + 1"
  proof (cases "dependencies_satisfied E ?ch2 (cm_causal_history c)")
    case True
    obtain ds1 where ds: "ds = c # ds1" and res: "resolve_buffered E (deliver E c ?ch2) = (ds1, ch')"
      using assms True by (auto simp: receive_msg_def Let_def split: prod.splits)
    note spec = resolve_buffered_spec [OF res]
    have "ch_lamport ch' = ch_lamport ?ch2"
      using resolve_buffered_frame(3) [OF res] by simp
    then have "ch_lamport ch' = max (ch_lamport ch) (cm_lamport_timestamp c) + 1"
      unfolding update_timestamp_def by (simp split: option.splits)
    then show ?thesis
      using spec(1,3,4) resolve_buffered_bloom [OF res] True ds by (simp add: deps_iff)
  next
    case False
    let ?ch3 = "?ch2\<lparr>ch_incoming := push_bounded INCOMING_BUFFER_MAX (Content c) (ch_incoming ?ch2)\<rparr>"
    have res: "resolve_buffered E ?ch3 = (ds, ch')"
      using assms False by (simp add: receive_msg_def Let_def)
    note spec = resolve_buffered_spec [OF res]
    have "ch_lamport ch' = ch_lamport ?ch3"
      using resolve_buffered_frame(3) [OF res] by simp
    then have "ch_lamport ch' = max (ch_lamport ch) (cm_lamport_timestamp c) + 1"
      unfolding update_timestamp_def by (simp split: option.splits)
    then show ?thesis
      using spec(1,3,4) resolve_buffered_bloom [OF res] by (simp add: push_bounded_def)
  qed
  then show "causal_chain (env_bloom E) (ch_bloom ch) ds"
    and "ch_bloom ch' = fold (bloom_set (env_bloom E)) (map cm_message_id ds) (ch_bloom ch)"
    and "length (ch_incoming ch) < INCOMING_BUFFER_MAX \<Longrightarrow>
           mset (map Content ds) + mset (ch_incoming ch') = add_mset (Content c) (mset (ch_incoming ch))"
    and "m \<in> set (ch_incoming ch') \<Longrightarrow> \<not> ready E ch' m"
    and "ch_lamport ch' = max (ch_lamport ch) (cm_lamport_timestamp c) + 1"
    by blast+
qed

lemma receive_sync_spec:
  assumes "receive_msg E (Sync s) ch = (ds, ch')"
    and "\<not> bloom_check (env_bloom E) (ch_bloom ch) (sm_message_id s)"
  shows "causal_chain (env_bloom E) (bloom_set (env_bloom E) (sm_message_id s) (ch_bloom ch)) ds"
    and "m \<in> set (ch_incoming ch') \<Longrightarrow> \<not> ready E ch' m"
    and "mset (map Content ds) + mset (ch_incoming ch') = mset (ch_incoming ch)"
    and "ch_bloom ch' = fold (bloom_set (env_bloom E)) (map cm_message_id ds)
           (bloom_set (env_bloom E) (sm_message_id s) (ch_bloom ch))"
proof -
  have res: "resolve_buffered E (update_timestamp (sm_lamport_timestamp s)
               (mark_seen E (sm_message_id s) (after_acks E (sm_bloom_filter s) ch))) = (ds, ch')"
    using assms by (simp add: receive_msg_def Let_def)
  show "causal_chain (env_bloom E) (bloom_set (env_bloom E) (sm_message_id s) (ch_bloom ch)) ds"
    and "m \<in> set (ch_incoming ch') \<Longrightarrow> \<not> ready E ch' m"
    and "mset (map Content ds) + mset (ch_incoming ch') = mset (ch_incoming ch)"
    and "ch_bloom ch' = fold (bloom_set (env_bloom E)) (map cm_message_id ds)
           (bloom_set (env_bloom E) (sm_message_id s) (ch_bloom ch))"
    using resolve_buffered_spec(1,3,4) [OF res] resolve_buffered_bloom [OF res] by simp_all
qed

section \<open>Sequences of received messages\<close>

text \<open>
  The ids in play do not collide in a filter: adding some of them, within its capacity, does
  not make another one appear.
\<close>

definition no_collisions :: "'bf bloom_crate \<Rightarrow> 'bf sds_bloom \<Rightarrow> string set \<Rightarrow> bool" where
  "no_collisions B f U \<longleftrightarrow>
     (\<forall>ms x. set ms \<subseteq> U \<longrightarrow> length ms < bloom_room f \<longrightarrow> x \<in> U - set ms \<longrightarrow>
        \<not> bloom_check B f x \<longrightarrow> \<not> bloom_check B (fold (bloom_set B) ms f) x)"

lemma delivered_subset:
  assumes "mset (map Content d) + mset r = M"
  shows "cm_message_id ` set d \<subseteq> message_id ` set_mset M" and "set r \<subseteq> set_mset M"
    and "length d + length r = size M"
proof -
  have eq: "set_mset M = Content ` set d \<union> set r"
    using assms by (metis set_map set_mset_mset set_mset_union)
  then show "cm_message_id ` set d \<subseteq> message_id ` set_mset M" and "set r \<subseteq> set_mset M"
    by force+
  show "length d + length r = size M"
    using assms by (metis length_map size_mset size_union)
qed

context sds_filter
begin

lemma no_collisions_add_all:
  assumes nc: "no_collisions B f U" and ms: "set ms \<subseteq> U" "length ms < bloom_room f"
  shows "no_collisions B (fold (bloom_set B) ms f) U"
  unfolding no_collisions_def
proof (intro allI impI)
  fix ns x
  let ?f = "fold (bloom_set B) ms f"
  assume ns: "set ns \<subseteq> U" "length ns < bloom_room ?f" and x: "x \<in> U - set ns" "\<not> bloom_check B ?f x"
  have "x \<notin> set ms" "\<not> bloom_check B f x"
    using add_all_check [OF ms(2), of x] x(2) by blast+
  moreover have "length (ms @ ns) < bloom_room f"
    using ns(2) room_add_all [OF ms(2)] ms(2) by simp
  ultimately have "\<not> bloom_check B (fold (bloom_set B) (ms @ ns) f) x"
    using nc [unfolded no_collisions_def, rule_format, of "ms @ ns" x] ms(1) ns(1) x(1) by simp
  then show "\<not> bloom_check B (fold (bloom_set B) ns ?f) x" by simp
qed

lemma receive_all_spec:
  assumes "env_bloom E = B" and "no_collisions B (ch_bloom ch) U"
    and "map (env_from_slice E) raws = map (\<lambda>c. Some (Content c)) cs"
    and "distinct (map cm_message_id cs)"
    and "cm_message_id ` set cs \<subseteq> U" and "message_id ` set (ch_incoming ch) \<subseteq> U"
    and "cm_message_id ` set cs \<inter> message_id ` set (ch_incoming ch) = {}"
    and "\<forall>c \<in> set cs. \<not> bloom_check B (ch_bloom ch) (cm_message_id c)"
    and "length (ch_incoming ch) + length cs \<le> INCOMING_BUFFER_MAX"
    and "length (ch_incoming ch) + length cs < bloom_room (ch_bloom ch)"
    and "\<forall>m \<in> set (ch_incoming ch). \<not> ready E ch m"
    and "receive_all E raws ch = (ds, ch')"
  shows "causal_chain B (ch_bloom ch) ds
    \<and> ch_bloom ch' = fold (bloom_set B) (map cm_message_id ds) (ch_bloom ch)
    \<and> mset (map Content ds) + mset (ch_incoming ch') = mset (ch_incoming ch) + mset (map Content cs)
    \<and> (\<forall>m \<in> set (ch_incoming ch'). \<not> ready E ch' m)"
  using assms(2-)
proof (induction cs arbitrary: raws ch ds)
  case Nil
  then show ?case by simp
next
  case (Cons c cs)
  obtain raw raws' where raws: "raws = raw # raws'" "env_from_slice E raw = Some (Content c)"
    "map (env_from_slice E) raws' = map (\<lambda>c. Some (Content c)) cs"
    using Cons.prems(2) by auto
  obtain d1 ch1 where r1: "receive_msg E (Content c) ch = (d1, ch1)" by fastforce
  obtain d2 where r2: "receive_all E raws' ch1 = (d2, ch')" and ds: "ds = d1 @ d2"
    using Cons.prems(11) raws r1 by (auto simp: receive_def split: prod.splits)
  have notdup: "\<not> bloom_check (env_bloom E) (ch_bloom ch) (cm_message_id c)"
    using Cons.prems(7) assms(1) by simp
  note spec = receive_content_spec [OF r1 notdup]
  have ms: "mset (map Content d1) + mset (ch_incoming ch1) = add_mset (Content c) (mset (ch_incoming ch))"
    using spec(3) Cons.prems(8) by simp
  note sub = delivered_subset [OF ms]
  define M where "M = message_id ` set_mset (add_mset (Content c) (mset (ch_incoming ch)))"
  have M: "M \<subseteq> U" "cm_message_id ` set cs \<inter> M = {}" "cm_message_id ` set d1 \<subseteq> M"
    "message_id ` set (ch_incoming ch1) \<subseteq> M"
    using Cons.prems(3-6) sub(1,2) by (auto simp: M_def)
  have csU: "cm_message_id ` set cs \<subseteq> U" using Cons.prems(4) by simp
  have d1U: "set (map cm_message_id d1) \<subseteq> U" using M by auto
  have len: "length d1 + length (ch_incoming ch1) = Suc (length (ch_incoming ch))"
    using sub(3) by simp
  have room1: "length (map cm_message_id d1) < bloom_room (ch_bloom ch)"
    using len Cons.prems(9) by simp
  have b1: "ch_bloom ch1 = fold (bloom_set B) (map cm_message_id d1) (ch_bloom ch)"
    using spec(2) assms(1) by simp
  have fresh: "\<forall>x \<in> set cs. \<not> bloom_check B (ch_bloom ch1) (cm_message_id x)"
  proof
    fix x assume x: "x \<in> set cs"
    then have "cm_message_id x \<in> U - set (map cm_message_id d1)" using M csU by auto
    moreover have "\<not> bloom_check B (ch_bloom ch) (cm_message_id x)" using x Cons.prems(7) by simp
    ultimately show "\<not> bloom_check B (ch_bloom ch1) (cm_message_id x)"
      using Cons.prems(1) d1U room1 unfolding no_collisions_def b1 by blast
  qed
  have room: "bloom_room (ch_bloom ch1) = bloom_room (ch_bloom ch) - length d1"
    using room_add_all [OF room1] by (simp add: b1)
  have IH: "causal_chain B (ch_bloom ch1) d2
    \<and> ch_bloom ch' = fold (bloom_set B) (map cm_message_id d2) (ch_bloom ch1)
    \<and> mset (map Content d2) + mset (ch_incoming ch') = mset (ch_incoming ch1) + mset (map Content cs)
    \<and> (\<forall>m \<in> set (ch_incoming ch'). \<not> ready E ch' m)"
  proof (rule Cons.IH [OF _ raws(3) _ csU _ _ fresh _ _ _ r2])
    show "no_collisions B (ch_bloom ch1) U"
      using no_collisions_add_all [OF Cons.prems(1) d1U room1] by (simp add: b1)
    show "distinct (map cm_message_id cs)" using Cons.prems(3) by simp
    show "message_id ` set (ch_incoming ch1) \<subseteq> U"
      "cm_message_id ` set cs \<inter> message_id ` set (ch_incoming ch1) = {}" using M by blast+
    show "length (ch_incoming ch1) + length cs \<le> INCOMING_BUFFER_MAX"
      using len Cons.prems(8) by simp
    show "length (ch_incoming ch1) + length cs < bloom_room (ch_bloom ch1)"
      using len room Cons.prems(9) by simp
    show "\<forall>m \<in> set (ch_incoming ch1). \<not> ready E ch1 m" using spec(4) by blast
  qed
  have "mset (map Content ds) + mset (ch_incoming ch')
      = mset (map Content d1) + (mset (map Content d2) + mset (ch_incoming ch'))"
    by (simp add: ds)
  also have "\<dots> = (mset (map Content d1) + mset (ch_incoming ch1)) + mset (map Content cs)"
    using IH by simp
  also have "\<dots> = mset (ch_incoming ch) + mset (map Content (c # cs))"
    using ms by simp
  finally have "mset (map Content ds) + mset (ch_incoming ch')
      = mset (ch_incoming ch) + mset (map Content (c # cs))" .
  moreover have "causal_chain B (ch_bloom ch) ds"
    using IH spec(1) by (simp add: ds causal_chain_append assms(1) b1)
  moreover have "ch_bloom ch' = fold (bloom_set B) (map cm_message_id ds) (ch_bloom ch)"
    using IH by (simp add: ds b1)
  ultimately show ?case using IH by blast
qed

text \<open>
  Nothing stays buffered when every dependency is known or arrives too: a message of least
  rank among the buffered ones would be ready.
\<close>

lemma nothing_left:
  assumes "env_bloom E = B"
    and "ch_bloom ch' = fold (bloom_set B) (map cm_message_id ds) (ch_bloom ch)"
    and "mset (map Content ds) + mset (ch_incoming ch') = mset (map Content cs)"
    and "length cs < bloom_room (ch_bloom ch)"
    and "\<forall>m \<in> set (ch_incoming ch'). \<not> ready E ch' m"
    and "\<forall>c \<in> set cs. \<forall>e \<in> set (cm_causal_history c). bloom_check B (ch_bloom ch) (he_message_id e) \<or>
           (\<exists>c' \<in> set cs. cm_message_id c' = he_message_id e \<and> rank c' < (rank c :: nat))"
  shows "ch_incoming ch' = []"
proof (rule ccontr)
  assume ne: "ch_incoming ch' \<noteq> []"
  have parts: "Content ` set cs = Content ` set ds \<union> set (ch_incoming ch')"
    using assms(3) by (metis set_map set_mset_mset set_mset_union)
  define R where "R = {c. Content c \<in> set (ch_incoming ch')}"
  obtain m where m: "m \<in> set (ch_incoming ch')" using ne by (cases "ch_incoming ch'") auto
  then have "m \<in> Content ` set cs" by (simp add: parts)
  then obtain c0 where "m = Content c0" by (rule imageE)
  with m have "c0 \<in> R" by (simp add: R_def)
  then obtain c where c: "c \<in> R" and least: "\<And>c'. c' \<in> R \<Longrightarrow> rank c \<le> rank c'"
    using ex_has_least_nat [of "\<lambda>c. c \<in> R" c0 rank] by blast
  have "length ds < bloom_room (ch_bloom ch)"
    using delivered_subset(3) [OF assms(3)] assms(4) by simp
  then have seen: "bloom_check B (ch_bloom ch') x"
    if "x \<in> cm_message_id ` set ds \<or> bloom_check B (ch_bloom ch) x" for x
    using add_all_check [of "map cm_message_id ds" "ch_bloom ch" x] that by (simp add: assms(2))
  have "bloom_check B (ch_bloom ch') (he_message_id e)" if e: "e \<in> set (cm_causal_history c)" for e
  proof (cases "bloom_check B (ch_bloom ch) (he_message_id e)")
    case False
    have "Content c \<in> Content ` set cs" using c by (simp add: parts R_def)
    then have "c \<in> set cs" by auto
    then obtain c' where c': "c' \<in> set cs" "cm_message_id c' = he_message_id e" "rank c' < rank c"
      using assms(6) e False by blast
    then have "c' \<notin> R" using least by force
    moreover have "Content c' \<in> Content ` set cs" using c'(1) by (rule imageI)
    ultimately have "c' \<in> set ds" by (auto simp: parts R_def)
    then have "he_message_id e \<in> cm_message_id ` set ds" using c'(2) by (metis imageI)
    then show ?thesis using seen by blast
  qed (simp add: seen)
  then have "ready E ch' (Content c)" by (simp add: deps_iff assms(1) list_all_iff)
  then show False using assms(5) c by (auto simp: R_def)
qed

lemma receive_delivered_seen:
  assumes "env_bloom E = B" and "receive_msg E msg ch = (ds, ch')" and "c \<in> set ds"
    and "length ds + 1 < bloom_room (ch_bloom ch)"
  shows "bloom_check B (ch_bloom ch') (cm_message_id c)"
proof (cases "bloom_check B (ch_bloom ch) (message_id msg)")
  case True
  then show ?thesis using assms by (simp add: receive_msg_def)
next
  case False
  obtain ms where ms: "ch_bloom ch' = fold (bloom_set B) ms (ch_bloom ch)"
    "length ms \<le> length ds + 1" "cm_message_id c \<in> set ms"
  proof (cases msg)
    case (Content m)
    then show thesis
      using that [of "map cm_message_id ds"] receive_content_spec(2) [of E m ch ds ch'] assms False
      by simp
  next
    case (Sync m)
    then show thesis
      using that [of "sm_message_id m # map cm_message_id ds"] receive_sync_spec(4) [of E m ch ds ch']
        assms False by simp
  next
    case (Ephemeral m)
    then show thesis using assms False by (auto simp: receive_msg_def Let_def)
  qed
  then have "length ms < bloom_room (ch_bloom ch)" using assms(4) by simp
  then show ?thesis using add_all_check ms by metis
qed

end

section \<open>Properties\<close>

text \<open>
  C2. Causal order. Every message \<open>receive\<close> hands to the application has all the dependencies of
  its causal history in the filter at that moment: they were in the filter before the call, or
  are the ids delivered before it in the same call (or the sync message that was received).
\<close>

theorem receive_causal_order:
  "causal_chain (env_bloom E)
     (case env_from_slice E raw of
        Some (Sync s) \<Rightarrow> bloom_set (env_bloom E) (sm_message_id s) (ch_bloom ch)
      | _ \<Rightarrow> ch_bloom ch)
     (fst (receive E raw ch))"
proof (cases "env_from_slice E raw")
  case (Some msg)
  obtain ds ch' where r: "receive_msg E msg ch = (ds, ch')" by fastforce
  show ?thesis
  proof (cases "bloom_check (env_bloom E) (ch_bloom ch) (message_id msg)")
    case True
    then show ?thesis using Some by (simp add: receive_def receive_msg_def)
  next
    case False
    then show ?thesis
      using Some r receive_content_spec(1) [of E _ ch ds ch'] receive_sync_spec(1) [of E _ ch ds ch']
      by (cases msg) (auto simp: receive_def receive_msg_def)
  qed
qed (simp add: receive_def)

text \<open>
  C1. Eventual delivery. Whatever the order in which a dependency-closed set of new content
  messages arrives, once all have arrived each has been delivered exactly once, in causal order,
  and nothing is left in the incoming buffer. The hypotheses: the ids are distinct, not yet seen
  and do not collide in the filter, the messages fit the incoming buffer and the filter's
  capacity, and every dependency is already known or is a message of lower rank (such as Lamport
  timestamp) of the set.
\<close>

theorem receive_all_eventual_delivery:
  assumes crate: "bloom_crate_ok (env_bloom E)"
    and collisions: "no_collisions (env_bloom E) (ch_bloom ch) (cm_message_id ` set cs)"
    and decode: "map (env_from_slice E) raws = map (\<lambda>c. Some (Content c)) cs"
    and ids: "distinct (map cm_message_id cs)"
    and fresh: "\<forall>c \<in> set cs. \<not> is_duplicate E ch (cm_message_id c)"
    and empty: "ch_incoming ch = []"
    and buffer: "length cs \<le> INCOMING_BUFFER_MAX"
    and room: "length cs < bloom_room (ch_bloom ch)"
    and closed: "\<forall>c \<in> set cs. \<forall>e \<in> set (cm_causal_history c). is_duplicate E ch (he_message_id e) \<or>
           (\<exists>c' \<in> set cs. cm_message_id c' = he_message_id e \<and> rank c' < (rank c :: nat))"
  shows "mset (fst (receive_all E raws ch)) = mset cs
    \<and> causal_chain (env_bloom E) (ch_bloom ch) (fst (receive_all E raws ch))
    \<and> ch_incoming (snd (receive_all E raws ch)) = []"
proof -
  have flt: "sds_filter (env_bloom E)" using crate by (rule sds_filter.intro)
  obtain ds ch' where r: "receive_all E raws ch = (ds, ch')" by fastforce
  note spec = sds_filter.receive_all_spec [OF flt refl collisions decode ids subset_refl, of ds ch']
  have s: "causal_chain (env_bloom E) (ch_bloom ch) ds"
    "ch_bloom ch' = fold (bloom_set (env_bloom E)) (map cm_message_id ds) (ch_bloom ch)"
    "mset (map Content ds) + mset (ch_incoming ch') = mset (map Content cs)"
    "\<forall>m \<in> set (ch_incoming ch'). \<not> ready E ch' m"
    using spec fresh empty buffer room r by (simp_all add: is_duplicate_def)
  have left: "ch_incoming ch' = []"
    using sds_filter.nothing_left [OF flt refl s(2,3) room s(4), of rank] closed
    by (simp add: is_duplicate_def)
  have "image_mset Content (mset ds) = image_mset Content (mset cs)"
    using s(3) left by simp
  moreover have "inj (image_mset Content)" by (rule multiset.inj_map) (simp add: inj_def)
  ultimately have "mset ds = mset cs" by (simp add: inj_eq)
  then show ?thesis using r s(1) left by simp
qed

text \<open>
  A closed environment for examples: the exact filter, a table of encoded messages and a
  transport that accepts everything and delivers nothing.
\<close>

definition quiet_transport :: "(unit, unit) transport" where
  "quiet_transport = \<lparr>tp_publish = (\<lambda>s _ _. (Inr (), s)), tp_subscribe = (\<lambda>s _. (Inr (), s)),
     tp_unsubscribe = (\<lambda>s _. (Inr (), s)), tp_recv = (\<lambda>s _ _. (RecvTimeout, s)),
     tp_drain = (\<lambda>s _. ([], s))\<rparr>"

definition example_env :: "(bytes \<times> sds_message) list \<Rightarrow> (string list, unit, unit) sds_env" where
  "example_env table = \<lparr>env_bloom = exact_crate, env_sha = map (\<lambda>b. char_of (unat b)),
     env_to_vec = (\<lambda>m. case find (\<lambda>(b, m'). m' = m) table of
                         None \<Rightarrow> Inl ''unknown'' | Some (b, _) \<Rightarrow> Inr b),
     env_from_slice = map_of table, env_ack_to_vec = (\<lambda>_. Inr []),
     env_ack_message_id = (\<lambda>_. None), env_transport = quiet_transport\<rparr>"

definition example_channel :: "(string list, unit) channel" where
  "example_channel = channel_new (example_env []) 7 ''c'' ''me'' ()"

definition example_msg :: "string \<Rightarrow> u64 \<Rightarrow> string list \<Rightarrow> content_message" where
  "example_msg mid ts deps = (content_message_new (\<lambda>_. mid) ''c'' ''you'' ts [])
     \<lparr>cm_causal_history := map (\<lambda>d. \<lparr>he_message_id = d, he_lamport_timestamp = 0, he_retrieval_hint = None\<rparr>) deps\<rparr>"

lemma example_msg_simps [simp]:
  "cm_message_id (example_msg mid ts deps) = mid"
  "cm_lamport_timestamp (example_msg mid ts deps) = ts"
  "cm_bloom_filter (example_msg mid ts deps) = None"
  "map he_message_id (cm_causal_history (example_msg mid ts deps)) = deps"
  by (simp_all add: example_msg_def content_message_new_def compute_message_id_def comp_def)

text \<open>What evaluates the receiving side on the closed example.\<close>

lemmas example_defs =
  example_env_def example_channel_def channel_new_def Let_def example_msg_def
  content_message_new_def compute_message_id_def receive_def receive_msg_def
  channel_with_config_def bloom_new_def with_params_def bloom_check_def exact_crate_def
  INCOMING_BUFFER_MAX_def push_bounded_def update_timestamp_def resolve_buffered_def
  resolve_loop.simps dependencies_satisfied_def deliver_def mark_seen_def record_in_history_def
  bloom_set_def DEFAULT_CAPACITY_def keep_last_def config_default_def
  DEFAULT_CAUSAL_HISTORY_SIZE_def
  is_duplicate_def bloom_room_def

lemma exact_no_collisions: "no_collisions exact_crate f U"
proof -
  have "\<not> bloom_check exact_crate (fold (bloom_set exact_crate) ms f) x"
    if "x \<notin> set ms" "length ms < bloom_room f" "\<not> bloom_check exact_crate f x" for ms x
    using that
  proof (induction ms arbitrary: f)
    case (Cons m ms)
    then show ?case
      by (auto simp: bloom_set_below bloom_check_def bloom_room_def exact_crate_def)
  qed simp
  then show ?thesis by (auto simp: no_collisions_def)
qed

theorem receive_all_eventual_delivery_witness:
  "let a = example_msg ''a'' 1 []; b = example_msg ''b'' 2 [''a''];
       E = example_env [([1], Content a), ([2], Content b)]
   in mset (fst (receive_all E [[2], [1]] example_channel)) = mset [b, a]
      \<and> ch_incoming (snd (receive_all E [[2], [1]] example_channel)) = []"
proof -
  define a b where "a = example_msg ''a'' 1 []" and "b = example_msg ''b'' 2 [''a'']"
  define E where "E = example_env [([1], Content a), ([2], Content b)]"
  have [simp]: "env_bloom E = exact_crate" "env_from_slice E [1] = Some (Content a)"
    "env_from_slice E [2] = Some (Content b)" by (simp_all add: E_def example_env_def)
  have [simp]: "bloom_room (ch_bloom example_channel) = 10000" "ch_incoming example_channel = []"
    "is_duplicate E example_channel x = False" for x
    by (simp_all add: example_channel_def channel_new_def channel_with_config_def bloom_new_def
        with_params_def bloom_room_def example_env_def DEFAULT_CAPACITY_def is_duplicate_def
        bloom_check_def exact_crate_def)
  have "mset (fst (receive_all E [[2], [1]] example_channel)) = mset [b, a]
    \<and> causal_chain (env_bloom E) (ch_bloom example_channel) (fst (receive_all E [[2], [1]] example_channel))
    \<and> ch_incoming (snd (receive_all E [[2], [1]] example_channel)) = []"
  proof (rule receive_all_eventual_delivery [where rank = "\<lambda>c. unat (cm_lamport_timestamp c)"])
    show "\<forall>c \<in> set [b, a]. \<forall>e \<in> set (cm_causal_history c). is_duplicate E example_channel (he_message_id e) \<or>
        (\<exists>c' \<in> set [b, a]. cm_message_id c' = he_message_id e
            \<and> unat (cm_lamport_timestamp c') < unat (cm_lamport_timestamp c))"
      by (auto simp: a_def b_def example_msg_def content_message_new_def compute_message_id_def)
  qed (simp_all add: exact_crate_ok exact_no_collisions INCOMING_BUFFER_MAX_def a_def b_def)
  then show ?thesis by (simp only: Let_def a_def b_def E_def)
qed



text \<open>
  At most once after delivery. A message that arrives again after its id was delivered is
  ignored and leaves the channel as it is, as long as the filter has not been reset.
\<close>

lemma receive_after_delivery_ignored:
  assumes crate: "bloom_crate_ok (env_bloom E)" and first: "receive E raw ch = (ds, ch')"
    and c: "c \<in> set ds" and room: "length ds + 1 < bloom_room (ch_bloom ch)"
    and again: "env_from_slice E raw' = Some msg'" "message_id msg' = cm_message_id c"
  shows "receive E raw' ch' = ([], ch')"
proof -
  obtain msg where "receive_msg E msg ch = (ds, ch')"
    using first c by (auto simp: receive_def split: option.splits)
  then have "bloom_check (env_bloom E) (ch_bloom ch') (cm_message_id c)"
    using sds_filter.receive_delivered_seen [OF sds_filter.intro [OF crate] refl _ c room] by blast
  then show ?thesis using again by (simp add: receive_def receive_msg_def)
qed

lemma receive_after_delivery_ignored_witness:
  "let E = example_env [([1], Content (example_msg ''a'' 1 []))]
   in receive E [1] (snd (receive E [1] example_channel)) = ([], snd (receive E [1] example_channel))"
proof -
  define E where "E = example_env [([1], Content (example_msg ''a'' 1 []))]"
  have "fst (receive E [1] example_channel) = [example_msg ''a'' 1 []]"
    "bloom_room (ch_bloom example_channel) = 10000" "env_bloom E = exact_crate"
    "env_from_slice E [1] = Some (Content (example_msg ''a'' 1 []))"
    by (simp_all add: E_def example_defs)
  then have "receive E [1] (snd (receive E [1] example_channel)) = ([], snd (receive E [1] example_channel))"
    using receive_after_delivery_ignored
      [of E "[1]" example_channel "[example_msg ''a'' 1 []]" "snd (receive E [1] example_channel)"]
      exact_crate_ok by (simp add: prod_eq_iff)
  then show ?thesis by (simp add: E_def)
qed

text \<open>
  Before delivery there is no such protection: a message that arrives twice while its
  dependency is missing is buffered twice, and handed to the application twice when the
  dependency arrives.
\<close>

lemma buffered_twice_delivered_twice:
  "let a = example_msg ''a'' 1 []; b = example_msg ''b'' 2 [''a''];
       E = example_env [([1], Content a), ([2], Content b)]
   in fst (receive_all E [[2], [2], [1]] example_channel) = [a, b, b]"
  by (simp add: example_defs)

text \<open>
  Lamport order. A content message sent after another one was received (as new) carries a
  larger timestamp, as long as the clock does not reach the end of its 64 bits.
\<close>

lemma lamport_send_after_receive:
  assumes "receive E raw ch = (ds, ch')" and "env_from_slice E raw = Some (Content c)"
    and "\<not> is_duplicate E ch (cm_message_id c)"
    and "unat (cm_lamport_timestamp c) + 2 < 2 ^ 64" and "unat (ch_lamport ch) + 2 < 2 ^ 64"
    and "send E topic payload ch' = (Inr m, ch'')"
  shows "cm_lamport_timestamp c < cm_lamport_timestamp m \<and> ch_lamport ch < cm_lamport_timestamp m"
proof -
  let ?M = "max (ch_lamport ch) (cm_lamport_timestamp c)"
  have "ch_lamport ch' = ?M + 1"
    using assms(1-3) receive_content_spec(5) by (simp add: receive_def is_duplicate_def)
  moreover have "cm_lamport_timestamp m = ch_lamport ch' + 1"
    using assms(6) by (auto simp: send_def Let_def next_timestamp_def make_content_def
        split: sum.splits prod.splits)
  ultimately have "cm_lamport_timestamp m = ?M + 2" by simp
  moreover have "unat ?M + 2 < 2 ^ 64" using assms(4,5) by (simp add: max_def)
  ultimately have "unat (cm_lamport_timestamp m) = unat ?M + 2"
    by (simp add: unat_word_ariths)
  then show ?thesis by (simp add: word_less_nat_alt max_def word_le_nat_alt split: if_splits)
qed

lemma lamport_send_after_receive_witness:
  "let c = example_msg ''a'' 41 [];
       E = (example_env [([1], Content c)])\<lparr>env_to_vec := \<lambda>_. Inr [9]\<rparr>;
       r = fst (send E ''t'' [65] (snd (receive E [1] example_channel)))
   in \<exists>m. r = Inr m \<and> (41 :: u64) < cm_lamport_timestamp m"
proof -
  define E where "E = (example_env [([1], Content (example_msg ''a'' 41 []))])\<lparr>env_to_vec := \<lambda>_. Inr [9]\<rparr>"
  have e: "env_from_slice E [1] = Some (Content (example_msg ''a'' 41 []))"
    "\<not> is_duplicate E example_channel ''a''" "ch_lamport example_channel = 7"
    by (simp_all add: E_def example_defs)
  obtain m ch'' where m: "send E ''t'' [65] (snd (receive E [1] example_channel)) = (Inr m, ch'')"
    by (simp add: E_def example_defs send_def next_timestamp_def ch_publish_def quiet_transport_def)
  have "(41 :: u64) < cm_lamport_timestamp m"
    using lamport_send_after_receive [OF prod.collapse [symmetric] e(1) _ _ _ m] e by simp
  then show ?thesis using m by (simp add: E_def)
qed

text \<open>
  At the end of the 64 bits the clock starts again from zero: one received message that
  claims the largest timestamp resets the receiver's clock below everything sent before.
\<close>

lemma lamport_wraps_at_max:
  assumes "env_from_slice E raw = Some (Content c)" and "\<not> is_duplicate E ch (cm_message_id c)"
    and "cm_lamport_timestamp c = 2 ^ 64 - 1"
  shows "ch_lamport (snd (receive E raw ch)) = 0"
proof -
  have "cm_lamport_timestamp c = - 1" using assms(3) by simp
  then have "max (ch_lamport ch) (cm_lamport_timestamp c) + 1 = 0" by (simp add: max_def)
  then show ?thesis
    using assms(1,2) receive_content_spec(5) [of E c ch "fst (receive_msg E (Content c) ch)"]
    by (simp add: receive_def is_duplicate_def)
qed

lemma lamport_wraps_at_max_witness:
  "let E = example_env [([1], Content (example_msg ''a'' (2 ^ 64 - 1) []))]
   in ch_lamport example_channel = 7 \<and> ch_lamport (snd (receive E [1] example_channel)) = 0"
  using lamport_wraps_at_max
    [of "example_env [([1], Content (example_msg ''a'' (2 ^ 64 - 1) []))]" "[1]"
        "example_msg ''a'' (2 ^ 64 - 1) []" example_channel]
  by (simp add: example_defs)

end
