(* ===== verification/Sds_Invariant.thy ===== *)
theory Sds_Invariant
  imports Sds_Delivery
begin

text \<open>
  The channel as a transition system: every public operation is a step, and the capacity bounds
  of its buffers, the well-formedness of its filter and counters, and the ownership of what it
  can retransmit hold in every state reached from a new channel.
\<close>

section \<open>Steps\<close>

inductive channel_step :: "('bf, 'tr, 'rx) sds_env \<Rightarrow> ('bf, 'tr) channel \<Rightarrow> ('bf, 'tr) channel \<Rightarrow> bool"
  for E where
  step_send: "channel_step E ch (snd (send E topic payload ch))"
| step_send_reliable: "channel_step E ch (snd (send_reliable E topic payload ch))"
| step_send_ack: "channel_step E ch (snd (send_ack E mid ch))"
| step_send_sync: "channel_step E ch (snd (send_sync E topic ch))"
| step_send_batch_ack: "channel_step E ch (snd (send_batch_ack E topic ch))"
| step_send_repair_request: "channel_step E ch (snd (send_repair_request E topic missing ch))"
| step_send_ephemeral: "channel_step E ch (snd (send_ephemeral E topic payload ch))"
| step_receive: "channel_step E ch (snd (receive E raw ch))"
| step_handle_repair: "channel_step E ch (snd (handle_repair_requests E topic requests ch))"
| step_receive_and_repair: "channel_step E ch (snd (receive_and_repair E topic raw ch))"

inductive_simps channel_step_iff: "channel_step E ch ch'"

definition channel_inv :: "('bf, 'tr) channel \<Rightarrow> bool" where
  "channel_inv ch \<longleftrightarrow>
     bloom_wf (ch_bloom ch)
     \<and> length (ch_outgoing ch) \<le> OUTGOING_BUFFER_MAX
     \<and> length (ch_incoming ch) \<le> INCOMING_BUFFER_MAX
     \<and> length (ch_local_history ch) \<le> 2 * causal_history_size (ch_config ch)
     \<and> length (ch_possible_acks ch) \<le> POSSIBLE_ACKS_MAX \<and> hm_wf (ch_possible_acks ch)
     \<and> list_all is_content (ch_incoming ch)
     \<and> list_all (\<lambda>m. cm_sender_id m = ch_sender_id ch \<and> cm_channel_id m = ch_channel_id ch
                     \<and> length (cm_causal_history m) \<le> causal_history_size (ch_config ch)) (ch_outgoing ch)"

section \<open>What the building blocks keep\<close>

lemma inv_frame [simp]:
  "channel_inv (ch\<lparr>ch_transport := tr\<rparr>) = channel_inv ch"
  "channel_inv (ch\<lparr>ch_lamport := ts\<rparr>) = channel_inv ch"
  by (simp_all add: channel_inv_def)

lemma inv_mark_seen [bound_intros]: "channel_inv ch \<Longrightarrow> channel_inv (mark_seen E mid ch)"
  by (simp add: channel_inv_def mark_seen_def bloom_wf_set)

lemma inv_record_in_history [bound_intros]:
  "channel_inv ch \<Longrightarrow> channel_inv (record_in_history mid ts ch)"
proof -
  have "length (keep_last (causal_history_size (ch_config ch) * 2) xs) \<le> 2 * causal_history_size (ch_config ch)"
    for xs :: "history_entry list" using keep_last_le by (metis mult.commute)
  then show "channel_inv ch \<Longrightarrow> channel_inv (record_in_history mid ts ch)"
    by (simp add: channel_inv_def record_in_history_def)
qed

lemma inv_update_timestamp [bound_intros]: "channel_inv ch \<Longrightarrow> channel_inv (update_timestamp ts ch)"
  by (simp add: update_timestamp_def)

lemma inv_deliver [bound_intros]: "channel_inv ch \<Longrightarrow> channel_inv (deliver E c ch)"
  by (simp add: deliver_def inv_mark_seen inv_record_in_history)

lemma inv_publish [bound_intros]: "channel_inv ch \<Longrightarrow> channel_inv (snd (ch_publish E topic payload ch))"
  by (simp add: ch_publish_def split: prod.split)

lemma inv_next_timestamp [bound_intros]: "channel_inv ch \<Longrightarrow> channel_inv (snd (next_timestamp ch))"
  by (simp add: next_timestamp_def)

lemma list_all_push_bounded: "list_all P xs \<Longrightarrow> P x \<Longrightarrow> list_all P (push_bounded cap x xs)"
  using set_push_bounded [of cap x xs] by (auto simp: list_all_iff)

lemma ack_retain_spec:
  "ack_retain seen th out acks = (kept, acks') \<Longrightarrow>
     set kept \<subseteq> set out \<and> length kept \<le> length out \<and> (hm_wf acks \<longrightarrow> hm_wf acks')"
  by (induction seen th out acks arbitrary: kept acks' rule: ack_retain.induct)
     (force simp: Let_def hm.invar_ins hm.invar_rem split: if_splits prod.splits)+

lemma inv_check_outgoing_acks [bound_intros]:
  "channel_inv ch \<Longrightarrow> channel_inv (check_outgoing_acks E b ch)"
  by (fastforce simp: check_outgoing_acks_def channel_inv_def Let_def list_all_iff hm_wf_def
      dest: ack_retain_spec split: option.split prod.split)

lemma inv_deliver_all: "channel_inv ch \<Longrightarrow> channel_inv (fold (deliver E) cs ch)"
  by (induction cs arbitrary: ch) (simp_all add: inv_deliver)

lemma inv_set_incoming:
  "channel_inv ch \<Longrightarrow> length t \<le> INCOMING_BUFFER_MAX \<Longrightarrow> list_all is_content t
     \<Longrightarrow> channel_inv (ch\<lparr>ch_incoming := t\<rparr>)"
  by (simp add: channel_inv_def)

lemma inv_resolve_buffered [bound_intros]:
  assumes "channel_inv ch"
  shows "channel_inv (snd (resolve_buffered E ch))"
proof -
  obtain d ch' where r: "resolve_buffered E ch = (d, ch')" by fastforce
  define t where "t = ch_incoming ch'"
  have ms: "mset (map Content d) + mset t = mset (ch_incoming ch)"
    using resolve_buffered_spec(3) [OF r] by (simp add: t_def)
  have "length t \<le> INCOMING_BUFFER_MAX" "list_all is_content t"
    using delivered_subset(2,3) [OF ms] assms by (auto simp: channel_inv_def list_all_iff)
  then have "channel_inv ((fold (deliver E) d ch)\<lparr>ch_incoming := t\<rparr>)"
    using assms by (intro inv_set_incoming inv_deliver_all)
  then show ?thesis using resolve_buffered_spec(2) [OF r] r by (simp add: t_def)
qed

lemma inv_after_acks: "channel_inv ch \<Longrightarrow> channel_inv (after_acks E remote ch)"
  by (simp add: inv_check_outgoing_acks split: option.split)

lemma inv_buffer: "channel_inv ch \<Longrightarrow>
    channel_inv (ch\<lparr>ch_incoming := push_bounded INCOMING_BUFFER_MAX (Content c) (ch_incoming ch)\<rparr>)"
  by (intro inv_set_incoming push_bounded_le list_all_push_bounded)
     (simp_all add: channel_inv_def INCOMING_BUFFER_MAX_def)

lemma inv_receive_msg:
  assumes "channel_inv ch"
  shows "channel_inv (snd (receive_msg E msg ch))"
proof (cases msg)
  case (Content c)
  let ?ch2 = "update_timestamp (cm_lamport_timestamp c) (after_acks E (cm_bloom_filter c) ch)"
  have "channel_inv ?ch2" using assms by (intro inv_update_timestamp inv_after_acks)
  then have "channel_inv (snd (resolve_buffered E (deliver E c ?ch2)))"
    "channel_inv (snd (resolve_buffered E
       (?ch2\<lparr>ch_incoming := push_bounded INCOMING_BUFFER_MAX (Content c) (ch_incoming ?ch2)\<rparr>)))"
    by (intro inv_resolve_buffered inv_deliver inv_buffer; assumption)+
  then show ?thesis using Content assms by (simp add: receive_msg_def Let_def case_prod_beta)
next
  case (Sync m)
  have "channel_inv (snd (resolve_buffered E (update_timestamp (sm_lamport_timestamp m)
          (mark_seen E (sm_message_id m) (after_acks E (sm_bloom_filter m) ch)))))"
    using assms by (intro inv_resolve_buffered inv_update_timestamp inv_mark_seen inv_after_acks)
  then show ?thesis using Sync assms by (simp add: receive_msg_def Let_def)
next
  case (Ephemeral m)
  have "channel_inv (mark_seen E (em_message_id m) (after_acks E (em_bloom_filter m) ch))"
    using assms by (intro inv_mark_seen inv_after_acks)
  then show ?thesis using Ephemeral assms by (simp add: receive_msg_def Let_def)
qed

lemma inv_receive [bound_intros]: "channel_inv ch \<Longrightarrow> channel_inv (snd (receive E raw ch))"
  by (simp add: receive_def inv_receive_msg split: option.split)

lemma inv_publish_case:
  "channel_inv ch \<Longrightarrow> ch_publish E topic p ch = (r, ch') \<Longrightarrow> channel_inv ch'"
  using inv_publish [of ch E topic p] by simp

lemma publish_frame:
  "ch_publish E topic p ch = (r, ch') \<Longrightarrow> ch' = ch\<lparr>ch_transport := ch_transport ch'\<rparr>"
  by (auto simp: ch_publish_def split: prod.splits)

lemma inv_send [bound_intros]:
  assumes "channel_inv ch"
  shows "channel_inv (snd (send E topic payload ch))"
proof (cases "env_to_vec E (Content (make_content E (snd (next_timestamp ch)) (ch_lamport ch + 1) payload))")
  case (Inl e)
  then show ?thesis using assms by (simp add: send_def Let_def next_timestamp_def)
next
  case (Inr enc)
  let ?m = "make_content E (snd (next_timestamp ch)) (ch_lamport ch + 1) payload"
  obtain r ch2 where pub: "ch_publish E topic enc (snd (next_timestamp ch)) = (r, ch2)" by fastforce
  have ch2: "channel_inv ch2" using assms pub by (blast intro: inv_publish_case inv_next_timestamp)
  obtain tr where "ch2 = (snd (next_timestamp ch))\<lparr>ch_transport := tr\<rparr>"
    using publish_frame [OF pub] by blast
  then have own: "cm_sender_id ?m = ch_sender_id ch2" "cm_channel_id ?m = ch_channel_id ch2"
    "length (cm_causal_history ?m) \<le> causal_history_size (ch_config ch2)"
    by (simp_all add: make_content_def next_timestamp_def build_causal_history_def)
  define ch3 where "ch3 = record_in_history (cm_message_id ?m) (ch_lamport ch + 1) (mark_seen E (cm_message_id ?m) ch2)"
  have "channel_inv ch3" unfolding ch3_def using ch2 by (intro inv_record_in_history inv_mark_seen)
  moreover have "ch_outgoing ch3 = ch_outgoing ch2" "ch_sender_id ch3 = ch_sender_id ch2"
    "ch_channel_id ch3 = ch_channel_id ch2" "ch_config ch3 = ch_config ch2"
    by (simp_all add: ch3_def record_in_history_def mark_seen_def)
  moreover have "length (push_bounded OUTGOING_BUFFER_MAX ?m (ch_outgoing ch3)) \<le> OUTGOING_BUFFER_MAX"
    using \<open>channel_inv ch3\<close> by (intro push_bounded_le) (simp_all add: channel_inv_def OUTGOING_BUFFER_MAX_def)
  ultimately have "channel_inv (ch3\<lparr>ch_outgoing := push_bounded OUTGOING_BUFFER_MAX ?m (ch_outgoing ch3)\<rparr>)"
    using own by (auto simp: channel_inv_def intro!: list_all_push_bounded)
  then show ?thesis
    using Inr pub ch2 by (cases r) (auto simp: send_def Let_def next_timestamp_def ch3_def make_content_def)
qed

lemma inv_send_reliable [bound_intros]:
  "channel_inv ch \<Longrightarrow> channel_inv (snd (send_reliable E topic payload ch))"
  by (auto simp: send_reliable_def Let_def next_timestamp_def case_prod_beta
      intro!: inv_record_in_history inv_mark_seen split: sum.split)

lemma inv_publish_sync [bound_intros]:
  "channel_inv ch \<Longrightarrow> channel_inv (snd (publish_sync E topic missing ch))"
  by (auto simp: publish_sync_def Let_def next_timestamp_def split: sum.split prod.split
      dest!: inv_publish_case [rotated])

lemma inv_send_ephemeral [bound_intros]:
  "channel_inv ch \<Longrightarrow> channel_inv (snd (send_ephemeral E topic payload ch))"
  by (auto simp: send_ephemeral_def Let_def split: sum.split prod.split intro: inv_publish_case)

lemma inv_send_ack [bound_intros]: "channel_inv ch \<Longrightarrow> channel_inv (snd (send_ack E mid ch))"
  by (auto simp: send_ack_def split: sum.split intro: inv_publish)

lemma inv_resend_all: "channel_inv ch \<Longrightarrow> channel_inv (snd (resend_all E topic ms n ch))"
  by (induction ms arbitrary: n ch)
     (auto split: sum.split prod.split intro: inv_publish_case)

lemma inv_handle_repair_requests [bound_intros]:
  "channel_inv ch \<Longrightarrow> channel_inv (snd (handle_repair_requests E topic requests ch))"
  by (simp add: handle_repair_requests_def inv_resend_all)

lemma inv_receive_and_repair [bound_intros]:
  assumes "channel_inv ch"
  shows "channel_inv (snd (receive_and_repair E topic raw ch))"
proof (cases "env_from_slice E raw")
  case (Some msg)
  let ?h = "if repair_requests msg \<noteq> [] then handle_repair_requests E topic (repair_requests msg) ch else (Inr 0, ch)"
  obtain r ch1 where h: "?h = (r, ch1)" by fastforce
  then have "channel_inv ch1"
    using assms inv_handle_repair_requests [OF assms, of E topic "repair_requests msg"]
    by (auto split: if_splits)
  then show ?thesis
    using Some h inv_receive [of ch1 E raw]
    by (cases r) (simp_all add: receive_and_repair_def case_prod_beta)
qed (simp add: receive_and_repair_def assms)

lemma inv_step: "channel_step E ch ch' \<Longrightarrow> channel_inv ch \<Longrightarrow> channel_inv ch'"
  by (induction rule: channel_step.induct)
     (simp_all add: bound_intros send_sync_def send_batch_ack_def send_repair_request_def)

lemma inv_new: "channel_inv (channel_with_config E now_ms cid sid tr config)"
  by (simp add: channel_inv_def channel_with_config_def)

interpretation chan: step_system
  "\<lambda>ch. \<exists>now_ms cid sid tr config. ch = channel_with_config E now_ms cid sid tr config"
  "channel_step E" channel_inv for E
  by unfold_locales (auto simp: inv_new intro: inv_step)

section \<open>Properties\<close>

text \<open>
  C8. Bounds of the channel. In every state any sequence of operations reaches from a new
  channel, whatever the peers send and the backend answers: the retransmission buffer, the
  causal buffer, the local history and the acknowledgement counters respect their maxima, the
  filter's counter is below its capacity, only content messages wait for dependencies, and what
  could be retransmitted on request are this node's own messages with a bounded history.
\<close>

theorem channel_bounds_reachable:
  assumes "rtranclp (channel_step E) (channel_with_config E now_ms cid sid tr config) ch"
  shows "channel_inv ch"
  using assms chan.reachable_inv [of "channel_with_config E now_ms cid sid tr config" E ch] by blast

theorem channel_bounds_reachable_witness:
  "let E = example_env [([1], Content (example_msg ''a'' 1 [''z'']))];
       ch0 = channel_with_config E 7 ''c'' ''me'' () config_default
   in channel_inv (snd (send_ephemeral E ''t'' [] (snd (receive E [1] ch0))))"
  unfolding Let_def
  by (rule channel_bounds_reachable, rule rtranclp.rtrancl_into_rtrancl,
      rule r_into_rtranclp, rule step_receive, rule step_send_ephemeral)

end
