(* ===== verification/Sds_Reliability.thy ===== *)
theory Sds_Reliability
  imports Sds_Invariant
begin

text \<open>
  The sending side of the channel: what a publication attempt leaves behind, how often a reliable
  send publishes and when it reports an acknowledgement, when the filters of the peers clear a
  message from the retransmission buffer, and what a repair request brings back.
\<close>

section \<open>Retransmission\<close>

lemma retransmit_spec:
  assumes "env_transport E = logged T"
    and "retransmit k E topic enc mid timeout rx (tr, l) = (r, (tr', l'))"
  shows "\<exists>n recv. n \<le> k \<and> log_published l' = log_published l @ replicate n (topic, enc)
    \<and> log_received l' = log_received l @ recv \<and> length recv \<le> n
    \<and> (r = Inr True \<longrightarrow> recv \<noteq> [] \<and> env_ack_message_id E (last recv) = Some mid)
    \<and> (r = Inr False \<longrightarrow> n = k \<and> (\<forall>d \<in> set recv. env_ack_message_id E d \<noteq> Some mid))"
  using assms(2)
proof (induction k arbitrary: tr l)
  case 0
  then show ?case by auto
next
  case (Suc k)
  let ?l1 = "l\<lparr>log_published := log_published l @ [(topic, enc)]\<rparr>"
  obtain p tr1 where p: "tp_publish T tr topic enc = (p, tr1)" by fastforce
  obtain o1 tr2 where o1: "tp_recv T tr1 rx timeout = (o1, tr2)" by fastforce
  show ?case
  proof (cases p)
    case (Inl e)
    then have "r = Inl (TErr_Transport (''SDS: publish failed: '' @ show_transport_error e))" "l' = ?l1"
      using Suc.prems p assms(1) by auto
    then show ?thesis by (intro exI [of _ 1] exI [of _ "[]"]) simp
  next
    case (Inr u)
    show ?thesis
    proof (cases "\<exists>d. o1 = RecvData d \<and> env_ack_message_id E d = Some mid")
      case True
      then obtain d where "o1 = RecvData d" "env_ack_message_id E d = Some mid" by blast
      then have "r = Inr True" "l' = ?l1\<lparr>log_received := log_received l @ [d]\<rparr>"
        using Suc.prems p Inr o1 assms(1) by auto
      then show ?thesis
        using \<open>env_ack_message_id E d = Some mid\<close>
        by (intro exI [of _ 1] exI [of _ "[d]"]) simp
    next
      case False
      define ds where "ds = (case o1 of RecvData d \<Rightarrow> [d] | _ \<Rightarrow> [])"
      have ds: "length ds \<le> 1" "\<forall>d \<in> set ds. env_ack_message_id E d \<noteq> Some mid"
        using False by (auto simp: ds_def split: recv_outcome.split)
      have "retransmit k E topic enc mid timeout rx (tr2, ?l1\<lparr>log_received := log_received l @ ds\<rparr>) = (r, (tr', l'))"
        using Suc.prems p Inr o1 assms(1) False by (cases o1) (simp_all add: ds_def)
      from Suc.IH [OF this] obtain n recv where IH: "n \<le> k"
        "log_published l' = log_published l @ (topic, enc) # replicate n (topic, enc)"
        "log_received l' = log_received l @ ds @ recv" "length recv \<le> n"
        "r = Inr True \<longrightarrow> recv \<noteq> [] \<and> env_ack_message_id E (last recv) = Some mid"
        "r = Inr False \<longrightarrow> n = k \<and> (\<forall>d \<in> set recv. env_ack_message_id E d \<noteq> Some mid)"
        by auto
      then show ?thesis
        using ds by (intro exI [of _ "Suc n"] exI [of _ "ds @ recv"]) auto
    qed
  qed
qed

text \<open>The publications and receptions of a channel whose backend is logged.\<close>

abbreviation ch_log :: "('bf, 'tr \<times> tp_log) channel \<Rightarrow> tp_log" where
  "ch_log ch \<equiv> snd (ch_transport ch)"

text \<open>
  C31. Reliable send. It publishes one and the same encoding at most \<open>max_retries + 1\<close> times;
  it reports an acknowledgement only when the last data received names the message, and it gives
  up only after exactly \<open>max_retries + 1\<close> publications none of whose answers named the message.
\<close>

theorem send_reliable_bounded_and_acked:
  assumes "env_transport E = logged T" and "send_reliable E topic payload ch = (r, ch')"
  shows "\<exists>n recv enc. n \<le> unat (max_retries (ch_config ch)) + 1
    \<and> log_published (ch_log ch') = log_published (ch_log ch) @ replicate n (topic, enc)
    \<and> log_received (ch_log ch') = log_received (ch_log ch) @ recv
    \<and> (case r of
         Inr (msg, True) \<Rightarrow> recv \<noteq> [] \<and> env_ack_message_id E (last recv) = Some (cm_message_id msg)
       | Inr (msg, False) \<Rightarrow> n = unat (max_retries (ch_config ch)) + 1
           \<and> (\<forall>d \<in> set recv. env_ack_message_id E d \<noteq> Some (cm_message_id msg))
       | Inl e \<Rightarrow> ch_bloom ch' = ch_bloom ch \<and> ch_local_history ch' = ch_local_history ch)"
proof -
  obtain tr l where tl: "ch_transport ch = (tr, l)" by fastforce
  let ?ch1 = "ch\<lparr>ch_lamport := ch_lamport ch + 1\<rparr>"
  let ?m = "make_content E ?ch1 (ch_lamport ch + 1) payload"
  let ?mid = "compute_message_id (env_sha E) payload"
  let ?k = "unat (max_retries (ch_config ch)) + 1"
  have mid: "cm_message_id ?m = ?mid" by (simp add: make_content_def)
  note run = assms(2) [unfolded send_reliable_def next_timestamp_def Let_def]
  show ?thesis
  proof (cases "env_to_vec E (Content ?m)")
    case (Inl e)
    then show ?thesis using run by (intro exI [of _ 0]) auto
  next
    case (Inr enc)
    obtain s tr1 where sub: "tp_subscribe T tr (ack_topic_of ?mid) = (s, tr1)" by fastforce
    show ?thesis
    proof (cases s)
      case s: (Inl e)
      then show ?thesis using run Inr sub tl assms(1) by (intro exI [of _ 0]) auto
    next
      case s: (Inr rx)
      obtain q tr2 l2 where re: "retransmit ?k E topic enc ?mid (ack_timeout (ch_config ch)) rx (tr1, l)
          = (q, (tr2, l2))" by (metis prod_cases3)
      from retransmit_spec [OF assms(1) re] obtain n recv where spec: "n \<le> ?k"
        "log_published l2 = log_published l @ replicate n (topic, enc)"
        "log_received l2 = log_received l @ recv"
        "q = Inr True \<longrightarrow> recv \<noteq> [] \<and> env_ack_message_id E (last recv) = Some ?mid"
        "q = Inr False \<longrightarrow> n = ?k \<and> (\<forall>d \<in> set recv. env_ack_message_id E d \<noteq> Some ?mid)" by blast
      have "ch_log ch' = l2 \<and> (case q of
          Inr b \<Rightarrow> r = Inr (?m, b)
        | Inl e \<Rightarrow> r = Inl e \<and> ch_bloom ch' = ch_bloom ch \<and> ch_local_history ch' = ch_local_history ch)"
        using run Inr sub s re tl assms(1)
        by (cases q) (auto simp: record_in_history_def mark_seen_def split: prod.splits)
      then show ?thesis
        using spec mid tl
        by (intro exI [of _ n] exI [of _ recv] exI [of _ enc]) (cases q; auto split: bool.splits)
    qed
  qed
qed

text \<open>A closed environment whose backend is logged: ids are the payloads read as text.\<close>

definition logged_env :: "('tr, 'rx) transport \<Rightarrow> (string list, 'tr \<times> tp_log, 'rx) sds_env" where
  "logged_env T = \<lparr>env_bloom = exact_crate, env_sha = map (\<lambda>b. char_of (unat b)),
     env_to_vec = (\<lambda>m. Inr (map (\<lambda>c. word_of_nat (of_char c)) (message_id m))),
     env_from_slice = (\<lambda>_. None), env_ack_to_vec = (\<lambda>_. Inr []),
     env_ack_message_id = (\<lambda>d. Some (map (\<lambda>b. char_of (unat b)) d)), env_transport = logged T\<rparr>"

definition logged_channel :: "'tr \<Rightarrow> (string list, 'tr \<times> tp_log) channel" where
  "logged_channel tr = \<lparr>ch_channel_id = ''c'', ch_sender_id = ''me'',
     ch_transport = (tr, \<lparr>log_published = [], log_received = [], log_drained = []\<rparr>), ch_config = config_default,
     ch_lamport = 7, ch_bloom = bloom_new exact_crate, ch_local_history = [], ch_outgoing = [],
     ch_incoming = [], ch_possible_acks = []\<rparr>"

theorem send_reliable_bounded_and_acked_witness:
  "\<exists>n enc. n \<le> 4 \<and> log_published (ch_log (snd (send_reliable (logged_env quiet_transport) ''t'' [65] (logged_channel ()))))
     = replicate n (''t'', enc)"
  using send_reliable_bounded_and_acked
    [of "logged_env quiet_transport" quiet_transport "''t''" "[65]" "logged_channel ()",
     OF _ prod.collapse [symmetric]]
  by (auto simp: logged_env_def logged_channel_def config_default_def DEFAULT_MAX_RETRIES_def)

section \<open>Sending\<close>

lemma ch_publish_frame:
  "ch_publish E topic p ch = (r, ch') \<Longrightarrow> \<exists>tr. ch' = ch\<lparr>ch_transport := tr\<rparr>"
  by (auto simp: ch_publish_def split: prod.splits)

text \<open>
  A send takes effect as a whole or not at all. When it succeeds the message carries the
  advanced clock, the recent history and the digest of its payload as id, the id is in the
  filter and at the end of the local history, and the message is the youngest of the
  retransmission buffer; when serialization or publication fails nothing but the clock (and the
  backend) has changed.
\<close>

lemma send_all_or_nothing:
  "case send E topic payload ch of
     (Inr m, ch') \<Rightarrow>
       cm_message_id m = env_sha E payload \<and> cm_lamport_timestamp m = ch_lamport ch + 1
       \<and> cm_causal_history m = build_causal_history ch \<and> cm_content m = payload
       \<and> ch_lamport ch' = ch_lamport ch + 1
       \<and> ch_bloom ch' = bloom_set (env_bloom E) (cm_message_id m) (ch_bloom ch)
       \<and> ch_outgoing ch' = push_bounded OUTGOING_BUFFER_MAX m (ch_outgoing ch)
       \<and> ch_local_history ch' = keep_last (causal_history_size (ch_config ch) * 2)
           (ch_local_history ch @ [\<lparr>he_message_id = cm_message_id m,
              he_lamport_timestamp = cm_lamport_timestamp m, he_retrieval_hint = None\<rparr>])
       \<and> ch_incoming ch' = ch_incoming ch \<and> ch_possible_acks ch' = ch_possible_acks ch
   | (Inl e, ch') \<Rightarrow> \<exists>tr. ch' = ch\<lparr>ch_lamport := ch_lamport ch + 1, ch_transport := tr\<rparr>"
proof -
  let ?ch1 = "ch\<lparr>ch_lamport := ch_lamport ch + 1\<rparr>"
  let ?m = "make_content E ?ch1 (ch_lamport ch + 1) payload"
  show ?thesis
  proof (cases "env_to_vec E (Content ?m)")
    case (Inl e)
    have "?ch1 = ch\<lparr>ch_lamport := ch_lamport ch + 1, ch_transport := ch_transport ch\<rparr>" by simp
    then have "\<exists>tr. ?ch1 = ch\<lparr>ch_lamport := ch_lamport ch + 1, ch_transport := tr\<rparr>" by (rule exI)
    then show ?thesis using Inl by (simp add: send_def next_timestamp_def Let_def)
  next
    case (Inr enc)
    obtain r ch2 where pub: "ch_publish E topic enc ?ch1 = (r, ch2)" by fastforce
    with ch_publish_frame obtain tr where "ch2 = ?ch1\<lparr>ch_transport := tr\<rparr>" by blast
    then show ?thesis using Inr pub
      by (cases r) (auto simp: send_def next_timestamp_def Let_def make_content_def
          compute_message_id_def build_causal_history_def record_in_history_def mark_seen_def)
  qed
qed

section \<open>Acknowledgement by filters\<close>

abbreviation ack_count :: "(string, u32) hash_map \<Rightarrow> string \<Rightarrow> u32" where
  "ack_count acks mid \<equiv> (case hm_get acks mid of None \<Rightarrow> 0 | Some c \<Rightarrow> c)"

text \<open>What \<open>ack_retain\<close> computes when no id occurs twice in the buffer.\<close>

lemma ack_retain_eq:
  assumes "distinct (map cm_message_id out)" and "hm_wf acks"
    and "ack_retain seen th out acks = (kept, acks')"
  shows "hm_wf acks'"
    and "kept = filter (\<lambda>m. \<not> (seen (cm_message_id m) \<and> th \<le> ack_count acks (cm_message_id m) + 1)) out"
    and "hm_get acks' k = (if k \<in> cm_message_id ` set out \<and> seen k
           then (if th \<le> ack_count acks k + 1 then None else Some (ack_count acks k + 1))
           else hm_get acks k)"
proof -
  have "hm_wf acks' \<and>
    kept = filter (\<lambda>m. \<not> (seen (cm_message_id m) \<and> th \<le> ack_count acks (cm_message_id m) + 1)) out
    \<and> (\<forall>k. hm_get acks' k = (if k \<in> cm_message_id ` set out \<and> seen k
           then (if th \<le> ack_count acks k + 1 then None else Some (ack_count acks k + 1))
           else hm_get acks k))"
    using assms
  proof (induction out arbitrary: acks kept)
    case (Cons m out)
    let ?i = "cm_message_id m"
    define acks1 where "acks1 = (if \<not> seen ?i then acks
       else if th \<le> ack_count acks ?i + 1 then hm_remove ?i acks else hm_insert ?i (ack_count acks ?i + 1) acks)"
    obtain kept1 where rec: "ack_retain seen th out acks1 = (kept1, acks')"
      and kept: "kept = (if seen ?i \<and> th \<le> ack_count acks ?i + 1 then kept1 else m # kept1)"
      using Cons.prems(3) by (auto simp: acks1_def Let_def split: if_splits prod.splits)
    have wf1: "hm_wf acks1"
      using Cons.prems(2) by (simp add: acks1_def hm.invar_ins hm.invar_rem)
    have get1: "hm_get acks1 k = (if k = ?i \<and> seen k
         then (if th \<le> ack_count acks k + 1 then None else Some (ack_count acks k + 1))
         else hm_get acks k)" for k
      using Cons.prems(2) by (auto simp: acks1_def hm.get_ins hm.get_rem)
    have notin: "?i \<notin> cm_message_id ` set out" using Cons.prems(1) by simp
    have same: "filter (\<lambda>m. \<not> (seen (cm_message_id m) \<and> th \<le> ack_count acks1 (cm_message_id m) + 1)) out
      = filter (\<lambda>m. \<not> (seen (cm_message_id m) \<and> th \<le> ack_count acks (cm_message_id m) + 1)) out"
      using notin by (intro filter_cong refl) (auto simp: get1 image_iff)
    have "distinct (map cm_message_id out)" using Cons.prems(1) by simp
    note IH = Cons.IH [OF this wf1 rec]
    show ?case
    proof (intro conjI allI)
      show "hm_wf acks'" using IH by blast
      show "kept = filter (\<lambda>m. \<not> (seen (cm_message_id m) \<and> th \<le> ack_count acks (cm_message_id m) + 1)) (m # out)"
        using IH same kept by simp
      fix k
      have "hm_get acks' k = (if k \<in> cm_message_id ` set out \<and> seen k
           then (if th \<le> ack_count acks1 k + 1 then None else Some (ack_count acks1 k + 1))
           else hm_get acks1 k)" using IH by blast
      then show "hm_get acks' k = (if k \<in> cm_message_id ` set (m # out) \<and> seen k
           then (if th \<le> ack_count acks k + 1 then None else Some (ack_count acks k + 1))
           else hm_get acks k)"
        using notin by (cases "k = ?i") (simp_all add: get1)
    qed
  qed simp
  then show "hm_wf acks'"
    and "kept = filter (\<lambda>m. \<not> (seen (cm_message_id m) \<and> th \<le> ack_count acks (cm_message_id m) + 1)) out"
    and "hm_get acks' k = (if k \<in> cm_message_id ` set out \<and> seen k
           then (if th \<le> ack_count acks k + 1 then None else Some (ack_count acks k + 1))
           else hm_get acks k)" by blast+
qed

text \<open>
  The state in which counting is exact: the ids in the buffer are distinct and all counters
  together stay within the size at which the table is cleared.
\<close>

definition ack_ok :: "string set \<Rightarrow> ('bf, 'tr) channel \<Rightarrow> bool" where
  "ack_ok K ch \<longleftrightarrow> distinct (map cm_message_id (ch_outgoing ch)) \<and> hm_wf (ch_possible_acks ch)
     \<and> cm_message_id ` set (ch_outgoing ch) \<subseteq> K \<and> dom (hm_get (ch_possible_acks ch)) \<subseteq> K
     \<and> finite K \<and> card K \<le> POSSIBLE_ACKS_MAX"

lemma check_outgoing_acks_step:
  assumes ok: "ack_ok K ch" and dec: "bloom_from_bytes (env_bloom E) b = Some f"
    and seen: "probably_contains (env_bloom E) f mid"
  shows "ack_ok K (check_outgoing_acks E b ch)"
    and "m \<in> set (ch_outgoing (check_outgoing_acks E b ch)) \<Longrightarrow> m \<in> set (ch_outgoing ch)"
    and "m \<in> set (ch_outgoing ch) \<Longrightarrow> cm_message_id m = mid \<Longrightarrow>
           m \<in> set (ch_outgoing (check_outgoing_acks E b ch)) \<longleftrightarrow>
           \<not> possible_acks_threshold (ch_config ch) \<le> ack_count (ch_possible_acks ch) mid + 1"
    and "m \<in> set (ch_outgoing (check_outgoing_acks E b ch)) \<Longrightarrow> cm_message_id m = mid \<Longrightarrow>
           ack_count (ch_possible_acks (check_outgoing_acks E b ch)) mid = ack_count (ch_possible_acks ch) mid + 1"
proof -
  obtain kept acks where ret: "ack_retain (probably_contains (env_bloom E) f)
      (possible_acks_threshold (ch_config ch)) (ch_outgoing ch) (ch_possible_acks ch) = (kept, acks)" by fastforce
  have wf: "distinct (map cm_message_id (ch_outgoing ch))" "hm_wf (ch_possible_acks ch)"
    using ok by (auto simp: ack_ok_def)
  note eq = ack_retain_eq [OF wf ret]
  have "dom (hm_get acks) \<subseteq> cm_message_id ` set (ch_outgoing ch) \<union> dom (hm_get (ch_possible_acks ch))"
    by (auto simp: eq(3) split: if_splits)
  then have dom: "dom (hm_get acks) \<subseteq> K" using ok unfolding ack_ok_def by blast
  have "length acks \<le> POSSIBLE_ACKS_MAX"
    using hm.length_entries [OF eq(1)] card_mono [OF _ dom] ok by (simp add: ack_ok_def)
  then have ch': "check_outgoing_acks E b ch = ch\<lparr>ch_outgoing := kept, ch_possible_acks := acks\<rparr>"
    using ret dec by (simp add: check_outgoing_acks_def)
  show "ack_ok K (check_outgoing_acks E b ch)"
    using ok dom eq(1) by (auto simp: ack_ok_def ch' eq(2) distinct_map_filter)
  show "m \<in> set (ch_outgoing (check_outgoing_acks E b ch)) \<Longrightarrow> m \<in> set (ch_outgoing ch)"
    by (auto simp: ch' eq(2))
  show "m \<in> set (ch_outgoing (check_outgoing_acks E b ch)) \<longleftrightarrow>
        \<not> possible_acks_threshold (ch_config ch) \<le> ack_count (ch_possible_acks ch) mid + 1"
    if "m \<in> set (ch_outgoing ch)" "cm_message_id m = mid"
    using that seen by (auto simp: ch' eq(2))
  show "ack_count (ch_possible_acks (check_outgoing_acks E b ch)) mid = ack_count (ch_possible_acks ch) mid + 1"
    if "m \<in> set (ch_outgoing (check_outgoing_acks E b ch))" "cm_message_id m = mid"
    using that seen by (auto simp: ch' eq)
qed

lemma ack_removed_stays:
  "ack_ok K ch \<Longrightarrow> \<forall>b \<in> set bs. \<exists>f. bloom_from_bytes (env_bloom E) b = Some f \<and> probably_contains (env_bloom E) f mid
     \<Longrightarrow> m \<notin> set (ch_outgoing ch) \<Longrightarrow> m \<notin> set (ch_outgoing (fold (check_outgoing_acks E) bs ch))"
proof (induction bs arbitrary: ch)
  case (Cons b bs)
  obtain f where f: "bloom_from_bytes (env_bloom E) b = Some f" "probably_contains (env_bloom E) f mid"
    using Cons.prems(2) by auto
  show ?case
    using Cons.IH check_outgoing_acks_step(1,2) [OF Cons.prems(1) f] Cons.prems(2,3) by auto
qed simp

lemma ack_threshold_count:
  assumes "ack_ok K ch" and "m \<in> set (ch_outgoing ch)" and "mid = cm_message_id m"
    and "\<forall>b \<in> set bs. \<exists>f. bloom_from_bytes (env_bloom E) b = Some f \<and> probably_contains (env_bloom E) f mid"
    and "unat (ack_count (ch_possible_acks ch) mid) < unat (possible_acks_threshold (ch_config ch))"
  shows "m \<in> set (ch_outgoing (fold (check_outgoing_acks E) bs ch)) \<longleftrightarrow>
     unat (ack_count (ch_possible_acks ch) mid) + length bs < unat (possible_acks_threshold (ch_config ch))"
  using assms(1,2,4,5)
proof (induction bs arbitrary: ch)
  case (Cons b bs)
  let ?c = "ack_count (ch_possible_acks ch) mid" and ?th = "possible_acks_threshold (ch_config ch)"
  let ?ch1 = "check_outgoing_acks E b ch"
  obtain f where f: "bloom_from_bytes (env_bloom E) b = Some f" "probably_contains (env_bloom E) f mid"
    using Cons.prems(3) by auto
  note step = check_outgoing_acks_step [OF Cons.prems(1) f]
  have suc: "unat (?c + 1) = unat ?c + 1"
  proof -
    have "unat ?th < 2 ^ LENGTH(32)" by (rule unsigned_less)
    then show ?thesis using Cons.prems(4) by (simp add: unat_word_ariths)
  qed
  have in1: "m \<in> set (ch_outgoing ?ch1) \<longleftrightarrow> unat ?c + 1 < unat ?th"
    using step(3) [OF Cons.prems(2)] assms(3) suc by (simp add: word_le_nat_alt not_le)
  show ?case
  proof (cases "m \<in> set (ch_outgoing ?ch1)")
    case True
    then show ?thesis
      using Cons.IH [OF step(1) True] Cons.prems(3) step(4) [OF True] suc in1 assms(3) by simp
  next
    case False
    then show ?thesis
      using ack_removed_stays [OF step(1) _ False, of bs] Cons.prems(3) in1 by auto
  qed
qed simp



section \<open>Repair\<close>

lemma find_distinct_iff:
  "distinct (map f xs) \<Longrightarrow> find (\<lambda>y. f y = k) xs = Some x \<longleftrightarrow> x \<in> set xs \<and> f x = k"
  by (induction xs) (auto simp: image_iff)

lemma set_messages_to_resend:
  "m \<in> set (messages_to_resend requests out) \<longleftrightarrow>
     (\<exists>req \<in> set requests. find (\<lambda>m. cm_message_id m = he_message_id req) out = Some m)"
  by (induction requests) (auto simp: messages_to_resend_def List.map_filter_simps split: option.splits)

lemma resend_all_spec:
  assumes "env_transport E = logged T" and "resend_all E topic ms n ch = (Inr k, ch')"
  shows "k = n + length ms \<and> (\<exists>encs. map (\<lambda>m. env_to_vec E (Content m)) ms = map Inr encs
    \<and> log_published (ch_log ch') = log_published (ch_log ch) @ map (Pair topic) encs)"
  using assms(2)
proof (induction ms arbitrary: n ch)
  case (Cons m ms)
  obtain enc where enc: "env_to_vec E (Content m) = Inr enc"
    using Cons.prems by (cases "env_to_vec E (Content m)") auto
  obtain tr l where tl: "ch_transport ch = (tr, l)" by fastforce
  obtain u tr' where pub: "tp_publish T tr topic enc = (u, tr')" by fastforce
  let ?ch1 = "ch\<lparr>ch_transport := (tr', l\<lparr>log_published := log_published l @ [(topic, enc)]\<rparr>)\<rparr>"
  have run: "ch_publish E topic enc ch = (u, ?ch1)"
    using tl pub assms(1) by (simp add: ch_publish_def)
  then have "resend_all E topic ms (n + 1) ?ch1 = (Inr k, ch')"
    using Cons.prems enc by (cases u) auto
  from Cons.IH [OF this] obtain encs where "k = n + 1 + length ms"
    "map (\<lambda>m. env_to_vec E (Content m)) ms = map Inr encs"
    "log_published (ch_log ch') = log_published l @ (topic, enc) # map (Pair topic) encs" by auto
  then show ?case using enc tl by (intro conjI exI [of _ "enc # encs"]) auto
qed simp

lemma handle_repair_spec:
  assumes "env_transport E = logged T" and "handle_repair_requests E topic requests ch = (Inr k, ch')"
  shows "\<exists>encs. map (\<lambda>m. env_to_vec E (Content m)) (messages_to_resend requests (ch_outgoing ch)) = map Inr encs
    \<and> log_published (ch_log ch') = log_published (ch_log ch) @ map (Pair topic) encs \<and> k = length encs"
proof (cases "requests = []")
  case True
  then show ?thesis
    using assms by (auto simp: handle_repair_requests_def messages_to_resend_def List.map_filter_def)
next
  case False
  then have "resend_all E topic (messages_to_resend requests (ch_outgoing ch)) 0 ch = (Inr k, ch')"
    using assms(2) by (simp add: handle_repair_requests_def)
  from resend_all_spec [OF assms(1) this] obtain encs where
    "map (\<lambda>m. env_to_vec E (Content m)) (messages_to_resend requests (ch_outgoing ch)) = map Inr encs"
    "k = length (messages_to_resend requests (ch_outgoing ch))"
    "log_published (ch_log ch') = log_published (ch_log ch) @ map (Pair topic) encs" by auto
  then show ?thesis using map_eq_imp_length_eq by (intro exI [of _ encs]) fastforce
qed

lemma receive_ready_content:
  assumes "receive_msg E (Content c) ch = (ds, ch')"
    and "\<not> bloom_check (env_bloom E) (ch_bloom ch) (cm_message_id c)"
    and "dependencies_satisfied E ch (cm_causal_history c)"
  shows "mset (map Content ds) + mset (ch_incoming ch') = add_mset (Content c) (mset (ch_incoming ch))"
    and "c \<in> set ds"
proof -
  let ?ch2 = "update_timestamp (cm_lamport_timestamp c) (after_acks E (cm_bloom_filter c) ch)"
  have "dependencies_satisfied E ?ch2 (cm_causal_history c)" using assms(3) by (simp add: deps_iff)
  then obtain ds1 where ds: "ds = c # ds1" and res: "resolve_buffered E (deliver E c ?ch2) = (ds1, ch')"
    using assms(1,2) by (auto simp: receive_msg_def Let_def split: prod.splits)
  show "mset (map Content ds) + mset (ch_incoming ch') = add_mset (Content c) (mset (ch_incoming ch))"
    and "c \<in> set ds" using resolve_buffered_spec(3) [OF res] ds by simp_all
qed

lemma resent_iff:
  "distinct (map cm_message_id out) \<Longrightarrow> m \<in> set (messages_to_resend requests out) \<longleftrightarrow>
     (\<exists>e \<in> set requests. m \<in> set out \<and> cm_message_id m = he_message_id e)"
  by (simp add: set_messages_to_resend find_distinct_iff)

text \<open>What a peer decodes of the answer to a repair request.\<close>

lemma answer_decodes:
  assumes log: "env_transport E = logged T"
    and codec: "\<forall>msg enc. env_to_vec E msg = Inr enc \<longrightarrow> env_from_slice E enc = Some (wire_view msg)"
    and answer: "handle_repair_requests E topic requests ch = (Inr k, ch')"
      "log_published (ch_log ch') = log_published (ch_log ch) @ map (Pair topic) raws"
  defines "ms \<equiv> map (\<lambda>m. m\<lparr>cm_retrieval_hint := None\<rparr>) (messages_to_resend requests (ch_outgoing ch))"
  shows "map (env_from_slice E) raws = map (\<lambda>c. Some (Content c)) ms" and "k = length ms"
proof -
  let ?ms = "messages_to_resend requests (ch_outgoing ch)"
  from handle_repair_spec [OF log answer(1)] obtain encs where
    encs: "map (\<lambda>m. env_to_vec E (Content m)) ?ms = map Inr encs" "k = length encs"
      "log_published (ch_log ch') = log_published (ch_log ch) @ map (Pair topic) encs" by blast
  have "map (Pair topic) encs = map (Pair topic) raws" using encs(3) answer(2) by simp
  then have raws: "raws = encs" by (simp add: inj_map_eq_map inj_def)
  show k: "k = length ms"
    using encs(2) map_eq_imp_length_eq [OF encs(1)] by (simp add: ms_def)
  show "map (env_from_slice E) raws = map (\<lambda>c. Some (Content c)) ms"
  proof (rule nth_equalityI)
    show "length (map (env_from_slice E) raws) = length (map (\<lambda>c. Some (Content c)) ms)"
      using k encs(2) raws by simp
    fix i assume "i < length (map (env_from_slice E) raws)"
    then have i: "i < length ?ms" "i < length encs" using k encs(2) raws by (simp_all add: ms_def)
    have "env_to_vec E (Content (?ms ! i)) = Inr (encs ! i)"
      using arg_cong [OF encs(1), of "\<lambda>xs. xs ! i"] i by simp
    with codec have "env_from_slice E (encs ! i) = Some (wire_view (Content (?ms ! i)))" by blast
    then show "map (env_from_slice E) raws ! i = map (\<lambda>c. Some (Content c)) ms ! i"
      using i raws by (simp add: ms_def)
  qed
qed

context sds_filter
begin

lemma deps_mono:
  assumes "env_bloom E = B" and "ch_bloom ch' = fold (bloom_set B) ids (ch_bloom ch)"
    and "length ids < bloom_room (ch_bloom ch)" and "dependencies_satisfied E ch hist"
  shows "dependencies_satisfied E ch' hist"
  using assms add_all_check [OF assms(3)] by (simp add: deps_iff list_all_iff)

lemma receive_all_ready:
  assumes "env_bloom E = B" and "map (env_from_slice E) raws = map (\<lambda>c. Some (Content c)) ms"
    and "\<forall>m \<in> set ms. dependencies_satisfied E ch (cm_causal_history m)"
    and "length (ch_incoming ch) + length ms < bloom_room (ch_bloom ch)"
    and "receive_all E raws ch = (ds, ch')"
    and "(\<forall>m \<in> set (ch_incoming ch). \<not> ready E ch m) \<or> (\<exists>m \<in> set ms. \<not> bloom_check B (ch_bloom ch) (cm_message_id m))"
  shows "\<exists>ids. ch_bloom ch' = fold (bloom_set B) ids (ch_bloom ch)
    \<and> length ids \<le> length (ch_incoming ch) + length ms
    \<and> (\<forall>m \<in> set ms. bloom_check B (ch_bloom ch') (cm_message_id m))
    \<and> set (ch_incoming ch) \<subseteq> set (ch_incoming ch') \<union> Content ` set ds
    \<and> (\<forall>m \<in> set (ch_incoming ch'). \<not> ready E ch' m)"
  using assms(2-)
proof (induction ms arbitrary: raws ch ds)
  case Nil
  then show ?case by (intro exI [of _ "[]"]) simp
next
  case (Cons c ms)
  obtain raw raws' where raws: "raws = raw # raws'" "env_from_slice E raw = Some (Content c)"
    "map (env_from_slice E) raws' = map (\<lambda>c. Some (Content c)) ms"
    using Cons.prems(1) by auto
  obtain d1 ch1 where r1: "receive_msg E (Content c) ch = (d1, ch1)" by fastforce
  obtain d2 where r2: "receive_all E raws' ch1 = (d2, ch')" and ds: "ds = d1 @ d2"
    using Cons.prems(4) raws r1 by (auto simp: receive_def split: prod.splits)
  obtain ids1 where b1: "ch_bloom ch1 = fold (bloom_set B) ids1 (ch_bloom ch)"
    and len1: "length ids1 + length (ch_incoming ch1) \<le> Suc (length (ch_incoming ch))"
    and seen1: "bloom_check B (ch_bloom ch1) (cm_message_id c)"
    and sub1: "set (ch_incoming ch) \<subseteq> set (ch_incoming ch1) \<union> Content ` set d1"
    and rdy1: "(\<forall>m \<in> set (ch_incoming ch1). \<not> ready E ch1 m) \<or> (\<exists>m \<in> set ms. \<not> bloom_check B (ch_bloom ch1) (cm_message_id m))"
  proof (cases "bloom_check B (ch_bloom ch) (cm_message_id c)")
    case True
    then have "d1 = []" "ch1 = ch" using r1 assms(1) by (auto simp: receive_msg_def)
    then show thesis using that [of "[]"] True Cons.prems(5) by auto
  next
    case False
    then have nd: "\<not> bloom_check (env_bloom E) (ch_bloom ch) (cm_message_id c)" using assms(1) by simp
    have "dependencies_satisfied E ch (cm_causal_history c)" using Cons.prems(2) by simp
    note ms = receive_ready_content [OF r1 nd this]
    note sub = delivered_subset [OF ms(1)]
    have b: "ch_bloom ch1 = fold (bloom_set B) (map cm_message_id d1) (ch_bloom ch)"
      using receive_content_spec(2) [OF r1 nd] assms(1) by simp
    have "length (map cm_message_id d1) < bloom_room (ch_bloom ch)"
      using sub(3) Cons.prems(3) by simp
    then have "bloom_check B (ch_bloom ch1) (cm_message_id c)"
      using add_all_check [of "map cm_message_id d1" "ch_bloom ch"] ms(2) by (simp add: b)
    moreover have "set_mset (mset (ch_incoming ch)) \<subseteq> set (ch_incoming ch1) \<union> Content ` set d1"
      using arg_cong [OF ms(1), of set_mset] by auto
    ultimately show thesis
      using that [of "map cm_message_id d1"] b sub(3) receive_content_spec(4) [OF r1 nd] by auto
  qed
  have l1: "length ids1 < bloom_room (ch_bloom ch)" using len1 Cons.prems(3) by simp
  have deps1: "\<forall>m \<in> set ms. dependencies_satisfied E ch1 (cm_causal_history m)"
    using deps_mono [OF assms(1) b1 l1] Cons.prems(2) by simp
  have "length (ch_incoming ch1) + length ms < bloom_room (ch_bloom ch1)"
    using room_add_all [OF l1] len1 Cons.prems(3) by (simp add: b1)
  from Cons.IH [OF raws(3) deps1 this r2 rdy1] obtain ids2 where
    IH: "ch_bloom ch' = fold (bloom_set B) ids2 (ch_bloom ch1)"
      "length ids2 \<le> length (ch_incoming ch1) + length ms"
      "\<forall>m \<in> set ms. bloom_check B (ch_bloom ch') (cm_message_id m)"
      "set (ch_incoming ch1) \<subseteq> set (ch_incoming ch') \<union> Content ` set d2"
      "\<forall>m \<in> set (ch_incoming ch'). \<not> ready E ch' m" by blast
  have "length ids2 < bloom_room (ch_bloom ch1)"
    using IH(2) \<open>length (ch_incoming ch1) + length ms < bloom_room (ch_bloom ch1)\<close> by simp
  then have "bloom_check B (ch_bloom ch') (cm_message_id c)"
    using add_all_check [of ids2 "ch_bloom ch1"] seen1 IH(1) by simp
  moreover have "set (ch_incoming ch) \<subseteq> set (ch_incoming ch') \<union> Content ` set ds"
    using IH(4) sub1 unfolding ds set_append image_Un by blast
  ultimately show ?case
    using IH(1,2,3,5) b1 len1 by (intro exI [of _ "ids1 @ ids2"]) auto
qed

end

text \<open>
  C7. Repair end to end. A node holds a content message back because messages of its history
  are missing and asks for them; a peer that still has those messages (each deliverable at the
  requester) in its retransmission buffer and whose publications succeed answers; once the
  requester has received what the peer published, the message held back has been delivered, and
  nothing deliverable is left in its buffer.
\<close>

theorem repair_end_to_end:
  assumes crate: "bloom_crate_ok (env_bloom E)" and log: "env_transport E = logged T"
    and codec: "\<forall>msg enc. env_to_vec E msg = Inr enc \<longrightarrow> env_from_slice E enc = Some (wire_view msg)"
    and held: "Content c \<in> set (ch_incoming chB)"
    and missing: "requests = build_repair_requests E chB (cm_causal_history c)" "requests \<noteq> []"
    and peer: "distinct (map cm_message_id (ch_outgoing chA))"
      "\<forall>e \<in> set requests. \<exists>m \<in> set (ch_outgoing chA). cm_message_id m = he_message_id e
          \<and> dependencies_satisfied E chB (cm_causal_history m)"
    and answer: "handle_repair_requests E topic requests chA = (Inr k, chA')"
      "log_published (ch_log chA') = log_published (ch_log chA) @ map (Pair topic) raws"
    and room: "length (ch_incoming chB) + k < bloom_room (ch_bloom chB)"
  shows "c \<in> set (fst (receive_all E raws chB))
    \<and> (\<forall>m \<in> set (ch_incoming (snd (receive_all E raws chB))). \<not> ready E (snd (receive_all E raws chB)) m)"
proof -
  let ?ms = "messages_to_resend requests (ch_outgoing chA)"
  let ?ms' = "map (\<lambda>m. m\<lparr>cm_retrieval_hint := None\<rparr>) ?ms"
  note dec = answer_decodes [OF log codec answer]
  note found = resent_iff [OF peer(1), of _ requests]
  have deps: "\<forall>m \<in> set ?ms'. dependencies_satisfied E chB (cm_causal_history m)"
  proof
    fix m' assume "m' \<in> set ?ms'"
    then obtain m e where m: "m' = m\<lparr>cm_retrieval_hint := None\<rparr>" "e \<in> set requests"
      "m \<in> set (ch_outgoing chA)" "cm_message_id m = he_message_id e" using found by auto
    obtain n where "n \<in> set (ch_outgoing chA)" "cm_message_id n = he_message_id e"
      "dependencies_satisfied E chB (cm_causal_history n)" using peer(2) m(2) by blast
    moreover have "n = m" using peer(1) m(3,4) calculation(1,2) by (metis distinct_map inj_on_def)
    ultimately show "dependencies_satisfied E chB (cm_causal_history m')" using m(1) by simp
  qed
  have asked: "\<exists>m \<in> set ?ms'. cm_message_id m = he_message_id e" if "e \<in> set requests" for e
    using peer(2) that found by force
  have unseen: "\<not> bloom_check (env_bloom E) (ch_bloom chB) (he_message_id e)" if "e \<in> set requests" for e
    using that missing(1) by (simp add: build_repair_requests_def)
  have "\<exists>m \<in> set ?ms'. \<not> bloom_check (env_bloom E) (ch_bloom chB) (cm_message_id m)"
    using missing(2) asked unseen by (metis list.set_sel(1))
  moreover have rm: "length (ch_incoming chB) + length ?ms' < bloom_room (ch_bloom chB)"
    using room dec(2) by simp
  ultimately obtain ids where
    spec: "ch_bloom (snd (receive_all E raws chB)) = fold (bloom_set (env_bloom E)) ids (ch_bloom chB)"
    "length ids \<le> length (ch_incoming chB) + length ?ms'"
    "\<forall>m \<in> set ?ms'. bloom_check (env_bloom E) (ch_bloom (snd (receive_all E raws chB))) (cm_message_id m)"
    "set (ch_incoming chB) \<subseteq> set (ch_incoming (snd (receive_all E raws chB))) \<union> Content ` set (fst (receive_all E raws chB))"
    "\<forall>m \<in> set (ch_incoming (snd (receive_all E raws chB))). \<not> ready E (snd (receive_all E raws chB)) m"
    using sds_filter.receive_all_ready [OF sds_filter.intro [OF crate] refl dec(1) deps rm prod.collapse [symmetric]]
    by blast
  have "bloom_check (env_bloom E) (ch_bloom (snd (receive_all E raws chB))) (he_message_id e)"
    if e: "e \<in> set (cm_causal_history c)" for e
  proof (cases "e \<in> set requests")
    case True
    then show ?thesis using asked spec(3) by metis
  next
    case False
    then have "bloom_check (env_bloom E) (ch_bloom chB) (he_message_id e)"
      using e missing(1) by (simp add: build_repair_requests_def)
    moreover have "length ids < bloom_room (ch_bloom chB)" using spec(2) rm by simp
    ultimately show ?thesis
      using sds_filter.deps_mono [OF sds_filter.intro [OF crate] refl spec(1), of "[e]"]
      by (simp add: deps_iff)
  qed
  then have "ready E (snd (receive_all E raws chB)) (Content c)" by (simp add: deps_iff list_all_iff)
  then show ?thesis using spec(4,5) held by blast
qed

theorem repair_end_to_end_witness:
  "let a = example_msg ''a'' 1 []; b = example_msg ''b'' 2 [''a''];
       E = (logged_env quiet_transport)\<lparr>
             env_to_vec := \<lambda>m. if wire_view m = Content a then Inr [1] else Inl ''unknown'',
             env_from_slice := \<lambda>raw. if raw = [1] then Some (Content a) else None\<rparr>
   in b \<in> set (fst (receive_all E [[1]] ((logged_channel ())\<lparr>ch_incoming := [Content b]\<rparr>)))"
proof -
  define a b where "a = example_msg ''a'' 1 []" and "b = example_msg ''b'' 2 [''a'']"
  define E where "E = (logged_env quiet_transport)\<lparr>
    env_to_vec := \<lambda>m. if wire_view m = Content a then Inr [1] else Inl ''unknown'',
    env_from_slice := \<lambda>raw. if raw = [1] then Some (Content a) else None\<rparr>"
  define chA where "chA = (logged_channel ())\<lparr>ch_outgoing := [a]\<rparr>"
  define chB where "chB = (logged_channel ())\<lparr>ch_incoming := [Content b]\<rparr>"
  let ?e = "\<lparr>he_message_id = ''a'', he_lamport_timestamp = 0, he_retrieval_hint = None\<rparr>"
  have E: "env_bloom E = exact_crate" "env_transport E = logged quiet_transport"
    by (simp_all add: E_def logged_env_def)
  have reqs: "build_repair_requests E chB (cm_causal_history b) = [?e]"
    by (simp add: build_repair_requests_def b_def example_defs chB_def logged_channel_def E)
  obtain chA' where h: "handle_repair_requests E ''t'' [?e] chA = (Inr 1, chA')"
    "log_published (ch_log chA') = [(''t'', [1])]"
    by (simp add: handle_repair_requests_def messages_to_resend_def List.map_filter_simps chA_def
        logged_channel_def a_def example_defs E_def logged_env_def ch_publish_def quiet_transport_def)
  have "b \<in> set (fst (receive_all E [[1]] chB)) \<and>
    (\<forall>m \<in> set (ch_incoming (snd (receive_all E [[1]] chB))). \<not> ready E (snd (receive_all E [[1]] chB)) m)"
  proof (rule repair_end_to_end [OF _ E(2) _ _ reqs [symmetric] _ _ _ h(1)])
    show "\<forall>msg enc. env_to_vec E msg = Inr enc \<longrightarrow> env_from_slice E enc = Some (wire_view msg)"
      by (simp add: E_def)
    show "\<forall>e \<in> set [?e]. \<exists>m \<in> set (ch_outgoing chA). cm_message_id m = he_message_id e
        \<and> dependencies_satisfied E chB (cm_causal_history m)"
      by (simp add: chA_def a_def example_defs)
  qed (simp_all add: E exact_crate_ok chA_def chB_def logged_channel_def h(2) bloom_room_def
        bloom_new_def with_params_def DEFAULT_CAPACITY_def)
  then have "b \<in> set (fst (receive_all E [[1]] chB))" by (rule conjunct1)
  then show ?thesis unfolding Let_def a_def b_def E_def chB_def .
qed

end
