(* ===== verification/Crypto.thy ===== *)
theory Crypto
  imports Prelude
begin

text \<open>
  X25519 identities, session keys and encrypted payloads
  (\<open>crates/logos-messaging-a2a-crypto/src/lib.rs\<close>). The primitives of the third-party crates
  (X25519, ChaCha20-Poly1305, hex, base64) are the fields of \<open>crypto_prims\<close>; the randomness an
  operation draws (secret keys, nonces) is an argument. A panic is a value: it is the one way in
  which \<open>decrypt\<close> can fail without returning.
\<close>

section \<open>Primitives\<close>

record 'c crypto_prims =
  x_public :: "bytes \<Rightarrow> bytes"
  x_diffie_hellman :: "bytes \<Rightarrow> bytes \<Rightarrow> bytes"
  aead_new :: "bytes \<Rightarrow> string + 'c"
  aead_encrypt :: "'c \<Rightarrow> bytes \<Rightarrow> bytes \<Rightarrow> string + bytes"
  aead_decrypt :: "'c \<Rightarrow> bytes \<Rightarrow> bytes \<Rightarrow> string + bytes"
  hex_encode :: "bytes \<Rightarrow> string"
  hex_decode :: "string \<Rightarrow> string + bytes"
  b64_encode :: "bytes \<Rightarrow> string"
  b64_decode :: "string \<Rightarrow> string + bytes"

text \<open>
  What their documentation promises: Diffie-Hellman is symmetric on the public keys of two
  32-byte secrets, a 32-byte key initialises the cipher, decryption inverts encryption under the
  same key and nonce, decoding inverts encoding.
\<close>

definition crypto_ok :: "'c crypto_prims \<Rightarrow> bool" where
  "crypto_ok P \<longleftrightarrow>
     (\<forall>a b. length a = 32 \<longrightarrow> length b = 32 \<longrightarrow>
        x_diffie_hellman P a (x_public P b) = x_diffie_hellman P b (x_public P a))
   \<and> (\<forall>a. length (x_public P a) = 32) \<and> (\<forall>a b. length (x_diffie_hellman P a b) = 32)
   \<and> (\<forall>k. length k = 32 \<longrightarrow> (\<exists>c. aead_new P k = Inr c))
   \<and> (\<forall>c n p ct. aead_encrypt P c n p = Inr ct \<longrightarrow> aead_decrypt P c n ct = Inr p)
   \<and> (\<forall>b. hex_decode P (hex_encode P b) = Inr b) \<and> (\<forall>b. b64_decode P (b64_encode P b) = Inr b)"

datatype crypto_error =
    HexError string
  | InvalidKeyLength string
  | Cipher string
  | InvalidBase64Nonce string
  | InvalidBase64Ciphertext string

fun show_crypto_error :: "crypto_error \<Rightarrow> string" where
  "show_crypto_error (HexError e) = ''invalid hex: '' @ e"
| "show_crypto_error (InvalidKeyLength m) = m"
| "show_crypto_error (Cipher m) = ''cipher error: '' @ m"
| "show_crypto_error (InvalidBase64Nonce e) = ''invalid base64 nonce''"
| "show_crypto_error (InvalidBase64Ciphertext e) = ''invalid base64 ciphertext''"

text \<open>The outcome of an operation that may panic.\<close>

datatype 'a exec = Returns 'a | Panics

record agent_identity =
  id_secret :: bytes
  id_public :: bytes

record encrypted_payload =
  ep_nonce :: string
  ep_ciphertext :: string

section \<open>Identities\<close>

definition identity_generate :: "'c crypto_prims \<Rightarrow> bytes \<Rightarrow> agent_identity" where
  "identity_generate P secret = \<lparr>id_secret = secret, id_public = x_public P secret\<rparr>"

definition public_key_hex :: "'c crypto_prims \<Rightarrow> agent_identity \<Rightarrow> string" where
  "public_key_hex P self = hex_encode P (id_public self)"

definition secret_hex :: "'c crypto_prims \<Rightarrow> agent_identity \<Rightarrow> string" where
  "secret_hex P self = hex_encode P (id_secret self)"

definition identity_from_hex :: "'c crypto_prims \<Rightarrow> string \<Rightarrow> crypto_error + agent_identity" where
  "identity_from_hex P s =
     (case hex_decode P s of
        Inl e \<Rightarrow> Inl (HexError e)
      | Inr bs \<Rightarrow>
          if length bs = 32 then Inr \<lparr>id_secret = bs, id_public = x_public P bs\<rparr>
          else Inl (InvalidKeyLength ''secret key must be 32 bytes''))"

definition parse_public_key :: "'c crypto_prims \<Rightarrow> string \<Rightarrow> crypto_error + bytes" where
  "parse_public_key P s =
     (case hex_decode P s of
        Inl e \<Rightarrow> Inl (HexError e)
      | Inr bs \<Rightarrow>
          if length bs = 32 then Inr bs
          else Inl (InvalidKeyLength ''public key must be 32 bytes''))"

text \<open>A session key is its 32 bytes.\<close>

definition shared_key :: "'c crypto_prims \<Rightarrow> agent_identity \<Rightarrow> bytes \<Rightarrow> bytes" where
  "shared_key P self their_pubkey = x_diffie_hellman P (id_secret self) their_pubkey"

section \<open>Session keys\<close>

definition encrypt_raw ::
    "'c crypto_prims \<Rightarrow> bytes \<Rightarrow> bytes \<Rightarrow> bytes \<Rightarrow> crypto_error + bytes \<times> bytes" where
  "encrypt_raw P nonce key plaintext =
     (case aead_new P key of
        Inl e \<Rightarrow> Inl (Cipher (''cipher init: '' @ e))
      | Inr c \<Rightarrow>
         (case aead_encrypt P c nonce plaintext of
            Inl e \<Rightarrow> Inl (Cipher (''encrypt: '' @ e))
          | Inr ct \<Rightarrow> Inr (nonce, ct)))"

definition decrypt_raw :: "'c crypto_prims \<Rightarrow> bytes \<Rightarrow> bytes \<Rightarrow> bytes \<Rightarrow> crypto_error + bytes" where
  "decrypt_raw P key nonce ciphertext =
     (case aead_new P key of
        Inl e \<Rightarrow> Inl (Cipher (''cipher init: '' @ e))
      | Inr c \<Rightarrow>
         (case aead_decrypt P c nonce ciphertext of
            Inl e \<Rightarrow> Inl (Cipher (''decrypt: '' @ e))
          | Inr p \<Rightarrow> Inr p))"

definition encrypt ::
    "'c crypto_prims \<Rightarrow> bytes \<Rightarrow> bytes \<Rightarrow> bytes \<Rightarrow> crypto_error + encrypted_payload" where
  "encrypt P nonce key plaintext =
     (case aead_new P key of
        Inl e \<Rightarrow> Inl (Cipher (''cipher init: '' @ e))
      | Inr c \<Rightarrow>
         (case aead_encrypt P c nonce plaintext of
            Inl e \<Rightarrow> Inl (Cipher (''encrypt: '' @ e))
          | Inr ct \<Rightarrow> Inr \<lparr>ep_nonce = b64_encode P nonce, ep_ciphertext = b64_encode P ct\<rparr>))"

text \<open>\<open>Nonce::from_slice\<close> panics on a slice that is not 12 bytes long.\<close>

definition decrypt ::
    "'c crypto_prims \<Rightarrow> bytes \<Rightarrow> encrypted_payload \<Rightarrow> (crypto_error + bytes) exec" where
  "decrypt P key payload =
     (case aead_new P key of
        Inl e \<Rightarrow> Returns (Inl (Cipher (''cipher init: '' @ e)))
      | Inr c \<Rightarrow>
         (case b64_decode P (ep_nonce payload) of
            Inl e \<Rightarrow> Returns (Inl (InvalidBase64Nonce e))
          | Inr nonce \<Rightarrow>
             if length nonce \<noteq> 12 then Panics
             else case b64_decode P (ep_ciphertext payload) of
                    Inl e \<Rightarrow> Returns (Inl (InvalidBase64Ciphertext e))
                  | Inr ct \<Rightarrow>
                     (case aead_decrypt P c nonce ct of
                        Inl e \<Rightarrow> Returns (Inl (Cipher (''decrypt: '' @ e)))
                      | Inr p \<Rightarrow> Returns (Inr p))))"

section \<open>Sealed envelopes\<close>

definition unseal :: "'c crypto_prims \<Rightarrow> agent_identity \<Rightarrow> bytes \<Rightarrow> bytes \<Rightarrow> bytes \<Rightarrow> crypto_error + bytes" where
  "unseal P self ephemeral_pub nonce ciphertext =
     decrypt_raw P (shared_key P self ephemeral_pub) nonce ciphertext"

text \<open>The arguments after the primitives are the ephemeral secret and the nonce drawn.\<close>

definition seal_for ::
    "'c crypto_prims \<Rightarrow> bytes \<Rightarrow> bytes \<Rightarrow> bytes \<Rightarrow> bytes \<Rightarrow> crypto_error + bytes \<times> bytes \<times> bytes" where
  "seal_for P ephemeral_secret nonce recipient_pub plaintext =
     (let ephemeral_pub = x_public P ephemeral_secret;
          key = x_diffie_hellman P ephemeral_secret recipient_pub
      in case encrypt_raw P nonce key plaintext of
           Inl e \<Rightarrow> Inl e
         | Inr (n, ct) \<Rightarrow> Inr (ephemeral_pub, n, ct))"

record intro_bundle =
  ib_agent_pubkey :: string
  ib_version :: string

definition intro_bundle_new :: "string \<Rightarrow> intro_bundle" where
  "intro_bundle_new agent_pubkey = \<lparr>ib_agent_pubkey = agent_pubkey, ib_version = ''1.0''\<rparr>"

section \<open>Lemmas\<close>

lemma crypto_okD:
  assumes "crypto_ok P"
  shows "length a = 32 \<Longrightarrow> length b = 32 \<Longrightarrow>
           x_diffie_hellman P a (x_public P b) = x_diffie_hellman P b (x_public P a)"
    and "length (x_public P a) = 32" and "length (x_diffie_hellman P a b) = 32"
    and "length k = 32 \<Longrightarrow> \<exists>c. aead_new P k = Inr c"
    and "aead_encrypt P c n p = Inr ct \<Longrightarrow> aead_decrypt P c n ct = Inr p"
    and "hex_decode P (hex_encode P bs) = Inr bs" and "b64_decode P (b64_encode P bs) = Inr bs"
  using assms unfolding crypto_ok_def by blast+

lemma decrypt_raw_encrypt_raw:
  "crypto_ok P \<Longrightarrow> encrypt_raw P nonce key p = Inr (n, ct) \<Longrightarrow> n = nonce \<and> decrypt_raw P key n ct = Inr p"
  by (auto simp: encrypt_raw_def decrypt_raw_def crypto_okD(5) split: sum.splits)

lemma unseal_seal_for:
  assumes "crypto_ok P" and "length s = 32" and "length (id_secret self) = 32"
    and "id_public self = x_public P (id_secret self)"
    and "seal_for P s nonce (id_public self) p = Inr (e, n, ct)"
  shows "unseal P self e n ct = Inr p" and "e = x_public P s" and "n = nonce"
proof -
  let ?key = "x_diffie_hellman P s (x_public P (id_secret self))"
  have enc: "encrypt_raw P nonce ?key p = Inr (n, ct)" and e: "e = x_public P s"
    using assms(4,5) by (auto simp: seal_for_def Let_def split: sum.splits)
  then show "e = x_public P s" and "n = nonce" using decrypt_raw_encrypt_raw [OF assms(1)] by blast+
  have "shared_key P self e = ?key"
    using crypto_okD(1) [OF assms(1,3,2)] by (simp add: shared_key_def e)
  then show "unseal P self e n ct = Inr p"
    using decrypt_raw_encrypt_raw [OF assms(1) enc] by (auto simp: unseal_def)
qed

text \<open>An identity whose public key belongs to its 32-byte secret.\<close>

definition identity_wf :: "'c crypto_prims \<Rightarrow> agent_identity \<Rightarrow> bool" where
  "identity_wf P self \<longleftrightarrow> length (id_secret self) = 32 \<and> id_public self = x_public P (id_secret self)"

lemma identity_wf_generate: "length s = 32 \<Longrightarrow> identity_wf P (identity_generate P s)"
  by (simp add: identity_wf_def identity_generate_def)

lemma shared_key_sym:
  "crypto_ok P \<Longrightarrow> identity_wf P a \<Longrightarrow> identity_wf P b \<Longrightarrow>
     shared_key P b (id_public a) = shared_key P a (id_public b)"
  using crypto_okD(1) [of P "id_secret b" "id_secret a"] by (simp add: shared_key_def identity_wf_def)

lemma parse_public_key_hex:
  "crypto_ok P \<Longrightarrow> identity_wf P a \<Longrightarrow> parse_public_key P (public_key_hex P a) = Inr (id_public a)"
  by (simp add: parse_public_key_def public_key_hex_def crypto_okD(2,6) identity_wf_def)

lemma decrypt_encrypt:
  "crypto_ok P \<Longrightarrow> length nonce = 12 \<Longrightarrow> encrypt P nonce key p = Inr payload \<Longrightarrow>
     decrypt P key payload = Returns (Inr p)"
  using crypto_okD(5,7) [of P] by (auto simp: encrypt_def decrypt_def split: sum.splits)

section \<open>A concrete instance\<close>

text \<open>
  A key agreement on one-byte secrets spread over 32 bytes and a cipher that prefixes its key:
  an instance of the parameters for closed examples.
\<close>

definition toy_prims :: "bytes crypto_prims" where
  "toy_prims = \<lparr>x_public = (\<lambda>s. replicate 32 (hd s)),
     x_diffie_hellman = (\<lambda>s p. replicate 32 (hd s + hd p)), aead_new = (\<lambda>k. Inr k),
     aead_encrypt = (\<lambda>k n p. Inr (k @ n @ p)),
     aead_decrypt = (\<lambda>k n c. if take (length k + length n) c = k @ n
                              then Inr (drop (length k + length n) c) else Inl ''tag''),
     hex_encode = map (\<lambda>b. char_of (unat b)), hex_decode = (\<lambda>s. Inr (map (\<lambda>c. word_of_nat (of_char c)) s)),
     b64_encode = map (\<lambda>b. char_of (unat b)), b64_decode = (\<lambda>s. Inr (map (\<lambda>c. word_of_nat (of_char c)) s))\<rparr>"

lemma byte_mod [simp]: "word_of_nat (unat b mod 256) = (b :: u8)"
proof -
  have "unat b < 2 ^ LENGTH(8)" by (rule unsigned_less)
  then show ?thesis by simp
qed

lemma toy_prims_ok: "crypto_ok toy_prims"
  unfolding crypto_ok_def toy_prims_def
  by (auto simp: comp_def add.commute)

section \<open>Properties\<close>

text \<open>
  Encrypted session. What one agent encrypts for another under the key it derives from the
  other's public key is decrypted, by the other, under the key derived from the first one's
  public key, to the same plaintext.
\<close>

lemma session_encrypt_decrypt:
  assumes "crypto_ok P" and "length a = 32" and "length b = 32" and "length nonce = 12"
    and "encrypt P nonce (shared_key P (identity_generate P a) (id_public (identity_generate P b))) plaintext
         = Inr payload"
  shows "decrypt P (shared_key P (identity_generate P b) (id_public (identity_generate P a))) payload
         = Returns (Inr plaintext)"
  using decrypt_encrypt [OF assms(1,4,5)]
    shared_key_sym [OF assms(1) identity_wf_generate [OF assms(2)] identity_wf_generate [OF assms(3)]] by simp

lemma session_encrypt_decrypt_witness:
  "let A = identity_generate toy_prims (replicate 32 3); B = identity_generate toy_prims (replicate 32 5);
       n = replicate 12 0
   in \<exists>payload. encrypt toy_prims n (shared_key toy_prims A (id_public B)) [104, 105] = Inr payload
        \<and> decrypt toy_prims (shared_key toy_prims B (id_public A)) payload = Returns (Inr [104, 105])"
proof -
  let ?A = "identity_generate toy_prims (replicate 32 3)" and ?B = "identity_generate toy_prims (replicate 32 5)"
  obtain payload where p: "encrypt toy_prims (replicate 12 0) (shared_key toy_prims ?A (id_public ?B)) [104, 105] = Inr payload"
    by (simp add: encrypt_def toy_prims_def)
  show ?thesis
    using p session_encrypt_decrypt [OF toy_prims_ok _ _ _ p] unfolding Let_def by simp
qed

text \<open>
  A payload whose nonce is valid base64 of any other length than 12 bytes does not make
  \<open>decrypt\<close> return an error: it makes it panic.
\<close>

lemma decrypt_panics_on_nonce_length:
  assumes "crypto_ok P" and "length key = 32" and "length nonce \<noteq> 12"
  shows "decrypt P key \<lparr>ep_nonce = b64_encode P nonce, ep_ciphertext = ct\<rparr> = Panics"
  using crypto_okD(4) [OF assms(1,2)] crypto_okD(7) [OF assms(1), of nonce] assms(3)
  by (auto simp: decrypt_def)

lemma decrypt_panics_on_nonce_length_witness:
  "decrypt toy_prims (replicate 32 1) \<lparr>ep_nonce = b64_encode toy_prims [1, 2, 3], ep_ciphertext = ''''\<rparr> = Panics"
  using decrypt_panics_on_nonce_length [OF toy_prims_ok, of "replicate 32 1" "[1, 2, 3]"] by simp

end
