(* ===== verification/Tasks.thy ===== *)
theory Tasks
  imports Crypto
begin

text \<open>
  The protocol types of \<open>crates/logos-messaging-a2a-core/src\<close>: tasks and their responses
  (\<open>task.rs\<close>), agent cards (\<open>agent.rs\<close>), topics (\<open>topics.rs\<close>), delegation requests
  (\<open>delegation.rs\<close>), and the presence announcement and wire envelope (\<open>presence.rs\<close>,
  \<open>envelope.rs\<close>) that the node exchanges.
\<close>

section \<open>Tasks\<close>

datatype task_state = Submitted | Working | InputRequired | Completed | Failed | Cancelled

datatype part = Text string

record message =
  msg_role :: string
  msg_parts :: "part list"

record task_stream_chunk =
  chunk_task_id :: string
  chunk_index :: u32
  chunk_text :: string
  chunk_is_final :: bool

record task =
  task_id :: string
  task_from :: string
  task_to :: string
  task_state :: task_state
  task_message :: message
  task_result :: "message option"
  task_session_id :: "string option"
  task_payload_cid :: "string option"
  task_payment_tx :: "string option"
  task_payment_amount :: "u64 option"

text \<open>The first argument is the UUID \<open>Uuid::new_v4()\<close> drew.\<close>

definition task_new :: "string \<Rightarrow> string \<Rightarrow> string \<Rightarrow> string \<Rightarrow> task" where
  "task_new uuid sender recipient content =
     \<lparr>task_id = uuid, task_from = sender, task_to = recipient, task_state = Submitted,
      task_message = \<lparr>msg_role = ''user'', msg_parts = [Text content]\<rparr>, task_result = None,
      task_session_id = None, task_payload_cid = None, task_payment_tx = None,
      task_payment_amount = None\<rparr>"

definition task_new_in_session :: "string \<Rightarrow> string \<Rightarrow> string \<Rightarrow> string \<Rightarrow> string \<Rightarrow> task" where
  "task_new_in_session uuid sender recipient content sid =
     (task_new uuid sender recipient content)\<lparr>task_session_id := Some sid\<rparr>"

definition respond_with_state :: "task \<Rightarrow> string \<Rightarrow> task_state \<Rightarrow> task" where
  "respond_with_state t content st =
     \<lparr>task_id = task_id t, task_from = task_to t, task_to = task_from t, task_state = st,
      task_message = task_message t,
      task_result = Some \<lparr>msg_role = ''agent'', msg_parts = [Text content]\<rparr>,
      task_session_id = task_session_id t, task_payload_cid = None, task_payment_tx = None,
      task_payment_amount = None\<rparr>"

definition task_respond :: "task \<Rightarrow> string \<Rightarrow> task" where
  "task_respond t content = respond_with_state t content Completed"

definition task_respond_failed :: "task \<Rightarrow> string \<Rightarrow> task" where
  "task_respond_failed t content = respond_with_state t content Failed"

fun part_text :: "part \<Rightarrow> string" where
  "part_text (Text s) = s"

definition task_text :: "task \<Rightarrow> string option" where
  "task_text t =
     (case map part_text (msg_parts (task_message t)) of [] \<Rightarrow> None | s # _ \<Rightarrow> Some s)"

definition task_result_text :: "task \<Rightarrow> string option" where
  "task_result_text t =
     (case task_result t of
        None \<Rightarrow> None
      | Some m \<Rightarrow> (case map part_text (msg_parts m) of [] \<Rightarrow> None | s # _ \<Rightarrow> Some s))"

section \<open>Agent cards, topics, delegation requests\<close>

record agent_card =
  card_name :: string
  card_description :: string
  card_version :: string
  card_capabilities :: "string list"
  card_public_key :: string
  card_intro_bundle :: "intro_bundle option"

definition DISCOVERY :: string where
  "DISCOVERY = ''/lmao/1/discovery/proto''"
definition PRESENCE :: string where
  "PRESENCE = ''/lmao/1/presence/proto''"

definition task_topic :: "string \<Rightarrow> string" where
  "task_topic recipient_pubkey = ''/lmao/1/task-'' @ recipient_pubkey @ ''/proto''"
definition ack_topic :: "string \<Rightarrow> string" where
  "ack_topic mid = ''/lmao/1/ack-'' @ mid @ ''/proto''"
definition stream_topic :: "string \<Rightarrow> string" where
  "stream_topic tid = ''/lmao/1/stream-'' @ tid @ ''/proto''"

datatype delegation_strategy =
  FirstAvailable | BroadcastCollect | RoundRobin | CapabilityMatch string

record delegation_request =
  dr_parent_task_id :: string
  dr_subtask_text :: string
  dr_strategy :: delegation_strategy
  dr_timeout_secs :: u64
  dr_session_id :: "string option"

record delegation_result =
  res_parent_task_id :: string
  res_subtask_id :: string
  res_agent_id :: string
  res_result_text :: "string option"
  res_success :: bool
  res_error :: "string option"

section \<open>Lemmas\<close>

lemma task_respond_simps [simp]:
  "task_id (respond_with_state t c st) = task_id t"
  "task_from (respond_with_state t c st) = task_to t"
  "task_to (respond_with_state t c st) = task_from t"
  "task_state (respond_with_state t c st) = st"
  "task_payment_tx (respond_with_state t c st) = None"
  "task_session_id (respond_with_state t c st) = task_session_id t"
  "task_result_text (respond_with_state t c st) = Some c"
  by (simp_all add: respond_with_state_def task_result_text_def)

end
