(* ===== verification/Presence.thy ===== *)
theory Presence
  imports Tasks "HOL-Library.Product_Lexorder"
begin

text \<open>
  Presence: load buckets, sealed load reports and signed announcements
  (\<open>crates/logos-messaging-a2a-core/src/presence.rs\<close>), the wire envelope (\<open>envelope.rs\<close>), and the
  map of live peers a node keeps (\<open>crates/logos-messaging-a2a-node/src/presence.rs\<close>). The JSON
  codecs and ECDSA are parameters; the clock a query reads is an argument.
\<close>

section \<open>Load reports\<close>

datatype load_bucket = Free | Busy | Full

definition from_load :: "u32 \<Rightarrow> u32 \<Rightarrow> load_bucket" where
  "from_load queue_depth max_concurrent =
     (let mx = max max_concurrent 1
      in if mx \<le> queue_depth then Full
         else if mx \<le> queue_depth * 2 then Busy
         else Free)"

record load_status =
  ls_bucket :: load_bucket
  ls_queue_depth :: u32
  ls_max_concurrent :: u32
  ls_avg_latency_ms :: u32

record sealed_status =
  ss_recipient_hint :: bytes
  ss_ephemeral_pub :: bytes
  ss_nonce :: bytes
  ss_ciphertext :: bytes

datatype presence_error =
    MissingSignature
  | InvalidHex string
  | InvalidPublicKey string
  | InvalidSignature string
  | VerificationFailed string
  | InvalidRecipientPubkey string
  | SealCrypto string
  | InvalidEnvelope string

fun show_presence_error :: "presence_error \<Rightarrow> string" where
  "show_presence_error MissingSignature = ''missing signature''"
| "show_presence_error (InvalidHex e) = ''agent_id is not valid hex: '' @ e"
| "show_presence_error (InvalidPublicKey e) = ''agent_id is not a valid secp256k1 public key: '' @ e"
| "show_presence_error (InvalidSignature e) = ''signature is not valid DER: '' @ e"
| "show_presence_error (VerificationFailed e) = ''signature verification failed: '' @ e"
| "show_presence_error (InvalidRecipientPubkey e) = ''invalid recipient X25519 pubkey: '' @ e"
| "show_presence_error (SealCrypto e) = ''sealed envelope crypto error: '' @ e"
| "show_presence_error (InvalidEnvelope e) = ''sealed envelope has wrong field size: '' @ e"

text \<open>The last 8 of the 32 bytes.\<close>

definition recipient_hint :: "bytes \<Rightarrow> bytes" where
  "recipient_hint x25519_pub = drop 24 x25519_pub"

record status_codec =
  status_to_vec :: "load_status \<Rightarrow> string + bytes"
  status_from_slice :: "bytes \<Rightarrow> string + load_status"

definition status_ok :: "status_codec \<Rightarrow> bool" where
  "status_ok J \<longleftrightarrow> (\<forall>s b. status_to_vec J s = Inr b \<longrightarrow> status_from_slice J b = Inr s)"

definition seal ::
    "'c crypto_prims \<Rightarrow> status_codec \<Rightarrow> bytes \<Rightarrow> bytes \<Rightarrow> string \<Rightarrow> load_status
       \<Rightarrow> presence_error + sealed_status" where
  "seal P J ephemeral_secret nonce recipient_hex status =
     (case parse_public_key P recipient_hex of
        Inl e \<Rightarrow> Inl (InvalidRecipientPubkey (show_crypto_error e))
      | Inr recipient_pub \<Rightarrow>
         (case status_to_vec J status of
            Inl e \<Rightarrow> Inl (SealCrypto (''encode: '' @ e))
          | Inr plaintext \<Rightarrow>
             (case seal_for P ephemeral_secret nonce recipient_pub plaintext of
                Inl e \<Rightarrow> Inl (SealCrypto (show_crypto_error e))
              | Inr (ephemeral_pub, n, ciphertext) \<Rightarrow>
                  Inr \<lparr>ss_recipient_hint = recipient_hint recipient_pub,
                       ss_ephemeral_pub = ephemeral_pub, ss_nonce = n, ss_ciphertext = ciphertext\<rparr>)))"

definition unseal_with ::
    "'c crypto_prims \<Rightarrow> status_codec \<Rightarrow> sealed_status \<Rightarrow> agent_identity
       \<Rightarrow> presence_error + load_status option" where
  "unseal_with P J self me =
     (if ss_recipient_hint self \<noteq> recipient_hint (id_public me) then Inr None
      else if length (ss_ephemeral_pub self) \<noteq> 32 then Inl (InvalidEnvelope ''ephemeral_pub != 32 bytes'')
      else if length (ss_nonce self) \<noteq> 12 then Inl (InvalidEnvelope ''nonce != 12 bytes'')
      else case unseal P me (ss_ephemeral_pub self) (ss_nonce self) (ss_ciphertext self) of
             Inl e \<Rightarrow> Inl (SealCrypto (show_crypto_error e))
           | Inr plaintext \<Rightarrow>
              (case status_from_slice J plaintext of
                 Inl e \<Rightarrow> Inl (SealCrypto (''decode: '' @ e))
               | Inr status \<Rightarrow> Inr (Some status)))"

section \<open>Announcements\<close>

record presence_announcement =
  pa_agent_id :: string
  pa_name :: string
  pa_capabilities :: "string list"
  pa_waku_topic :: string
  pa_ttl_secs :: u64
  pa_sealed_status :: "sealed_status list"
  pa_signature :: "bytes option"

text \<open>
  The parameters: the JSON text of the object with the six members of the canonical form, and
  ECDSA over secp256k1.
\<close>

record ('sk, 'vk, 'sig) signing =
  canonical_json :: "string \<Rightarrow> string list \<Rightarrow> string \<Rightarrow> sealed_status list \<Rightarrow> u64 \<Rightarrow> string \<Rightarrow> bytes"
  agent_hex_decode :: "string \<Rightarrow> string + bytes"
  vk_from_sec1 :: "bytes \<Rightarrow> string + 'vk"
  sig_from_der :: "bytes \<Rightarrow> string + 'sig"
  sig_to_der :: "'sig \<Rightarrow> bytes"
  sk_sign :: "'sk \<Rightarrow> bytes \<Rightarrow> 'sig"
  vk_verify :: "'vk \<Rightarrow> bytes \<Rightarrow> 'sig \<Rightarrow> string + unit"

text \<open>\<open>sort_by\<close> is a stable sort.\<close>

definition canonical_bytes :: "('sk, 'vk, 'sig) signing \<Rightarrow> presence_announcement \<Rightarrow> bytes" where
  "canonical_bytes S self =
     (let sealed_sorted = sort_key ss_recipient_hint (pa_sealed_status self)
      in canonical_json S (pa_agent_id self) (pa_capabilities self) (pa_name self) sealed_sorted
           (pa_ttl_secs self) (pa_waku_topic self))"

definition sign :: "('sk, 'vk, 'sig) signing \<Rightarrow> 'sk \<Rightarrow> presence_announcement \<Rightarrow> presence_announcement" where
  "sign S key self = self\<lparr>pa_signature := Some (sig_to_der S (sk_sign S key (canonical_bytes S self)))\<rparr>"

definition verify :: "('sk, 'vk, 'sig) signing \<Rightarrow> presence_announcement \<Rightarrow> presence_error + unit" where
  "verify S self =
     (case pa_signature self of
        None \<Rightarrow> Inl MissingSignature
      | Some sig_bytes \<Rightarrow>
         (case agent_hex_decode S (pa_agent_id self) of
            Inl e \<Rightarrow> Inl (InvalidHex e)
          | Inr pubkey_bytes \<Rightarrow>
             (case vk_from_sec1 S pubkey_bytes of
                Inl e \<Rightarrow> Inl (InvalidPublicKey e)
              | Inr vk \<Rightarrow>
                 (case sig_from_der S sig_bytes of
                    Inl e \<Rightarrow> Inl (InvalidSignature e)
                  | Inr sg \<Rightarrow>
                     (case vk_verify S vk (canonical_bytes S self) sg of
                        Inl e \<Rightarrow> Inl (VerificationFailed e)
                      | Inr _ \<Rightarrow> Inr ())))))"

datatype a2a_envelope =
    EnvAgentCard agent_card
  | EnvTask task
  | EnvAck string
  | EnvEncryptedTask encrypted_payload string
  | EnvPresence presence_announcement
  | EnvStreamChunk task_stream_chunk

section \<open>The peer map\<close>

record peer_info =
  pi_name :: string
  pi_capabilities :: "string list"
  pi_waku_topic :: string
  pi_ttl_secs :: u64
  pi_last_seen :: u64
  pi_load :: "load_status option"

type_synonym peer_map = "(string, peer_info) hash_map"

text \<open>\<open>is_expired\<close> is \<open>is_expired_at\<close> at the current time, an argument of every query.\<close>

definition is_expired_at :: "peer_info \<Rightarrow> u64 \<Rightarrow> bool" where
  "is_expired_at self now_secs =
     (pi_ttl_secs self = 0 \<or> pi_ttl_secs self < sat_sub now_secs (pi_last_seen self))"

definition peers_new :: peer_map where
  "peers_new = []"

definition peers_update_with_load ::
    "u64 \<Rightarrow> presence_announcement \<Rightarrow> load_status option \<Rightarrow> peer_map \<Rightarrow> peer_map" where
  "peers_update_with_load now a load self =
     hm_insert (pa_agent_id a)
       \<lparr>pi_name = pa_name a, pi_capabilities = pa_capabilities a, pi_waku_topic = pa_waku_topic a,
        pi_ttl_secs = pa_ttl_secs a, pi_last_seen = now, pi_load = load\<rparr> self"

definition peers_update :: "u64 \<Rightarrow> presence_announcement \<Rightarrow> peer_map \<Rightarrow> peer_map" where
  "peers_update now a self = peers_update_with_load now a None self"

definition peers_get :: "u64 \<Rightarrow> peer_map \<Rightarrow> string \<Rightarrow> peer_info option" where
  "peers_get now self agent_id =
     (case hm_get self agent_id of
        None \<Rightarrow> None
      | Some info \<Rightarrow> if is_expired_at info now then None else Some info)"

text \<open>\<open>it\<close> is the iteration order of the hash map.\<close>

definition peers_find_by_capability ::
    "(peer_map \<Rightarrow> (string \<times> peer_info) list) \<Rightarrow> u64 \<Rightarrow> string \<Rightarrow> peer_map \<Rightarrow> (string \<times> peer_info) list" where
  "peers_find_by_capability it now capability self =
     filter (\<lambda>(_, info). \<not> is_expired_at info now \<and> capability \<in> set (pi_capabilities info)) (it self)"

definition peers_all_live ::
    "(peer_map \<Rightarrow> (string \<times> peer_info) list) \<Rightarrow> u64 \<Rightarrow> peer_map \<Rightarrow> (string \<times> peer_info) list" where
  "peers_all_live it now self = filter (\<lambda>(_, info). \<not> is_expired_at info now) (it self)"

definition peers_len :: "peer_map \<Rightarrow> nat" where
  "peers_len self = length self"

definition peers_is_empty :: "peer_map \<Rightarrow> bool" where
  "peers_is_empty self = (self = [])"

definition peers_evict_expired :: "u64 \<Rightarrow> peer_map \<Rightarrow> nat \<times> peer_map" where
  "peers_evict_expired now self =
     (let before = length self;
          kept = hm_retain (\<lambda>_ info. \<not> is_expired_at info now) self
      in (before - length kept, kept))"

section \<open>Properties\<close>

text \<open>
  The load bucket is the documented one (full at capacity, busy from half of it, free
  below) for every queue depth below \<open>2^31\<close>.
\<close>

lemma from_load_buckets:
  assumes "unat q < 2 ^ 31"
  shows "from_load q m = (let mx = max (unat m) 1
     in if mx \<le> unat q then Full else if mx \<le> 2 * unat q then Busy else Free)"
proof -
  have m: "unat (max m 1) = max (unat m) 1"
    by (simp add: max_def word_le_nat_alt)
  have "unat (q * 2) = 2 * unat q" using assms by (simp add: unat_word_ariths)
  then show ?thesis by (simp add: from_load_def Let_def word_le_nat_alt m)
qed

lemma from_load_buckets_witness:
  "from_load 1 4 = Free \<and> from_load 2 4 = Busy \<and> from_load 4 4 = Full \<and> from_load 0 0 = Free"
  using from_load_buckets [of 1 4] from_load_buckets [of 2 4] from_load_buckets [of 4 4]
    from_load_buckets [of 0 0] by (simp add: Let_def)

text \<open>
  From \<open>2^31\<close> on the doubled queue depth wraps: a peer with \<open>2^31\<close> tasks in flight out of
  \<open>2^31 + 2\<close> reports that it is free.
\<close>

lemma from_load_wraps: "from_load (2 ^ 31) (2 ^ 31 + 2) = Free"
  by (simp add: from_load_def Let_def max_def word_le_nat_alt)

lemma seal_Inr:
  assumes "parse_public_key P h = Inr pub" and "seal P J s nonce h status = Inr env"
  obtains p e n ct where "status_to_vec J status = Inr p" "seal_for P s nonce pub p = Inr (e, n, ct)"
    "env = \<lparr>ss_recipient_hint = recipient_hint pub, ss_ephemeral_pub = e, ss_nonce = n, ss_ciphertext = ct\<rparr>"
  using assms by (auto simp: seal_def split: sum.splits)

lemma unseal_sealed:
  assumes "crypto_ok P" and "status_ok J" and "length s = 32" and "identity_wf P me"
    and "parse_public_key P h = Inr (id_public me)" and "length nonce = 12" and "seal P J s nonce h status = Inr env"
  shows "unseal_with P J env me = Inr (Some status)"
proof -
  have me: "length (id_secret me) = 32" "id_public me = x_public P (id_secret me)"
    using assms(4) by (simp_all add: identity_wf_def)
  obtain p e n ct where p: "status_to_vec J status = Inr p" and sf: "seal_for P s nonce (id_public me) p = Inr (e, n, ct)"
    and env: "env = \<lparr>ss_recipient_hint = recipient_hint (id_public me), ss_ephemeral_pub = e,
                     ss_nonce = n, ss_ciphertext = ct\<rparr>"
    using seal_Inr [OF assms(5,7)] .
  note un = unseal_seal_for [OF assms(1,3) me sf]
  have "status_from_slice J p = Inr status" using p assms(2) by (simp add: status_ok_def)
  then show ?thesis
    using un(1) crypto_okD(2) [OF assms(1)] assms(6) by (simp add: unseal_with_def env un(2,3))
qed

lemma unseal_other_hint:
  assumes "parse_public_key P h = Inr pub" and "seal P J s nonce h status = Inr env"
    and "recipient_hint (id_public other) \<noteq> recipient_hint pub"
  shows "unseal_with P J env other = Inr None"
  by (rule seal_Inr [OF assms(1,2)]) (use assms(3) in \<open>simp add: unseal_with_def\<close>)

text \<open>
  Sealed status. What is sealed for a recipient's public key is opened by that recipient to
  the same report, and any identity whose key ends differently passes over it without an error.
\<close>

lemma sealed_status_roundtrip:
  assumes "crypto_ok P" and "status_ok J" and "length s = 32" and "length secret = 32" and "length nonce = 12"
    and "me = identity_generate P secret"
    and "seal P J s nonce (public_key_hex P me) status = Inr env"
  shows "unseal_with P J env me = Inr (Some status)
    \<and> (\<forall>other. recipient_hint (id_public other) \<noteq> recipient_hint (id_public me) \<longrightarrow>
               unseal_with P J env other = Inr None)"
  using unseal_sealed [OF assms(1-3) _ parse_public_key_hex [OF assms(1)] assms(5,7)]
    unseal_other_hint [OF parse_public_key_hex [OF assms(1)] assms(7)] identity_wf_generate [OF assms(4)] assms(6)
  by auto

lemma sealed_status_roundtrip_witness:
  "let st = \<lparr>ls_bucket = Busy, ls_queue_depth = 2, ls_max_concurrent = 4, ls_avg_latency_ms = 9\<rparr>;
       J = \<lparr>status_to_vec = (\<lambda>s. if s = st then Inr [7] else Inl ''e''), status_from_slice = (\<lambda>_. Inr st)\<rparr>;
       me = identity_generate toy_prims (replicate 32 3)
   in \<exists>env. seal toy_prims J (replicate 32 5) (replicate 12 0) (public_key_hex toy_prims me) st = Inr env
        \<and> unseal_with toy_prims J env me = Inr (Some st)"
proof -
  define st where "st = \<lparr>ls_bucket = Busy, ls_queue_depth = 2, ls_max_concurrent = 4, ls_avg_latency_ms = 9\<rparr>"
  define J where "J = \<lparr>status_to_vec = (\<lambda>s. if s = st then Inr [7] else Inl ''e''), status_from_slice = (\<lambda>_. Inr st)\<rparr>"
  define me where "me = identity_generate toy_prims (replicate 32 3)"
  obtain env where env: "seal toy_prims J (replicate 32 5) (replicate 12 0) (public_key_hex toy_prims me) st = Inr env"
    by (simp add: seal_def parse_public_key_def public_key_hex_def seal_for_def encrypt_raw_def Let_def
        me_def identity_generate_def toy_prims_def J_def)
  have "status_ok J" by (simp add: status_ok_def J_def)
  with sealed_status_roundtrip [OF toy_prims_ok _ _ _ _ me_def env]
  have "unseal_with toy_prims J env me = Inr (Some st)" by simp
  with env show ?thesis unfolding Let_def me_def J_def st_def by blast
qed

lemma sort_key_mset_cong:
  assumes "mset xs = mset ys" and "distinct (map f xs)"
  shows "sort_key f xs = sort_key f ys"
proof (rule sort_key_inj_key_eq)
  show "mset xs = mset (sort_key f ys)" using assms(1) by simp
  show "inj_on f (set xs)" using assms(2) by (simp add: distinct_map)
  show "sorted (map f (sort_key f ys))" by simp
qed

text \<open>
  C32. What the signature of an announcement covers. For envelopes with distinct hints, a signed
  announcement still verifies when its envelopes arrive in another order, and no longer verifies
  when one was dropped, added or exchanged. The hypotheses are the laws of ECDSA for the
  agent's key (the signature it made is valid for that message and, from that signature, for no
  other) and that the JSON text determines the envelopes.
\<close>

theorem announcement_signature_commits:
  assumes "agent_hex_decode S (pa_agent_id a) = Inr pk" and "vk_from_sec1 S pk = Inr vk"
    and "\<forall>sg. sig_from_der S (sig_to_der S sg) = Inr sg"
    and "\<forall>m m'. (\<exists>u. vk_verify S vk m' (sk_sign S key m) = Inr u) \<longleftrightarrow> m' = m"
    and "\<forall>es es'. canonical_json S (pa_agent_id a) (pa_capabilities a) (pa_name a) es (pa_ttl_secs a) (pa_waku_topic a)
           = canonical_json S (pa_agent_id a) (pa_capabilities a) (pa_name a) es' (pa_ttl_secs a) (pa_waku_topic a)
           \<longrightarrow> es = es'"
    and "distinct (map ss_recipient_hint (pa_sealed_status a))"
  shows "verify S ((sign S key a)\<lparr>pa_sealed_status := es\<rparr>) = Inr () \<longleftrightarrow> mset es = mset (pa_sealed_status a)"
proof -
  let ?b = "(sign S key a)\<lparr>pa_sealed_status := es\<rparr>"
  have "verify S ?b = Inr () \<longleftrightarrow> (\<exists>u. vk_verify S vk (canonical_bytes S ?b) (sk_sign S key (canonical_bytes S a)) = Inr u)"
    using assms(1-3) by (auto simp: verify_def sign_def split: sum.splits)
  also have "\<dots> \<longleftrightarrow> canonical_bytes S ?b = canonical_bytes S a" using assms(4) by blast
  also have "\<dots> \<longleftrightarrow> sort_key ss_recipient_hint es = sort_key ss_recipient_hint (pa_sealed_status a)"
    using assms(5) by (auto simp: canonical_bytes_def Let_def sign_def)
  also have "\<dots> \<longleftrightarrow> mset es = mset (pa_sealed_status a)"
    using sort_key_mset_cong [OF _ assms(6)] by (metis mset_sort)
  finally show ?thesis .
qed

text \<open>An instance of the parameters: a self-delimiting text, and the message as its signature.\<close>

fun delimited :: "bytes \<Rightarrow> bytes" where
  "delimited [] = [0]"
| "delimited (b # bs) = 1 # b # delimited bs"

fun envelopes_text :: "sealed_status list \<Rightarrow> bytes" where
  "envelopes_text [] = []"
| "envelopes_text (e # es) = delimited (ss_recipient_hint e) @ delimited (ss_ephemeral_pub e)
     @ delimited (ss_nonce e) @ delimited (ss_ciphertext e) @ envelopes_text es"

lemma delimited_inj: "delimited a @ r = delimited b @ s \<Longrightarrow> a = b \<and> r = s"
proof (induction a arbitrary: b)
  case Nil
  then show ?case by (cases b) auto
next
  case (Cons x a)
  then show ?case by (cases b) auto
qed

lemma delimited_ne [simp]: "delimited b \<noteq> []" "[] \<noteq> delimited b"
  by (cases b; simp)+

lemma envelopes_text_inj: "envelopes_text es = envelopes_text es' \<Longrightarrow> es = es'"
proof (induction es arbitrary: es')
  case Nil
  then show ?case by (cases es') auto
next
  case (Cons e es)
  then obtain e' es2 where "es' = e' # es2" by (cases es') auto
  with Cons show ?case by (auto dest!: delimited_inj)
qed

definition example_signing :: "(unit, unit, bytes) signing" where
  "example_signing = \<lparr>canonical_json = (\<lambda>_ _ _ es _ _. envelopes_text es),
     agent_hex_decode = (\<lambda>_. Inr []), vk_from_sec1 = (\<lambda>_. Inr ()), sig_from_der = Inr,
     sig_to_der = (\<lambda>s. s), sk_sign = (\<lambda>_ m. m),
     vk_verify = (\<lambda>_ m s. if s = m then Inr () else Inl ''bad'')\<rparr>"

definition example_announcement :: presence_announcement where
  "example_announcement = \<lparr>pa_agent_id = ''02ab'', pa_name = ''echo'', pa_capabilities = [''echo''],
     pa_waku_topic = task_topic ''02ab'', pa_ttl_secs = 60, pa_sealed_status = [], pa_signature = None\<rparr>"

theorem announcement_signature_commits_witness:
  "let e1 = \<lparr>ss_recipient_hint = [1], ss_ephemeral_pub = [], ss_nonce = [], ss_ciphertext = [8]\<rparr>;
       e2 = \<lparr>ss_recipient_hint = [2], ss_ephemeral_pub = [], ss_nonce = [], ss_ciphertext = [9]\<rparr>;
       a = example_announcement\<lparr>pa_sealed_status := [e2, e1]\<rparr>
   in verify example_signing ((sign example_signing () a)\<lparr>pa_sealed_status := [e1, e2]\<rparr>) = Inr ()
      \<and> verify example_signing ((sign example_signing () a)\<lparr>pa_sealed_status := [e1]\<rparr>) \<noteq> Inr ()"
proof -
  define e1 e2 where "e1 = \<lparr>ss_recipient_hint = [1], ss_ephemeral_pub = [], ss_nonce = [], ss_ciphertext = [8]\<rparr>"
    and "e2 = \<lparr>ss_recipient_hint = [2], ss_ephemeral_pub = [], ss_nonce = [], ss_ciphertext = [9]\<rparr>"
  define a where "a = example_announcement\<lparr>pa_sealed_status := [e2, e1]\<rparr>"
  have "verify example_signing ((sign example_signing () a)\<lparr>pa_sealed_status := es\<rparr>) = Inr ()
      \<longleftrightarrow> mset es = mset [e2, e1]" for es
    using announcement_signature_commits [of example_signing a "[]" "()" "()" es]
    by (simp add: example_signing_def a_def e1_def e2_def envelopes_text_inj)
  from this [of "[e1, e2]"] this [of "[e1]"]
  show ?thesis by (simp add: Let_def a_def e1_def e2_def add_mset_commute)
qed

section \<open>Properties of the peer map\<close>

lemma sat_sub_mono: "a \<le> b \<Longrightarrow> sat_sub a c \<le> sat_sub b (c :: 'a::len word)"
  by (simp add: word_le_nat_alt unat_sat_sub)

lemma expired_stays: "is_expired_at info now \<Longrightarrow> now \<le> later \<Longrightarrow> is_expired_at info later"
  using sat_sub_mono [of now later "pi_last_seen info"]
  by (auto simp: is_expired_at_def)

lemma hm_get_retain:
  "hm_wf m \<Longrightarrow> hm_get (hm_retain P m) k = (case hm_get m k of Some v \<Rightarrow> if P k v then Some v else None | None \<Rightarrow> None)"
  by (induction m) (auto simp: hm_get_def hm_retain_def hm_wf_def map_of_eq_None_iff image_iff split: option.splits)

text \<open>
  Visibility of a peer. After an announcement received at time \<open>t\<close> the peer is returned by
  a query at time \<open>now\<close> exactly when its time to live is not zero and not exceeded; the
  announcement replaces what was known of that peer and affects no other.
\<close>

lemma peer_visible_within_ttl:
  assumes "hm_wf self"
  shows "peers_get now (peers_update_with_load t a load self) k =
    (if k = pa_agent_id a
     then if pa_ttl_secs a \<noteq> 0 \<and> unat now - unat t \<le> unat (pa_ttl_secs a)
          then Some \<lparr>pi_name = pa_name a, pi_capabilities = pa_capabilities a, pi_waku_topic = pa_waku_topic a,
                     pi_ttl_secs = pa_ttl_secs a, pi_last_seen = t, pi_load = load\<rparr>
          else None
     else peers_get now self k)"
  using assms
  by (simp add: peers_get_def peers_update_with_load_def hm.get_ins is_expired_at_def
      word_less_nat_alt unat_sat_sub not_less)

lemma peer_visible_within_ttl_witness:
  "let m = peers_update_with_load 1000 example_announcement None peers_new
   in peers_get 1060 m ''02ab'' \<noteq> None \<and> peers_get 1061 m ''02ab'' = None"
  using peer_visible_within_ttl [of peers_new 1060 1000 example_announcement None "''02ab''"]
    peer_visible_within_ttl [of peers_new 1061 1000 example_announcement None "''02ab''"]
  by (simp add: peers_new_def example_announcement_def)

text \<open>
  Eviction is not observable. It returns the number of entries it removed, keeps exactly
  the live ones, and no query for a peer, then or at any later time, gives another answer.
\<close>

lemma evict_expired_unobservable:
  assumes "hm_wf self" and "hash_iter it" and "peers_evict_expired now self = (n, self')"
  shows "n + peers_len self' = peers_len self \<and> hm_wf self'
    \<and> set self' = set (peers_all_live it now self)
    \<and> (\<forall>later k. now \<le> later \<longrightarrow> peers_get later self' k = peers_get later self k)"
proof -
  have self': "self' = hm_retain (\<lambda>_ info. \<not> is_expired_at info now) self" "n = length self - length self'"
    using assms(3) by (auto simp: peers_evict_expired_def Let_def)
  have "length self' \<le> length self" by (simp add: self'(1) hm_retain_def)
  moreover have "set self' = set (peers_all_live it now self)"
    using hash_iter_set [OF assms(2), of self] by (auto simp: self'(1) hm_retain_def peers_all_live_def)
  moreover have "peers_get later self' k = peers_get later self k" if "now \<le> later" for later k
    using expired_stays [OF _ that]
    by (auto simp: peers_get_def self'(1) hm_get_retain [OF assms(1)] split: option.splits)
  ultimately show ?thesis
    using assms(1) by (simp add: self' peers_len_def hm_wf_retain)
qed

lemma evict_expired_unobservable_witness:
  "let m = peers_update_with_load 1000 example_announcement None peers_new
   in \<exists>n m'. peers_evict_expired 2000 m = (n, m') \<and> n + peers_len m' = 1"
proof -
  let ?m = "peers_update_with_load 1000 example_announcement None peers_new"
  have "hm_wf ?m" "peers_len ?m = 1"
    by (simp_all add: peers_update_with_load_def peers_new_def peers_len_def hm_insert_def hm_wf_def)
  then show ?thesis
    using evict_expired_unobservable [OF _ hash_iter_id prod.collapse [symmetric], of ?m 2000]
    unfolding Let_def by (metis prod.collapse)
qed

end
