(* ===== verification/Trust.thy ===== *)
theory Trust
  imports Prelude
begin

text \<open>
  The friend-keyring trust list (\<open>crates/logos-messaging-a2a-core/src/trust.rs\<close>). The TOML codec
  and the file system are parameters. A path is the list of its components, the root directory
  being the component \<open>''/''\<close>; a \<open>SystemTime\<close> is a number.
\<close>

section \<open>Data\<close>

datatype trust_mode = Off | Enforce | Log

record trust_entry =
  te_pubkey :: string
  te_nickname :: string
  te_capabilities :: "string list"
  te_notes :: "string option"
  te_encryption_pubkey :: "string option"
  te_added_at :: nat

record trust_file =
  tf_mode :: trust_mode
  tf_peers :: "trust_entry list"

record trust_list =
  tl_mode :: trust_mode
  tl_entries :: "(string, trust_entry) btree_map"

type_synonym path = "string list"

datatype trust_error =
    TrustIo path string
  | TrustParse path string
  | TrustSerialize string
  | DuplicatePubkey string

text \<open>\<open>Path::display\<close> and the texts of the errors.\<close>

definition show_path :: "path \<Rightarrow> string" where
  "show_path p = (case p of
     (''/'') # rest \<Rightarrow> CHR ''/'' # concat (case rest of [] \<Rightarrow> [] | c # cs \<Rightarrow> c # map (\<lambda>x. CHR ''/'' # x) cs)
   | [] \<Rightarrow> []
   | c # cs \<Rightarrow> c @ concat (map (\<lambda>x. CHR ''/'' # x) cs))"

fun show_trust_error :: "trust_error \<Rightarrow> string" where
  "show_trust_error (TrustIo p e) = ''io error reading trust file '' @ show_path p @ '': '' @ e"
| "show_trust_error (TrustParse p e) = ''parse error in trust file '' @ show_path p @ '': '' @ e"
| "show_trust_error (TrustSerialize e) = ''serialize error: '' @ e"
| "show_trust_error (DuplicatePubkey k) = ''duplicate pubkey: '' @ k"

text \<open>The parameters: \<open>toml::from_str\<close>, \<open>toml::to_string_pretty\<close>, and a file system.\<close>

record toml_codec =
  toml_from_str :: "string \<Rightarrow> string + trust_file"
  toml_to_string_pretty :: "trust_file \<Rightarrow> string + string"

datatype read_result = ReadOk string | ReadNotFound string | ReadFailed string

record 'fs file_system =
  fs_read_to_string :: "'fs \<Rightarrow> path \<Rightarrow> read_result"
  fs_create_dir_all :: "'fs \<Rightarrow> path \<Rightarrow> (string + unit) \<times> 'fs"
  fs_write :: "'fs \<Rightarrow> path \<Rightarrow> string \<Rightarrow> (string + unit) \<times> 'fs"
  fs_set_permissions_0600 :: "'fs \<Rightarrow> path \<Rightarrow> (string + unit) \<times> 'fs"

section \<open>Construction and files\<close>

definition trust_empty :: trust_list where
  "trust_empty = \<lparr>tl_mode = Off, tl_entries = []\<rparr>"

definition with_mode :: "trust_mode \<Rightarrow> trust_list" where
  "with_mode m = \<lparr>tl_mode = m, tl_entries = []\<rparr>"

definition set_mode :: "trust_mode \<Rightarrow> trust_list \<Rightarrow> trust_list" where
  "set_mode m self = self\<lparr>tl_mode := m\<rparr>"

definition from_toml_str :: "toml_codec \<Rightarrow> string \<Rightarrow> string + trust_list" where
  "from_toml_str C text =
     (case toml_from_str C text of
        Inl e \<Rightarrow> Inl e
      | Inr file \<Rightarrow>
          Inr \<lparr>tl_mode = tf_mode file,
               tl_entries = fold (\<lambda>entry m. bt_insert (te_pubkey entry) entry m) (tf_peers file) []\<rparr>)"

definition to_toml_string :: "toml_codec \<Rightarrow> trust_list \<Rightarrow> string + string" where
  "to_toml_string C self =
     toml_to_string_pretty C \<lparr>tf_mode = tl_mode self, tf_peers = map snd (tl_entries self)\<rparr>"

definition load_from :: "toml_codec \<Rightarrow> 'fs file_system \<Rightarrow> 'fs \<Rightarrow> path \<Rightarrow> trust_error + trust_list" where
  "load_from C F fs p =
     (case fs_read_to_string F fs p of
        ReadOk text \<Rightarrow>
          (case from_toml_str C text of Inl e \<Rightarrow> Inl (TrustParse p e) | Inr self \<Rightarrow> Inr self)
      | ReadNotFound _ \<Rightarrow> Inr trust_empty
      | ReadFailed e \<Rightarrow> Inl (TrustIo p e))"

definition path_parent :: "path \<Rightarrow> path option" where
  "path_parent p = (if p = [] \<or> p = [''/''] then None else Some (butlast p))"

definition save_to ::
    "toml_codec \<Rightarrow> 'fs file_system \<Rightarrow> path \<Rightarrow> trust_list \<Rightarrow> 'fs \<Rightarrow> (trust_error + unit) \<times> 'fs" where
  "save_to C F p self fs =
     (let made = (case path_parent p of
                    Some parent \<Rightarrow>
                      if parent \<noteq> [] then
                        (case fs_create_dir_all F fs parent of
                           (Inl e, fs1) \<Rightarrow> (Inl (TrustIo parent e), fs1)
                         | (Inr _, fs1) \<Rightarrow> (Inr (), fs1))
                      else (Inr (), fs)
                  | None \<Rightarrow> (Inr (), fs))
      in case made of
           (Inl e, fs1) \<Rightarrow> (Inl e, fs1)
         | (Inr _, fs1) \<Rightarrow>
            (case to_toml_string C self of
               Inl e \<Rightarrow> (Inl (TrustSerialize e), fs1)
             | Inr text \<Rightarrow>
                (case fs_write F fs1 p text of
                   (Inl e, fs2) \<Rightarrow> (Inl (TrustIo p e), fs2)
                 | (Inr _, fs2) \<Rightarrow> (let (_, fs3) = fs_set_permissions_0600 F fs2 p in (Inr (), fs3)))))"

text \<open>The arguments are the variables \<open>XDG_CONFIG_HOME\<close> and \<open>HOME\<close>.\<close>

definition default_path :: "path option \<Rightarrow> path option \<Rightarrow> path" where
  "default_path xdg home =
     (case xdg of
        Some d \<Rightarrow> d @ [''lmao'', ''trust.toml'']
      | None \<Rightarrow>
         (case home of
            Some h \<Rightarrow> h @ [''.config'', ''lmao'', ''trust.toml'']
          | None \<Rightarrow> [''trust.toml'']))"

section \<open>Queries and updates\<close>

definition is_trusted :: "trust_list \<Rightarrow> string \<Rightarrow> bool" where
  "is_trusted self pubkey = (if tl_mode self = Off then True else bt_contains (tl_entries self) pubkey)"

definition is_trusted_for :: "trust_list \<Rightarrow> string \<Rightarrow> string \<Rightarrow> bool" where
  "is_trusted_for self pubkey capability =
     (if tl_mode self = Off then True
      else case bt_get (tl_entries self) pubkey of
             None \<Rightarrow> False
           | Some entry \<Rightarrow>
               te_capabilities entry = [] \<or> list_ex (\<lambda>c. c = capability) (te_capabilities entry))"

definition trust_add :: "trust_entry \<Rightarrow> trust_list \<Rightarrow> trust_list" where
  "trust_add entry self = self\<lparr>tl_entries := bt_insert (te_pubkey entry) entry (tl_entries self)\<rparr>"

definition add_unique :: "trust_entry \<Rightarrow> trust_list \<Rightarrow> (trust_error + unit) \<times> trust_list" where
  "add_unique entry self =
     (if bt_contains (tl_entries self) (te_pubkey entry)
      then (Inl (DuplicatePubkey (te_pubkey entry)), self)
      else (Inr (), self\<lparr>tl_entries := bt_insert (te_pubkey entry) entry (tl_entries self)\<rparr>))"

definition trust_remove :: "string \<Rightarrow> trust_list \<Rightarrow> trust_entry option \<times> trust_list" where
  "trust_remove pubkey self =
     (bt_get (tl_entries self) pubkey, self\<lparr>tl_entries := bt_remove pubkey (tl_entries self)\<rparr>)"

definition remove_by_nickname :: "string \<Rightarrow> trust_list \<Rightarrow> trust_entry option \<times> trust_list" where
  "remove_by_nickname nickname self =
     (case find (\<lambda>(_, e). te_nickname e = nickname) (tl_entries self) of
        None \<Rightarrow> (None, self)
      | Some (pubkey, _) \<Rightarrow>
          (bt_get (tl_entries self) pubkey, self\<lparr>tl_entries := bt_remove pubkey (tl_entries self)\<rparr>))"

definition trust_iter :: "trust_list \<Rightarrow> trust_entry list" where
  "trust_iter self = map snd (tl_entries self)"

definition trust_len :: "trust_list \<Rightarrow> nat" where
  "trust_len self = length (tl_entries self)"

definition trust_is_empty :: "trust_list \<Rightarrow> bool" where
  "trust_is_empty self = (tl_entries self = [])"

definition trust_merge :: "trust_list \<Rightarrow> trust_list \<Rightarrow> nat \<times> trust_list" where
  "trust_merge other self =
     (let (m, added) =
            fold (\<lambda>entry (m, added).
                    if \<not> bt_contains m (te_pubkey entry)
                    then (bt_insert (te_pubkey entry) entry m, Suc added) else (m, added))
              (map snd (tl_entries other)) (tl_entries self, 0)
      in (added, self\<lparr>tl_entries := m\<rparr>))"

section \<open>Invariant\<close>

text \<open>The entry map is in key order and each entry is stored under its own public key.\<close>

definition trust_wf :: "trust_list \<Rightarrow> bool" where
  "trust_wf self \<longleftrightarrow> bt_wf (tl_entries self) \<and> list_all (\<lambda>(k, e). k = te_pubkey e) (tl_entries self)"

inductive trust_step :: "toml_codec \<Rightarrow> trust_list \<Rightarrow> trust_list \<Rightarrow> bool" for C where
  "trust_step C self (set_mode m self)"
| "trust_step C self (trust_add entry self)"
| "trust_step C self (snd (add_unique entry self))"
| "trust_step C self (snd (trust_remove pubkey self))"
| "trust_step C self (snd (remove_by_nickname nickname self))"
| "from_toml_str C text = Inr other \<Longrightarrow> trust_step C self (snd (trust_merge other self))"

lemma bt_insert_set: "set (bt_insert k v m) \<subseteq> insert (k, v) (set m)"
  by (induction k v m rule: bt_insert.induct) auto

lemma bt_contains_get: "bt_contains m k \<longleftrightarrow> bt_get m k \<noteq> None"
  by (simp add: bt_contains_def bt_get_def)

lemma wf_insert:
  "trust_wf self \<Longrightarrow> trust_wf (self\<lparr>tl_entries := bt_insert (te_pubkey e) e (tl_entries self)\<rparr>)"
  using bt_insert_set [of "te_pubkey e" e "tl_entries self"]
  by (auto simp: trust_wf_def bt_wf_insert list_all_iff)

lemma wf_remove: "trust_wf self \<Longrightarrow> trust_wf (self\<lparr>tl_entries := bt_remove k (tl_entries self)\<rparr>)"
  by (auto simp: trust_wf_def bt_wf_remove) (auto simp: bt_remove_def list_all_iff)

text \<open>\<open>merge\<close> is the insertion of the absent keys of the keyed-store interface.\<close>

lemma merge_as_ins_absent:
  assumes "trust_wf other"
  shows "fold (\<lambda>entry (m, added). if \<not> bt_contains m (te_pubkey entry)
            then (bt_insert (te_pubkey entry) entry m, Suc added) else (m, added))
          (map snd (tl_entries other)) mn
       = fold (\<lambda>(k, v) (m, n). if bt_get m k = None then (bt_insert k v m, Suc n) else (m, n))
           (tl_entries other) mn"
proof -
  have "list_all (\<lambda>(k, e). k = te_pubkey e) kvs \<Longrightarrow>
      fold (\<lambda>entry (m, added). if \<not> bt_contains m (te_pubkey entry)
            then (bt_insert (te_pubkey entry) entry m, Suc added) else (m, added)) (map snd kvs) mn
       = fold (\<lambda>(k, v) (m, n). if bt_get m k = None then (bt_insert k v m, Suc n) else (m, n)) kvs mn"
    for kvs by (induction kvs arbitrary: mn) (auto simp: bt_contains_get split_beta)
  then show ?thesis using assms by (simp add: trust_wf_def)
qed

lemma from_toml_wf: "from_toml_str C text = Inr self \<Longrightarrow> trust_wf self"
proof -
  have "trust_wf self0 \<Longrightarrow> trust_wf (self0\<lparr>tl_entries :=
      fold (\<lambda>entry m. bt_insert (te_pubkey entry) entry m) es (tl_entries self0)\<rparr>)" for self0 es
  proof (induction es arbitrary: self0)
    case (Cons e es)
    from Cons.IH [OF wf_insert [OF Cons.prems, of e]] show ?case by simp
  qed simp
  from this [of "\<lparr>tl_mode = m, tl_entries = []\<rparr>" for m]
  show "from_toml_str C text = Inr self \<Longrightarrow> trust_wf self"
    by (auto simp: from_toml_str_def trust_wf_def split: sum.splits)
qed

lemma merge_spec:
  assumes "trust_wf self" and "trust_wf other" and "trust_merge other self = (n, self')"
  shows "trust_wf self'" and "tl_mode self' = tl_mode self"
    and "bt_get (tl_entries self') k =
           (case bt_get (tl_entries self) k of Some e \<Rightarrow> Some e | None \<Rightarrow> bt_get (tl_entries other) k)"
    and "trust_len self' = trust_len self + n"
proof -
  obtain m where m: "fold (\<lambda>(k, v) (m, n). if bt_get m k = None then (bt_insert k v m, Suc n) else (m, n))
      (tl_entries other) (tl_entries self, 0) = (m, n)" and self': "self' = self\<lparr>tl_entries := m\<rparr>"
    using assms(3) by (auto simp: trust_merge_def merge_as_ins_absent [OF assms(2)] split: prod.splits)
  have d: "bt_wf (tl_entries self)" "distinct (map fst (tl_entries other))"
    using assms(1,2) by (simp_all add: trust_wf_def bt_wf_distinct)
  note spec = bt.ins_absent_all [OF d m]
  show "tl_mode self' = tl_mode self" by (simp add: self')
  show get: "bt_get (tl_entries self') k =
      (case bt_get (tl_entries self) k of Some e \<Rightarrow> Some e | None \<Rightarrow> bt_get (tl_entries other) k)" for k
    using spec(2) [of k] by (simp add: self' bt_get_def split: option.split)
  show "trust_len self' = trust_len self + n"
    using spec(4) by (simp add: self' trust_len_def)
  have "k' = te_pubkey e" if "(k', e) \<in> set m" for k' e
  proof -
    have "bt_get m k' = Some e" using that bt_wf_distinct [OF spec(1)] by (simp add: bt_get_def)
    then have "(k', e) \<in> set (tl_entries self) \<or> (k', e) \<in> set (tl_entries other)"
      using get [of k'] by (auto simp: self' bt_get_def dest!: map_of_SomeD sym [of "Some e"] split: option.splits)
    then show ?thesis using assms(1,2) by (auto simp: trust_wf_def list_all_iff)
  qed
  then show "trust_wf self'" using spec(1) by (auto simp: trust_wf_def self' list_all_iff)
qed

lemma trust_step_wf: "trust_step C self self' \<Longrightarrow> trust_wf self \<Longrightarrow> trust_wf self'"
proof (induction rule: trust_step.induct)
  case (6 t other self)
  then show ?case using merge_spec(1) [OF _ from_toml_wf] by (metis surjective_pairing)
next
  case (1 self m)
  then show ?case by (simp add: set_mode_def trust_wf_def)
qed (auto simp: trust_add_def add_unique_def trust_remove_def remove_by_nickname_def
       wf_insert wf_remove split: option.split)

lemma wf_empty: "trust_wf trust_empty" "trust_wf (with_mode m)"
  by (simp_all add: trust_empty_def with_mode_def trust_wf_def)

interpretation trust: step_system
  "\<lambda>self. self = trust_empty \<or> (\<exists>m. self = with_mode m) \<or> (\<exists>text. from_toml_str C text = Inr self)"
  "trust_step C" trust_wf for C
  by unfold_locales
     (auto simp: wf_empty intro: from_toml_wf trust_step_wf)

section \<open>Properties\<close>

text \<open>The codec reads back what it wrote.\<close>

definition toml_ok :: "toml_codec \<Rightarrow> bool" where
  "toml_ok C \<longleftrightarrow> (\<forall>file text. toml_to_string_pretty C file = Inr text \<longrightarrow> toml_from_str C text = Inr file)"

lemma insert_at_end:
  "bt_wf (m @ [(k, v)]) \<Longrightarrow> bt_insert k v m = m @ [(k, v)]"
proof (induction m)
  case (Cons kv m)
  obtain k' v' where "kv = (k', v')" by fastforce
  moreover have "k' < k" using Cons.prems calculation by (simp add: bt_wf_def)
  moreover have "bt_wf (m @ [(k, v)])" using Cons.prems by (simp add: bt_wf_def)
  ultimately show ?case using Cons.IH by auto
qed simp

lemma rebuild_entries:
  "bt_wf m \<Longrightarrow> list_all (\<lambda>(k, e). k = te_pubkey e) m \<Longrightarrow>
     fold (\<lambda>e m. bt_insert (te_pubkey e) e m) (map snd m) [] = m"
proof (induction m rule: rev_induct)
  case (snoc kv m)
  obtain k v where kv: "kv = (k, v)" by fastforce
  have "bt_wf m" using snoc.prems(1) by (simp add: bt_wf_def sorted_wrt_append)
  then show ?case using snoc kv insert_at_end [of m k v] by simp
qed simp

lemma toml_reload:
  assumes "toml_ok C" and "trust_wf self" and "to_toml_string C self = Inr text"
  shows "from_toml_str C text = Inr self"
proof -
  have "fold (\<lambda>e m. bt_insert (te_pubkey e) e m) (map snd (tl_entries self)) [] = tl_entries self"
    using assms(2) by (simp add: trust_wf_def rebuild_entries)
  then show ?thesis
    using assms(1,3) by (simp add: to_toml_string_def from_toml_str_def toml_ok_def)
qed

text \<open>
  Saving and loading. In every trust list the operations reach, the text that is written
  for it is read back as the same list: same mode, same entries, same order.
\<close>

lemma trust_toml_roundtrip:
  assumes "toml_ok C" and "rtranclp (trust_step C) (with_mode m) self"
    and "to_toml_string C self = Inr text"
  shows "from_toml_str C text = Inr self"
  using toml_reload [OF assms(1) _ assms(3)] trust.reachable_inv [of "with_mode m" C self] assms(2) by blast

definition example_entry :: trust_entry where
  "example_entry = \<lparr>te_pubkey = ''02ab'', te_nickname = ''alice'', te_capabilities = [''echo''],
     te_notes = None, te_encryption_pubkey = None, te_added_at = 5\<rparr>"

definition example_codec :: toml_codec where
  "example_codec =
     (let file = \<lparr>tf_mode = Enforce, tf_peers = [example_entry]\<rparr>
      in \<lparr>toml_from_str = (\<lambda>t. if t = ''f'' then Inr file else Inl ''parse''),
          toml_to_string_pretty = (\<lambda>f. if f = file then Inr ''f'' else Inl ''write'')\<rparr>)"

lemma trust_toml_roundtrip_witness:
  "let self = trust_add example_entry (with_mode Enforce)
   in to_toml_string example_codec self = Inr ''f'' \<and> from_toml_str example_codec ''f'' = Inr self"
proof -
  let ?self = "trust_add example_entry (with_mode Enforce)"
  have "to_toml_string example_codec ?self = Inr ''f''"
    by (simp add: to_toml_string_def trust_add_def with_mode_def example_codec_def Let_def)
  moreover have "toml_ok example_codec" by (auto simp: toml_ok_def example_codec_def Let_def)
  moreover have "rtranclp (trust_step example_codec) (with_mode Enforce) ?self"
    by (intro r_into_rtranclp trust_step.intros)
  ultimately show ?thesis using trust_toml_roundtrip by (simp add: Let_def)
qed

text \<open>
  What merging an imported list does to trust: existing entries decide as before, new
  public keys are trusted as the imported entry says, the mode stays, and the number returned is
  the growth of the list.
\<close>

lemma trust_merge_preserves_existing:
  assumes "trust_wf self" and "trust_wf other" and "trust_merge other self = (n, self')"
  shows "trust_wf self' \<and> tl_mode self' = tl_mode self \<and> trust_len self' = trust_len self + n
    \<and> (\<forall>k c. is_trusted self k \<longrightarrow> is_trusted_for self' k c = is_trusted_for self k c)
    \<and> (\<forall>k c. \<not> is_trusted self k \<longrightarrow>
          is_trusted_for self' k c = is_trusted_for (set_mode (tl_mode self) other) k c)"
proof -
  note spec = merge_spec [OF assms]
  show ?thesis
    using spec(1,2,4) by (auto simp: is_trusted_def is_trusted_for_def set_mode_def
        bt_contains_get spec(3) split: option.splits if_splits)
qed

lemma trust_merge_preserves_existing_witness:
  "let self = with_mode Enforce; other = trust_add example_entry (with_mode Off);
       (n, self') = trust_merge other self
   in trust_len self' = n \<and> is_trusted_for self' ''02ab'' ''echo'' \<and> \<not> is_trusted_for self' ''02ab'' ''pay''"
proof -
  let ?self = "with_mode Enforce" and ?other = "trust_add example_entry (with_mode Off)"
  have wf: "trust_wf ?self" "trust_wf ?other"
    by (simp_all add: wf_empty) (simp add: trust_add_def wf_insert wf_empty)
  have "\<not> is_trusted ?self ''02ab''" "trust_len ?self = 0"
    "is_trusted_for (set_mode (tl_mode ?self) ?other) ''02ab'' ''echo''"
    "\<not> is_trusted_for (set_mode (tl_mode ?self) ?other) ''02ab'' ''pay''"
    by (simp_all add: is_trusted_def with_mode_def bt_contains_def trust_len_def is_trusted_for_def
        set_mode_def trust_add_def example_entry_def bt_get_def)
  then show ?thesis
    using trust_merge_preserves_existing [OF wf prod.collapse [symmetric]]
    by (simp add: case_prod_beta Let_def)
qed

text \<open>
  Revocation by nickname. Without an entry of that nickname nothing changes; otherwise one
  entry with the nickname is removed and returned, its public key is no longer trusted, and the
  trust in every other key is as before.
\<close>

lemma remove_by_nickname_revokes:
  assumes "trust_wf self" and "tl_mode self \<noteq> Off"
  shows "case remove_by_nickname nickname self of
      (None, self') \<Rightarrow> self' = self \<and> (\<forall>e \<in> set (trust_iter self). te_nickname e \<noteq> nickname)
    | (Some e, self') \<Rightarrow> e \<in> set (trust_iter self) \<and> te_nickname e = nickname \<and> trust_wf self'
        \<and> (\<forall>k. is_trusted self' k \<longleftrightarrow> is_trusted self k \<and> k \<noteq> te_pubkey e)"
proof (cases "find (\<lambda>(_, e). te_nickname e = nickname) (tl_entries self)")
  case None
  moreover have "\<forall>e \<in> set (trust_iter self). te_nickname e \<noteq> nickname"
    using None unfolding find_None_iff trust_iter_def by auto blast
  ultimately show ?thesis by (simp add: remove_by_nickname_def)
next
  case (Some kv)
  obtain k e where kv: "kv = (k, e)" by fastforce
  have e: "(k, e) \<in> set (tl_entries self)" "te_nickname e = nickname"
    using Some kv by (auto simp: find_Some_iff) (metis nth_mem)
  then have "k = te_pubkey e" "bt_get (tl_entries self) k = Some e"
    using assms(1) by (auto simp: trust_wf_def list_all_iff bt_get_def bt_wf_distinct)
  moreover have "trust_wf (self\<lparr>tl_entries := bt_remove k (tl_entries self)\<rparr>)"
    using assms(1) by (rule wf_remove)
  ultimately show ?thesis
    using Some kv e assms
    by (auto simp: remove_by_nickname_def trust_iter_def is_trusted_def bt_contains_get bt_get_remove
        intro: rev_image_eqI)
qed

lemma remove_by_nickname_revokes_witness:
  "case remove_by_nickname ''alice'' (trust_add example_entry (with_mode Enforce)) of
     (None, _) \<Rightarrow> False
   | (Some e, self') \<Rightarrow> te_pubkey e = ''02ab'' \<and> \<not> is_trusted self' ''02ab''"
proof -
  let ?self = "trust_add example_entry (with_mode Enforce)"
  have "trust_wf ?self" "tl_mode ?self \<noteq> Off" "trust_iter ?self = [example_entry]"
    by (simp_all add: trust_add_def wf_insert wf_empty) (simp_all add: with_mode_def trust_iter_def)
  moreover have "te_pubkey example_entry = ''02ab''" "te_nickname example_entry = ''alice''"
    by (simp_all add: example_entry_def)
  ultimately show ?thesis
    using remove_by_nickname_revokes [of ?self "''alice''"]
    by (auto split: prod.splits option.splits)
qed

end
