(* ===== verification/Registry.thy ===== *)
theory Registry
  imports Tasks
begin

text \<open>
  The persistent agent registry (\<open>crates/logos-messaging-a2a-core/src/registry.rs\<close>): the trait
  \<open>AgentRegistry\<close> as a locale with what its documentation promises, and the in-memory
  implementation that provides it.
\<close>

datatype registry_error =
    NotFound string
  | Unauthorized string
  | AlreadyRegistered string
  | Backend string

fun show_registry_error :: "registry_error \<Rightarrow> string" where
  "show_registry_error (NotFound key) = ''agent not found: '' @ key"
| "show_registry_error (Unauthorized m) = ''unauthorized: '' @ m"
| "show_registry_error (AlreadyRegistered key) = ''agent already registered: '' @ key"
| "show_registry_error (Backend m) = ''registry backend error: '' @ m"

text \<open>The trait as a record of operations on a registry state, the form in which a node holds it.\<close>

record 'rg agent_registry =
  rg_register :: "agent_card \<Rightarrow> 'rg \<Rightarrow> (registry_error + unit) \<times> 'rg"
  rg_update :: "agent_card \<Rightarrow> 'rg \<Rightarrow> (registry_error + unit) \<times> 'rg"
  rg_deregister :: "string \<Rightarrow> 'rg \<Rightarrow> (registry_error + unit) \<times> 'rg"
  rg_get :: "string \<Rightarrow> 'rg \<Rightarrow> registry_error + agent_card"
  rg_list :: "'rg \<Rightarrow> registry_error + agent_card list"
  rg_find_by_capability :: "string \<Rightarrow> 'rg \<Rightarrow> registry_error + agent_card list"

section \<open>The in-memory registry\<close>

type_synonym mem_registry = "(string, agent_card) hash_map"

definition mem_register :: "agent_card \<Rightarrow> mem_registry \<Rightarrow> (registry_error + unit) \<times> mem_registry" where
  "mem_register c agents =
     (if hm_contains agents (card_public_key c)
      then (Inl (AlreadyRegistered (card_public_key c)), agents)
      else (Inr (), hm_insert (card_public_key c) c agents))"

definition mem_update :: "agent_card \<Rightarrow> mem_registry \<Rightarrow> (registry_error + unit) \<times> mem_registry" where
  "mem_update c agents =
     (if \<not> hm_contains agents (card_public_key c)
      then (Inl (NotFound (card_public_key c)), agents)
      else (Inr (), hm_insert (card_public_key c) c agents))"

definition mem_deregister :: "string \<Rightarrow> mem_registry \<Rightarrow> (registry_error + unit) \<times> mem_registry" where
  "mem_deregister public_key agents =
     (case hm_get agents public_key of
        None \<Rightarrow> (Inl (NotFound public_key), hm_remove public_key agents)
      | Some _ \<Rightarrow> (Inr (), hm_remove public_key agents))"

definition mem_get :: "string \<Rightarrow> mem_registry \<Rightarrow> registry_error + agent_card" where
  "mem_get public_key agents =
     (case hm_get agents public_key of None \<Rightarrow> Inl (NotFound public_key) | Some c \<Rightarrow> Inr c)"

text \<open>\<open>it\<close> is the iteration order of the hash map.\<close>

definition mem_list ::
    "(mem_registry \<Rightarrow> (string \<times> agent_card) list) \<Rightarrow> mem_registry \<Rightarrow> registry_error + agent_card list" where
  "mem_list it agents = Inr (map snd (it agents))"

definition mem_find_by_capability ::
    "(mem_registry \<Rightarrow> (string \<times> agent_card) list) \<Rightarrow> string \<Rightarrow> mem_registry
       \<Rightarrow> registry_error + agent_card list" where
  "mem_find_by_capability it capability agents =
     Inr (filter (\<lambda>c. list_ex (\<lambda>cap. cap = capability) (card_capabilities c)) (map snd (it agents)))"

definition in_memory_registry ::
    "(mem_registry \<Rightarrow> (string \<times> agent_card) list) \<Rightarrow> mem_registry agent_registry" where
  "in_memory_registry it = \<lparr>rg_register = mem_register, rg_update = mem_update,
     rg_deregister = mem_deregister, rg_get = mem_get, rg_list = mem_list it,
     rg_find_by_capability = mem_find_by_capability it\<rparr>"

definition mem_wf :: "mem_registry \<Rightarrow> bool" where
  "mem_wf agents \<longleftrightarrow> hm_wf agents \<and> list_all (\<lambda>(k, c). k = card_public_key c) agents"

section \<open>The contract\<close>

text \<open>
  What a client of the registry relies on: registration fails exactly for a known key, update and
  removal exactly for an unknown one, an error changes nothing a lookup sees, and a listing has
  each registered card once. \<open>mem r k\<close> is the card stored for \<open>k\<close>.
\<close>

locale registry =
  fixes R :: "'rg agent_registry"
    and inv :: "'rg \<Rightarrow> bool"
    and mem :: "'rg \<Rightarrow> string \<Rightarrow> agent_card option"
  assumes register: "inv r \<Longrightarrow> rg_register R c r = (x, r') \<Longrightarrow>
      inv r' \<and> (if mem r (card_public_key c) = None
                then x = Inr () \<and> mem r' = (mem r)(card_public_key c \<mapsto> c)
                else x = Inl (AlreadyRegistered (card_public_key c)) \<and> mem r' = mem r)"
    and update: "inv r \<Longrightarrow> rg_update R c r = (x, r') \<Longrightarrow>
      inv r' \<and> (if mem r (card_public_key c) = None
                then x = Inl (NotFound (card_public_key c)) \<and> mem r' = mem r
                else x = Inr () \<and> mem r' = (mem r)(card_public_key c \<mapsto> c))"
    and deregister: "inv r \<Longrightarrow> rg_deregister R k r = (x, r') \<Longrightarrow>
      inv r' \<and> (if mem r k = None then x = Inl (NotFound k) \<and> mem r' = mem r
                else x = Inr () \<and> mem r' = (mem r)(k := None))"
    and get: "inv r \<Longrightarrow> rg_get R k r = (case mem r k of None \<Rightarrow> Inl (NotFound k) | Some c \<Rightarrow> Inr c)"
    and list: "inv r \<Longrightarrow> \<exists>cs. rg_list R r = Inr cs \<and> set cs = ran (mem r) \<and> distinct (map card_public_key cs)"
    and find: "inv r \<Longrightarrow> \<exists>cs. rg_find_by_capability R cap r = Inr cs
                 \<and> set cs = {c \<in> ran (mem r). cap \<in> set (card_capabilities c)}"
    and keyed: "inv r \<Longrightarrow> mem r k = Some c \<Longrightarrow> card_public_key c = k"
begin

text \<open>A card can be registered again after its key has been removed, and is then found.\<close>

lemma register_deregister_register:
  assumes "inv r" and "rg_register R c r = (Inr (), r1)"
    and "rg_deregister R (card_public_key c) r1 = (x, r2)" and "rg_register R c' r2 = (y, r3)"
    and "card_public_key c' = card_public_key c"
  shows "x = Inr () \<and> y = Inr () \<and> rg_get R (card_public_key c) r3 = Inr c'"
  using register [OF assms(1,2)] deregister [OF _ assms(3)] register [OF _ assms(4)] get [of r3] assms(5)
  by (auto split: if_splits)

lemma find_sublist_of_list:
  assumes "inv r" and "rg_find_by_capability R cap r = Inr cs" and "rg_list R r = Inr all"
  shows "set cs = {c \<in> set all. cap \<in> set (card_capabilities c)}"
  using find [OF assms(1), of cap] list [OF assms(1)] assms(2,3) by auto

lemma get_iff_listed:
  assumes "inv r" and "rg_list R r = Inr all"
  shows "rg_get R k r = Inr c \<longleftrightarrow> c \<in> set all \<and> card_public_key c = k"
proof -
  obtain cs where "rg_list R r = Inr cs" "set cs = ran (mem r)" using list [OF assms(1)] by blast
  then have "set all = ran (mem r)" using assms(2) by simp
  then show ?thesis
    using get [OF assms(1), of k] keyed [OF assms(1)]
    by (auto simp: ran_def split: option.splits)
qed

end

section \<open>The in-memory registry provides it\<close>

lemma set_hm_insert: "set (hm_insert k v m) \<subseteq> insert (k, v) (set m)"
  unfolding hm_insert_def by (induction m) auto

lemma mem_wf_insert: "mem_wf m \<Longrightarrow> mem_wf (hm_insert (card_public_key c) c m)"
  using set_hm_insert [of "card_public_key c" c m]
  by (auto simp: mem_wf_def hm.invar_ins list_all_iff)

lemma mem_wf_remove: "mem_wf m \<Longrightarrow> mem_wf (hm_remove k m)"
  by (auto simp: mem_wf_def hm.invar_rem list_all_iff)
     (auto simp: hm_remove_def AList.delete_eq)

lemma hm_contains_get: "hm_contains m k \<longleftrightarrow> hm_get m k \<noteq> None"
  by (simp add: hm_contains_def hm_get_def)

lemma hm_fun_upd: "hm_wf m \<Longrightarrow> hm_get (hm_insert k v m) = (hm_get m)(k \<mapsto> v)"
  "hm_wf m \<Longrightarrow> hm_get (hm_remove k m) = (hm_get m)(k := None)"
  by (auto simp: hm.get_ins hm.get_rem)

lemma mem_wf_hm: "mem_wf m \<Longrightarrow> hm_wf m"
  by (simp add: mem_wf_def)

lemma mem_ran: "mem_wf m \<Longrightarrow> ran (hm_get m) = snd ` set m"
proof -
  assume "mem_wf m"
  then have "distinct (map fst m)" by (simp add: mem_wf_def hm_wf_def)
  moreover have "hm_get m = map_of m" by (simp add: hm_get_def fun_eq_iff)
  ultimately show "ran (hm_get m) = snd ` set m" by (simp add: ran_distinct)
qed

lemma mem_distinct_keys:
  assumes "mem_wf m" and "hash_iter it"
  shows "distinct (map card_public_key (map snd (it m)))"
proof -
  have "map card_public_key (map snd (it m)) = map fst (it m)"
    using assms hash_iter_set [OF assms(2), of m] by (auto simp: mem_wf_def list_all_iff)
  moreover have "mset (map fst (it m)) = mset (map fst m)" using assms(2) by (simp add: hash_iter_def)
  ultimately show ?thesis
    using assms(1) unfolding mem_wf_def hm_wf_def by (metis mset_eq_imp_distinct_iff)
qed

interpretation mem_reg: registry "in_memory_registry (hash_order h)" mem_wf hm_get for h
proof (unfold_locales, goal_cases)
  case (1 r c x r')
  then show ?case
    by (auto simp: in_memory_registry_def mem_register_def hm_contains_get mem_wf_insert hm_fun_upd mem_wf_hm
        split: if_splits)
next
  case (2 r c x r')
  then show ?case
    by (auto simp: in_memory_registry_def mem_update_def hm_contains_get mem_wf_insert hm_fun_upd mem_wf_hm
        split: if_splits)
next
  case (3 r k x r')
  then show ?case
    by (auto simp: in_memory_registry_def mem_deregister_def mem_wf_remove hm_fun_upd mem_wf_hm
        split: option.splits)
next
  case (4 r k)
  then show ?case by (simp add: in_memory_registry_def mem_get_def split: option.split)
next
  case (5 r)
  then show ?case
    using mem_distinct_keys [OF 5 hash_iter_order, of h]
    by (simp add: in_memory_registry_def mem_list_def mem_ran hash_iter_set [OF hash_iter_order])
next
  case (6 r cap)
  then show ?case
    by (auto simp: in_memory_registry_def mem_find_by_capability_def mem_ran
        hash_iter_set [OF hash_iter_order] list_ex_iff)
next
  case (7 r k c)
  then show ?case by (auto simp: mem_wf_def hm_get_in list_all_iff)
qed

section \<open>Properties\<close>

text \<open>
  The in-memory registry keeps the contract of the trait over a life cycle: after a first
  registration of a key a second one is refused, removal makes the key unknown, a new
  registration is then accepted and is what lookup, listing and capability search return.
\<close>

lemma registry_life_cycle:
  assumes "mem_wf r" and "mem_register c r = (Inr (), r1)" and "card_public_key c' = card_public_key c"
    and "mem_deregister (card_public_key c) r1 = (x, r2)" and "mem_register c' r2 = (y, r3)"
    and "mem_list (hash_order h) r3 = Inr cards"
    and "mem_find_by_capability (hash_order h) cap r3 = Inr found"
  shows "fst (mem_register c' r1) = Inl (AlreadyRegistered (card_public_key c)) \<and> x = Inr () \<and> y = Inr ()
    \<and> mem_get (card_public_key c) r3 = Inr c'
    \<and> (c' \<in> set found \<longleftrightarrow> cap \<in> set (card_capabilities c')) \<and> distinct (map card_public_key cards)"
proof -
  let ?R = "in_memory_registry (hash_order h)"
  have ops: "rg_register ?R = mem_register" "rg_deregister ?R = mem_deregister" "rg_get ?R = mem_get"
    "rg_list ?R = mem_list (hash_order h)" "rg_find_by_capability ?R = mem_find_by_capability (hash_order h)"
    by (simp_all add: in_memory_registry_def)
  note reg = mem_reg.register [of _ h, unfolded ops] and dereg = mem_reg.deregister [of _ h, unfolded ops]
  have r1: "mem_wf r1" "hm_get r1 (card_public_key c) = Some c"
    using reg [OF assms(1,2)] by (auto split: if_splits)
  then have "fst (mem_register c' r1) = Inl (AlreadyRegistered (card_public_key c))"
    using reg [OF r1(1) prod.collapse [symmetric], of c'] assms(3) by simp
  moreover have "mem_wf r2" using dereg [OF r1(1) assms(4)] by blast
  then have r3: "mem_wf r3" using reg [OF _ assms(5)] by blast
  have cyc: "x = Inr () \<and> y = Inr () \<and> mem_get (card_public_key c) r3 = Inr c'"
    using mem_reg.register_deregister_register [of r h c r1 x r2 c' y r3, unfolded ops] assms by blast
  moreover have "c' \<in> set cards"
    using mem_reg.get_iff_listed [of r3 h cards "card_public_key c" c', unfolded ops] r3 assms(6) cyc by blast
  moreover have "set found = {c \<in> set cards. cap \<in> set (card_capabilities c)}"
    using mem_reg.find_sublist_of_list [of r3 h cap found cards, unfolded ops] r3 assms(6,7) by blast
  moreover have "distinct (map card_public_key cards)"
    using mem_reg.list [of r3 h, unfolded ops] r3 assms(6) by auto
  ultimately show ?thesis by blast
qed

definition example_card :: agent_card where
  "example_card = \<lparr>card_name = ''echo'', card_description = ''d'', card_version = ''0.1.0'',
     card_capabilities = [''echo''], card_public_key = ''02ab'', card_intro_bundle = None\<rparr>"

lemma registry_life_cycle_witness:
  "let r1 = snd (mem_register example_card []); r2 = snd (mem_deregister ''02ab'' r1);
       r3 = snd (mem_register (example_card\<lparr>card_name := ''new''\<rparr>) r2)
   in mem_get ''02ab'' r3 = Inr (example_card\<lparr>card_name := ''new''\<rparr>)"
proof -
  let ?c' = "example_card\<lparr>card_name := ''new''\<rparr>"
  define r1 where "r1 = snd (mem_register example_card [])"
  define r2 where "r2 = snd (mem_deregister ''02ab'' r1)"
  define r3 where "r3 = snd (mem_register ?c' r2)"
  have reg: "mem_wf []" "mem_register example_card [] = (Inr (), r1)" "card_public_key ?c' = card_public_key example_card"
    and key: "card_public_key example_card = ''02ab''"
    by (simp_all add: mem_wf_def r1_def mem_register_def hm_contains_def example_card_def)
  have d: "mem_deregister (card_public_key example_card) r1 = (fst (mem_deregister ''02ab'' r1), r2)"
    and m: "mem_register ?c' r2 = (fst (mem_register ?c' r2), r3)" by (simp_all add: r2_def r3_def key)
  from registry_life_cycle [OF reg d m mem_list_def mem_find_by_capability_def]
  have "mem_get ''02ab'' r3 = Inr ?c'" unfolding key by blast
  then show ?thesis unfolding Let_def r3_def r2_def r1_def .
qed

end
