(* ===== verification/Execution.thy ===== *)
theory Execution
  imports Tasks
begin

text \<open>
  The execution backends (\<open>crates/logos-messaging-a2a-execution/src\<close>): the types of \<open>lib.rs\<close>, the
  Status Network backend of \<open>status_network.rs\<close> and the placeholder of \<open>lez.rs\<close>. The HTTP exchange of a JSON-RPC request, the
  ABI encoder and the hasher of the standard library are parameters; what the node does of the
  answers is modelled on a JSON value. Text from the chain is ASCII, so slicing is by bytes.
\<close>

section \<open>Types\<close>

datatype execution_error = Rpc string | ExecOther string

record transfer_details =
  td_from :: string
  td_to :: string
  td_amount :: u64
  td_block_number :: u64

text \<open>\<open>JNum\<close> keeps a number's text, the members of an object are in order.\<close>

datatype json = JNull | JBool bool | JNum string | JStr string | JArr "json list" | JObj "(string \<times> json) list"

fun json_get :: "string \<Rightarrow> json \<Rightarrow> json option" where
  "json_get k (JObj members) = map_of members k"
| "json_get k _ = None"

fun as_str :: "json \<Rightarrow> string option" where
  "as_str (JStr s) = Some s"
| "as_str _ = None"

fun as_array :: "json \<Rightarrow> json list option" where
  "as_array (JArr xs) = Some xs"
| "as_array _ = None"

text \<open>\<open>v.get(k).and_then(as_str).unwrap_or(d)\<close>.\<close>

definition str_member :: "string \<Rightarrow> string \<Rightarrow> json \<Rightarrow> string" where
  "str_member k d v =
     (case json_get k v of None \<Rightarrow> d | Some x \<Rightarrow> (case as_str x of None \<Rightarrow> d | Some s \<Rightarrow> s))"

definition array_member :: "string \<Rightarrow> json \<Rightarrow> json list" where
  "array_member k v =
     (case json_get k v of None \<Rightarrow> [] | Some x \<Rightarrow> (case as_array x of None \<Rightarrow> [] | Some xs \<Rightarrow> xs))"

section \<open>Text of the standard library\<close>

text \<open>Lower case of the ASCII range, in which addresses are written.\<close>

definition to_lowercase :: "string \<Rightarrow> string" where
  "to_lowercase s = map (\<lambda>c. if CHR ''A'' \<le> c \<and> c \<le> CHR ''Z'' then char_of (of_char c + (32 :: nat)) else c) s"

definition starts_with :: "string \<Rightarrow> string \<Rightarrow> bool" where
  "starts_with pat s = (take (length pat) s = pat)"

text \<open>\<open>trim_start_matches("0x")\<close> removes the prefix as often as it occurs.\<close>

fun trim_0x :: "string \<Rightarrow> string" where
  "trim_0x (a # b # s) = (if a = CHR ''0'' \<and> b = CHR ''x'' then trim_0x s else a # b # s)"
| "trim_0x s = s"

text \<open>The last \<open>n\<close> bytes: \<open>&s[s.len().saturating_sub(n)..]\<close>.\<close>

definition last_bytes :: "nat \<Rightarrow> string \<Rightarrow> string" where
  "last_bytes n s = drop (length s - n) s"

definition hex_digit :: "char \<Rightarrow> nat option" where
  "hex_digit c =
     (if CHR ''0'' \<le> c \<and> c \<le> CHR ''9'' then Some (of_char c - 48)
      else if CHR ''a'' \<le> c \<and> c \<le> CHR ''f'' then Some (of_char c - 87)
      else if CHR ''A'' \<le> c \<and> c \<le> CHR ''F'' then Some (of_char c - 55)
      else None)"

fun hex_value :: "nat \<Rightarrow> string \<Rightarrow> nat option" where
  "hex_value acc [] = Some acc"
| "hex_value acc (c # cs) = (case hex_digit c of None \<Rightarrow> None | Some d \<Rightarrow> hex_value (16 * acc + d) cs)"

text \<open>\<open>u64::from_str_radix(s, 16).unwrap_or(0)\<close>: a leading \<open>+\<close> is allowed, empty text and overflow fail.\<close>

definition u64_from_hex_or_0 :: "string \<Rightarrow> u64" where
  "u64_from_hex_or_0 s =
     (let digits = (case s of CHR ''+'' # r \<Rightarrow> r | _ \<Rightarrow> s)
      in if digits = [] then 0
         else case hex_value 0 digits of
                None \<Rightarrow> 0
              | Some n \<Rightarrow> if n < 2 ^ 64 then word_of_nat n else 0)"

section \<open>The Status Network backend\<close>

record sn_backend =
  sn_rpc_url :: string
  sn_registry_contract :: string
  sn_token_contract :: string

text \<open>
  \<open>rpc_post url method params\<close> is the HTTP exchange: the response read as JSON, or the error.
  \<open>abi_register\<close> encodes the call of \<open>register\<close>, \<open>default_hash\<close> is \<open>DefaultHasher\<close> on a byte slice.
\<close>

record 'w chain =
  rpc_post :: "string \<Rightarrow> string \<Rightarrow> json list \<Rightarrow> 'w \<Rightarrow> (string + json) \<times> 'w"
  show_json :: "json \<Rightarrow> string"
  abi_register :: "bytes \<Rightarrow> string \<Rightarrow> string list \<Rightarrow> string \<Rightarrow> string"
  default_hash :: "string \<Rightarrow> u64"

definition rpc_call ::
    "'w chain \<Rightarrow> sn_backend \<Rightarrow> string \<Rightarrow> json list \<Rightarrow> 'w \<Rightarrow> (execution_error + json) \<times> 'w" where
  "rpc_call R self meth params w =
     (case rpc_post R (sn_rpc_url self) meth params w of
        (Inl e, w1) \<Rightarrow> (Inl (Rpc e), w1)
      | (Inr resp, w1) \<Rightarrow>
          (case json_get ''error'' resp of
             Some err \<Rightarrow> (Inl (Rpc (show_json R err)), w1)
           | None \<Rightarrow>
               (case json_get ''result'' resp of
                  Some v \<Rightarrow> (Inr v, w1)
                | None \<Rightarrow> (Inl (Rpc ''Missing result in RPC response''), w1))))"

definition TRANSFER_EVENT_TOPIC :: string where
  "TRANSFER_EVENT_TOPIC = ''0xddf252ad1be2c89b69c2b068fc378daa952ba7f163c4a11628f55a4df523b3ef''"

text \<open>\<open>topics[i].as_str().unwrap_or(d)\<close>.\<close>

definition topic_at :: "json list \<Rightarrow> nat \<Rightarrow> string \<Rightarrow> string" where
  "topic_at topics i d = (case as_str (topics ! i) of None \<Rightarrow> d | Some s \<Rightarrow> s)"

text \<open>The conditions under which a log entry is taken for the transfer.\<close>

definition is_transfer_log :: "sn_backend \<Rightarrow> json \<Rightarrow> bool" where
  "is_transfer_log self log =
     (let topics = array_member ''topics'' log in
      \<not> length topics < 3 \<and> topic_at topics 0 [] = TRANSFER_EVENT_TOPIC
      \<and> \<not> (sn_token_contract self \<noteq> []
            \<and> to_lowercase (str_member ''address'' [] log) \<noteq> to_lowercase (sn_token_contract self)))"

definition decode_amount :: "string \<Rightarrow> u64" where
  "decode_amount data =
     (let data_hex = trim_0x data
      in if 16 < length data_hex then u64_from_hex_or_0 (drop (length data_hex - 16) data_hex)
         else u64_from_hex_or_0 data_hex)"

fun parse_transfer_log :: "sn_backend \<Rightarrow> json list \<Rightarrow> execution_error + string \<times> string \<times> u64" where
  "parse_transfer_log self [] = Inl (ExecOther ''No Transfer event found in transaction logs'')"
| "parse_transfer_log self (log # logs) =
     (if is_transfer_log self log then
        let topics = array_member ''topics'' log in
        Inr (''0x'' @ last_bytes 40 (topic_at topics 1 ''0x0''),
             ''0x'' @ last_bytes 40 (topic_at topics 2 ''0x0''),
             decode_amount (str_member ''data'' ''0x0'' log))
      else parse_transfer_log self logs)"

definition normalise_tx :: "string \<Rightarrow> string" where
  "normalise_tx tx = (if starts_with ''0x'' tx then tx else ''0x'' @ tx)"

definition verify_transfer ::
    "'w chain \<Rightarrow> sn_backend \<Rightarrow> string \<Rightarrow> 'w \<Rightarrow> (execution_error + transfer_details) \<times> 'w" where
  "verify_transfer R self tx0 w =
     (let tx = normalise_tx tx0 in
      case rpc_call R self ''eth_getTransactionReceipt'' [JStr tx] w of
        (Inl e, w1) \<Rightarrow> (Inl e, w1)
      | (Inr receipt, w1) \<Rightarrow>
          if receipt = JNull
          then (Inl (ExecOther (''Transaction '' @ tx @ '' not found (not mined yet?)'')), w1)
          else
            let status = str_member ''status'' ''0x0'' receipt in
            if status \<noteq> ''0x1''
            then (Inl (ExecOther (''Transaction '' @ tx @ '' failed (status: '' @ status @ '')'')), w1)
            else
              let block_number = u64_from_hex_or_0 (trim_0x (str_member ''blockNumber'' ''0x0'' receipt))
              in case parse_transfer_log self (array_member ''logs'' receipt) of
                   Inl e \<Rightarrow> (Inl e, w1)
                 | Inr (sender, recipient, amount) \<Rightarrow>
                     (Inr \<lparr>td_from = sender, td_to = recipient, td_amount = amount,
                           td_block_number = block_number\<rparr>, w1))"

text \<open>The digest repeats the 8 bytes of the hash four times.\<close>

definition sha2_hash :: "'w chain \<Rightarrow> string \<Rightarrow> bytes" where
  "sha2_hash R data = (let h = u64_to_le (default_hash R data) in h @ h @ h @ h)"

definition register_agent ::
    "'w chain \<Rightarrow> sn_backend \<Rightarrow> agent_card \<Rightarrow> 'w \<Rightarrow> (execution_error + bytes) \<times> 'w" where
  "register_agent R self c w =
     (let pubkey_hash = sha2_hash R (card_name c);
          content_topic = ''/a2a/1/'' @ to_lowercase (card_name c) @ ''/proto'';
          calldata = abi_register R pubkey_hash (card_name c) (card_capabilities c) content_topic
      in case rpc_call R self ''eth_call''
               [JObj [(''to'', JStr (sn_registry_contract self)), (''data'', JStr (''0x'' @ calldata))],
                JStr ''latest''] w of
           (Inl e, w1) \<Rightarrow> (Inl e, w1)
         | (Inr _, w1) \<Rightarrow> (Inr pubkey_hash, w1))"

definition pay :: "'w chain \<Rightarrow> sn_backend \<Rightarrow> string \<Rightarrow> u64 \<Rightarrow> 'w \<Rightarrow> (execution_error + bytes) \<times> 'w" where
  "pay R self recipient amount w =
     (case rpc_call R self ''eth_chainId'' [] w of
        (Inl e, w1) \<Rightarrow> (Inl e, w1)
      | (Inr _, w1) \<Rightarrow> (Inr (sha2_hash R (recipient @ '':'' @ show_nat (unat amount))), w1))"

text \<open>\<open>{:0>64}\<close> pads on the left to 64 characters.\<close>

definition balance :: "'w chain \<Rightarrow> sn_backend \<Rightarrow> string \<Rightarrow> 'w \<Rightarrow> (execution_error + u64) \<times> 'w" where
  "balance R self agent w =
     (let a = trim_0x agent;
          padded = replicate (64 - length a) (CHR ''0'') @ a
      in case rpc_call R self ''eth_call''
               [JObj [(''to'', JStr (sn_token_contract self)), (''data'', JStr (''0x70a08231'' @ padded))],
                JStr ''latest''] w of
           (Inl e, w1) \<Rightarrow> (Inl e, w1)
         | (Inr v, w1) \<Rightarrow>
             (Inr (u64_from_hex_or_0 (trim_0x (case as_str v of None \<Rightarrow> ''0x0'' | Some s \<Rightarrow> s))), w1))"

text \<open>\<open>Display\<close> of a transaction hash: two lower-case hex digits per byte.\<close>

definition hex_char :: "nat \<Rightarrow> char" where
  "hex_char d = (if d < 10 then char_of (48 + d) else char_of (87 + d))"

definition show_tx_hash :: "bytes \<Rightarrow> string" where
  "show_tx_hash bs = concat (map (\<lambda>b. [hex_char (unat b div 16), hex_char (unat b mod 16)]) bs)"

section \<open>Properties\<close>

lemma parse_transfer_log_Inr:
  "parse_transfer_log self logs = Inr (a, b, n) \<Longrightarrow>
     \<exists>log \<in> set logs. is_transfer_log self log
       \<and> a = ''0x'' @ last_bytes 40 (topic_at (array_member ''topics'' log) 1 ''0x0'')
       \<and> b = ''0x'' @ last_bytes 40 (topic_at (array_member ''topics'' log) 2 ''0x0'')
       \<and> n = decode_amount (str_member ''data'' ''0x0'' log)"
  by (induction self logs rule: parse_transfer_log.induct) (auto simp: Let_def split: if_splits)


definition example_chain :: "unit chain" where
  "example_chain = \<lparr>rpc_post = (\<lambda>_ _ _ w. (Inr (JObj [(''result'', JObj [(''status'', JStr ''0x1''),
      (''logs'', JArr [JObj [(''topics'', JArr [JStr TRANSFER_EVENT_TOPIC, JStr ''0xaa'', JStr ''0xbb'']),
                            (''address'', JStr ''0x9''), (''data'', JStr ''0x1f'')]])])]), w)),
     show_json = (\<lambda>_. []), abi_register = (\<lambda>_ _ _ _. []), default_hash = (\<lambda>_. 0)\<rparr>"

definition example_sn :: sn_backend where
  "example_sn = \<lparr>sn_rpc_url = [], sn_registry_contract = [], sn_token_contract = ''0x9''\<rparr>"

lemma example_verify:
  "\<exists>d. verify_transfer example_chain example_sn ''ab'' () = (Inr d, ()) \<and> td_amount d = 31"
  by (simp add: verify_transfer_def rpc_call_def example_chain_def example_sn_def str_member_def array_member_def
      is_transfer_log_def topic_at_def to_lowercase_def decode_amount_def u64_from_hex_or_0_def hex_digit_def
      normalise_tx_def starts_with_def Let_def less_eq_char_def)


lemma hex_value_acc: "hex_value acc s = (case hex_value 0 s of None \<Rightarrow> None | Some v \<Rightarrow> Some (acc * 16 ^ length s + v))"
proof (induction s arbitrary: acc)
  case (Cons c s)
  show ?case
  proof (cases "hex_digit c")
    case (Some d)
    show ?thesis
      using Cons.IH [of "16 * acc + d"] Cons.IH [of d] Some
      by (auto simp: algebra_simps split: option.splits)
  qed simp
qed simp

lemma hex_value_append:
  "hex_value 0 (a @ b) = Some v \<Longrightarrow> \<exists>x y. hex_value 0 a = Some x \<and> hex_value 0 b = Some y \<and> v = x * 16 ^ length b + y"
proof (induction a arbitrary: v)
  case (Cons c a)
  obtain d where d: "hex_digit c = Some d" using Cons.prems by (auto split: option.splits)
  then have "hex_value d (a @ b) = Some v" using Cons.prems by simp
  then obtain v' where v': "hex_value 0 (a @ b) = Some v'" "v = d * 16 ^ length (a @ b) + v'"
    using hex_value_acc [of d "a @ b"] by (auto split: option.splits)
  from Cons.IH [OF v'(1)] obtain x y where "hex_value 0 a = Some x" "hex_value 0 b = Some y" "v' = x * 16 ^ length b + y"
    by blast
  then show ?case
    using d v'(2) hex_value_acc [of d a] by (auto simp: algebra_simps power_add)
qed simp

lemma hex_digit_lt: "hex_digit c = Some d \<Longrightarrow> d < 16"
  by (auto simp: hex_digit_def less_eq_char_def split: if_splits)

lemma hex_value_lt: "hex_value 0 s = Some v \<Longrightarrow> v < 16 ^ length s"
proof (induction s arbitrary: v rule: rev_induct)
  case (snoc c s)
  obtain x y where xy: "hex_value 0 s = Some x" "hex_value 0 [c] = Some y" "v = x * 16 + y"
    using hex_value_append [OF snoc.prems] by auto
  have "x < 16 ^ length s" using snoc.IH xy(1) by blast
  moreover have "y < 16" using xy(2) hex_digit_lt by (auto split: option.splits)
  ultimately show ?case using xy(3) by simp
qed simp

lemma trim_0x_hex:
  assumes "hex_value 0 s = Some v"
  shows "trim_0x (''0x'' @ s) = s"
proof (cases "\<exists>a b r. s = a # b # r")
  case True
  then obtain a b r where s: "s = a # b # r" by blast
  then have "hex_digit b \<noteq> None" using assms by (auto split: option.splits)
  then have "b \<noteq> CHR ''x''" by (auto simp: hex_digit_def less_eq_char_def)
  then show ?thesis by (simp add: s)
next
  case False
  then show ?thesis by (cases s rule: trim_0x.cases) auto
qed

lemma hex_not_plus: "hex_value 0 (c # s) = Some v \<Longrightarrow> c \<noteq> CHR ''+''"
  by (auto simp: hex_digit_def less_eq_char_def split: option.splits)

lemma u64_from_hex: "hex_value 0 s = Some v \<Longrightarrow> length s \<le> 16 \<Longrightarrow> u64_from_hex_or_0 s = word_of_nat v"
proof -
  assume v: "hex_value 0 s = Some v" and "length s \<le> 16"
  then have "(16 :: nat) ^ length s \<le> 16 ^ 16" by (intro power_increasing) auto
  then have "v < 2 ^ 64" using hex_value_lt [OF v] by simp
  then show "u64_from_hex_or_0 s = word_of_nat v"
    using v hex_not_plus by (cases s) (auto simp: u64_from_hex_or_0_def Let_def split: char.splits bool.splits list.splits)
qed

text \<open>
  The amount of a transfer is read modulo \<open>2^64\<close>: of the (at least 16) hex digits of the event's
  data, the value of all of them, reduced to the low 64 bits.
\<close>

lemma decode_amount_low_64_bits:
  assumes "hex_value 0 digits = Some v"
  shows "decode_amount (''0x'' @ digits) = word_of_nat v"
proof (cases "16 < length digits")
  case False
  then show ?thesis
    using u64_from_hex [OF assms] by (simp add: decode_amount_def trim_0x_hex [OF assms, simplified])
next
  case True
  let ?lo = "drop (length digits - 16) digits" and ?hi = "take (length digits - 16) digits"
  have "hex_value 0 (?hi @ ?lo) = Some v" using assms by simp
  from hex_value_append [OF this] obtain x y where xy: "hex_value 0 ?lo = Some y" "v = x * 16 ^ length ?lo + y" by blast
  have len: "length ?lo = 16" using True by simp
  have "word_of_nat v = (word_of_nat y :: u64)"
  proof -
    have "v mod 2 ^ 64 = y mod 2 ^ 64" using xy(2) len by simp
    then show ?thesis by (simp add: word_of_nat_eq_iff take_bit_eq_mod)
  qed
  moreover have "decode_amount (''0x'' @ digits) = u64_from_hex_or_0 ?lo"
    using True by (simp add: decode_amount_def trim_0x_hex [OF assms, simplified])
  ultimately show ?thesis using u64_from_hex [OF xy(1)] len by simp
qed

lemma decode_amount_low_64_bits_witness:
  "decode_amount (''0x'' @ ''10000000000000005'') = 5"
  using decode_amount_low_64_bits [of "''10000000000000005''" "2 ^ 64 + 5"]
  by (simp add: hex_digit_def less_eq_char_def)

section \<open>The LEZ backend\<close>

text \<open>The backend of \<open>lez.rs\<close> is a placeholder: it is a unit struct, and each of its operations is \<open>unimplemented!\<close>.\<close>

definition lez_new :: unit where
  "lez_new = ()"

definition lez_register_agent :: "unit \<Rightarrow> agent_card \<Rightarrow> (execution_error + string) exec" where
  "lez_register_agent self c = Panics"

definition lez_pay :: "unit \<Rightarrow> string \<Rightarrow> u64 \<Rightarrow> (execution_error + string) exec" where
  "lez_pay self to amount = Panics"

definition lez_balance :: "unit \<Rightarrow> string \<Rightarrow> (execution_error + u64) exec" where
  "lez_balance self agent = Panics"

definition lez_verify_transfer :: "unit \<Rightarrow> string \<Rightarrow> (execution_error + transfer_details) exec" where
  "lez_verify_transfer self tx_hash = Panics"

end
