(* ===== verification/Node_State.thy ===== *)
theory Node_State
  imports Sds_Reliability Presence Trust Registry Execution
begin

text \<open>
  The parts of a node's state (\<open>crates/logos-messaging-a2a-node/src\<close>): its errors (\<open>lib.rs\<close>),
  counters (\<open>metrics.rs\<close>), sessions (\<open>session.rs\<close>), payment and storage configuration
  (\<open>payment.rs\<close>, \<open>storage.rs\<close>), the history log (\<open>history.rs\<close>), and the retry layer
  (\<open>retry.rs\<close>, with \<open>RetryConfig\<close> of the core crate). The clock, UUIDs and random draws are
  arguments.
\<close>

section \<open>Errors and counters\<close>

datatype node_error =
    NTransport transport_error
  | NCrypto crypto_error
  | NSerialization string
  | NExecution string
  | NPresence presence_error
  | NIo string
  | NOther string

fun show_node_error :: "node_error \<Rightarrow> string" where
  "show_node_error (NTransport e) = ''transport error: '' @ show_transport_error e"
| "show_node_error (NCrypto e) = ''crypto error: '' @ show_crypto_error e"
| "show_node_error (NSerialization e) = ''serialization error: '' @ e"
| "show_node_error (NExecution e) = ''execution error: '' @ e"
| "show_node_error (NPresence e) = ''presence error: '' @ show_presence_error e"
| "show_node_error (NIo e) = ''io error: '' @ e"
| "show_node_error (NOther m) = m"

record metrics =
  tasks_sent :: u64
  tasks_received :: u64
  tasks_failed :: u64
  messages_published :: u64
  messages_received :: u64
  discoveries :: u64
  announcements_sent :: u64
  peers_discovered :: u64
  encryptions :: u64
  decryptions :: u64
  sessions_created :: u64
  delegations_sent :: u64
  stream_chunks_sent :: u64
  stream_chunks_received :: u64
  retry_attempts :: u64
  retries_exhausted :: u64
  responses_sent :: u64
  tasks_dropped_untrusted :: u64

definition metrics_new :: metrics where
  "metrics_new = \<lparr>tasks_sent = 0, tasks_received = 0, tasks_failed = 0, messages_published = 0,
     messages_received = 0, discoveries = 0, announcements_sent = 0, peers_discovered = 0,
     encryptions = 0, decryptions = 0, sessions_created = 0, delegations_sent = 0,
     stream_chunks_sent = 0, stream_chunks_received = 0, retry_attempts = 0, retries_exhausted = 0,
     responses_sent = 0, tasks_dropped_untrusted = 0\<rparr>"

text \<open>\<open>inc\<close> and \<open>inc_by\<close> are \<open>fetch_add\<close>, which wraps.\<close>

definition inc :: "u64 \<Rightarrow> u64" where
  "inc counter = counter + 1"

definition inc_by :: "nat \<Rightarrow> u64 \<Rightarrow> u64" where
  "inc_by n counter = counter + word_of_nat n"

section \<open>Sessions\<close>

definition MAX_TASK_IDS :: nat where
  "MAX_TASK_IDS = 64"

record session =
  sess_id :: string
  sess_peer :: string
  sess_task_ids :: "string list"
  sess_created_at :: u64
  sess_last_seen :: u64

definition session_new :: "string \<Rightarrow> u64 \<Rightarrow> string \<Rightarrow> session" where
  "session_new uuid now peer =
     \<lparr>sess_id = uuid, sess_peer = peer, sess_task_ids = [], sess_created_at = now, sess_last_seen = now\<rparr>"

definition push_task :: "u64 \<Rightarrow> string \<Rightarrow> session \<Rightarrow> session" where
  "push_task now tid self =
     (let self1 = (if tid \<in> set (sess_task_ids self) then self
                   else self\<lparr>sess_task_ids := keep_last MAX_TASK_IDS (sess_task_ids self @ [tid])\<rparr>)
      in self1\<lparr>sess_last_seen := now\<rparr>)"

section \<open>History\<close>

record hist_entry =
  h_task_id :: string
  h_parent_id :: string
  h_created_at_ms :: u64
  h_direction :: string
  h_peer_pubkey :: string
  h_peer_name :: string
  h_capability :: string
  h_text :: string
  h_body :: string
  h_cid :: string
  h_success :: bool
  h_error :: "string option"
  h_elapsed_ms :: u64
  h_session_id :: string

record history_filter =
  f_direction :: "string option"
  f_capability :: "string option"
  f_since_ms :: "u64 option"

text \<open>The JSON codec of a row; \<open>append\<close> writes the empty line when it fails.\<close>

record row_codec =
  row_to_string :: "hist_entry \<Rightarrow> string option"
  row_from_str :: "string \<Rightarrow> hist_entry option"

abbreviation newline :: char where
  "newline \<equiv> CHR 0x0A"

text \<open>The lines of a file as \<open>BufRead::lines\<close> yields them: the last one needs no newline, and a
  carriage return before a newline belongs to the line end.\<close>

fun split_lines :: "string \<Rightarrow> string \<Rightarrow> string list" where
  "split_lines acc [] = (if acc = [] then [] else [rev acc])"
| "split_lines acc (c # cs) =
     (if c = newline
      then (case acc of [] \<Rightarrow> [] | a # as \<Rightarrow> if a = CHR 0x0D then rev as else rev acc) # split_lines [] cs
      else split_lines (c # acc) cs)"

text \<open>White space of the ASCII range; JSON text starts and ends with no other.\<close>

definition is_white :: "char \<Rightarrow> bool" where
  "is_white c = (c \<in> {CHR '' '', CHR 0x09, CHR 0x0A, CHR 0x0B, CHR 0x0C, CHR 0x0D})"

definition trim :: "string \<Rightarrow> string" where
  "trim s = rev (dropWhile is_white (rev (dropWhile is_white s)))"

definition history_line :: "row_codec \<Rightarrow> hist_entry \<Rightarrow> string" where
  "history_line J entry =
     (case row_to_string J entry of None \<Rightarrow> [] | Some line \<Rightarrow> line) @ [newline]"

text \<open>\<open>append\<close> adds the line to the file, whose contents \<open>None\<close> means it does not exist.\<close>

definition history_append :: "row_codec \<Rightarrow> hist_entry \<Rightarrow> string option \<Rightarrow> string option" where
  "history_append J entry file =
     Some ((case file of None \<Rightarrow> [] | Some s \<Rightarrow> s) @ history_line J entry)"

definition filter_keeps :: "history_filter \<Rightarrow> hist_entry \<Rightarrow> bool" where
  "filter_keeps flt e =
     ((case f_direction flt of None \<Rightarrow> True | Some d \<Rightarrow> h_direction e = d)
      \<and> (case f_capability flt of None \<Rightarrow> True | Some c \<Rightarrow> h_capability e = c)
      \<and> (case f_since_ms flt of None \<Rightarrow> True | Some s \<Rightarrow> \<not> h_created_at_ms e < s))"

fun parse_rows :: "row_codec \<Rightarrow> history_filter \<Rightarrow> string list \<Rightarrow> hist_entry list" where
  "parse_rows J flt [] = []"
| "parse_rows J flt (line # rest) =
     (if trim line = [] then parse_rows J flt rest
      else case row_from_str J line of
             None \<Rightarrow> parse_rows J flt rest
           | Some entry \<Rightarrow>
               if filter_keeps flt entry then entry # parse_rows J flt rest
               else parse_rows J flt rest)"

text \<open>\<open>sort_by_key(Reverse(...))\<close> is stable: the newest first, ties in file order.\<close>

definition history_list :: "row_codec \<Rightarrow> nat \<Rightarrow> nat \<Rightarrow> history_filter \<Rightarrow> string option \<Rightarrow> hist_entry list" where
  "history_list J limit offset flt file =
     (case file of
        None \<Rightarrow> []
      | Some s \<Rightarrow>
          take limit (drop offset
            (sort_key (\<lambda>e. - int (unat (h_created_at_ms e))) (parse_rows J flt (split_lines [] s)))))"

definition history_get :: "row_codec \<Rightarrow> string \<Rightarrow> string option \<Rightarrow> hist_entry option" where
  "history_get J tid file =
     (case file of
        None \<Rightarrow> None
      | Some s \<Rightarrow>
          fold (\<lambda>line found.
                  case row_from_str J (trim line) of
                    None \<Rightarrow> found
                  | Some entry \<Rightarrow> if h_task_id entry = tid then Some entry else found)
            (split_lines [] s) None)"

section \<open>Properties of the log\<close>

text \<open>
  The codec reads back what it wrote, and a written row is one line: JSON text has no raw
  newline and neither starts nor ends with white space.
\<close>

definition row_ok :: "row_codec \<Rightarrow> hist_entry \<Rightarrow> bool" where
  "row_ok J e \<longleftrightarrow> (\<exists>line. row_to_string J e = Some line \<and> row_from_str J line = Some e \<and> line \<noteq> []
     \<and> newline \<notin> set line \<and> \<not> is_white (hd line) \<and> \<not> is_white (last line))"

text \<open>A file in which every line is complete.\<close>

definition complete_lines :: "string \<Rightarrow> bool" where
  "complete_lines s \<longleftrightarrow> s = [] \<or> last s = newline"

lemma split_lines_newline:
  "split_lines acc (s @ newline # t) = split_lines acc (s @ [newline]) @ split_lines [] t"
  by (induction s arbitrary: acc) auto

lemma split_lines_append:
  assumes "complete_lines s"
  shows "split_lines [] (s @ t) = split_lines [] s @ split_lines [] t"
proof (cases s rule: rev_cases)
  case (snoc s' c)
  then have "c = newline" using assms by (simp add: complete_lines_def)
  then show ?thesis using snoc split_lines_newline [of "[]" s' t] by simp
qed simp

lemma split_one_line:
  "newline \<notin> set line \<Longrightarrow> line \<noteq> [] \<Longrightarrow> last line \<noteq> CHR 0x0D \<Longrightarrow> split_lines [] (line @ [newline]) = [line]"
proof -
  have gen: "newline \<notin> set l \<Longrightarrow> split_lines acc (l @ [newline]) =
      [case rev l @ acc of [] \<Rightarrow> [] | a # as \<Rightarrow> if a = CHR 0x0D then rev as else rev (rev l @ acc)]" for l acc
    by (induction l arbitrary: acc) (auto split: list.split)
  assume a: "newline \<notin> set line" "line \<noteq> []" "last line \<noteq> CHR 0x0D"
  obtain l c where l: "line = l @ [c]" using a(2) by (cases line rule: rev_cases) auto
  show "split_lines [] (line @ [newline]) = [line]"
    using gen [OF a(1), of "[]"] a(3) by (simp add: l)
qed

lemma trim_id: "line \<noteq> [] \<Longrightarrow> \<not> is_white (hd line) \<Longrightarrow> \<not> is_white (last line) \<Longrightarrow> trim line = line"
proof -
  assume a: "line \<noteq> []" "\<not> is_white (hd line)" "\<not> is_white (last line)"
  then have "dropWhile is_white line = line" "dropWhile is_white (rev line) = rev line"
    by (simp_all add: dropWhile_eq_self_iff hd_rev)
  then show "trim line = line" by (simp add: trim_def)
qed

lemma parse_rows_append: "parse_rows J flt (xs @ ys) = parse_rows J flt xs @ parse_rows J flt ys"
  by (induction xs) (auto split: option.split)

lemma appended_line:
  assumes "row_ok J e" and "case file of None \<Rightarrow> True | Some s \<Rightarrow> complete_lines s"
  obtains line s where "history_append J e file = Some (s @ line @ [newline])"
    "s = (case file of None \<Rightarrow> [] | Some s \<Rightarrow> s)"
    "split_lines [] (s @ line @ [newline]) = split_lines [] s @ [line]"
    "row_from_str J line = Some e" "trim line = line" "line \<noteq> []" "complete_lines (s @ line @ [newline])"
proof -
  obtain line where l: "row_to_string J e = Some line" "row_from_str J line = Some e" "line \<noteq> []"
    "newline \<notin> set line" "\<not> is_white (hd line)" "\<not> is_white (last line)"
    using assms(1) unfolding row_ok_def by blast
  let ?s = "case file of None \<Rightarrow> [] | Some s \<Rightarrow> s"
  have "complete_lines ?s" using assms(2) by (auto simp: complete_lines_def split: option.splits)
  moreover have "last line \<noteq> CHR 0x0D" using l(6) by (auto simp: is_white_def)
  ultimately have "split_lines [] (?s @ line @ [newline]) = split_lines [] ?s @ [line]"
    using split_one_line [OF l(4,3)] by (simp add: split_lines_append)
  moreover have "history_append J e file = Some (?s @ line @ [newline])"
    by (simp add: history_append_def history_line_def l(1))
  ultimately show thesis
    using that l(2,3) trim_id [OF l(3,5,6)] by (simp add: complete_lines_def)
qed

text \<open>
  The history log gives back what was written. On a log whose lines are complete, an
  appended row is the answer to a lookup of its task id (the last row of an id wins), lookups of
  other ids are unchanged, a listing contains exactly one more row when the filter admits it,
  newest first, and the log's lines stay complete.
\<close>

lemma history_append_then_read:
  assumes "row_ok J e" and "case file of None \<Rightarrow> True | Some s \<Rightarrow> complete_lines s"
    and "history_append J e file = Some s'"
    and "length (history_list J n 0 flt (Some s')) < n"
  shows "complete_lines s' \<and> history_get J (h_task_id e) (Some s') = Some e
    \<and> (\<forall>tid. tid \<noteq> h_task_id e \<longrightarrow> history_get J tid (Some s') = history_get J tid file)
    \<and> mset (history_list J n 0 flt (Some s')) =
        mset (history_list J n 0 flt file) + (if filter_keeps flt e then {#e#} else {#})
    \<and> sorted (map (\<lambda>e. - int (unat (h_created_at_ms e))) (history_list J n 0 flt (Some s')))"
proof -
  obtain line s where a: "s' = s @ line @ [newline]" "s = (case file of None \<Rightarrow> [] | Some s \<Rightarrow> s)"
    "split_lines [] s' = split_lines [] s @ [line]" "row_from_str J line = Some e" "trim line = line"
    "line \<noteq> []" "complete_lines s'"
    using appended_line [OF assms(1,2)] assms(3) by (metis option.inject)
  have get: "history_get J tid (Some s') = (if tid = h_task_id e then Some e else history_get J tid file)" for tid
    by (auto simp: history_get_def a(2,3,4,5) split: option.split)
  have rows: "parse_rows J flt (split_lines [] s') =
      parse_rows J flt (split_lines [] s) @ (if filter_keeps flt e then [e] else [])"
    by (simp add: a(3,4,5,6) parse_rows_append)
  have len: "length (parse_rows J flt (split_lines [] s')) < n"
    using assms(4) by (simp add: history_list_def)
  then have "history_list J n 0 flt (Some s') = sort_key (\<lambda>e. - int (unat (h_created_at_ms e)))
      (parse_rows J flt (split_lines [] s'))" by (simp add: history_list_def)
  moreover have "history_list J n 0 flt file = sort_key (\<lambda>e. - int (unat (h_created_at_ms e)))
      (parse_rows J flt (split_lines [] s))"
    using len by (cases "file") (simp_all add: history_list_def a(2) rows [unfolded a(2)])
  ultimately show ?thesis using a(7) get by (auto simp: rows)
qed

definition example_row :: hist_entry where
  "example_row = \<lparr>h_task_id = ''t1'', h_parent_id = [], h_created_at_ms = 9, h_direction = ''received'',
     h_peer_pubkey = ''02ab'', h_peer_name = [], h_capability = [], h_text = ''hi'', h_body = ''ok'',
     h_cid = [], h_success = True, h_error = None, h_elapsed_ms = 0, h_session_id = []\<rparr>"

definition example_rows :: row_codec where
  "example_rows = \<lparr>row_to_string = (\<lambda>e. if e = example_row then Some ''{}'' else None),
     row_from_str = (\<lambda>s. if s = ''{}'' then Some example_row else None)\<rparr>"

lemma example_row_ok: "row_ok example_rows example_row"
  by (simp add: row_ok_def example_rows_def is_white_def)

lemma history_append_then_read_witness:
  "history_get example_rows ''t1'' (history_append example_rows example_row None) = Some example_row"
proof -
  let ?flt = "\<lparr>f_direction = None, f_capability = None, f_since_ms = None\<rparr>"
  have app: "history_append example_rows example_row None = Some (''{}'' @ [newline])"
    by (simp add: history_append_def history_line_def example_rows_def)
  have "length (history_list example_rows 9 0 ?flt (Some (''{}'' @ [newline]))) < 9"
    by (simp add: history_list_def example_rows_def)
  from history_append_then_read [OF example_row_ok _ app this]
  show ?thesis by (simp add: app) (simp add: example_row_def)
qed

text \<open>
  A partial write at the tail costs more than the partial line: the row appended next is
  glued to it, and neither is found afterwards.
\<close>

lemma history_partial_tail_loses_next:
  assumes "row_to_string J e = Some line" and "row_from_str J (trim (partial @ line)) = None"
    and "newline \<notin> set (partial @ line)" and "last line \<noteq> CHR 0x0D" and "line \<noteq> []"
    and "complete_lines s"
  shows "history_get J tid (history_append J e (Some (s @ partial))) = history_get J tid (Some s)"
proof -
  have "split_lines [] ((partial @ line) @ [newline]) = [partial @ line]"
    using assms(3-5) by (intro split_one_line) auto
  then have "split_lines [] (s @ partial @ line @ [newline]) = split_lines [] s @ [partial @ line]"
    using split_lines_append [OF assms(6)] by simp
  then show ?thesis
    using assms(1,2) by (simp add: history_append_def history_line_def history_get_def)
qed

lemma history_partial_tail_loses_next_witness:
  "history_get example_rows ''t1'' (history_append example_rows example_row (Some ''{'')) = None"
  using history_partial_tail_loses_next [of example_rows example_row "''{}''" "''{''" "[]" "''t1''"]
  by (simp add: example_rows_def trim_def is_white_def complete_lines_def history_get_def)

end
