(* ===== verification/Retry.thy ===== *)
theory Retry
  imports Node_State
begin

text \<open>
  Exponential backoff: \<open>RetryConfig\<close> (\<open>crates/logos-messaging-a2a-core/src/retry.rs\<close>) and the
  retry layer around the reliable send of the channel
  (\<open>crates/logos-messaging-a2a-node/src/retry.rs\<close>). \<open>jit a\<close> is the number drawn after attempt \<open>a\<close>;
  the sleeps are returned as a list of milliseconds.
\<close>

record retry_config =
  rc_max_attempts :: u32
  rc_base_delay_ms :: u64
  rc_max_delay_ms :: u64
  rc_jitter :: bool

definition retry_default :: retry_config where
  "retry_default = \<lparr>rc_max_attempts = 5, rc_base_delay_ms = 1000, rc_max_delay_ms = 60000, rc_jitter = True\<rparr>"

definition delay_ms :: "retry_config \<Rightarrow> u32 \<Rightarrow> u64" where
  "delay_ms self attempt =
     (let exp = sat_mul (rc_base_delay_ms self) (push_bit (unat (min attempt 31)) 1)
      in min exp (rc_max_delay_ms self))"

definition compute_delay :: "retry_config \<Rightarrow> (u32 \<Rightarrow> u64) \<Rightarrow> u32 \<Rightarrow> u64" where
  "compute_delay self jit attempt =
     (let base = delay_ms self attempt
      in if rc_jitter self then (let jitter = jit attempt in sat_add base jitter div 2) else base)"

text \<open>What \<open>Display\<close> prints for the error of the channel.\<close>

definition exhausted_message :: "u32 \<Rightarrow> transport_error \<Rightarrow> string" where
  "exhausted_message n e =
     ''all '' @ show_nat (unat n) @ '' attempts failed: '' @ show_transport_error e"

text \<open>
  The loop, with the number of attempts left: attempt number, last error, the channel, the
  counters and the sleeps so far. \<open>last_err.unwrap()\<close> panics when there was no attempt.
\<close>

fun retry_loop ::
    "nat \<Rightarrow> u32 \<Rightarrow> transport_error option \<Rightarrow> retry_config \<Rightarrow> (u32 \<Rightarrow> u64) \<Rightarrow> ('bf, 'tr, 'rx) sds_env
       \<Rightarrow> string \<Rightarrow> bytes \<Rightarrow> ('bf, 'tr) channel \<Rightarrow> metrics
       \<Rightarrow> (node_error + content_message \<times> bool) exec \<times> ('bf, 'tr) channel \<times> metrics \<times> u64 list" where
  "retry_loop 0 attempt last_err cfg jit E topic payload ch m =
     (let m' = m\<lparr>retries_exhausted := inc (retries_exhausted m)\<rparr>
      in (case last_err of
            None \<Rightarrow> Panics
          | Some e \<Rightarrow> Returns (Inl (NOther (exhausted_message (rc_max_attempts cfg) e))), ch, m', []))"
| "retry_loop (Suc left) attempt last_err cfg jit E topic payload ch m =
     (case send_reliable E topic payload ch of
        (Inr result, ch') \<Rightarrow> (Returns (Inr result), ch', m, [])
      | (Inl e, ch') \<Rightarrow>
          let m' = m\<lparr>retry_attempts := inc (retry_attempts m)\<rparr>;
              pause = (if attempt + 1 < rc_max_attempts cfg then [compute_delay cfg jit attempt] else []);
              (r, ch'', m'', sleeps) =
                retry_loop left (attempt + 1) (Some e) cfg jit E topic payload ch' m'
          in (r, ch'', m'', pause @ sleeps))"

definition retry_send_reliable ::
    "retry_config \<Rightarrow> (u32 \<Rightarrow> u64) \<Rightarrow> ('bf, 'tr, 'rx) sds_env \<Rightarrow> string \<Rightarrow> bytes
       \<Rightarrow> ('bf, 'tr) channel \<Rightarrow> metrics
       \<Rightarrow> (node_error + content_message \<times> bool) exec \<times> ('bf, 'tr) channel \<times> metrics \<times> u64 list" where
  "retry_send_reliable cfg jit E topic payload ch m =
     retry_loop (unat (rc_max_attempts cfg)) 0 None cfg jit E topic payload ch m"

section \<open>Delays\<close>

lemma unat_delay_ms:
  "unat (delay_ms cfg a) =
     min (min (unat (rc_base_delay_ms cfg) * 2 ^ min (unat a) 31) (2 ^ 64 - 1)) (unat (rc_max_delay_ms cfg))"
proof -
  have "unat (push_bit (unat (min a 31)) (1 :: u64)) = 2 ^ min (unat a) 31"
  proof -
    have m: "unat (min a 31) = min (unat a) 31" by (simp add: min_def word_le_nat_alt)
    have "(2 :: nat) ^ min (unat a) 31 \<le> 2 ^ 31" by (intro power_increasing) auto
    then have "(2 :: nat) ^ min (unat a) 31 < 2 ^ 64" by (rule order_le_less_trans) simp
    then have "unat (word_of_nat (2 ^ min (unat a) 31) :: u64) = 2 ^ min (unat a) 31"
      by (simp only: unat_of_nat) simp
    then show ?thesis unfolding m by (simp add: push_bit_of_1)
  qed
  then show ?thesis
    by (simp add: delay_ms_def Let_def min_def word_le_nat_alt unat_sat_mul)
qed

text \<open>
  Backoff. The delay before the next attempt is the documented minimum of
  \<open>base * 2^attempt\<close> and the maximum, computed without overflow, and does not shrink from one
  attempt to the next; with jitter drawn from \<open>0..=base\<close> the sleep is between half of that delay
  and the delay itself.
\<close>

lemma backoff_bounds:
  assumes "\<forall>a. jit a \<le> delay_ms cfg a"
  shows "unat (delay_ms cfg a) =
      min (min (unat (rc_base_delay_ms cfg) * 2 ^ min (unat a) 31) (2 ^ 64 - 1)) (unat (rc_max_delay_ms cfg))
    \<and> (unat a \<le> unat b \<longrightarrow> delay_ms cfg a \<le> delay_ms cfg b)
    \<and> unat (delay_ms cfg a) div 2 \<le> unat (compute_delay cfg jit a)
    \<and> compute_delay cfg jit a \<le> delay_ms cfg a \<and> delay_ms cfg a \<le> rc_max_delay_ms cfg"
proof -
  have "unat (compute_delay cfg jit a) \<le> unat (delay_ms cfg a)
      \<and> unat (delay_ms cfg a) div 2 \<le> unat (compute_delay cfg jit a)"
  proof (cases "rc_jitter cfg")
    case True
    have j: "unat (jit a) \<le> unat (delay_ms cfg a)" using assms by (simp add: word_le_nat_alt)
    have lt: "unat (delay_ms cfg a) < 2 ^ LENGTH(64)" by (rule unsigned_less)
    have "unat (compute_delay cfg jit a) = min (unat (delay_ms cfg a) + unat (jit a)) (2 ^ 64 - 1) div 2"
      using True by (simp add: compute_delay_def Let_def unat_div unat_sat_add)
    moreover have "unat (delay_ms cfg a) \<le> min (unat (delay_ms cfg a) + unat (jit a)) (2 ^ 64 - 1)"
      using lt by simp
    then have "unat (delay_ms cfg a) div 2 \<le> min (unat (delay_ms cfg a) + unat (jit a)) (2 ^ 64 - 1) div 2"
      by (rule div_le_mono)
    moreover have "min (unat (delay_ms cfg a) + unat (jit a)) (2 ^ 64 - 1) div 2 \<le> unat (delay_ms cfg a)"
    proof -
      have "min (unat (delay_ms cfg a) + unat (jit a)) (2 ^ 64 - 1) div 2 \<le> (unat (delay_ms cfg a) + unat (jit a)) div 2"
        by (intro div_le_mono) simp
      also have "\<dots> \<le> unat (delay_ms cfg a)" using j by linarith
      finally show ?thesis .
    qed
    ultimately show ?thesis by simp
  qed (simp add: compute_delay_def)
  moreover have "unat (delay_ms cfg a) \<le> unat (delay_ms cfg b)" if "unat a \<le> unat b"
  proof -
    have "(2 :: nat) ^ min (unat a) 31 \<le> 2 ^ min (unat b) 31"
      using that by (intro power_increasing) auto
    then have "unat (rc_base_delay_ms cfg) * 2 ^ min (unat a) 31 \<le> unat (rc_base_delay_ms cfg) * 2 ^ min (unat b) 31"
      by simp
    then show ?thesis unfolding unat_delay_ms by (intro min.mono order_refl)
  qed
  ultimately show ?thesis
    by (simp add: word_le_nat_alt) (simp add: unat_delay_ms)
qed

lemma backoff_bounds_witness:
  "delay_ms retry_default 2 = 4000 \<and> delay_ms retry_default 9 = 60000
   \<and> compute_delay retry_default (\<lambda>_. 0) 2 \<le> delay_ms retry_default 2"
proof -
  have "unat (delay_ms retry_default 2) = unat (4000 :: u64)" "unat (delay_ms retry_default 9) = unat (60000 :: u64)"
    using backoff_bounds [of "\<lambda>_. 0" retry_default 2] backoff_bounds [of "\<lambda>_. 0" retry_default 9]
    by (simp_all add: retry_default_def)
  then show ?thesis
    using backoff_bounds [of "\<lambda>_. 0" retry_default 2] by (simp add: word_unat_eq_iff)
qed

section \<open>The retry loop\<close>

text \<open>The channel after \<open>i\<close> failed attempts.\<close>

primrec after_attempts ::
    "nat \<Rightarrow> ('bf, 'tr, 'rx) sds_env \<Rightarrow> string \<Rightarrow> bytes \<Rightarrow> ('bf, 'tr) channel \<Rightarrow> ('bf, 'tr) channel" where
  "after_attempts 0 E topic payload ch = ch"
| "after_attempts (Suc i) E topic payload ch =
     after_attempts i E topic payload (snd (send_reliable E topic payload ch))"

abbreviation attempt_result ::
    "nat \<Rightarrow> ('bf, 'tr, 'rx) sds_env \<Rightarrow> string \<Rightarrow> bytes \<Rightarrow> ('bf, 'tr) channel
       \<Rightarrow> transport_error + content_message \<times> bool" where
  "attempt_result i E topic payload ch \<equiv> fst (send_reliable E topic payload (after_attempts i E topic payload ch))"

text \<open>The sleeps of \<open>n\<close> consecutive failures from attempt \<open>a\<close> on.\<close>

abbreviation pauses :: "retry_config \<Rightarrow> (u32 \<Rightarrow> u64) \<Rightarrow> u32 \<Rightarrow> nat \<Rightarrow> u64 list" where
  "pauses cfg jit a n \<equiv> map (\<lambda>j. compute_delay cfg jit (a + word_of_nat j)) [0..<n]"

lemma pauses_Suc: "pauses cfg jit a (Suc n) = compute_delay cfg jit a # pauses cfg jit (a + 1) n"
proof -
  have "map f [0..<Suc n] = f 0 # map (\<lambda>j. f (Suc j)) [0..<n]" for f :: "nat \<Rightarrow> u64"
    by (simp add: upt_conv_Cons map_Suc_upt [symmetric] comp_def del: upt_Suc)
  from this [of "\<lambda>j. compute_delay cfg jit (a + word_of_nat j)"] show ?thesis
    by (simp add: add.assoc del: upt_Suc)
qed

lemma next_attempt:
  assumes "unat a + Suc l = unat (rc_max_attempts cfg)"
  shows "unat (a + 1) + l = unat (rc_max_attempts cfg)"
    and "a + 1 < rc_max_attempts cfg \<longleftrightarrow> 0 < l"
proof -
  have "unat (rc_max_attempts cfg) < 2 ^ LENGTH(32)" by (rule unsigned_less)
  then have "unat (a + 1) = unat a + 1" using assms by (simp add: unat_word_ariths)
  then show "unat (a + 1) + l = unat (rc_max_attempts cfg)"
    and "a + 1 < rc_max_attempts cfg \<longleftrightarrow> 0 < l" using assms by (auto simp: word_less_nat_alt)
qed

lemma failed_attempt:
  assumes "isl (attempt_result 0 E topic payload ch)"
  shows "\<exists>e ch'. send_reliable E topic payload ch = (Inl e, ch')
    \<and> (\<forall>j. attempt_result (Suc j) E topic payload ch = attempt_result j E topic payload ch')
    \<and> (\<forall>j. after_attempts (Suc j) E topic payload ch = after_attempts j E topic payload ch')"
  using assms by (cases "send_reliable E topic payload ch") (auto simp: isl_def)

lemma retry_loop_success:
  assumes "\<forall>j < i. isl (attempt_result j E topic payload ch)" and "attempt_result i E topic payload ch = Inr r"
    and "i < left" and "unat a + left = unat (rc_max_attempts cfg)"
  shows "retry_loop left a le cfg jit E topic payload ch m =
      (Returns (Inr r), after_attempts (Suc i) E topic payload ch,
       m\<lparr>retry_attempts := retry_attempts m + word_of_nat i\<rparr>, pauses cfg jit a i)"
  using assms
proof (induction i arbitrary: left a le ch m)
  case 0
  then obtain l where "left = Suc l" by (cases left) auto
  moreover obtain ch' where "send_reliable E topic payload ch = (Inr r, ch')"
    using "0.prems"(2) by (cases "send_reliable E topic payload ch") auto
  ultimately show ?case by simp
next
  case (Suc i)
  obtain l where l: "left = Suc l" "i < l" using Suc.prems(3) by (cases left) auto
  have "isl (attempt_result 0 E topic payload ch)" using Suc.prems(1) by blast
  then obtain e ch' where s: "send_reliable E topic payload ch = (Inl e, ch')"
    "\<forall>j. attempt_result (Suc j) E topic payload ch = attempt_result j E topic payload ch'"
    "\<forall>j. after_attempts (Suc j) E topic payload ch = after_attempts j E topic payload ch'"
    using failed_attempt by blast
  have fails: "\<forall>j < i. isl (attempt_result j E topic payload ch')" using Suc.prems(1) s(2) by auto
  have ok: "attempt_result i E topic payload ch' = Inr r" using Suc.prems(2) s(2) by simp
  note n = next_attempt [OF Suc.prems(4) [unfolded l(1)]]
  show ?case
    using Suc.IH [OF fails ok l(2) n(1), of "Some e" "m\<lparr>retry_attempts := inc (retry_attempts m)\<rparr>"]
      l s(1) spec [OF s(3), of "Suc i"] n(2) pauses_Suc [of cfg jit a i]
    by (simp add: Let_def inc_def add.assoc del: upt_Suc after_attempts.simps)
qed

lemma retry_loop_failure:
  assumes "\<forall>j < left. isl (attempt_result j E topic payload ch)" and "unat a + left = unat (rc_max_attempts cfg)"
    and "0 < left"
  shows "\<exists>e. attempt_result (left - 1) E topic payload ch = Inl e \<and>
     retry_loop left a le cfg jit E topic payload ch m =
      (Returns (Inl (NOther (exhausted_message (rc_max_attempts cfg) e))), after_attempts left E topic payload ch,
       m\<lparr>retry_attempts := retry_attempts m + word_of_nat left, retries_exhausted := inc (retries_exhausted m)\<rparr>,
       pauses cfg jit a (left - 1))"
  using assms
proof (induction left arbitrary: a le ch m)
  case (Suc l)
  have "isl (attempt_result 0 E topic payload ch)" using Suc.prems(1) by blast
  then obtain e ch' where s: "send_reliable E topic payload ch = (Inl e, ch')"
    "\<forall>j. attempt_result (Suc j) E topic payload ch = attempt_result j E topic payload ch'"
    "\<forall>j. after_attempts (Suc j) E topic payload ch = after_attempts j E topic payload ch'"
    using failed_attempt by blast
  have fails: "\<forall>j < l. isl (attempt_result j E topic payload ch')" using Suc.prems(1) s(2) by auto
  note n = next_attempt [OF Suc.prems(2)]
  show ?case
  proof (cases l)
    case 0
    then show ?thesis using s(1) n(2) by (simp add: Let_def inc_def)
  next
    case (Suc k)
    let ?m1 = "m\<lparr>retry_attempts := inc (retry_attempts m)\<rparr>"
    obtain e' where IH: "attempt_result k E topic payload ch' = Inl e'"
      "retry_loop l (a + 1) (Some e) cfg jit E topic payload ch' ?m1 =
        (Returns (Inl (NOther (exhausted_message (rc_max_attempts cfg) e'))), after_attempts l E topic payload ch',
         ?m1\<lparr>retry_attempts := retry_attempts ?m1 + word_of_nat l, retries_exhausted := inc (retries_exhausted ?m1)\<rparr>,
         pauses cfg jit (a + 1) k)"
      using Suc.IH [OF fails n(1), of "Some e" ?m1] Suc by auto
    then show ?thesis
      using s(1) spec [OF s(2), of k] spec [OF s(3), of l] n(2) Suc pauses_Suc [of cfg jit a k]
      by (simp add: Let_def inc_def add.assoc del: upt_Suc after_attempts.simps)
  qed
qed simp

text \<open>
  The retry layer makes between one and \<open>max_attempts\<close> attempts: it stops at the first one
  that does not fail and returns its result, and reports exhaustion with the last error only
  when all \<open>max_attempts\<close> failed; it sleeps once between two attempts, for the computed delay, and
  counts each failure.
\<close>

lemma retry_exact:
  assumes "0 < rc_max_attempts cfg"
  shows "case retry_send_reliable cfg jit E topic payload ch m of (res, ch', m', sleeps) \<Rightarrow>
    \<exists>n. 0 < n \<and> n \<le> unat (rc_max_attempts cfg) \<and> (\<forall>j < n - 1. isl (attempt_result j E topic payload ch))
      \<and> ch' = after_attempts n E topic payload ch \<and> sleeps = pauses cfg jit 0 (n - 1)
      \<and> (case attempt_result (n - 1) E topic payload ch of
           Inr r \<Rightarrow> res = Returns (Inr r) \<and> m' = m\<lparr>retry_attempts := retry_attempts m + word_of_nat (n - 1)\<rparr>
         | Inl e \<Rightarrow> n = unat (rc_max_attempts cfg)
             \<and> res = Returns (Inl (NOther (exhausted_message (rc_max_attempts cfg) e)))
             \<and> m' = m\<lparr>retry_attempts := retry_attempts m + word_of_nat n,
                      retries_exhausted := inc (retries_exhausted m)\<rparr>)"
proof -
  let ?N = "unat (rc_max_attempts cfg)"
  have N: "0 < ?N" "unat (0 :: u32) + ?N = ?N" using assms by (simp_all add: word_less_nat_alt)
  show ?thesis
  proof (cases "\<forall>j < ?N. isl (attempt_result j E topic payload ch)")
    case True
    then show ?thesis
      using retry_loop_failure [OF True N(2,1), of None jit m] N(1)
      by (auto simp: retry_send_reliable_def intro!: exI [of _ ?N])
  next
    case False
    define i where "i = (LEAST j. j < ?N \<and> \<not> isl (attempt_result j E topic payload ch))"
    have i: "i < ?N" "\<not> isl (attempt_result i E topic payload ch)"
      using LeastI_ex [of "\<lambda>j. j < ?N \<and> \<not> isl (attempt_result j E topic payload ch)"] False
      by (auto simp: i_def)
    have before: "\<forall>j < i. isl (attempt_result j E topic payload ch)"
      using not_less_Least [of _ "\<lambda>j. j < ?N \<and> \<not> isl (attempt_result j E topic payload ch)"] i(1)
      by (fastforce simp: i_def)
    obtain r where r: "attempt_result i E topic payload ch = Inr r"
      using i(2) by (cases "attempt_result i E topic payload ch") auto
    show ?thesis
      using retry_loop_success [OF before r i(1) N(2), of None jit m] i(1) before r
      by (auto simp: retry_send_reliable_def simp del: after_attempts.simps intro!: exI [of _ "Suc i"])
  qed
qed

lemma retry_exact_witness:
  "let E = (logged_env quiet_transport)\<lparr>env_to_vec := \<lambda>_. Inl ''x''\<rparr>
   in case retry_send_reliable retry_default (\<lambda>_. 0) E ''t'' [65] (logged_channel ()) metrics_new of
        (_, _, m', sleeps) \<Rightarrow> length sleeps = 4 \<and> retry_attempts m' = 5 \<and> retries_exhausted m' = 1"
proof -
  define E where "E = (logged_env quiet_transport)\<lparr>env_to_vec := \<lambda>_. Inl ''x''\<rparr>"
  have fails: "fst (send_reliable E ''t'' [65] c) = Inl (TErr_Serialization ''x'')" for c
    by (simp add: E_def send_reliable_def Let_def next_timestamp_def)
  have cfg: "0 < rc_max_attempts retry_default" "unat (rc_max_attempts retry_default) = 5"
    by (simp_all add: retry_default_def)
  obtain res ch' m' sleeps where run: "retry_send_reliable retry_default (\<lambda>_. 0) E ''t'' [65] (logged_channel ()) metrics_new
      = (res, ch', m', sleeps)" by (metis prod_cases4)
  have "length sleeps = 4 \<and> retry_attempts m' = 5 \<and> retries_exhausted m' = 1"
    using retry_exact [OF cfg(1), where jit = "\<lambda>_. 0" and E = E and topic = "''t''" and payload = "[65]"
        and ch = "logged_channel ()" and m = metrics_new]
    unfolding run prod.case fails sum.case cfg(2) by (auto simp: metrics_new_def inc_def)
  then show ?thesis using run by (simp add: E_def)
qed

text \<open>
  With \<open>max_attempts = 0\<close> the layer panics: it unwraps an error that never occurred.
\<close>

lemma retry_zero_attempts_panics:
  "fst (retry_send_reliable (cfg\<lparr>rc_max_attempts := 0\<rparr>) jit E topic payload ch m) = Panics"
  by (simp add: retry_send_reliable_def)

end
