(* ===== verification/Node.thy ===== *)
theory Node
  imports Retry
begin

text \<open>
  The node (\<open>crates/logos-messaging-a2a-node/src/lib.rs\<close>): its state, the builder methods, the load
  counter, the trust list accessors and the session table. What the node calls outside the
  repository is in \<open>node_env\<close>: the JSON codecs, and the storage, execution, registry and file
  backends as functions on a state \<open>'w\<close> of the outside world. The time, UUIDs, keys and nonces
  drawn are arguments. An operation returns the value and the new node.
\<close>

section \<open>Configuration and environment\<close>

record payment_config =
  pc_required_amount :: u64
  pc_auto_pay :: bool
  pc_auto_pay_amount :: u64
  pc_verify_on_chain :: bool
  pc_receiving_account :: string

record ('bf, 'tr, 'rx, 'c, 'w) node_env =
  ne_sds :: "('bf, 'tr, 'rx) sds_env"
  ne_crypto :: "'c crypto_prims"
  ne_status :: status_codec
  ne_env_to_vec :: "a2a_envelope \<Rightarrow> string + bytes"
  ne_env_from_slice :: "bytes \<Rightarrow> a2a_envelope option"
  ne_task_to_vec :: "task \<Rightarrow> string + bytes"
  ne_task_from_slice :: "bytes \<Rightarrow> string + task"
  ne_rows :: row_codec
  ne_upload :: "bytes \<Rightarrow> 'w \<Rightarrow> (string + string) \<times> 'w"
  ne_download :: "string \<Rightarrow> 'w \<Rightarrow> (string + bytes) \<times> 'w"
  ne_pay :: "string \<Rightarrow> u64 \<Rightarrow> 'w \<Rightarrow> (string + string) \<times> 'w"
  ne_verify_transfer :: "string \<Rightarrow> 'w \<Rightarrow> (string + transfer_details) \<times> 'w"
  ne_append :: "string \<Rightarrow> 'w \<Rightarrow> (string + unit) \<times> 'w"
  ne_registry :: "'w agent_registry"

text \<open>
  The storage configuration is its threshold, the set of seen transactions a list, the receivers
  the handles of the transport; \<open>nd_registry\<close> and \<open>nd_history\<close> say whether one is attached.
\<close>

record ('bf, 'tr, 'rx, 'sk, 'w) node =
  nd_card :: agent_card
  nd_channel :: "('bf, 'tr) channel"
  nd_signing_key :: 'sk
  nd_identity :: "agent_identity option"
  nd_task_rx :: "'rx option"
  nd_discover_rx :: "'rx option"
  nd_stream_rx :: "(string, 'rx) hash_map"
  nd_sessions :: "(string, session) hash_map"
  nd_storage_offload :: "nat option"
  nd_payment :: "payment_config option"
  nd_seen_tx_hashes :: "string list"
  nd_peer_map :: peer_map
  nd_presence_rx :: "'rx option"
  nd_registry :: bool
  nd_stream_chunks :: "(string, task_stream_chunk list) hash_map"
  nd_retry_config :: "retry_config option"
  nd_round_robin_counter :: u64
  nd_metrics :: metrics
  nd_trust_list :: trust_list
  nd_history :: bool
  nd_in_flight :: u64
  nd_max_concurrent :: u32
  nd_world :: 'w

section \<open>Construction\<close>

text \<open>\<open>pk\<close> is the hex form of the public key of the signing key, \<open>now_ms\<close> the clock of the channel.\<close>

definition node_with_channel ::
    "agent_card \<Rightarrow> ('bf, 'tr) channel \<Rightarrow> 'sk \<Rightarrow> agent_identity option \<Rightarrow> 'w \<Rightarrow> ('bf, 'tr, 'rx, 'sk, 'w) node" where
  "node_with_channel c ch key ident w =
     \<lparr>nd_card = c, nd_channel = ch, nd_signing_key = key, nd_identity = ident, nd_task_rx = None,
      nd_discover_rx = None, nd_stream_rx = [], nd_sessions = [], nd_storage_offload = None,
      nd_payment = None, nd_seen_tx_hashes = [], nd_peer_map = peers_new, nd_presence_rx = None,
      nd_registry = False, nd_stream_chunks = [], nd_retry_config = None, nd_round_robin_counter = 0,
      nd_metrics = metrics_new, nd_trust_list = trust_empty, nd_history = False, nd_in_flight = 0,
      nd_max_concurrent = 1, nd_world = w\<rparr>"

definition card_of :: "string \<Rightarrow> string \<Rightarrow> string list \<Rightarrow> string \<Rightarrow> intro_bundle option \<Rightarrow> agent_card" where
  "card_of name desc caps pk bundle =
     \<lparr>card_name = name, card_description = desc, card_version = ''0.1.0'', card_capabilities = caps,
      card_public_key = pk, card_intro_bundle = bundle\<rparr>"

definition node_from_key ::
    "('bf, 'tr, 'rx, 'c, 'w) node_env \<Rightarrow> u64 \<Rightarrow> string \<Rightarrow> string \<Rightarrow> string \<Rightarrow> string list \<Rightarrow> 'tr \<Rightarrow> 'sk \<Rightarrow> 'w
       \<Rightarrow> ('bf, 'tr, 'rx, 'sk, 'w) node" where
  "node_from_key N now_ms pk name desc caps tr key w =
     node_with_channel (card_of name desc caps pk None)
       (channel_new (ne_sds N) now_ms (''node-'' @ take 8 pk) pk tr) key None w"

definition node_with_config ::
    "('bf, 'tr, 'rx, 'c, 'w) node_env \<Rightarrow> u64 \<Rightarrow> string \<Rightarrow> string \<Rightarrow> string \<Rightarrow> string list \<Rightarrow> 'tr
       \<Rightarrow> channel_config \<Rightarrow> 'sk \<Rightarrow> 'w \<Rightarrow> ('bf, 'tr, 'rx, 'sk, 'w) node" where
  "node_with_config N now_ms pk name desc caps tr config key w =
     node_with_channel (card_of name desc caps pk None)
       (channel_with_config (ne_sds N) now_ms (''node-'' @ take 8 pk) pk tr config) key None w"

definition node_new_encrypted ::
    "('bf, 'tr, 'rx, 'c, 'w) node_env \<Rightarrow> u64 \<Rightarrow> bytes \<Rightarrow> string \<Rightarrow> string \<Rightarrow> string \<Rightarrow> string list \<Rightarrow> 'tr \<Rightarrow> 'sk \<Rightarrow> 'w
       \<Rightarrow> ('bf, 'tr, 'rx, 'sk, 'w) node" where
  "node_new_encrypted N now_ms secret pk name desc caps tr key w =
     (let ident = identity_generate (ne_crypto N) secret
      in node_with_channel
           (card_of name desc caps pk (Some (intro_bundle_new (public_key_hex (ne_crypto N) ident))))
           (channel_new (ne_sds N) now_ms (''node-'' @ take 8 pk) pk tr) key (Some ident) w)"

definition with_storage_offload :: "nat \<Rightarrow> ('bf, 'tr, 'rx, 'sk, 'w) node \<Rightarrow> ('bf, 'tr, 'rx, 'sk, 'w) node" where
  "with_storage_offload threshold self = self\<lparr>nd_storage_offload := Some threshold\<rparr>"

definition with_payment :: "payment_config \<Rightarrow> ('bf, 'tr, 'rx, 'sk, 'w) node \<Rightarrow> ('bf, 'tr, 'rx, 'sk, 'w) node" where
  "with_payment config self = self\<lparr>nd_payment := Some config\<rparr>"

definition with_retry :: "retry_config \<Rightarrow> ('bf, 'tr, 'rx, 'sk, 'w) node \<Rightarrow> ('bf, 'tr, 'rx, 'sk, 'w) node" where
  "with_retry config self = self\<lparr>nd_retry_config := Some config\<rparr>"

definition with_trust_list :: "trust_list \<Rightarrow> ('bf, 'tr, 'rx, 'sk, 'w) node \<Rightarrow> ('bf, 'tr, 'rx, 'sk, 'w) node" where
  "with_trust_list l self = self\<lparr>nd_trust_list := l\<rparr>"

definition with_registry :: "('bf, 'tr, 'rx, 'sk, 'w) node \<Rightarrow> ('bf, 'tr, 'rx, 'sk, 'w) node" where
  "with_registry self = self\<lparr>nd_registry := True\<rparr>"

definition with_history :: "('bf, 'tr, 'rx, 'sk, 'w) node \<Rightarrow> ('bf, 'tr, 'rx, 'sk, 'w) node" where
  "with_history self = self\<lparr>nd_history := True\<rparr>"

definition with_max_concurrent :: "u32 \<Rightarrow> ('bf, 'tr, 'rx, 'sk, 'w) node \<Rightarrow> ('bf, 'tr, 'rx, 'sk, 'w) node" where
  "with_max_concurrent n self = self\<lparr>nd_max_concurrent := max n 1\<rparr>"

definition with_identity ::
    "('bf, 'tr, 'rx, 'c, 'w) node_env \<Rightarrow> agent_identity \<Rightarrow> ('bf, 'tr, 'rx, 'sk, 'w) node
       \<Rightarrow> ('bf, 'tr, 'rx, 'sk, 'w) node" where
  "with_identity N ident self =
     self\<lparr>nd_card := (nd_card self)\<lparr>card_intro_bundle :=
             Some (intro_bundle_new (public_key_hex (ne_crypto N) ident))\<rparr>,
          nd_identity := Some ident\<rparr>"

definition pubkey :: "('bf, 'tr, 'rx, 'sk, 'w) node \<Rightarrow> string" where
  "pubkey self = card_public_key (nd_card self)"

text \<open>Updates of the counters.\<close>

definition count :: "(metrics \<Rightarrow> metrics) \<Rightarrow> ('bf, 'tr, 'rx, 'sk, 'w) node \<Rightarrow> ('bf, 'tr, 'rx, 'sk, 'w) node" where
  "count f self = self\<lparr>nd_metrics := f (nd_metrics self)\<rparr>"

section \<open>Load\<close>

definition load_inc :: "('bf, 'tr, 'rx, 'sk, 'w) node \<Rightarrow> u64 \<times> ('bf, 'tr, 'rx, 'sk, 'w) node" where
  "load_inc self = (nd_in_flight self + 1, self\<lparr>nd_in_flight := nd_in_flight self + 1\<rparr>)"

text \<open>The compare-and-swap loop succeeds at once when no other operation runs.\<close>

definition load_dec :: "('bf, 'tr, 'rx, 'sk, 'w) node \<Rightarrow> u64 \<times> ('bf, 'tr, 'rx, 'sk, 'w) node" where
  "load_dec self =
     (if nd_in_flight self = 0 then (0, self)
      else (nd_in_flight self - 1, self\<lparr>nd_in_flight := nd_in_flight self - 1\<rparr>))"

definition current_load_status :: "('bf, 'tr, 'rx, 'sk, 'w) node \<Rightarrow> load_status" where
  "current_load_status self =
     (let queue_depth = (ucast (nd_in_flight self) :: u32)
      in \<lparr>ls_bucket = from_load queue_depth (nd_max_concurrent self), ls_queue_depth = queue_depth,
          ls_max_concurrent = nd_max_concurrent self, ls_avg_latency_ms = 0\<rparr>)"

definition is_at_capacity :: "('bf, 'tr, 'rx, 'sk, 'w) node \<Rightarrow> bool" where
  "is_at_capacity self = (nd_max_concurrent self \<le> (ucast (nd_in_flight self) :: u32))"

section \<open>Trust\<close>

definition node_is_trusted :: "('bf, 'tr, 'rx, 'sk, 'w) node \<Rightarrow> string \<Rightarrow> bool" where
  "node_is_trusted self pk = is_trusted (nd_trust_list self) pk"

definition node_is_trusted_for :: "('bf, 'tr, 'rx, 'sk, 'w) node \<Rightarrow> string \<Rightarrow> string \<Rightarrow> bool" where
  "node_is_trusted_for self pk capability = is_trusted_for (nd_trust_list self) pk capability"

definition node_trust_mode :: "('bf, 'tr, 'rx, 'sk, 'w) node \<Rightarrow> trust_mode" where
  "node_trust_mode self = tl_mode (nd_trust_list self)"

definition trust_snapshot :: "('bf, 'tr, 'rx, 'sk, 'w) node \<Rightarrow> trust_mode \<times> trust_entry list" where
  "trust_snapshot self = (tl_mode (nd_trust_list self), trust_iter (nd_trust_list self))"

definition node_trust_add :: "trust_entry \<Rightarrow> ('bf, 'tr, 'rx, 'sk, 'w) node \<Rightarrow> ('bf, 'tr, 'rx, 'sk, 'w) node" where
  "node_trust_add entry self = self\<lparr>nd_trust_list := trust_add entry (nd_trust_list self)\<rparr>"

definition node_trust_remove ::
    "string \<Rightarrow> ('bf, 'tr, 'rx, 'sk, 'w) node \<Rightarrow> trust_entry option \<times> ('bf, 'tr, 'rx, 'sk, 'w) node" where
  "node_trust_remove target self =
     (case trust_remove target (nd_trust_list self) of
        (Some e, l) \<Rightarrow> (Some e, self\<lparr>nd_trust_list := l\<rparr>)
      | (None, l) \<Rightarrow> (let (r, l') = remove_by_nickname target l in (r, self\<lparr>nd_trust_list := l'\<rparr>)))"

definition node_trust_set_mode :: "trust_mode \<Rightarrow> ('bf, 'tr, 'rx, 'sk, 'w) node \<Rightarrow> ('bf, 'tr, 'rx, 'sk, 'w) node" where
  "node_trust_set_mode m self = self\<lparr>nd_trust_list := set_mode m (nd_trust_list self)\<rparr>"

section \<open>Sessions\<close>

definition create_session ::
    "string \<Rightarrow> u64 \<Rightarrow> string \<Rightarrow> ('bf, 'tr, 'rx, 'sk, 'w) node \<Rightarrow> session \<times> ('bf, 'tr, 'rx, 'sk, 'w) node" where
  "create_session uuid now peer_pubkey self =
     (let session = session_new uuid now peer_pubkey
      in (session,
          count (\<lambda>m. m\<lparr>sessions_created := inc (sessions_created m)\<rparr>)
            (self\<lparr>nd_sessions := hm_insert (sess_id session) session (nd_sessions self)\<rparr>)))"

definition get_session :: "('bf, 'tr, 'rx, 'sk, 'w) node \<Rightarrow> string \<Rightarrow> session option" where
  "get_session self sid = hm_get (nd_sessions self) sid"

definition list_sessions ::
    "((string, session) hash_map \<Rightarrow> (string \<times> session) list) \<Rightarrow> ('bf, 'tr, 'rx, 'sk, 'w) node \<Rightarrow> session list" where
  "list_sessions it self = map snd (it (nd_sessions self))"

definition evict_idle_sessions ::
    "u64 \<Rightarrow> u64 \<Rightarrow> ('bf, 'tr, 'rx, 'sk, 'w) node \<Rightarrow> nat \<times> ('bf, 'tr, 'rx, 'sk, 'w) node" where
  "evict_idle_sessions now max_age_secs self =
     (let before = length (nd_sessions self);
          kept = hm_retain (\<lambda>_ s. sat_sub now (sess_last_seen s) \<le> max_age_secs) (nd_sessions self)
      in (before - length kept, self\<lparr>nd_sessions := kept\<rparr>))"

end
