(* ===== verification/Node_Tasks.thy ===== *)
theory Node_Tasks
  imports Node
begin

text \<open>
  Tasks of a node (\<open>crates/logos-messaging-a2a-node/src/tasks\<close>): encryption and offloading of a
  payload (\<open>helpers.rs\<close>), payment (\<open>payment.rs\<close>), sending (\<open>send.rs\<close>), receiving (\<open>poll.rs\<close>) and
  responding (\<open>respond.rs\<close>).
\<close>

section \<open>Payloads\<close>

type_synonym ('bf, 'tr, 'rx, 'sk, 'w, 'a) node_result =
  "(node_error + 'a) \<times> ('bf, 'tr, 'rx, 'sk, 'w) node"

definition maybe_encrypt_task ::
    "('bf, 'tr, 'rx, 'c, 'w) node_env \<Rightarrow> bytes \<Rightarrow> task \<Rightarrow> agent_card option \<Rightarrow> ('bf, 'tr, 'rx, 'sk, 'w) node
       \<Rightarrow> ('bf, 'tr, 'rx, 'sk, 'w, a2a_envelope) node_result" where
  "maybe_encrypt_task N nonce t recipient self =
     (case (nd_identity self, recipient) of
        (Some identity, Some c) \<Rightarrow>
          (case card_intro_bundle c of
             Some bundle \<Rightarrow>
               (case parse_public_key (ne_crypto N) (ib_agent_pubkey bundle) of
                  Inl e \<Rightarrow> (Inl (NCrypto e), self)
                | Inr their_pubkey \<Rightarrow>
                    (case ne_task_to_vec N t of
                       Inl e \<Rightarrow> (Inl (NSerialization e), self)
                     | Inr task_json \<Rightarrow>
                         (case encrypt (ne_crypto N) nonce (shared_key (ne_crypto N) identity their_pubkey) task_json of
                            Inl e \<Rightarrow> (Inl (NCrypto e), self)
                          | Inr encrypted \<Rightarrow>
                              (Inr (EnvEncryptedTask encrypted (public_key_hex (ne_crypto N) identity)),
                               count (\<lambda>m. m\<lparr>encryptions := inc (encryptions m)\<rparr>) self))))
           | None \<Rightarrow> (Inr (EnvTask t), self))
      | _ \<Rightarrow> (Inr (EnvTask t), self))"

text \<open>The task that stands in for an offloaded one: its CID, and the messages without parts.\<close>

definition slim_task :: "task \<Rightarrow> string \<Rightarrow> task" where
  "slim_task t cid =
     t\<lparr>task_payload_cid := Some cid,
       task_message := \<lparr>msg_role = msg_role (task_message t), msg_parts = []\<rparr>,
       task_result := map_option (\<lambda>r. r\<lparr>msg_parts := []\<rparr>) (task_result t)\<rparr>"

text \<open>The two nonces are those of the two encryptions.\<close>

definition prepare_payload ::
    "('bf, 'tr, 'rx, 'c, 'w) node_env \<Rightarrow> bytes \<Rightarrow> bytes \<Rightarrow> task \<Rightarrow> agent_card option
       \<Rightarrow> ('bf, 'tr, 'rx, 'sk, 'w) node \<Rightarrow> ('bf, 'tr, 'rx, 'sk, 'w, bytes) node_result" where
  "prepare_payload N nonce1 nonce2 t recipient self =
     (case maybe_encrypt_task N nonce1 t recipient self of
        (Inl e, self1) \<Rightarrow> (Inl e, self1)
      | (Inr envelope, self1) \<Rightarrow>
          (case ne_env_to_vec N envelope of
             Inl e \<Rightarrow> (Inl (NSerialization e), self1)
           | Inr payload \<Rightarrow>
               (case nd_storage_offload self1 of
                  Some threshold \<Rightarrow>
                    if threshold < length payload then
                      (case ne_task_to_vec N t of
                         Inl e \<Rightarrow> (Inl (NSerialization e), self1)
                       | Inr task_bytes \<Rightarrow>
                           (case ne_upload N task_bytes (nd_world self1) of
                              (Inl e, w) \<Rightarrow>
                                (Inl (NOther (''storage offload upload failed: '' @ e)), self1\<lparr>nd_world := w\<rparr>)
                            | (Inr cid, w) \<Rightarrow>
                                (case maybe_encrypt_task N nonce2 (slim_task t cid) recipient (self1\<lparr>nd_world := w\<rparr>) of
                                   (Inl e, self2) \<Rightarrow> (Inl e, self2)
                                 | (Inr slim_envelope, self2) \<Rightarrow>
                                     (case ne_env_to_vec N slim_envelope of
                                        Inl e \<Rightarrow> (Inl (NSerialization e), self2)
                                      | Inr p \<Rightarrow> (Inr p, self2)))))
                    else (Inr payload, self1)
                | None \<Rightarrow> (Inr payload, self1))))"

definition decrypt_task ::
    "('bf, 'tr, 'rx, 'c, 'w) node_env \<Rightarrow> agent_identity \<Rightarrow> string \<Rightarrow> encrypted_payload
       \<Rightarrow> ('bf, 'tr, 'rx, 'sk, 'w) node \<Rightarrow> (node_error + task) exec \<times> ('bf, 'tr, 'rx, 'sk, 'w) node" where
  "decrypt_task N identity sender_pubkey_hex encrypted self =
     (case parse_public_key (ne_crypto N) sender_pubkey_hex of
        Inl e \<Rightarrow> (Returns (Inl (NCrypto e)), self)
      | Inr their_pubkey \<Rightarrow>
          (case decrypt (ne_crypto N) (shared_key (ne_crypto N) identity their_pubkey) encrypted of
             Panics \<Rightarrow> (Panics, self)
           | Returns (Inl e) \<Rightarrow> (Returns (Inl (NCrypto e)), self)
           | Returns (Inr plaintext) \<Rightarrow>
               let self1 = count (\<lambda>m. m\<lparr>decryptions := inc (decryptions m)\<rparr>) self
               in (case ne_task_from_slice N plaintext of
                     Inl e \<Rightarrow> (Returns (Inl (NSerialization e)), self1)
                   | Inr t \<Rightarrow> (Returns (Inr t), self1))))"

section \<open>Payment\<close>

definition maybe_auto_pay ::
    "('bf, 'tr, 'rx, 'c, 'w) node_env \<Rightarrow> task \<Rightarrow> ('bf, 'tr, 'rx, 'sk, 'w) node
       \<Rightarrow> ('bf, 'tr, 'rx, 'sk, 'w, task) node_result" where
  "maybe_auto_pay N t self =
     (case nd_payment self of
        Some cfg \<Rightarrow>
          if pc_auto_pay cfg \<and> 0 < pc_auto_pay_amount cfg then
            (case ne_pay N (task_to t) (pc_auto_pay_amount cfg) (nd_world self) of
               (Inl e, w) \<Rightarrow> (Inl (NExecution e), self\<lparr>nd_world := w\<rparr>)
             | (Inr tx_hash, w) \<Rightarrow>
                 (Inr (t\<lparr>task_payment_tx := Some tx_hash,
                         task_payment_amount := Some (pc_auto_pay_amount cfg)\<rparr>),
                  self\<lparr>nd_world := w\<rparr>))
          else (Inr t, self)
      | None \<Rightarrow> (Inr t, self))"

definition verify_payment ::
    "('bf, 'tr, 'rx, 'c, 'w) node_env \<Rightarrow> task \<Rightarrow> ('bf, 'tr, 'rx, 'sk, 'w) node
       \<Rightarrow> bool \<times> ('bf, 'tr, 'rx, 'sk, 'w) node" where
  "verify_payment N t self =
     (case nd_payment self of
        None \<Rightarrow> (True, self)
      | Some cfg \<Rightarrow>
          if pc_required_amount cfg = 0 then (True, self)
          else
            case task_payment_tx t of
              None \<Rightarrow> (False, self)
            | Some tx_hash \<Rightarrow>
                if tx_hash = [] then (False, self)
                else if tx_hash \<in> set (nd_seen_tx_hashes self) then (False, self)
                else if \<not> pc_verify_on_chain cfg then
                  (case task_payment_amount t of
                     Some amount \<Rightarrow>
                       if pc_required_amount cfg \<le> amount
                       then (True, self\<lparr>nd_seen_tx_hashes := List.insert tx_hash (nd_seen_tx_hashes self)\<rparr>)
                       else (False, self)
                   | None \<Rightarrow> (False, self))
                else
                  (case ne_verify_transfer N tx_hash (nd_world self) of
                     (Inr details, w) \<Rightarrow>
                       let self1 = self\<lparr>nd_world := w\<rparr> in
                       if td_amount details < pc_required_amount cfg then (False, self1)
                       else if pc_receiving_account cfg \<noteq> []
                               \<and> to_lowercase (td_to details) \<noteq> to_lowercase (pc_receiving_account cfg)
                       then (False, self1)
                       else (True, self1\<lparr>nd_seen_tx_hashes := List.insert tx_hash (nd_seen_tx_hashes self1)\<rparr>)
                   | (Inl e, w) \<Rightarrow> (False, self\<lparr>nd_world := w\<rparr>)))"

section \<open>Sending\<close>

text \<open>
  \<open>draws\<close> are the two nonces and the jitter of the retry layer; the result of a send that
  panicked in the retry layer is \<open>Panics\<close>.
\<close>

definition channel_send_reliable ::
    "('bf, 'tr, 'rx, 'c, 'w) node_env \<Rightarrow> (u32 \<Rightarrow> u64) \<Rightarrow> string \<Rightarrow> bytes \<Rightarrow> ('bf, 'tr, 'rx, 'sk, 'w) node
       \<Rightarrow> (node_error + content_message \<times> bool) exec \<times> ('bf, 'tr, 'rx, 'sk, 'w) node" where
  "channel_send_reliable N jit topic payload self =
     (case nd_retry_config self of
        Some cfg \<Rightarrow>
          (let (r, ch, m, _) =
                 retry_send_reliable cfg jit (ne_sds N) topic payload (nd_channel self) (nd_metrics self)
           in (r, self\<lparr>nd_channel := ch, nd_metrics := m\<rparr>))
      | None \<Rightarrow>
          (case send_reliable (ne_sds N) topic payload (nd_channel self) of
             (Inl e, ch) \<Rightarrow> (Returns (Inl (NTransport e)), self\<lparr>nd_channel := ch\<rparr>)
           | (Inr r, ch) \<Rightarrow> (Returns (Inr r), self\<lparr>nd_channel := ch\<rparr>)))"

definition send_task_to ::
    "('bf, 'tr, 'rx, 'c, 'w) node_env \<Rightarrow> bytes \<times> bytes \<times> (u32 \<Rightarrow> u64) \<Rightarrow> task \<Rightarrow> agent_card option
       \<Rightarrow> ('bf, 'tr, 'rx, 'sk, 'w) node \<Rightarrow> (node_error + bool) exec \<times> ('bf, 'tr, 'rx, 'sk, 'w) node" where
  "send_task_to N draws t0 recipient self =
     (let (nonce1, nonce2, jit) = draws in
      case maybe_auto_pay N t0 self of
        (Inl e, self1) \<Rightarrow> (Returns (Inl e), self1)
      | (Inr t, self1) \<Rightarrow>
          (case prepare_payload N nonce1 nonce2 t recipient self1 of
             (Inl e, self2) \<Rightarrow> (Returns (Inl e), self2)
           | (Inr payload, self2) \<Rightarrow>
               (case channel_send_reliable N jit (task_topic (task_to t)) payload self2 of
                  (Panics, self3) \<Rightarrow> (Panics, self3)
                | (Returns r, self3) \<Rightarrow>
                    let self4 = count (\<lambda>m. m\<lparr>messages_published := inc (messages_published m)\<rparr>) self3
                    in (case r of
                          Inr (_, acked) \<Rightarrow>
                            (Returns (Inr acked), count (\<lambda>m. m\<lparr>tasks_sent := inc (tasks_sent m)\<rparr>) self4)
                        | Inl e \<Rightarrow>
                            (Returns (Inl e), count (\<lambda>m. m\<lparr>tasks_failed := inc (tasks_failed m)\<rparr>) self4)))))"

definition send_task ::
    "('bf, 'tr, 'rx, 'c, 'w) node_env \<Rightarrow> bytes \<times> bytes \<times> (u32 \<Rightarrow> u64) \<Rightarrow> task
       \<Rightarrow> ('bf, 'tr, 'rx, 'sk, 'w) node \<Rightarrow> (node_error + bool) exec \<times> ('bf, 'tr, 'rx, 'sk, 'w) node" where
  "send_task N draws t self = send_task_to N draws t None self"

definition send_text ::
    "('bf, 'tr, 'rx, 'c, 'w) node_env \<Rightarrow> bytes \<times> bytes \<times> (u32 \<Rightarrow> u64) \<Rightarrow> string \<Rightarrow> string \<Rightarrow> string
       \<Rightarrow> ('bf, 'tr, 'rx, 'sk, 'w) node \<Rightarrow> (node_error + task) exec \<times> ('bf, 'tr, 'rx, 'sk, 'w) node" where
  "send_text N draws uuid recipient content self =
     (let t = task_new uuid (pubkey self) recipient content
      in case send_task N draws t self of
           (Panics, self1) \<Rightarrow> (Panics, self1)
         | (Returns (Inl e), self1) \<Rightarrow> (Returns (Inl e), self1)
         | (Returns (Inr _), self1) \<Rightarrow> (Returns (Inr t), self1))"

definition send_in_session ::
    "('bf, 'tr, 'rx, 'c, 'w) node_env \<Rightarrow> bytes \<times> bytes \<times> (u32 \<Rightarrow> u64) \<Rightarrow> string \<Rightarrow> string \<Rightarrow> string
       \<Rightarrow> ('bf, 'tr, 'rx, 'sk, 'w) node \<Rightarrow> (node_error + task) exec \<times> ('bf, 'tr, 'rx, 'sk, 'w) node" where
  "send_in_session N draws uuid sid content self =
     (case hm_get (nd_sessions self) sid of
        None \<Rightarrow> (Returns (Inl (NOther (''Session '' @ sid @ '' not found''))), self)
      | Some session \<Rightarrow>
          let t = task_new_in_session uuid (pubkey self) (sess_peer session) content sid
          in case send_task N draws t self of
               (Panics, self1) \<Rightarrow> (Panics, self1)
             | (Returns (Inl e), self1) \<Rightarrow> (Returns (Inl e), self1)
             | (Returns (Inr _), self1) \<Rightarrow>
                 (Returns (Inr t),
                  case hm_get (nd_sessions self1) sid of
                    None \<Rightarrow> self1
                  | Some s \<Rightarrow>
                      self1\<lparr>nd_sessions := hm_insert sid
                              (s\<lparr>sess_task_ids := sess_task_ids s @ [task_id t]\<rparr>) (nd_sessions self1)\<rparr>))"

section \<open>Receiving\<close>

definition set_transport :: "'tr \<Rightarrow> ('bf, 'tr, 'rx, 'sk, 'w) node \<Rightarrow> ('bf, 'tr, 'rx, 'sk, 'w) node" where
  "set_transport tr self = self\<lparr>nd_channel := (nd_channel self)\<lparr>ch_transport := tr\<rparr>\<rparr>"

text \<open>The lazy subscription every polling operation starts with.\<close>

definition ensure_rx ::
    "('bf, 'tr, 'rx, 'c, 'w) node_env \<Rightarrow> string \<Rightarrow> 'rx option \<Rightarrow> ('bf, 'tr, 'rx, 'sk, 'w) node
       \<Rightarrow> ('bf, 'tr, 'rx, 'sk, 'w, 'rx) node_result" where
  "ensure_rx N topic slot self =
     (case slot of
        Some rx \<Rightarrow> (Inr rx, self)
      | None \<Rightarrow>
          (case tp_subscribe (env_transport (ne_sds N)) (ch_transport (nd_channel self)) topic of
             (Inl e, tr) \<Rightarrow> (Inl (NTransport e), set_transport tr self)
           | (Inr rx, tr) \<Rightarrow> (Inr rx, set_transport tr self)))"

definition drain_rx ::
    "('bf, 'tr, 'rx, 'c, 'w) node_env \<Rightarrow> 'rx \<Rightarrow> ('bf, 'tr, 'rx, 'sk, 'w) node
       \<Rightarrow> bytes list \<times> ('bf, 'tr, 'rx, 'sk, 'w) node" where
  "drain_rx N rx self =
     (let (msgs, tr) = tp_drain (env_transport (ne_sds N)) (ch_transport (nd_channel self)) rx
      in (msgs, set_transport tr self))"

definition maybe_fetch_offloaded ::
    "('bf, 'tr, 'rx, 'c, 'w) node_env \<Rightarrow> task \<Rightarrow> ('bf, 'tr, 'rx, 'sk, 'w) node
       \<Rightarrow> ('bf, 'tr, 'rx, 'sk, 'w, task option) node_result" where
  "maybe_fetch_offloaded N t self =
     (case task_payload_cid t of
        Some cid \<Rightarrow>
          (case nd_storage_offload self of
             Some _ \<Rightarrow>
               (case ne_download N cid (nd_world self) of
                  (Inl e, w) \<Rightarrow> (Inl (NOther (''storage fetch by CID failed: '' @ e)), self\<lparr>nd_world := w\<rparr>)
                | (Inr data, w) \<Rightarrow>
                    (case ne_task_from_slice N data of
                       Inl e \<Rightarrow> (Inl (NSerialization e), self\<lparr>nd_world := w\<rparr>)
                     | Inr original \<Rightarrow> (Inr (Some original), self\<lparr>nd_world := w\<rparr>)))
           | None \<Rightarrow> (Inr (Some t), self))
      | None \<Rightarrow> (Inr (Some t), self))"

definition extract_task_from_envelope ::
    "('bf, 'tr, 'rx, 'c, 'w) node_env \<Rightarrow> a2a_envelope \<Rightarrow> ('bf, 'tr, 'rx, 'sk, 'w) node
       \<Rightarrow> (node_error + task option) exec \<times> ('bf, 'tr, 'rx, 'sk, 'w) node" where
  "extract_task_from_envelope N envelope self =
     (case envelope of
        EnvTask t \<Rightarrow> (let (r, self1) = maybe_fetch_offloaded N t self in (Returns r, self1))
      | EnvEncryptedTask encrypted sender_pubkey \<Rightarrow>
          (case nd_identity self of
             Some identity \<Rightarrow>
               (case decrypt_task N identity sender_pubkey encrypted self of
                  (Panics, self1) \<Rightarrow> (Panics, self1)
                | (Returns (Inr t), self1) \<Rightarrow>
                    (let (r, self2) = maybe_fetch_offloaded N t self1 in (Returns r, self2))
                | (Returns (Inl e), self1) \<Rightarrow> (Returns (Inr None), self1))
           | None \<Rightarrow> (Returns (Inr None), self))
      | _ \<Rightarrow> (Returns (Inr None), self))"

definition extract_task ::
    "('bf, 'tr, 'rx, 'c, 'w) node_env \<Rightarrow> bytes \<Rightarrow> ('bf, 'tr, 'rx, 'sk, 'w) node
       \<Rightarrow> (node_error + task option) exec \<times> ('bf, 'tr, 'rx, 'sk, 'w) node" where
  "extract_task N payload self =
     (case ne_env_from_slice N payload of
        Some envelope \<Rightarrow> extract_task_from_envelope N envelope self
      | None \<Rightarrow> (Returns (Inr None), self))"

definition accept_or_drop ::
    "task \<Rightarrow> ('bf, 'tr, 'rx, 'sk, 'w) node \<Rightarrow> bool \<times> ('bf, 'tr, 'rx, 'sk, 'w) node" where
  "accept_or_drop t self =
     (if node_is_trusted self (task_from t) then (True, self)
      else
        let self1 = count (\<lambda>m. m\<lparr>tasks_dropped_untrusted := inc (tasks_dropped_untrusted m)\<rparr>) self
        in case node_trust_mode self of
             Off \<Rightarrow> (True, self1) | Enforce \<Rightarrow> (False, self1) | Log \<Rightarrow> (True, self1))"

text \<open>The task of one decoded payload, kept when it passes the trust list; \<open>rest\<close> is the remaining loop.\<close>

definition then_accept ::
    "(node_error + task option) exec \<times> ('bf, 'tr, 'rx, 'sk, 'w) node
       \<Rightarrow> (('bf, 'tr, 'rx, 'sk, 'w) node \<Rightarrow> (node_error + task list) exec \<times> ('bf, 'tr, 'rx, 'sk, 'w) node)
       \<Rightarrow> (node_error + task list) exec \<times> ('bf, 'tr, 'rx, 'sk, 'w) node" where
  "then_accept extracted rest =
     (case extracted of
        (Panics, self) \<Rightarrow> (Panics, self)
      | (Returns (Inl e), self) \<Rightarrow> (Returns (Inl e), self)
      | (Returns (Inr None), self) \<Rightarrow> rest self
      | (Returns (Inr (Some t)), self) \<Rightarrow>
          (case accept_or_drop t self of
             (False, self1) \<Rightarrow> rest self1
           | (True, self1) \<Rightarrow>
               (case rest self1 of
                  (Returns (Inr ts), self2) \<Rightarrow> (Returns (Inr (t # ts)), self2)
                | failed \<Rightarrow> failed)))"

fun process_contents ::
    "('bf, 'tr, 'rx, 'c, 'w) node_env \<Rightarrow> content_message list
       \<Rightarrow> (('bf, 'tr, 'rx, 'sk, 'w) node \<Rightarrow> (node_error + task list) exec \<times> ('bf, 'tr, 'rx, 'sk, 'w) node)
       \<Rightarrow> ('bf, 'tr, 'rx, 'sk, 'w) node \<Rightarrow> (node_error + task list) exec \<times> ('bf, 'tr, 'rx, 'sk, 'w) node" where
  "process_contents N [] k self = k self"
| "process_contents N (content # contents) k self =
     (let (_, ch) = send_ack (ne_sds N) (cm_message_id content) (nd_channel self)
      in then_accept (extract_task N (cm_content content) (self\<lparr>nd_channel := ch\<rparr>))
           (process_contents N contents k))"

fun process_raw ::
    "('bf, 'tr, 'rx, 'c, 'w) node_env \<Rightarrow> bytes list \<Rightarrow> ('bf, 'tr, 'rx, 'sk, 'w) node
       \<Rightarrow> (node_error + task list) exec \<times> ('bf, 'tr, 'rx, 'sk, 'w) node" where
  "process_raw N [] self = (Returns (Inr []), self)"
| "process_raw N (msg # msgs) self =
     (let (delivered, ch) = receive (ne_sds N) msg (nd_channel self);
          self1 = self\<lparr>nd_channel := ch\<rparr>
      in if delivered \<noteq> [] then process_contents N delivered (process_raw N msgs) self1
         else
           case ne_env_from_slice N msg of
             None \<Rightarrow> process_raw N msgs self1
           | Some envelope \<Rightarrow>
               let dedup_id = compute_message_id (env_sha (ne_sds N)) msg
               in if is_duplicate (ne_sds N) (nd_channel self1) dedup_id then process_raw N msgs self1
                  else
                    then_accept
                      (extract_task_from_envelope N envelope
                         (self1\<lparr>nd_channel := mark_seen (ne_sds N) dedup_id (nd_channel self1)\<rparr>))
                      (process_raw N msgs))"

fun verify_all ::
    "('bf, 'tr, 'rx, 'c, 'w) node_env \<Rightarrow> task list \<Rightarrow> ('bf, 'tr, 'rx, 'sk, 'w) node
       \<Rightarrow> task list \<times> ('bf, 'tr, 'rx, 'sk, 'w) node" where
  "verify_all N [] self = ([], self)"
| "verify_all N (t # ts) self =
     (let (ok, self1) = verify_payment N t self; (vs, self2) = verify_all N ts self1
      in (if ok then t # vs else vs, self2))"

text \<open>\<open>uuid sid\<close> is the id drawn when a session has to be created for \<open>sid\<close>.\<close>

fun track_sessions ::
    "(string \<Rightarrow> string) \<Rightarrow> u64 \<Rightarrow> task list \<Rightarrow> ('bf, 'tr, 'rx, 'sk, 'w) node \<Rightarrow> ('bf, 'tr, 'rx, 'sk, 'w) node" where
  "track_sessions uuid now [] self = self"
| "track_sessions uuid now (t # ts) self =
     (case task_session_id t of
        None \<Rightarrow> track_sessions uuid now ts self
      | Some sid \<Rightarrow>
          let (session, self1) =
                (case hm_get (nd_sessions self) sid of
                   Some s \<Rightarrow> (s, self)
                 | None \<Rightarrow> (session_new (uuid sid) now (task_from t),
                            count (\<lambda>m. m\<lparr>sessions_created := inc (sessions_created m)\<rparr>) self))
          in track_sessions uuid now ts
               (self1\<lparr>nd_sessions := hm_insert sid (push_task now (task_id t) session) (nd_sessions self1)\<rparr>))"

definition poll_tasks ::
    "('bf, 'tr, 'rx, 'c, 'w) node_env \<Rightarrow> (string \<Rightarrow> string) \<Rightarrow> u64 \<Rightarrow> ('bf, 'tr, 'rx, 'sk, 'w) node
       \<Rightarrow> (node_error + task list) exec \<times> ('bf, 'tr, 'rx, 'sk, 'w) node" where
  "poll_tasks N uuid now self =
     (case ensure_rx N (task_topic (pubkey self)) (nd_task_rx self) self of
        (Inl e, self1) \<Rightarrow> (Returns (Inl e), self1)
      | (Inr rx, self1) \<Rightarrow>
          let (raw, self2) = drain_rx N rx (self1\<lparr>nd_task_rx := Some rx\<rparr>);
              self3 = count (\<lambda>m. m\<lparr>messages_received := inc_by (length raw) (messages_received m)\<rparr>) self2
          in (case process_raw N raw self3 of
                (Returns (Inr tasks), self4) \<Rightarrow>
                  let (verified, self5) = verify_all N tasks self4;
                      self6 = count (\<lambda>m. m\<lparr>tasks_received := inc_by (length verified) (tasks_received m)\<rparr>) self5
                  in (Returns (Inr verified), track_sessions uuid now verified self6)
              | failed \<Rightarrow> failed))"

section \<open>Responding\<close>

text \<open>The text after the first occurrence of a pattern.\<close>

fun after_first :: "string \<Rightarrow> string \<Rightarrow> string option" where
  "after_first pat [] = (if pat = [] then Some [] else None)"
| "after_first pat (c # cs) =
     (if take (length pat) (c # cs) = pat then Some (drop (length pat) (c # cs)) else after_first pat cs)"

definition is_ascii_alphanumeric :: "char \<Rightarrow> bool" where
  "is_ascii_alphanumeric c =
     ((CHR ''0'' \<le> c \<and> c \<le> CHR ''9'') \<or> (CHR ''A'' \<le> c \<and> c \<le> CHR ''Z'') \<or> (CHR ''a'' \<le> c \<and> c \<le> CHR ''z''))"

definition extract_codex_cid :: "string \<Rightarrow> string" where
  "extract_codex_cid body =
     (case after_first ''codex://'' body of
        None \<Rightarrow> []
      | Some rest \<Rightarrow> takeWhile is_ascii_alphanumeric rest)"

definition peer_name_of :: "u64 \<Rightarrow> ('bf, 'tr, 'rx, 'sk, 'w) node \<Rightarrow> string \<Rightarrow> string" where
  "peer_name_of now self pk = (case peers_get now (nd_peer_map self) pk of None \<Rightarrow> [] | Some p \<Rightarrow> pi_name p)"

text \<open>\<open>history.append\<close> on the attached log; its failure is only logged.\<close>

definition append_history ::
    "('bf, 'tr, 'rx, 'c, 'w) node_env \<Rightarrow> hist_entry \<Rightarrow> ('bf, 'tr, 'rx, 'sk, 'w) node
       \<Rightarrow> ('bf, 'tr, 'rx, 'sk, 'w) node" where
  "append_history N entry self =
     (let (_, w) = ne_append N (history_line (ne_rows N) entry) (nd_world self) in self\<lparr>nd_world := w\<rparr>)"

text \<open>\<open>draws\<close> are the two nonces; \<open>clk\<close> the clocks in seconds and milliseconds and the time elapsed.\<close>

definition publish_response ::
    "('bf, 'tr, 'rx, 'c, 'w) node_env \<Rightarrow> bytes \<times> bytes \<Rightarrow> u64 \<times> u64 \<times> u64 \<Rightarrow> task \<Rightarrow> string \<Rightarrow> agent_card option
       \<Rightarrow> bool \<Rightarrow> ('bf, 'tr, 'rx, 'sk, 'w) node \<Rightarrow> ('bf, 'tr, 'rx, 'sk, 'w, unit) node_result" where
  "publish_response N draws clk t body_text sender_card failed self =
     (let (nonce1, nonce2) = draws; (now, now_ms, elapsed) = clk;
          response = (if failed then task_respond_failed t body_text else task_respond t body_text)
      in case prepare_payload N nonce1 nonce2 response sender_card self of
           (Inl e, self1) \<Rightarrow> (Inl e, self1)
         | (Inr payload, self1) \<Rightarrow>
             (case ch_publish (ne_sds N) (task_topic (task_to response)) payload (nd_channel self1) of
                (Inl e, ch) \<Rightarrow> (Inl (NTransport e), self1\<lparr>nd_channel := ch\<rparr>)
              | (Inr _, ch) \<Rightarrow>
                  let self2 = count (\<lambda>m. m\<lparr>responses_sent := inc (responses_sent m),
                                           messages_published := inc (messages_published m)\<rparr>)
                                (self1\<lparr>nd_channel := ch\<rparr>)
                  in (Inr (),
                      if nd_history self2 then
                        append_history N
                          \<lparr>h_task_id = task_id t, h_parent_id = [], h_created_at_ms = now_ms,
                           h_direction = ''received'', h_peer_pubkey = task_from t,
                           h_peer_name = peer_name_of now self2 (task_from t), h_capability = [],
                           h_text = (case task_text t of None \<Rightarrow> [] | Some s \<Rightarrow> s), h_body = body_text,
                           h_cid = extract_codex_cid body_text, h_success = (\<not> failed),
                           h_error = (if failed then Some body_text else None), h_elapsed_ms = elapsed,
                           h_session_id = (case task_session_id t of None \<Rightarrow> [] | Some s \<Rightarrow> s)\<rparr> self2
                      else self2)))"

definition node_respond_to ::
    "('bf, 'tr, 'rx, 'c, 'w) node_env \<Rightarrow> bytes \<times> bytes \<Rightarrow> u64 \<times> u64 \<times> u64 \<Rightarrow> task \<Rightarrow> string \<Rightarrow> agent_card option
       \<Rightarrow> ('bf, 'tr, 'rx, 'sk, 'w) node \<Rightarrow> ('bf, 'tr, 'rx, 'sk, 'w, unit) node_result" where
  "node_respond_to N draws clk t result_text sender_card self =
     publish_response N draws clk t result_text sender_card False self"

definition node_respond ::
    "('bf, 'tr, 'rx, 'c, 'w) node_env \<Rightarrow> bytes \<times> bytes \<Rightarrow> u64 \<times> u64 \<times> u64 \<Rightarrow> task \<Rightarrow> string
       \<Rightarrow> ('bf, 'tr, 'rx, 'sk, 'w) node \<Rightarrow> ('bf, 'tr, 'rx, 'sk, 'w, unit) node_result" where
  "node_respond N draws clk t result_text self = node_respond_to N draws clk t result_text None self"

definition node_respond_failed ::
    "('bf, 'tr, 'rx, 'c, 'w) node_env \<Rightarrow> bytes \<times> bytes \<Rightarrow> u64 \<times> u64 \<times> u64 \<Rightarrow> task \<Rightarrow> string
       \<Rightarrow> ('bf, 'tr, 'rx, 'sk, 'w) node \<Rightarrow> ('bf, 'tr, 'rx, 'sk, 'w, unit) node_result" where
  "node_respond_failed N draws clk t error_text self =
     publish_response N draws clk t error_text None True self"

end
