(* ===== verification/Node_Safety.thy ===== *)
theory Node_Safety
  imports Node_Tasks
begin

text \<open>
  What the task operations guarantee: trust enforcement and payment safety of what a poll
  returns, the round trip of a payload through encryption and offloading, and the behaviour of a
  poll on errors.
\<close>

section \<open>What a step leaves unchanged\<close>

lemma count_simps [simp]:
  "nd_trust_list (count f self) = nd_trust_list self" "nd_payment (count f self) = nd_payment self"
  "nd_seen_tx_hashes (count f self) = nd_seen_tx_hashes self" "nd_sessions (count f self) = nd_sessions self"
  "nd_channel (count f self) = nd_channel self" "nd_world (count f self) = nd_world self"
  "nd_identity (count f self) = nd_identity self" "nd_storage_offload (count f self) = nd_storage_offload self"
  "nd_card (count f self) = nd_card self" "nd_in_flight (count f self) = nd_in_flight self"
  "nd_max_concurrent (count f self) = nd_max_concurrent self"
  by (simp_all add: count_def)

text \<open>The part of the configuration that receiving never touches.\<close>

definition same_policy :: "('bf, 'tr, 'rx, 'sk, 'w) node \<Rightarrow> ('bf, 'tr, 'rx, 'sk, 'w) node \<Rightarrow> bool" where
  "same_policy self self' \<longleftrightarrow> nd_trust_list self' = nd_trust_list self \<and> nd_payment self' = nd_payment self
     \<and> nd_seen_tx_hashes self' = nd_seen_tx_hashes self \<and> nd_sessions self' = nd_sessions self
     \<and> nd_identity self' = nd_identity self \<and> nd_storage_offload self' = nd_storage_offload self
     \<and> nd_card self' = nd_card self \<and> nd_in_flight self' = nd_in_flight self
     \<and> nd_max_concurrent self' = nd_max_concurrent self \<and> nd_signing_key self' = nd_signing_key self
     \<and> nd_discover_rx self' = nd_discover_rx self \<and> nd_presence_rx self' = nd_presence_rx self
     \<and> nd_stream_rx self' = nd_stream_rx self \<and> nd_stream_chunks self' = nd_stream_chunks self
     \<and> nd_peer_map self' = nd_peer_map self \<and> nd_registry self' = nd_registry self
     \<and> nd_retry_config self' = nd_retry_config self \<and> nd_history self' = nd_history self
     \<and> nd_round_robin_counter self' = nd_round_robin_counter self"

lemma same_policy_refl [simp]: "same_policy self self"
  by (simp add: same_policy_def)

lemma same_policy_trans: "same_policy a b \<Longrightarrow> same_policy b c \<Longrightarrow> same_policy a c"
  by (simp add: same_policy_def)

lemma same_policy_upd [simp]:
  "same_policy self (self\<lparr>nd_channel := ch\<rparr>)" "same_policy self (self\<lparr>nd_world := w\<rparr>)"
  "same_policy self (count f self)" "same_policy self (set_transport tr self)"
  "same_policy self (self\<lparr>nd_task_rx := rx\<rparr>)"
  by (simp_all add: same_policy_def set_transport_def count_def)

lemma fetch_policy: "same_policy self (snd (maybe_fetch_offloaded N t self))"
  by (auto simp: maybe_fetch_offloaded_def split: option.split prod.split sum.split)

lemma decrypt_policy: "same_policy self (snd (decrypt_task N i s e self))"
  by (auto simp: decrypt_task_def Let_def split: sum.split exec.split)

lemma extract_policy: "same_policy self (snd (extract_task_from_envelope N env self))"
proof (cases env)
  case (EnvTask t)
  then show ?thesis using fetch_policy [of self N t] by (simp add: extract_task_from_envelope_def case_prod_beta)
next
  case (EnvEncryptedTask enc s)
  show ?thesis
  proof (cases "nd_identity self")
    case (Some i)
    obtain r self1 where d: "decrypt_task N i s enc self = (r, self1)" by fastforce
    have p1: "same_policy self self1" using decrypt_policy [of self N i s enc] d by simp
    have p2: "same_policy self1 (snd (maybe_fetch_offloaded N t self1))" for t by (rule fetch_policy)
    show ?thesis
      using EnvEncryptedTask Some d p1 p2
      by (auto simp: extract_task_from_envelope_def case_prod_beta split: exec.split sum.split
          intro: same_policy_trans)
  qed (simp add: extract_task_from_envelope_def EnvEncryptedTask)
qed (simp_all add: extract_task_from_envelope_def)

lemma extract_task_policy: "same_policy self (snd (extract_task N p self))"
  by (simp add: extract_task_def extract_policy split: option.split)

lemma accept_policy: "same_policy self (snd (accept_or_drop t self))"
  by (simp add: accept_or_drop_def Let_def split: trust_mode.split)

section \<open>Trust\<close>

text \<open>What the trust list lets through.\<close>

definition admitted :: "trust_list \<Rightarrow> task \<Rightarrow> bool" where
  "admitted l t \<longleftrightarrow> (tl_mode l = Enforce \<longrightarrow> is_trusted l (task_from t))"

lemma accept_admitted: "fst (accept_or_drop t self) \<longleftrightarrow> admitted (nd_trust_list self) t"
  by (auto simp: accept_or_drop_def admitted_def node_is_trusted_def node_trust_mode_def Let_def
      is_trusted_def split: trust_mode.split)

text \<open>A loop over payloads whose results are admitted and which keeps the policy.\<close>

definition admitting ::
    "('bf, 'tr, 'rx, 'sk, 'w) node \<Rightarrow> (node_error + task list) exec \<times> ('bf, 'tr, 'rx, 'sk, 'w) node \<Rightarrow> bool" where
  "admitting self out \<longleftrightarrow> same_policy self (snd out)
     \<and> (\<forall>ts. fst out = Returns (Inr ts) \<longrightarrow> (\<forall>t \<in> set ts. admitted (nd_trust_list self) t))"

lemma admitting_trans: "same_policy a b \<Longrightarrow> admitting b out \<Longrightarrow> admitting a out"
  by (auto simp: admitting_def same_policy_def)

lemma admitting_then_accept:
  assumes "same_policy self (snd ex)" and "\<And>s. admitting s (rest s)"
  shows "admitting self (then_accept ex rest)"
proof -
  obtain r s where ex: "ex = (r, s)" by fastforce
  have s: "same_policy self s" using assms(1) ex by simp
  show ?thesis
  proof (cases "\<exists>t. r = Returns (Inr (Some t))")
    case True
    then obtain t where r: "r = Returns (Inr (Some t))" by blast
    obtain ok s1 where acc: "accept_or_drop t s = (ok, s1)" by fastforce
    have s1: "same_policy self s1" "ok \<longleftrightarrow> admitted (nd_trust_list self) t"
      using accept_policy [of s t] accept_admitted [of t s] acc s by (auto simp: same_policy_def)
    have "admitting self (rest s1)" using admitting_trans [OF s1(1) assms(2)] .
    then show ?thesis
      using ex r acc s1(2)
      by (cases ok) (auto simp: then_accept_def admitting_def split: prod.splits exec.splits sum.splits)
  next
    case False
    then show ?thesis
      using ex s admitting_trans [OF s assms(2)]
      by (auto simp: then_accept_def admitting_def split: exec.splits sum.splits option.splits)
  qed
qed

lemma admitting_contents:
  assumes "\<And>s. admitting s (k s)"
  shows "admitting self (process_contents N cs k self)"
proof (induction cs arbitrary: self)
  case (Cons c cs)
  obtain ack ch where ch: "send_ack (ne_sds N) (cm_message_id c) (nd_channel self) = (ack, ch)" by fastforce
  have p: "same_policy self (snd (extract_task N (cm_content c) (self\<lparr>nd_channel := ch\<rparr>)))"
    by (rule same_policy_trans [OF _ extract_task_policy]) simp
  show ?case using admitting_then_accept [OF p Cons.IH] ch by simp
qed (simp add: assms)

lemma admitting_raw: "admitting self (process_raw N msgs self)"
proof (induction msgs arbitrary: self)
  case Nil
  then show ?case by (simp add: admitting_def)
next
  case (Cons m ms)
  obtain ds ch where rc: "receive (ne_sds N) m (nd_channel self) = (ds, ch)" by fastforce
  let ?s1 = "self\<lparr>nd_channel := ch\<rparr>"
  have s1: "same_policy self ?s1" by simp
  show ?case
  proof (cases "ds = []")
    case False
    then show ?thesis
      using admitting_trans [OF s1 admitting_contents [OF Cons.IH]] rc by simp
  next
    case True
    have p: "same_policy self (snd (extract_task_from_envelope N env (?s1\<lparr>nd_channel := ch'\<rparr>)))" for env ch'
      by (rule same_policy_trans [OF _ extract_policy]) simp
    show ?thesis
      using True rc admitting_trans [OF s1 Cons.IH] admitting_then_accept [OF p Cons.IH]
      by (auto simp: Let_def split: option.split)
  qed
qed

lemma verify_payment_frame:
  "verify_payment N t self = (ok, self') \<Longrightarrow>
     nd_trust_list self' = nd_trust_list self \<and> nd_payment self' = nd_payment self
     \<and> set (nd_seen_tx_hashes self) \<subseteq> set (nd_seen_tx_hashes self') \<and> nd_sessions self' = nd_sessions self"
  by (auto simp: verify_payment_def Let_def split: option.splits if_splits prod.splits sum.splits)

text \<open>What a poll does after the subscription: the states before and after the payment check.\<close>

lemma poll_tasks_cases:
  assumes "poll_tasks N uuid now self = (r, self')"
  obtains (ok) tasks s4 vs s5 where "admitting self (Returns (Inr tasks), s4)" "verify_all N tasks s4 = (vs, s5)"
      "r = Returns (Inr vs)"
      "self' = track_sessions uuid now vs
         (count (\<lambda>m. m\<lparr>tasks_received := inc_by (length vs) (tasks_received m)\<rparr>) s5)"
    | (failed) "same_policy self self'" "\<forall>ts. r \<noteq> Returns (Inr ts)"
proof -
  obtain rx s1 where e: "ensure_rx N (task_topic (pubkey self)) (nd_task_rx self) self = (rx, s1)" by fastforce
  have p1: "same_policy self s1"
    using e by (auto simp: ensure_rx_def split: option.splits prod.splits sum.splits)
  show thesis
  proof (cases rx)
    case (Inl err)
    then show thesis using failed p1 e assms by (auto simp: poll_tasks_def)
  next
    case (Inr h)
    obtain raw s2 where d: "drain_rx N h (s1\<lparr>nd_task_rx := Some h\<rparr>) = (raw, s2)" by fastforce
    have p2: "same_policy self s2"
      using d same_policy_trans [OF p1, of s2] same_policy_trans [of s1 "s1\<lparr>nd_task_rx := Some h\<rparr>" s2]
      by (auto simp: drain_rx_def split: prod.splits)
    let ?s3 = "count (\<lambda>m. m\<lparr>messages_received := inc_by (length raw) (messages_received m)\<rparr>) s2"
    obtain out s4 where pr: "process_raw N raw ?s3 = (out, s4)" by fastforce
    have "admitting self (process_raw N raw ?s3)"
      by (rule admitting_trans [OF same_policy_trans [OF p2 same_policy_upd(3)] admitting_raw])
    then have adm: "admitting self (out, s4)" unfolding pr .
    show thesis
    proof (cases "\<exists>tasks. out = Returns (Inr tasks)")
      case True
      then obtain tasks where t: "out = Returns (Inr tasks)" by blast
      obtain vs s5 where v: "verify_all N tasks s4 = (vs, s5)" by fastforce
      then show thesis
        using ok [OF _ v] adm t assms e Inr d pr by (simp add: poll_tasks_def Let_def)
    next
      case False
      then have "r = out" "self' = s4"
        using assms e Inr d pr
        by (auto simp: poll_tasks_def Let_def split: exec.splits sum.splits)
      then show thesis using failed adm False by (simp add: admitting_def)
    qed
  qed
qed

lemma track_sessions_frame [simp]:
  "nd_trust_list (track_sessions uuid now ts self) = nd_trust_list self"
  "nd_payment (track_sessions uuid now ts self) = nd_payment self"
  "nd_seen_tx_hashes (track_sessions uuid now ts self) = nd_seen_tx_hashes self"
  by (induction ts arbitrary: self) (auto simp: Let_def split: option.splits)

section \<open>Payment\<close>

lemma verify_payment_accept:
  assumes "verify_payment N t self = (ok, self')" and "nd_payment self = Some cfg" and "pc_required_amount cfg \<noteq> 0"
  shows "if ok then \<exists>tx. task_payment_tx t = Some tx \<and> tx \<noteq> [] \<and> tx \<notin> set (nd_seen_tx_hashes self)
               \<and> set (nd_seen_tx_hashes self') = insert tx (set (nd_seen_tx_hashes self))
         else nd_seen_tx_hashes self' = nd_seen_tx_hashes self"
  using assms
  by (auto simp: verify_payment_def Let_def split: option.splits if_splits prod.splits sum.splits)

text \<open>The transactions of a list of accepted tasks are fresh with respect to \<open>seen\<close>, and each other.\<close>

definition fresh_txs :: "string set \<Rightarrow> task list \<Rightarrow> bool" where
  "fresh_txs seen ts \<longleftrightarrow> (\<forall>t \<in> set ts. \<exists>tx. task_payment_tx t = Some tx \<and> tx \<noteq> [] \<and> tx \<notin> seen)
     \<and> distinct (map task_payment_tx ts)"

abbreviation txs_of :: "task list \<Rightarrow> string set" where
  "txs_of ts \<equiv> {tx. Some tx \<in> task_payment_tx ` set ts}"

lemma fresh_txs_append:
  "fresh_txs seen as \<Longrightarrow> fresh_txs (seen \<union> txs_of as) bs \<Longrightarrow> fresh_txs seen (as @ bs)"
  by (auto simp: fresh_txs_def) (metis image_eqI)

lemma verify_all_spec:
  assumes "verify_all N ts self = (vs, self')"
  shows "set vs \<subseteq> set ts \<and> nd_trust_list self' = nd_trust_list self \<and> nd_payment self' = nd_payment self"
    and "nd_payment self = Some cfg \<Longrightarrow> pc_required_amount cfg \<noteq> 0 \<Longrightarrow>
      fresh_txs (set (nd_seen_tx_hashes self)) vs
      \<and> set (nd_seen_tx_hashes self') = set (nd_seen_tx_hashes self) \<union> txs_of vs"
proof -
  have "set vs \<subseteq> set ts \<and> nd_trust_list self' = nd_trust_list self \<and> nd_payment self' = nd_payment self
    \<and> (nd_payment self = Some cfg \<longrightarrow> pc_required_amount cfg \<noteq> 0 \<longrightarrow>
      fresh_txs (set (nd_seen_tx_hashes self)) vs
      \<and> set (nd_seen_tx_hashes self') = set (nd_seen_tx_hashes self) \<union> txs_of vs)"
    using assms
  proof (induction ts arbitrary: self vs)
    case (Cons t ts)
    obtain ok s1 where v: "verify_payment N t self = (ok, s1)" by fastforce
    obtain vs1 where r: "verify_all N ts s1 = (vs1, self')" and vs: "vs = (if ok then t # vs1 else vs1)"
      using Cons.prems v by (auto split: prod.splits)
    note IH = Cons.IH [OF r] and fr = verify_payment_frame [OF v]
    show ?case
    proof (intro conjI impI)
      show "set vs \<subseteq> set (t # ts)" "nd_trust_list self' = nd_trust_list self" "nd_payment self' = nd_payment self"
        using IH fr vs by auto
      assume p: "nd_payment self = Some cfg" "pc_required_amount cfg \<noteq> 0"
      note acc = verify_payment_accept [OF v p]
      have IH1: "fresh_txs (set (nd_seen_tx_hashes s1)) vs1"
        "set (nd_seen_tx_hashes self') = set (nd_seen_tx_hashes s1) \<union> txs_of vs1"
        using IH p fr by auto
      show "fresh_txs (set (nd_seen_tx_hashes self)) vs"
        using acc IH1(1) vs by (fastforce simp: fresh_txs_def split: if_splits)
      show "set (nd_seen_tx_hashes self') = set (nd_seen_tx_hashes self) \<union> txs_of vs"
        using acc IH1(2) vs by (auto split: if_splits)
    qed
  qed (simp add: fresh_txs_def)
  then show "set vs \<subseteq> set ts \<and> nd_trust_list self' = nd_trust_list self \<and> nd_payment self' = nd_payment self"
    and "nd_payment self = Some cfg \<Longrightarrow> pc_required_amount cfg \<noteq> 0 \<Longrightarrow>
      fresh_txs (set (nd_seen_tx_hashes self)) vs
      \<and> set (nd_seen_tx_hashes self') = set (nd_seen_tx_hashes self) \<union> txs_of vs" by blast+
qed

section \<open>Payload round trip\<close>

text \<open>The JSON codecs of tasks and envelopes read back what they wrote.\<close>

definition codecs_ok :: "('bf, 'tr, 'rx, 'c, 'w) node_env \<Rightarrow> bool" where
  "codecs_ok N \<longleftrightarrow> (\<forall>t b. ne_task_to_vec N t = Inr b \<longrightarrow> ne_task_from_slice N b = Inr t)
     \<and> (\<forall>e b. ne_env_to_vec N e = Inr b \<longrightarrow> ne_env_from_slice N b = Some e)"

text \<open>What has just been uploaded can be downloaded.\<close>

definition storage_ok :: "('bf, 'tr, 'rx, 'c, 'w) node_env \<Rightarrow> bool" where
  "storage_ok N \<longleftrightarrow> (\<forall>data w cid w'. ne_upload N data w = (Inr cid, w') \<longrightarrow> (\<exists>w''. ne_download N cid w' = (Inr data, w'')))"

text \<open>
  The receiver the sender has in mind: when the card carries an intro bundle, it is the one of
  the receiver's identity.
\<close>

definition addressed_to ::
    "('bf, 'tr, 'rx, 'c, 'w) node_env \<Rightarrow> agent_card option \<Rightarrow> ('bf, 'tr, 'rx, 'sk, 'w) node \<Rightarrow> bool" where
  "addressed_to N recipient B \<longleftrightarrow>
     (\<forall>c b. recipient = Some c \<longrightarrow> card_intro_bundle c = Some b \<longrightarrow>
        (\<exists>i. nd_identity B = Some i \<and> identity_wf (ne_crypto N) i
             \<and> b = intro_bundle_new (public_key_hex (ne_crypto N) i)))"

lemma encrypt_extract:
  assumes "crypto_ok (ne_crypto N)" and "codecs_ok N" and "addressed_to N recipient B" and "length nonce = 12"
    and "\<forall>i. nd_identity A = Some i \<longrightarrow> identity_wf (ne_crypto N) i"
    and "maybe_encrypt_task N nonce t recipient A = (Inr env, A1)"
  shows "\<exists>f. extract_task_from_envelope N env B =
      (let (r, s) = maybe_fetch_offloaded N t (count f B) in (Returns r, s))"
    and "nd_world A1 = nd_world A" and "nd_storage_offload A1 = nd_storage_offload A" and "nd_identity A1 = nd_identity A"
proof -
  have plain: "count (\<lambda>m. m) B = B" by (simp add: count_def)
  have "(\<exists>f. extract_task_from_envelope N env B =
      (let (r, s) = maybe_fetch_offloaded N t (count f B) in (Returns r, s)))
    \<and> nd_world A1 = nd_world A \<and> nd_storage_offload A1 = nd_storage_offload A \<and> nd_identity A1 = nd_identity A"
  proof (cases "\<exists>iA c b. nd_identity A = Some iA \<and> recipient = Some c \<and> card_intro_bundle c = Some b")
    case False
    then have "env = EnvTask t" "A1 = A"
      using assms(6) by (auto simp: maybe_encrypt_task_def split: option.splits)
    then show ?thesis using plain by (auto simp: extract_task_from_envelope_def intro!: exI [of _ "\<lambda>m. m"])
  next
    case True
    then obtain iA c b where A: "nd_identity A = Some iA" "recipient = Some c" "card_intro_bundle c = Some b" by blast
    then obtain iB where B: "nd_identity B = Some iB" "identity_wf (ne_crypto N) iB"
      "b = intro_bundle_new (public_key_hex (ne_crypto N) iB)" using assms(3) unfolding addressed_to_def by blast
    have iA: "identity_wf (ne_crypto N) iA" using assms(5) A(1) by blast
    note parse = parse_public_key_hex [OF assms(1) B(2)] parse_public_key_hex [OF assms(1) iA]
    obtain json enc where j: "ne_task_to_vec N t = Inr json"
      "encrypt (ne_crypto N) nonce (shared_key (ne_crypto N) iA (id_public iB)) json = Inr enc"
      "env = EnvEncryptedTask enc (public_key_hex (ne_crypto N) iA)"
      "A1 = count (\<lambda>m. m\<lparr>encryptions := inc (encryptions m)\<rparr>) A"
      using assms(6) A B(3) parse(1)
      by (auto simp: maybe_encrypt_task_def intro_bundle_new_def split: sum.splits)
    have "ne_task_from_slice N json = Inr t" using j(1) assms(2) by (simp add: codecs_ok_def)
    then have "decrypt_task N iB (public_key_hex (ne_crypto N) iA) enc B =
        (Returns (Inr t), count (\<lambda>m. m\<lparr>decryptions := inc (decryptions m)\<rparr>) B)"
      using parse(2) decrypt_encrypt [OF assms(1,4) j(2)] shared_key_sym [OF assms(1) iA B(2)]
      by (simp add: decrypt_task_def)
    then show ?thesis using j(3,4) B(1) by (auto simp: extract_task_from_envelope_def)
  qed
  then show "\<exists>f. extract_task_from_envelope N env B =
      (let (r, s) = maybe_fetch_offloaded N t (count f B) in (Returns r, s))"
    and "nd_world A1 = nd_world A" and "nd_storage_offload A1 = nd_storage_offload A" and "nd_identity A1 = nd_identity A"
    by blast+
qed

section \<open>A closed example\<close>

text \<open>
  A transport that hands over a queue of raw messages, a table of envelopes, and a node whose
  backends do nothing.
\<close>

definition queue_transport :: "(bytes list, unit) transport" where
  "queue_transport = \<lparr>tp_publish = (\<lambda>q _ _. (Inr (), q)), tp_subscribe = (\<lambda>q _. (Inr (), q)),
     tp_unsubscribe = (\<lambda>q _. (Inr (), q)), tp_recv = (\<lambda>q _ _. (RecvTimeout, q)),
     tp_drain = (\<lambda>q _. (q, []))\<rparr>"

definition example_nenv :: "(bytes \<times> a2a_envelope) list \<Rightarrow> (string list, bytes list, unit, bytes, unit) node_env" where
  "example_nenv table = \<lparr>
     ne_sds = \<lparr>env_bloom = exact_crate, env_sha = map (\<lambda>b. char_of (unat b)), env_to_vec = (\<lambda>_. Inl ''none''),
       env_from_slice = (\<lambda>_. None), env_ack_to_vec = (\<lambda>_. Inr []), env_ack_message_id = (\<lambda>_. None),
       env_transport = queue_transport\<rparr>,
     ne_crypto = toy_prims,
     ne_status = \<lparr>status_to_vec = (\<lambda>_. Inl ''none''), status_from_slice = (\<lambda>_. Inl ''none'')\<rparr>,
     ne_env_to_vec = (\<lambda>_. Inl ''none''), ne_env_from_slice = map_of table,
     ne_task_to_vec = (\<lambda>_. Inl ''none''), ne_task_from_slice = (\<lambda>_. Inl ''none''), ne_rows = example_rows,
     ne_upload = (\<lambda>_ w. (Inl ''none'', w)), ne_download = (\<lambda>_ w. (Inl ''none'', w)),
     ne_pay = (\<lambda>_ _ w. (Inl ''none'', w)), ne_verify_transfer = (\<lambda>_ w. (Inl ''none'', w)),
     ne_append = (\<lambda>_ w. (Inr (), w)),
     ne_registry = \<lparr>rg_register = (\<lambda>_ w. (Inr (), w)), rg_update = (\<lambda>_ w. (Inr (), w)),
       rg_deregister = (\<lambda>_ w. (Inr (), w)), rg_get = (\<lambda>k _. Inl (NotFound k)), rg_list = (\<lambda>_. Inr []),
       rg_find_by_capability = (\<lambda>_ _. Inr [])\<rparr>\<rparr>"

definition example_node :: "bytes list \<Rightarrow> (string list, bytes list, unit, unit, unit) node" where
  "example_node q = node_from_key (example_nenv []) 7 ''02ffffffff'' ''n'' ''d'' [] q () ()"

lemmas poll_defs = poll_tasks_def ensure_rx_def drain_rx_def set_transport_def count_def Let_def
  queue_transport_def receive_def then_accept_def extract_task_from_envelope_def
  maybe_fetch_offloaded_def accept_or_drop_def node_is_trusted_def node_trust_mode_def is_trusted_def
  verify_payment_def node_from_key_def node_with_channel_def card_of_def channel_new_def channel_with_config_def
  is_duplicate_def bloom_check_def bloom_new_def with_params_def exact_crate_def compute_message_id_def
  mark_seen_def bloom_set_def DEFAULT_CAPACITY_def pubkey_def task_new_def task_new_in_session_def
  bt_contains_def trust_empty_def

text \<open>The environment of a node that offloads the task \<open>t\<close>, stored under the CID \<open>c\<close>.\<close>

definition offload_nenv :: "task \<Rightarrow> (string list, bytes list, unit, bytes, unit) node_env" where
  "offload_nenv t = (example_nenv [([1, 1], EnvTask t), ([1], EnvTask (slim_task t ''c''))])\<lparr>
     ne_env_to_vec := (\<lambda>e. if e = EnvTask t then Inr [1, 1]
                           else if e = EnvTask (slim_task t ''c'') then Inr [1] else Inl ''none''),
     ne_task_to_vec := (\<lambda>x. if x = t then Inr [9] else Inl ''none''),
     ne_task_from_slice := (\<lambda>b. if b = [9] then Inr t else Inl ''none''),
     ne_upload := (\<lambda>d w. (if d = [9] then Inr ''c'' else Inl ''none'', w)),
     ne_download := (\<lambda>c w. (if c = ''c'' then Inr [9] else Inl ''none'', w))\<rparr>"

section \<open>Properties\<close>

text \<open>
  C4. Trust enforcement. With the trust list in \<open>Enforce\<close> mode, every task a poll returns comes
  from a trusted sender, whether it arrived through the SDS channel or raw, in the clear or
  encrypted, directly or through storage.
\<close>

theorem poll_enforces_trust:
  assumes "poll_tasks N uuid now self = (Returns (Inr ts), self')" and "node_trust_mode self = Enforce"
    and "t \<in> set ts"
  shows "node_is_trusted self (task_from t)"
  using assms(1)
proof (cases rule: poll_tasks_cases)
  case (ok tasks s4 vs s5)
  then have "t \<in> set tasks" using assms(3) verify_all_spec(1) by blast
  then show ?thesis
    using ok(1) assms(2) by (auto simp: admitting_def admitted_def node_is_trusted_def node_trust_mode_def)
next
  case failed
  then show ?thesis by simp
qed

theorem poll_enforces_trust_witness:
  "let t1 = task_new ''1'' ''02ab'' ''me'' ''hi''; t2 = task_new ''2'' ''02cd'' ''me'' ''spam'';
       N = example_nenv [([1], EnvTask t1), ([2], EnvTask t2)];
       self = with_trust_list (trust_add example_entry (with_mode Enforce)) (example_node [[2], [1]])
   in fst (poll_tasks N (\<lambda>s. s) 9 self) = Returns (Inr [t1]) \<and> node_is_trusted self (task_from t1)"
proof -
  define t1 t2 where "t1 = task_new ''1'' ''02ab'' ''me'' ''hi''" and "t2 = task_new ''2'' ''02cd'' ''me'' ''spam''"
  define N where "N = example_nenv [([1], EnvTask t1), ([2], EnvTask t2)]"
  define self where "self = with_trust_list (trust_add example_entry (with_mode Enforce)) (example_node [[2], [1]])"
  have run: "fst (poll_tasks N (\<lambda>s. s) 9 self) = Returns (Inr [t1])"
    by (simp add: N_def self_def example_nenv_def example_node_def with_trust_list_def trust_add_def
        with_mode_def example_entry_def t1_def t2_def poll_defs)
  have "node_trust_mode self = Enforce"
    by (simp add: self_def with_trust_list_def trust_add_def with_mode_def node_trust_mode_def)
  moreover obtain self' where "poll_tasks N (\<lambda>s. s) 9 self = (Returns (Inr [t1]), self')"
    using run by (metis prod.collapse)
  ultimately have "node_is_trusted self (task_from t1)"
    using poll_enforces_trust by fastforce
  then show ?thesis using run by (simp add: Let_def t1_def t2_def N_def self_def)
qed

text \<open>Several polls, one after the other: everything the successful ones returned.\<close>

fun poll_many ::
    "('bf, 'tr, 'rx, 'c, 'w) node_env \<Rightarrow> (string \<Rightarrow> string) \<Rightarrow> u64 list \<Rightarrow> ('bf, 'tr, 'rx, 'sk, 'w) node
       \<Rightarrow> task list \<times> ('bf, 'tr, 'rx, 'sk, 'w) node" where
  "poll_many N uuid [] self = ([], self)"
| "poll_many N uuid (now # nows) self =
     (case poll_tasks N uuid now self of
        (Returns (Inr ts), self1) \<Rightarrow> (let (ts', self2) = poll_many N uuid nows self1 in (ts @ ts', self2))
      | (_, self1) \<Rightarrow> poll_many N uuid nows self1)"

lemma poll_payment:
  assumes "poll_tasks N uuid now self = (r, self')" and "nd_payment self = Some cfg" and "pc_required_amount cfg \<noteq> 0"
  shows "nd_payment self' = Some cfg \<and> (case r of
      Returns (Inr ts) \<Rightarrow> fresh_txs (set (nd_seen_tx_hashes self)) ts
          \<and> set (nd_seen_tx_hashes self') = set (nd_seen_tx_hashes self) \<union> txs_of ts
    | _ \<Rightarrow> nd_seen_tx_hashes self' = nd_seen_tx_hashes self)"
  using assms(1)
proof (cases rule: poll_tasks_cases)
  case (ok tasks s4 vs s5)
  have "nd_payment s4 = Some cfg" "nd_seen_tx_hashes s4 = nd_seen_tx_hashes self"
    using ok(1) assms(2) by (simp_all add: admitting_def same_policy_def)
  then show ?thesis
    using verify_all_spec [OF ok(2)] assms(3) ok(3,4) by simp
next
  case failed
  then show ?thesis
    using assms(2) by (auto simp: same_policy_def split: exec.splits sum.splits)
qed



text \<open>
  C9. A task survives the way to its recipient. Whatever combination of encryption and
  offloading the sender's configuration selects, the payload it prepares is turned back into
  exactly the task by the recipient it is addressed to, on the storage the sender used.
\<close>

theorem payload_roundtrip:
  assumes ok: "crypto_ok (ne_crypto N)" "codecs_ok N" "storage_ok N" "addressed_to N recipient B"
    and nonces: "length n1 = 12" "length n2 = 12"
    and identity: "\<forall>i. nd_identity A = Some i \<longrightarrow> identity_wf (ne_crypto N) i"
    and send: "prepare_payload N n1 n2 t recipient A = (Inr payload, A')"
    and storage: "nd_world B = nd_world A'" "nd_storage_offload A \<noteq> None \<longrightarrow> nd_storage_offload B \<noteq> None"
    and fresh: "task_payload_cid t = None"
  shows "\<exists>B'. extract_task N payload B = (Returns (Inr (Some t)), B')"
proof -
  obtain env A1 p1 where e1: "maybe_encrypt_task N n1 t recipient A = (Inr env, A1)" "ne_env_to_vec N env = Inr p1"
    using send by (auto simp: prepare_payload_def split: prod.splits sum.splits)
  note enc1 = encrypt_extract [OF ok(1,2,4) nonces(1) identity e1(1)]
  have dec: "ne_env_from_slice N p = Some e" if "ne_env_to_vec N e = Inr p" for e p
    using that ok(2) by (simp add: codecs_ok_def)
  show ?thesis
  proof (cases "\<exists>th. nd_storage_offload A1 = Some th \<and> th < length p1")
    case False
    then have "payload = p1"
      using send e1 by (auto simp: prepare_payload_def split: option.splits if_splits)
    then show ?thesis
      using enc1(1) dec [OF e1(2)] fresh by (auto simp: extract_task_def maybe_fetch_offloaded_def)
  next
    case True
    then obtain th where th: "nd_storage_offload A1 = Some th" "th < length p1" by blast
    obtain tb cid w A2 env2 where up: "ne_task_to_vec N t = Inr tb" "ne_upload N tb (nd_world A1) = (Inr cid, w)"
      "maybe_encrypt_task N n2 (slim_task t cid) recipient (A1\<lparr>nd_world := w\<rparr>) = (Inr env2, A2)"
      "ne_env_to_vec N env2 = Inr payload" "A' = A2"
      using send e1 th by (auto simp: prepare_payload_def split: prod.splits sum.splits)
    have idA: "\<forall>i. nd_identity (A1\<lparr>nd_world := w\<rparr>) = Some i \<longrightarrow> identity_wf (ne_crypto N) i"
      using identity enc1(4) by simp
    note enc2 = encrypt_extract [OF ok(1,2,4) nonces(2) idA up(3)]
    have "nd_world B = w" "nd_storage_offload B \<noteq> None"
      using storage enc2(2) up(5) th(1) enc1(3) by auto
    moreover obtain w'' where "ne_download N cid w = (Inr tb, w'')" using ok(3) up(2) unfolding storage_ok_def by blast
    moreover have "ne_task_from_slice N tb = Inr t" using ok(2) up(1) by (simp add: codecs_ok_def)
    ultimately show ?thesis
      using enc2(1) dec [OF up(4)] by (auto simp: extract_task_def maybe_fetch_offloaded_def slim_task_def)
  qed
qed

theorem payload_roundtrip_witness:
  "let t = task_new ''1'' ''02ab'' ''me'' ''hi''; self = with_storage_offload 1 (example_node [])
   in fst (prepare_payload (offload_nenv t) (replicate 12 0) (replicate 12 0) t None self) = Inr [1]
      \<and> (\<exists>B'. extract_task (offload_nenv t) [1] self = (Returns (Inr (Some t)), B'))"
proof -
  define t where "t = task_new ''1'' ''02ab'' ''me'' ''hi''"
  define self where "self = with_storage_offload 1 (example_node [])"
  let ?N = "offload_nenv t"
  have cid: "task_payload_cid t = None" "task_payload_cid (slim_task t ''c'') = Some ''c''"
    by (simp_all add: t_def task_new_def slim_task_def)
  then have ne: "slim_task t ''c'' \<noteq> t" "t \<noteq> slim_task t ''c''" by auto
  have crypto: "ne_crypto ?N = toy_prims" by (simp add: offload_nenv_def example_nenv_def)
  have codecs: "codecs_ok ?N" "storage_ok ?N"
    by (auto simp: codecs_ok_def storage_ok_def offload_nenv_def example_nenv_def ne split: if_splits)
  have self: "nd_identity self = None" "nd_storage_offload self = Some 1" "nd_world self = ()"
    by (simp_all add: self_def with_storage_offload_def example_node_def node_from_key_def node_with_channel_def)
  have run: "prepare_payload ?N (replicate 12 0) (replicate 12 0) t None self = (Inr [1], self\<lparr>nd_world := ()\<rparr>)"
    by (simp add: prepare_payload_def maybe_encrypt_task_def self offload_nenv_def ne)
  have "\<exists>B'. extract_task ?N [1] self = (Returns (Inr (Some t)), B')"
    by (rule payload_roundtrip [OF _ codecs _ _ _ _ run])
       (simp_all add: crypto toy_prims_ok addressed_to_def self cid)
  then show ?thesis using run by (simp add: Let_def t_def self_def)
qed

end
