(* ===== verification/Node_Streaming.thy ===== *)
theory Node_Streaming
  imports Node_Safety
begin

text \<open>
  Streamed responses (\<open>crates/logos-messaging-a2a-node/src/streaming.rs\<close>): publishing the chunks of
  a response, polling for them, and putting them together. The property of the theory says exactly
  which text a receiver reads from the chunks that have reached it, whatever their order, their
  repetitions and the number of polls.
\<close>

section \<open>Operations\<close>

text \<open>\<open>self.channel.transport().publish(topic, payload).await?\<close>\<close>

definition node_publish ::
    "('bf, 'tr, 'rx, 'c, 'w) node_env \<Rightarrow> string \<Rightarrow> bytes \<Rightarrow> ('bf, 'tr, 'rx, 'sk, 'w) node
       \<Rightarrow> ('bf, 'tr, 'rx, 'sk, 'w, unit) node_result" where
  "node_publish N topic payload self =
     (case ch_publish (ne_sds N) topic payload (nd_channel self) of
        (Inl e, ch) \<Rightarrow> (Inl (NTransport e), self\<lparr>nd_channel := ch\<rparr>)
      | (Inr _, ch) \<Rightarrow> (Inr (), self\<lparr>nd_channel := ch\<rparr>))"

definition stream_chunk :: "string \<Rightarrow> nat \<Rightarrow> nat \<Rightarrow> string \<Rightarrow> task_stream_chunk" where
  "stream_chunk tid tot i content =
     \<lparr>chunk_task_id = tid, chunk_index = word_of_nat i, chunk_text = content, chunk_is_final = (i = tot - 1)\<rparr>"

text \<open>The loop over \<open>chunks.into_iter().enumerate()\<close> from index \<open>i\<close> on.\<close>

fun publish_chunks ::
    "('bf, 'tr, 'rx, 'c, 'w) node_env \<Rightarrow> string \<Rightarrow> string \<Rightarrow> nat \<Rightarrow> nat \<Rightarrow> string list
       \<Rightarrow> ('bf, 'tr, 'rx, 'sk, 'w) node \<Rightarrow> ('bf, 'tr, 'rx, 'sk, 'w, unit) node_result" where
  "publish_chunks N topic tid tot i [] self = (Inr (), self)"
| "publish_chunks N topic tid tot i (content # rest) self =
     (case ne_env_to_vec N (EnvStreamChunk (stream_chunk tid tot i content)) of
        Inl e \<Rightarrow> (Inl (NSerialization e), self)
      | Inr payload \<Rightarrow>
          (case node_publish N topic payload self of
             (Inl e, self1) \<Rightarrow> (Inl e, self1)
           | (Inr _, self1) \<Rightarrow> publish_chunks N topic tid tot (Suc i) rest self1))"

definition respond_stream ::
    "('bf, 'tr, 'rx, 'c, 'w) node_env \<Rightarrow> task \<Rightarrow> string list \<Rightarrow> ('bf, 'tr, 'rx, 'sk, 'w) node
       \<Rightarrow> ('bf, 'tr, 'rx, 'sk, 'w, unit) node_result" where
  "respond_stream N t chunks self =
     (let topic = stream_topic (task_id t); tot = length chunks
      in case publish_chunks N topic (task_id t) tot 0 chunks self of
           (Inl e, self1) \<Rightarrow> (Inl e, self1)
         | (Inr _, self1) \<Rightarrow>
             (Inr (), count (\<lambda>m. m\<lparr>stream_chunks_sent := inc_by tot (stream_chunks_sent m),
                                   messages_published := inc_by tot (messages_published m)\<rparr>) self1))"

text \<open>The chunks of a task among raw messages.\<close>

fun chunks_of :: "('bf, 'tr, 'rx, 'c, 'w) node_env \<Rightarrow> string \<Rightarrow> bytes list \<Rightarrow> task_stream_chunk list" where
  "chunks_of N tid [] = []"
| "chunks_of N tid (msg # msgs) =
     (case ne_env_from_slice N msg of
        Some (EnvStreamChunk chunk) \<Rightarrow>
          if chunk_task_id chunk = tid then chunk # chunks_of N tid msgs else chunks_of N tid msgs
      | _ \<Rightarrow> chunks_of N tid msgs)"

definition merge_chunk :: "task_stream_chunk \<Rightarrow> task_stream_chunk list \<Rightarrow> task_stream_chunk list" where
  "merge_chunk chunk entry =
     (if chunk_index chunk \<in> chunk_index ` set entry then entry else entry @ [chunk])"

definition poll_stream_chunks ::
    "('bf, 'tr, 'rx, 'c, 'w) node_env \<Rightarrow> string \<Rightarrow> ('bf, 'tr, 'rx, 'sk, 'w) node
       \<Rightarrow> ('bf, 'tr, 'rx, 'sk, 'w, task_stream_chunk list) node_result" where
  "poll_stream_chunks N tid self =
     (case ensure_rx N (stream_topic tid) (hm_get (nd_stream_rx self) tid) self of
        (Inl e, self1) \<Rightarrow> (Inl e, self1)
      | (Inr rx, self1) \<Rightarrow>
          let (msgs, self2) = drain_rx N rx (self1\<lparr>nd_stream_rx := hm_insert tid rx (nd_stream_rx self1)\<rparr>);
              new_chunks = chunks_of N tid msgs;
              self3 = count (\<lambda>m. m\<lparr>stream_chunks_received := inc_by (length new_chunks) (stream_chunks_received m)\<rparr>) self2;
              entry = (case hm_get (nd_stream_chunks self3) tid of None \<Rightarrow> [] | Some cs \<Rightarrow> cs);
              entry1 = sort_key chunk_index (fold merge_chunk new_chunks entry)
          in (Inr entry1, self3\<lparr>nd_stream_chunks := hm_insert tid entry1 (nd_stream_chunks self3)\<rparr>))"

definition reassemble_stream :: "('bf, 'tr, 'rx, 'sk, 'w) node \<Rightarrow> string \<Rightarrow> string option" where
  "reassemble_stream self tid =
     (case hm_get (nd_stream_chunks self) tid of
        None \<Rightarrow> None
      | Some chunks \<Rightarrow>
          if chunks = [] then None
          else if \<not> list_ex chunk_is_final chunks then None
          else Some (concat (map chunk_text chunks)))"

section \<open>What a sender publishes\<close>

abbreviation nd_log :: "('bf, 'tr \<times> tp_log, 'rx, 'sk, 'w) node \<Rightarrow> tp_log" where
  "nd_log self \<equiv> ch_log (nd_channel self)"

abbreviation payload_of :: "('bf, 'tr, 'rx, 'c, 'w) node_env \<Rightarrow> a2a_envelope \<Rightarrow> bytes \<Rightarrow> bool" where
  "payload_of N e p \<equiv> ne_env_to_vec N e = Inr p"

lemma node_publish_log:
  assumes "env_transport (ne_sds N) = logged T" and "node_publish N topic p self = (r, self')"
  shows "nd_log self' = (nd_log self)\<lparr>log_published := log_published (nd_log self) @ [(topic, p)]\<rparr>"
proof -
  obtain tr l where "ch_transport (nd_channel self) = (tr, l)" by fastforce
  then show ?thesis
    using assms by (auto simp: node_publish_def ch_publish_def split: prod.splits sum.splits)
qed

lemma publish_chunks_log:
  assumes "env_transport (ne_sds N) = logged T"
    and "publish_chunks N topic tid tot i cs self = (Inr u, self')"
  shows "\<exists>ps. list_all2 (payload_of N) (map (\<lambda>j. EnvStreamChunk (stream_chunk tid tot (i + j) (cs ! j))) [0..<length cs]) ps
    \<and> log_published (nd_log self') = log_published (nd_log self) @ map (Pair topic) ps"
  using assms(2)
proof (induction cs arbitrary: i self)
  case (Cons c cs)
  obtain p self1 where p: "ne_env_to_vec N (EnvStreamChunk (stream_chunk tid tot i c)) = Inr p"
    and pub: "node_publish N topic p self = (Inr (), self1)"
    and rest: "publish_chunks N topic tid tot (Suc i) cs self1 = (Inr u, self')"
    using Cons.prems by (auto split: sum.splits prod.splits)
  obtain ps where ps: "list_all2 (payload_of N)
      (map (\<lambda>j. EnvStreamChunk (stream_chunk tid tot (Suc i + j) (cs ! j))) [0..<length cs]) ps"
    "log_published (nd_log self') = log_published (nd_log self1) @ map (Pair topic) ps"
    using Cons.IH [OF rest] by blast
  have "map (\<lambda>j. EnvStreamChunk (stream_chunk tid tot (i + j) ((c # cs) ! j))) [0..<length (c # cs)]
      = EnvStreamChunk (stream_chunk tid tot i c)
        # map (\<lambda>j. EnvStreamChunk (stream_chunk tid tot (Suc i + j) (cs ! j))) [0..<length cs]"
    by (simp add: map_upt_Suc del: upt_Suc)
  then show ?case
    using ps p node_publish_log [OF assms(1) pub] by (intro exI [of _ "p # ps"]) (simp add: add.commute)
qed simp

section \<open>What a receiver keeps\<close>

text \<open>Several polls for one task, one after the other, until one fails.\<close>

primrec poll_stream_many ::
    "('bf, 'tr, 'rx, 'c, 'w) node_env \<Rightarrow> string \<Rightarrow> nat \<Rightarrow> ('bf, 'tr, 'rx, 'sk, 'w) node
       \<Rightarrow> ('bf, 'tr, 'rx, 'sk, 'w, unit) node_result" where
  "poll_stream_many N tid 0 self = (Inr (), self)"
| "poll_stream_many N tid (Suc n) self =
     (case poll_stream_chunks N tid self of
        (Inl e, self1) \<Rightarrow> (Inl e, self1)
      | (Inr _, self1) \<Rightarrow> poll_stream_many N tid n self1)"

text \<open>The chunks with the indices in \<open>I\<close> of the stream \<open>cs\<close>, in order.\<close>

definition stream_part :: "string \<Rightarrow> string list \<Rightarrow> nat set \<Rightarrow> task_stream_chunk list" where
  "stream_part tid cs I = map (\<lambda>i. stream_chunk tid (length cs) i (cs ! i)) (filter (\<lambda>i. i \<in> I) [0..<length cs])"

abbreviation buffered :: "('bf, 'tr, 'rx, 'sk, 'w) node \<Rightarrow> string \<Rightarrow> task_stream_chunk list" where
  "buffered self tid \<equiv> (case hm_get (nd_stream_chunks self) tid of None \<Rightarrow> [] | Some cs \<Rightarrow> cs)"

lemma set_stream_part:
  "set (stream_part tid cs I) = (\<lambda>i. stream_chunk tid (length cs) i (cs ! i)) ` {i. i < length cs \<and> i \<in> I}"
  by (auto simp: stream_part_def)

lemma chunk_index_nat: "i < 2 ^ 32 \<Longrightarrow> unat (chunk_index (stream_chunk tid tot i c)) = i"
  by (simp add: stream_chunk_def unat_of_nat take_bit_nat_eq_self)

lemma chunk_index_inj:
  assumes "length cs \<le> 2 ^ 32"
  shows "inj_on chunk_index (set (stream_part tid cs UNIV))"
proof (rule inj_onI)
  fix x y assume "x \<in> set (stream_part tid cs UNIV)" "y \<in> set (stream_part tid cs UNIV)"
    and eq: "chunk_index x = chunk_index y"
  then obtain i j where i: "i < length cs" "x = stream_chunk tid (length cs) i (cs ! i)"
    and j: "j < length cs" "y = stream_chunk tid (length cs) j (cs ! j)"
    by (auto simp: set_stream_part)
  have "unat (chunk_index x) = i" unfolding i(2) using i(1) assms by (intro chunk_index_nat) (rule order.strict_trans2)
  moreover have "unat (chunk_index y) = j" unfolding j(2) using j(1) assms by (intro chunk_index_nat) (rule order.strict_trans2)
  ultimately have "i = j" using eq by simp
  then show "x = y" using i j by simp
qed

lemma stream_part_sorted:
  assumes "length cs \<le> 2 ^ 32"
  shows "sorted (map chunk_index (stream_part tid cs I))" and "distinct (map chunk_index (stream_part tid cs I))"
proof -
  have "sorted_wrt (<) (map chunk_index (stream_part tid cs I))"
    unfolding stream_part_def map_map sorted_wrt_map
  proof (rule sorted_wrt_mono_rel)
    show "sorted_wrt (<) (filter (\<lambda>i. i \<in> I) [0..<length cs])" by (simp add: sorted_wrt_filter)
    fix i j assume "i \<in> set (filter (\<lambda>i. i \<in> I) [0..<length cs])" "j \<in> set (filter (\<lambda>i. i \<in> I) [0..<length cs])" "i < j"
    then show "(chunk_index \<circ> (\<lambda>i. stream_chunk tid (length cs) i (cs ! i))) i
        < (chunk_index \<circ> (\<lambda>i. stream_chunk tid (length cs) i (cs ! i))) j"
      using assms by (simp add: word_less_nat_alt chunk_index_nat)
  qed
  then show "sorted (map chunk_index (stream_part tid cs I))" "distinct (map chunk_index (stream_part tid cs I))"
    by (simp_all add: strict_sorted_iff)
qed

lemma merge_all:
  assumes "inj_on chunk_index (set new \<union> set entry)" and "distinct (map chunk_index entry)"
  shows "distinct (map chunk_index (fold merge_chunk new entry)) \<and> set (fold merge_chunk new entry) = set entry \<union> set new"
  using assms
proof (induction new arbitrary: entry)
  case (Cons c new)
  have e: "set (merge_chunk c entry) = insert c (set entry)"
    using Cons.prems(1) by (auto simp: merge_chunk_def inj_on_def)
  have "distinct (map chunk_index (merge_chunk c entry))"
    using Cons.prems(2) by (auto simp: merge_chunk_def)
  moreover have "inj_on chunk_index (set new \<union> set (merge_chunk c entry))"
    using Cons.prems(1) by (simp add: e)
  ultimately show ?case using Cons.IH [of "merge_chunk c entry"] e by auto
qed simp

lemma merge_stream_part:
  assumes "length cs \<le> 2 ^ 32"
    and "set new = (\<lambda>i. stream_chunk tid (length cs) i (cs ! i)) ` {i. i < length cs \<and> i \<in> J}"
  shows "sort_key chunk_index (fold merge_chunk new (stream_part tid cs I)) = stream_part tid cs (I \<union> J)"
proof (rule map_sorted_distinct_set_unique [where f = chunk_index])
  let ?new = "fold merge_chunk new (stream_part tid cs I)"
  have sub: "set new \<union> set (stream_part tid cs I) \<subseteq> set (stream_part tid cs UNIV)"
    using assms(2) by (auto simp: set_stream_part)
  have inj: "inj_on chunk_index (set new \<union> set (stream_part tid cs I))"
    using chunk_index_inj [OF assms(1)] sub by (rule inj_on_subset)
  note m = merge_all [OF inj stream_part_sorted(2) [OF assms(1)]]
  show set: "set (sort_key chunk_index ?new) = set (stream_part tid cs (I \<union> J))"
    using m assms(2) by (auto simp: set_stream_part)
  show "inj_on chunk_index (set (sort_key chunk_index ?new) \<union> set (stream_part tid cs (I \<union> J)))"
    using inj m set by (simp add: Un_commute)
  show "distinct (map chunk_index (sort_key chunk_index ?new))"
    using m by (metis distinct_map distinct_sort set_sort)
qed (simp_all add: stream_part_sorted [OF assms(1)])

lemma part_text_nths: "concat (map chunk_text (stream_part tid cs I)) = concat (nths cs I)"
proof -
  have "nths cs I = map (\<lambda>i. cs ! i) (filter (\<lambda>i. i \<in> I) [0..<length cs])"
  proof (induction cs rule: rev_induct)
    case (snoc c cs)
    have "map ((!) (cs @ [c])) (filter (\<lambda>i. i \<in> I) [0..<length cs]) = map ((!) cs) (filter (\<lambda>i. i \<in> I) [0..<length cs])"
      by (rule map_cong) (auto simp: nth_append)
    then show ?case using snoc by (simp add: nths_append)
  qed simp
  then show ?thesis by (simp add: stream_part_def stream_chunk_def comp_def)
qed

lemma ensure_drain_log:
  assumes "env_transport (ne_sds N) = logged T"
  shows "ensure_rx N topic slot self = (r, self1) \<Longrightarrow> nd_log self1 = nd_log self \<and> nd_stream_chunks self1 = nd_stream_chunks self"
    and "drain_rx N rx self = (ms, self1) \<Longrightarrow> nd_log self1 = (nd_log self)\<lparr>log_drained := log_drained (nd_log self) @ ms\<rparr>
      \<and> nd_stream_chunks self1 = nd_stream_chunks self"
proof -
  obtain tr l where "ch_transport (nd_channel self) = (tr, l)" by fastforce
  then show "ensure_rx N topic slot self = (r, self1) \<Longrightarrow> nd_log self1 = nd_log self \<and> nd_stream_chunks self1 = nd_stream_chunks self"
    and "drain_rx N rx self = (ms, self1) \<Longrightarrow> nd_log self1 = (nd_log self)\<lparr>log_drained := log_drained (nd_log self) @ ms\<rparr>
      \<and> nd_stream_chunks self1 = nd_stream_chunks self"
    using assms
    by (auto simp: ensure_rx_def drain_rx_def set_transport_def split: option.splits prod.splits sum.splits)
qed

lemma poll_stream_merges:
  assumes "env_transport (ne_sds N) = logged T" and "poll_stream_chunks N tid self = (Inr entry, self')"
  shows "\<exists>ms. log_drained (nd_log self') = log_drained (nd_log self) @ ms
    \<and> buffered self' tid = sort_key chunk_index (fold merge_chunk (chunks_of N tid ms) (buffered self tid))
    \<and> hm_get (nd_stream_chunks self') tid \<noteq> None"
proof -
  obtain rx self1 where e: "ensure_rx N (stream_topic tid) (hm_get (nd_stream_rx self) tid) self = (Inr rx, self1)"
    using assms(2) by (auto simp: poll_stream_chunks_def split: prod.splits sum.splits)
  obtain ms self2 where d: "drain_rx N rx (self1\<lparr>nd_stream_rx := hm_insert tid rx (nd_stream_rx self1)\<rparr>) = (ms, self2)"
    by fastforce
  show ?thesis
    using assms(2) e d ensure_drain_log(1) [OF assms(1) e] ensure_drain_log(2) [OF assms(1) d]
    by (intro exI [of _ ms])
       (auto simp: poll_stream_chunks_def Let_def count_def hm_get_def hm_insert_def update_conv)
qed

text \<open>A message that is no chunk of the task, or the payload of one of the chunks of the stream.\<close>

definition genuine ::
    "('bf, 'tr, 'rx, 'c, 'w) node_env \<Rightarrow> string \<Rightarrow> string list \<Rightarrow> bytes \<Rightarrow> bool" where
  "genuine N tid cs m \<longleftrightarrow> (\<forall>c. ne_env_from_slice N m = Some (EnvStreamChunk c) \<longrightarrow> chunk_task_id c = tid
     \<longrightarrow> c \<in> set (stream_part tid cs UNIV))"

lemma set_chunks_of:
  "set (chunks_of N tid ms) = {c. \<exists>m \<in> set ms. ne_env_from_slice N m = Some (EnvStreamChunk c) \<and> chunk_task_id c = tid}"
  by (induction ms) (auto split: option.splits a2a_envelope.splits)

lemma poll_stream_many_drained:
  assumes "env_transport (ne_sds N) = logged T" and "poll_stream_many N tid n self = (Inr u, self')"
  shows "\<exists>ms. log_drained (nd_log self') = log_drained (nd_log self) @ ms"
  using assms(2)
proof (induction n arbitrary: self)
  case (Suc n)
  obtain entry self1 where p: "poll_stream_chunks N tid self = (Inr entry, self1)"
    and rest: "poll_stream_many N tid n self1 = (Inr u, self')"
    using Suc.prems by (auto split: prod.splits sum.splits)
  show ?case using Suc.IH [OF rest] poll_stream_merges [OF assms(1) p] by (metis append.assoc)
qed simp

lemma poll_stream_many_buffer:
  assumes "env_transport (ne_sds N) = logged T" and "length cs \<le> 2 ^ 32"
    and "poll_stream_many N tid n self = (Inr u, self')" and "buffered self tid = stream_part tid cs I"
    and "log_drained (nd_log self') = log_drained (nd_log self) @ ms" and "\<forall>m \<in> set ms. genuine N tid cs m"
  shows "buffered self' tid = stream_part tid cs
     (I \<union> {i. stream_chunk tid (length cs) i (cs ! i) \<in> set (chunks_of N tid ms)})"
  using assms(3-6)
proof (induction n arbitrary: self I ms)
  case (Suc n)
  obtain entry self1 where p: "poll_stream_chunks N tid self = (Inr entry, self1)"
    and rest: "poll_stream_many N tid n self1 = (Inr u, self')"
    using Suc.prems(1) by (auto split: prod.splits sum.splits)
  obtain ms1 where ms1: "log_drained (nd_log self1) = log_drained (nd_log self) @ ms1"
    "buffered self1 tid = sort_key chunk_index (fold merge_chunk (chunks_of N tid ms1) (buffered self tid))"
    using poll_stream_merges [OF assms(1) p] by blast
  obtain ms2 where ms2: "log_drained (nd_log self') = log_drained (nd_log self1) @ ms2"
    using poll_stream_many_drained [OF assms(1) rest] by blast
  have ms: "ms = ms1 @ ms2" using Suc.prems(3) ms1(1) ms2 by simp
  let ?J = "\<lambda>ms. {i. stream_chunk tid (length cs) i (cs ! i) \<in> set (chunks_of N tid ms)}"
  have "set (chunks_of N tid ms1) = (\<lambda>i. stream_chunk tid (length cs) i (cs ! i)) ` {i. i < length cs \<and> i \<in> ?J ms1}"
    using Suc.prems(4) ms by (fastforce simp: set_chunks_of genuine_def set_stream_part)
  then have "buffered self1 tid = stream_part tid cs (I \<union> ?J ms1)"
    using merge_stream_part [OF assms(2)] ms1(2) Suc.prems(2) by simp
  then have "buffered self' tid = stream_part tid cs (I \<union> ?J ms1 \<union> ?J ms2)"
    using Suc.IH [OF rest _ ms2] Suc.prems(4) ms by simp
  moreover have "I \<union> ?J ms1 \<union> ?J ms2 = I \<union> ?J ms" by (auto simp: ms set_chunks_of)
  ultimately show ?case by simp
qed (simp add: set_chunks_of)

lemma stream_part_restrict: "{i. i < length cs \<and> i \<in> I} = J \<Longrightarrow> stream_part tid cs I = stream_part tid cs J"
  by (auto simp: stream_part_def intro!: arg_cong [where f = "map _"] filter_cong)

lemma reassemble_part:
  assumes "buffered self tid = stream_part tid cs I" and "cs \<noteq> []"
  shows "reassemble_stream self tid = (if length cs - 1 \<in> I then Some (concat (nths cs I)) else None)"
proof -
  have final: "list_ex chunk_is_final (stream_part tid cs I) \<longleftrightarrow> length cs - 1 \<in> I"
    using assms(2) by (auto simp: list_ex_iff set_stream_part stream_chunk_def)
  then have "length cs - 1 \<in> I \<Longrightarrow> stream_part tid cs I \<noteq> []" by auto
  with final show ?thesis
    using assms(1) by (auto simp: reassemble_stream_def part_text_nths split: option.splits)
qed

text \<open>A message that is no chunk of the task.\<close>

definition foreign :: "('bf, 'tr, 'rx, 'c, 'w) node_env \<Rightarrow> string \<Rightarrow> bytes \<Rightarrow> bool" where
  "foreign N tid m \<longleftrightarrow> (\<forall>c. ne_env_from_slice N m = Some (EnvStreamChunk c) \<longrightarrow> chunk_task_id c \<noteq> tid)"

lemma arrived:
  assumes dec: "\<And>i. i < length cs \<Longrightarrow> ne_env_from_slice N (ps ! i) = Some (EnvStreamChunk (stream_chunk tid (length cs) i (cs ! i)))"
    and len: "length ps = length cs" "length cs \<le> 2 ^ 32" and ms: "\<forall>m \<in> set ms. m \<in> set ps \<or> foreign N tid m"
  shows "\<forall>m \<in> set ms. genuine N tid cs m"
    and "{i. i < length cs \<and> i \<in> {i. stream_chunk tid (length cs) i (cs ! i) \<in> set (chunks_of N tid ms)}}
         = {i. i < length cs \<and> ps ! i \<in> set ms}"
proof -
  let ?chunk = "\<lambda>i. stream_chunk tid (length cs) i (cs ! i)"
  have tid: "chunk_task_id (?chunk i) = tid" for i by (simp add: stream_chunk_def)
  have src: "\<exists>i < length cs. m = ps ! i \<and> c = ?chunk i"
    if "m \<in> set ms" "ne_env_from_slice N m = Some (EnvStreamChunk c)" "chunk_task_id c = tid" for m c
    using that ms dec len by (fastforce simp: foreign_def in_set_conv_nth)
  then show "\<forall>m \<in> set ms. genuine N tid cs m" by (fastforce simp: genuine_def set_stream_part)
  have "ps ! i \<in> set ms"
    if i: "i < length cs" and m: "m \<in> set ms" "ne_env_from_slice N m = Some (EnvStreamChunk (?chunk i))" for i m
  proof -
    obtain j where j: "j < length cs" "m = ps ! j" "?chunk i = ?chunk j" using src [OF m tid] by blast
    have "i < 2 ^ 32" "j < 2 ^ 32" using i j(1) len(2) by linarith+
    then have "i = j" using chunk_index_nat j(3) by metis
    then show ?thesis using j(2) m(1) by simp
  qed
  then show "{i. i < length cs \<and> i \<in> {i. ?chunk i \<in> set (chunks_of N tid ms)}} = {i. i < length cs \<and> ps ! i \<in> set ms}"
    using dec tid by (auto simp: set_chunks_of)
qed

section \<open>Properties\<close>

text \<open>
  C10. What a receiver reads from a stream. A node that streams the texts \<open>cs\<close> publishes one payload
  per text. Whenever a receiver that had nothing of the task has polled any number of times, and
  whatever of these payloads it has drained by then, in any order, repeated, and mixed with other
  messages, the reassembled response is defined exactly when the last payload has arrived, and is
  then the concatenation in order of the texts that have arrived: all of \<open>cs\<close> when none is missing.
\<close>

theorem stream_reassembly_exact:
  fixes A :: "('bf, 'tr \<times> tp_log, 'rx, 'sk, 'w) node"
  assumes "codecs_ok N" and "env_transport (ne_sds N) = logged T"
    and "respond_stream N t cs A = (Inr (), A')" and "cs \<noteq> []" and "length cs \<le> 2 ^ 32"
  shows "\<exists>ps. length ps = length cs
    \<and> log_published (nd_log A') = log_published (nd_log A) @ map (Pair (stream_topic (task_id t))) ps
    \<and> (\<forall>n (B :: ('bf, 'tr \<times> tp_log, 'rx, 'sk, 'w) node) u B' ms. poll_stream_many N (task_id t) n B = (Inr u, B') \<longrightarrow> hm_get (nd_stream_chunks B) (task_id t) = None
         \<longrightarrow> log_drained (nd_log B') = log_drained (nd_log B) @ ms \<longrightarrow> (\<forall>m \<in> set ms. m \<in> set ps \<or> foreign N (task_id t) m)
         \<longrightarrow> reassemble_stream B' (task_id t) =
               (if last ps \<in> set ms then Some (concat (nths cs {i. i < length cs \<and> ps ! i \<in> set ms})) else None))"
proof -
  let ?tid = "task_id t" and ?chunk = "\<lambda>i. stream_chunk (task_id t) (length cs) i (cs ! i)"
  obtain A1 where "publish_chunks N (stream_topic ?tid) ?tid (length cs) 0 cs A = (Inr (), A1)"
    and A1: "nd_channel A' = nd_channel A1"
    using assms(3) by (auto simp: respond_stream_def Let_def split: prod.splits sum.splits)
  from publish_chunks_log [OF assms(2) this(1)] obtain ps where
    ps: "list_all2 (payload_of N) (map (\<lambda>j. EnvStreamChunk (?chunk j)) [0..<length cs]) ps"
    and pub: "log_published (nd_log A1) = log_published (nd_log A) @ map (Pair (stream_topic ?tid)) ps" by auto
  have len: "length ps = length cs" using list_all2_lengthD [OF ps] by simp
  then have ne: "ps \<noteq> []" using assms(4) by auto
  have dec: "ne_env_from_slice N (ps ! i) = Some (EnvStreamChunk (?chunk i))" if "i < length cs" for i
    using list_all2_nthD [OF ps, of i] that assms(1) by (simp add: codecs_ok_def)
  have tid: "chunk_task_id (?chunk i) = ?tid" for i by (simp add: stream_chunk_def)
  show ?thesis
  proof (intro exI [of _ ps] conjI allI impI)
    fix n u B' ms and B :: "('bf, 'tr \<times> tp_log, 'rx, 'sk, 'w) node"
    assume poll: "poll_stream_many N ?tid n B = (Inr u, B')" "hm_get (nd_stream_chunks B) ?tid = None"
      "log_drained (nd_log B') = log_drained (nd_log B) @ ms" "\<forall>m \<in> set ms. m \<in> set ps \<or> foreign N ?tid m"
    let ?I = "{i. i < length cs \<and> ps ! i \<in> set ms}"
    note arr = arrived [OF dec len assms(5) poll(4)]
    have "buffered B' ?tid = stream_part ?tid cs ({} \<union> {i. ?chunk i \<in> set (chunks_of N ?tid ms)})"
      using poll(2) by (intro poll_stream_many_buffer [OF assms(2,5) poll(1) _ poll(3) arr(1)]) (simp add: stream_part_def)
    then have "buffered B' ?tid = stream_part ?tid cs ?I" using stream_part_restrict [OF arr(2)] by simp
    moreover have "last ps = ps ! (length cs - 1)" using ne len by (simp add: last_conv_nth)
    ultimately show "reassemble_stream B' ?tid =
        (if last ps \<in> set ms then Some (concat (nths cs {i. i < length cs \<and> ps ! i \<in> set ms})) else None)"
      using reassemble_part [of B' ?tid cs ?I] assms(4) by simp
  qed (simp_all add: len pub A1)
qed

definition stream_transport :: "(unit, unit) transport" where
  "stream_transport = quiet_transport\<lparr>tp_drain := (\<lambda>u _. ([[2], [7], [1]], u))\<rparr>"

definition stream_nenv :: "(string list, unit \<times> tp_log, unit, bytes, unit) node_env" where
  "stream_nenv = \<lparr>ne_sds = logged_env stream_transport, ne_crypto = toy_prims,
     ne_status = \<lparr>status_to_vec = (\<lambda>_. Inl ''none''), status_from_slice = (\<lambda>_. Inl ''none'')\<rparr>,
     ne_env_to_vec = (\<lambda>e. if e = EnvStreamChunk (stream_chunk ''1'' 2 0 ''a'') then Inr [1]
                          else if e = EnvStreamChunk (stream_chunk ''1'' 2 1 ''b'') then Inr [2] else Inl ''none''),
     ne_env_from_slice = map_of [([1], EnvStreamChunk (stream_chunk ''1'' 2 0 ''a'')),
                                 ([2], EnvStreamChunk (stream_chunk ''1'' 2 1 ''b''))],
     ne_task_to_vec = (\<lambda>_. Inl ''none''), ne_task_from_slice = (\<lambda>_. Inl ''none''), ne_rows = example_rows,
     ne_upload = (\<lambda>_ w. (Inl ''none'', w)), ne_download = (\<lambda>_ w. (Inl ''none'', w)),
     ne_pay = (\<lambda>_ _ w. (Inl ''none'', w)), ne_verify_transfer = (\<lambda>_ w. (Inl ''none'', w)),
     ne_append = (\<lambda>_ w. (Inr (), w)), ne_registry = ne_registry (example_nenv [])\<rparr>"

definition stream_node :: "(string list, unit \<times> tp_log, unit, unit, unit) node" where
  "stream_node = node_with_channel (card_of ''n'' ''d'' [] ''02'' None) (logged_channel ()) () None ()"

lemmas stream_defs = stream_nenv_def stream_node_def stream_transport_def quiet_transport_def logged_env_def
  node_with_channel_def logged_channel_def stream_chunk_def

theorem stream_reassembly_exact_witness:
  "let t = task_new ''1'' ''02'' ''03'' ''q'' in
   \<exists>A'. respond_stream stream_nenv t [''a'', ''b''] stream_node = (Inr (), A')
      \<and> reassemble_stream (snd (poll_stream_many stream_nenv ''1'' 1 stream_node)) ''1'' = Some ''ab''"
proof -
  define t where "t = task_new ''1'' ''02'' ''03'' ''q''"
  have tid: "task_id t = ''1''" by (simp add: t_def task_new_def)
  have codecs: "codecs_ok stream_nenv" by (simp add: codecs_ok_def stream_nenv_def stream_chunk_def)
  have log: "env_transport (ne_sds stream_nenv) = logged stream_transport" by (simp add: stream_nenv_def logged_env_def)
  have init: "nd_log stream_node = \<lparr>log_published = [], log_received = [], log_drained = []\<rparr>"
    "hm_get (nd_stream_chunks stream_node) ''1'' = None"
    by (simp_all add: stream_node_def node_with_channel_def logged_channel_def hm_get_def)
  obtain A' where A: "respond_stream stream_nenv t [''a'', ''b''] stream_node = (Inr (), A')"
      "log_published (nd_log A') = [(stream_topic ''1'', [1]), (stream_topic ''1'', [2])]"
    by (simp add: respond_stream_def tid Let_def node_publish_def ch_publish_def count_def stream_defs)
  obtain B' where B: "poll_stream_many stream_nenv ''1'' 1 stream_node = (Inr (), B')"
      "log_drained (nd_log B') = [[2], [7], [1]]"
    by (simp add: poll_stream_chunks_def ensure_rx_def drain_rx_def set_transport_def Let_def count_def hm_get_def
        stream_defs)
  have ne: "[''a'', ''b''] \<noteq> []" and two: "length [''a'', ''b''] \<le> 2 ^ 32" by simp_all
  have "reassemble_stream B' ''1'' = Some ''ab''"
    using stream_reassembly_exact [OF codecs log A(1) ne two] unfolding tid
  proof (elim exE conjE, goal_cases)
    case (1 ps)
    have ps: "ps = [[1], [2]]" using 1(2) A(2) init(1) by (auto simp: Cons_eq_map_conv)
    have I: "{i. i < 2 \<and> [[1], [2 :: u8]] ! i \<in> {[2], [7], [1]}} = {0, 1}" by (auto simp: less_2_cases_iff)
    have d: "log_drained (nd_log B') = log_drained (nd_log stream_node) @ [[2], [7], [1]]" using B(2) init(1) by simp
    have f: "\<forall>m \<in> set [[2], [7], [1]]. m \<in> set ps \<or> foreign stream_nenv ''1'' m"
      by (simp add: ps foreign_def stream_nenv_def)
    show ?case
      using I 1(3) [THEN spec, THEN spec, THEN spec, THEN spec, THEN spec, THEN mp, THEN mp, THEN mp, THEN mp,
        OF B(1) init(2) d f]
      by (simp add: ps nths_Cons)
  qed
  then show ?thesis using A(1) B(1) by (simp add: t_def)
qed

end
