(* ===== verification/Node_Discovery.thy ===== *)
theory Node_Discovery
  imports Node_Streaming
begin

text \<open>
  Discovery, registry and presence operations of a node
  (\<open>crates/logos-messaging-a2a-node/src/discovery.rs\<close>). \<open>S\<close> are the signing primitives, \<open>draws\<close> the
  ephemeral secret and nonce drawn for the trust entry of a public key, \<open>now\<close> the clock in seconds,
  and \<open>traced\<close> says whether the tracing events are enabled, since the fields of an event are only
  evaluated then.
\<close>

section \<open>Agent cards\<close>

definition announce ::
    "('bf, 'tr, 'rx, 'c, 'w) node_env \<Rightarrow> ('bf, 'tr, 'rx, 'sk, 'w) node
       \<Rightarrow> ('bf, 'tr, 'rx, 'sk, 'w, unit) node_result" where
  "announce N self =
     (case ne_env_to_vec N (EnvAgentCard (nd_card self)) of
        Inl e \<Rightarrow> (Inl (NSerialization e), self)
      | Inr payload \<Rightarrow>
          (case node_publish N DISCOVERY payload self of
             (Inl e, self1) \<Rightarrow> (Inl e, self1)
           | (Inr _, self1) \<Rightarrow>
               (Inr (), count (\<lambda>m. m\<lparr>announcements_sent := inc (announcements_sent m),
                                     messages_published := inc (messages_published m)\<rparr>) self1)))"

text \<open>The cards of other agents among raw messages.\<close>

fun cards_of :: "('bf, 'tr, 'rx, 'c, 'w) node_env \<Rightarrow> string \<Rightarrow> bytes list \<Rightarrow> agent_card list" where
  "cards_of N own [] = []"
| "cards_of N own (msg # msgs) =
     (case ne_env_from_slice N msg of
        Some (EnvAgentCard c) \<Rightarrow>
          if card_public_key c \<noteq> own then c # cards_of N own msgs else cards_of N own msgs
      | _ \<Rightarrow> cards_of N own msgs)"

definition discover ::
    "('bf, 'tr, 'rx, 'c, 'w) node_env \<Rightarrow> ('bf, 'tr, 'rx, 'sk, 'w) node
       \<Rightarrow> ('bf, 'tr, 'rx, 'sk, 'w, agent_card list) node_result" where
  "discover N self =
     (case ensure_rx N DISCOVERY (nd_discover_rx self) self of
        (Inl e, self1) \<Rightarrow> (Inl e, self1)
      | (Inr rx, self1) \<Rightarrow>
          let (msgs, self2) = drain_rx N rx (self1\<lparr>nd_discover_rx := Some rx\<rparr>);
              cards = cards_of N (card_public_key (nd_card self2)) msgs
          in (Inr cards, count (\<lambda>m. m\<lparr>discoveries := inc_by (length cards) (discoveries m)\<rparr>) self2))"

section \<open>The registry\<close>

text \<open>\<open>self.registry.ok_or_else(...)\<close>, the operation, and its error as a node error.\<close>

definition with_configured_registry ::
    "('w \<Rightarrow> (registry_error + unit) \<times> 'w) \<Rightarrow> ('bf, 'tr, 'rx, 'sk, 'w) node
       \<Rightarrow> ('bf, 'tr, 'rx, 'sk, 'w, unit) node_result" where
  "with_configured_registry operation self =
     (if \<not> nd_registry self then (Inl (NOther ''no registry configured''), self)
      else case operation (nd_world self) of
             (Inl e, w) \<Rightarrow> (Inl (NOther (show_registry_error e)), self\<lparr>nd_world := w\<rparr>)
           | (Inr _, w) \<Rightarrow> (Inr (), self\<lparr>nd_world := w\<rparr>))"

definition register_in_registry ::
    "('bf, 'tr, 'rx, 'c, 'w) node_env \<Rightarrow> ('bf, 'tr, 'rx, 'sk, 'w) node
       \<Rightarrow> ('bf, 'tr, 'rx, 'sk, 'w, unit) node_result" where
  "register_in_registry N self = with_configured_registry (rg_register (ne_registry N) (nd_card self)) self"

definition update_registry ::
    "('bf, 'tr, 'rx, 'c, 'w) node_env \<Rightarrow> ('bf, 'tr, 'rx, 'sk, 'w) node
       \<Rightarrow> ('bf, 'tr, 'rx, 'sk, 'w, unit) node_result" where
  "update_registry N self = with_configured_registry (rg_update (ne_registry N) (nd_card self)) self"

definition deregister_from_registry ::
    "('bf, 'tr, 'rx, 'c, 'w) node_env \<Rightarrow> ('bf, 'tr, 'rx, 'sk, 'w) node
       \<Rightarrow> ('bf, 'tr, 'rx, 'sk, 'w, unit) node_result" where
  "deregister_from_registry N self =
     with_configured_registry (rg_deregister (ne_registry N) (card_public_key (nd_card self))) self"

text \<open>\<open>it\<close> is the iteration order of the map \<open>by_key\<close>.\<close>

definition insert_cards :: "agent_card list \<Rightarrow> (string, agent_card) hash_map \<Rightarrow> (string, agent_card) hash_map" where
  "insert_cards cards by_key = fold (\<lambda>(k, c). hm_insert k c) (map (\<lambda>c. (card_public_key c, c)) cards) by_key"

definition discover_all ::
    "('bf, 'tr, 'rx, 'c, 'w) node_env \<Rightarrow> ((string, agent_card) hash_map \<Rightarrow> (string \<times> agent_card) list)
       \<Rightarrow> ('bf, 'tr, 'rx, 'sk, 'w) node \<Rightarrow> ('bf, 'tr, 'rx, 'sk, 'w, agent_card list) node_result" where
  "discover_all N it self =
     (case discover N self of
        (Inl e, self1) \<Rightarrow> (Inl e, self1)
      | (Inr waku_cards, self1) \<Rightarrow>
          let by_key = insert_cards waku_cards [];
              by_key1 =
                (if nd_registry self1 then
                   (case rg_list (ne_registry N) (nd_world self1) of
                      Inr reg_cards \<Rightarrow>
                        insert_cards (filter (\<lambda>c. card_public_key c \<noteq> card_public_key (nd_card self1)) reg_cards) by_key
                    | Inl _ \<Rightarrow> by_key)
                 else by_key)
          in (Inr (map snd (it by_key1)), self1))"

section \<open>Presence\<close>

definition DEFAULT_PRESENCE_TTL :: u64 where
  "DEFAULT_PRESENCE_TTL = 300"

definition build_sealed_status_envelopes ::
    "('bf, 'tr, 'rx, 'c, 'w) node_env \<Rightarrow> (string \<Rightarrow> bytes \<times> bytes) \<Rightarrow> ('bf, 'tr, 'rx, 'sk, 'w) node
       \<Rightarrow> sealed_status list" where
  "build_sealed_status_envelopes N draws self =
     (let status = current_load_status self; (_, entries) = trust_snapshot self
      in List.map_filter
           (\<lambda>e. case te_encryption_pubkey e of
                  None \<Rightarrow> None
                | Some pub_hex \<Rightarrow>
                    (let (ephemeral, nonce) = draws (te_pubkey e)
                     in case seal (ne_crypto N) (ne_status N) ephemeral nonce pub_hex status of
                          Inr env \<Rightarrow> Some env
                        | Inl _ \<Rightarrow> None))
           entries)"

definition presence_of ::
    "('bf, 'tr, 'rx, 'sk, 'w) node \<Rightarrow> u64 \<Rightarrow> sealed_status list \<Rightarrow> presence_announcement" where
  "presence_of self ttl_secs sealed =
     \<lparr>pa_agent_id = pubkey self, pa_name = card_name (nd_card self),
      pa_capabilities = card_capabilities (nd_card self), pa_waku_topic = task_topic (pubkey self),
      pa_ttl_secs = ttl_secs, pa_sealed_status = sealed, pa_signature = None\<rparr>"

definition announce_presence_with_ttl ::
    "('bf, 'tr, 'rx, 'c, 'w) node_env \<Rightarrow> ('sk, 'vk, 'sig) signing \<Rightarrow> (string \<Rightarrow> bytes \<times> bytes) \<Rightarrow> u64
       \<Rightarrow> ('bf, 'tr, 'rx, 'sk, 'w) node \<Rightarrow> ('bf, 'tr, 'rx, 'sk, 'w, unit) node_result" where
  "announce_presence_with_ttl N S draws ttl_secs self =
     (let sealed = build_sealed_status_envelopes N draws self;
          announcement = sign S (nd_signing_key self) (presence_of self ttl_secs sealed)
      in case ne_env_to_vec N (EnvPresence announcement) of
           Inl e \<Rightarrow> (Inl (NSerialization e), self)
         | Inr payload \<Rightarrow>
             (case node_publish N PRESENCE payload self of
                (Inl e, self1) \<Rightarrow> (Inl e, self1)
              | (Inr _, self1) \<Rightarrow>
                  (Inr (), count (\<lambda>m. m\<lparr>announcements_sent := inc (announcements_sent m),
                                        messages_published := inc (messages_published m)\<rparr>) self1)))"

definition announce_presence ::
    "('bf, 'tr, 'rx, 'c, 'w) node_env \<Rightarrow> ('sk, 'vk, 'sig) signing \<Rightarrow> (string \<Rightarrow> bytes \<times> bytes)
       \<Rightarrow> ('bf, 'tr, 'rx, 'sk, 'w) node \<Rightarrow> ('bf, 'tr, 'rx, 'sk, 'w, unit) node_result" where
  "announce_presence N S draws self = announce_presence_with_ttl N S draws DEFAULT_PRESENCE_TTL self"

text \<open>\<open>Iterator::find_map\<close>\<close>

fun find_map :: "('a \<Rightarrow> 'b option) \<Rightarrow> 'a list \<Rightarrow> 'b option" where
  "find_map f [] = None"
| "find_map f (x # xs) = (case f x of Some y \<Rightarrow> Some y | None \<Rightarrow> find_map f xs)"

definition load_for ::
    "('bf, 'tr, 'rx, 'c, 'w) node_env \<Rightarrow> agent_identity option \<Rightarrow> presence_announcement \<Rightarrow> load_status option" where
  "load_for N identity ann =
     (case identity of
        None \<Rightarrow> None
      | Some me \<Rightarrow>
          find_map (\<lambda>env. case unseal_with (ne_crypto N) (ne_status N) env me of Inr (Some st) \<Rightarrow> Some st | _ \<Rightarrow> None)
            (pa_sealed_status ann))"

text \<open>
  The slice \<open>&s[..8.min(s.len())]\<close> of a trace field panics when it would cut a UTF-8 character: when
  the byte at the end of the slice is a continuation byte.
\<close>

definition slice8_ok :: "string \<Rightarrow> bool" where
  "slice8_ok s = (length s \<le> 8 \<or> \<not> (128 \<le> (of_char (s ! 8) :: nat) \<and> (of_char (s ! 8) :: nat) < 192))"

fun process_presence ::
    "('bf, 'tr, 'rx, 'c, 'w) node_env \<Rightarrow> ('sk, 'vk, 'sig) signing \<Rightarrow> bool \<Rightarrow> u64 \<Rightarrow> bytes list
       \<Rightarrow> ('bf, 'tr, 'rx, 'sk, 'w) node \<Rightarrow> nat exec \<times> ('bf, 'tr, 'rx, 'sk, 'w) node" where
  "process_presence N S traced now [] self = (Returns 0, self)"
| "process_presence N S traced now (msg # msgs) self =
     (case ne_env_from_slice N msg of
        Some (EnvPresence ann) \<Rightarrow>
          if pa_agent_id ann = pubkey self then process_presence N S traced now msgs self
          else
            (case verify S ann of
               Inl e \<Rightarrow>
                 if traced \<and> \<not> slice8_ok (pa_agent_id ann) then (Panics, self)
                 else process_presence N S traced now msgs self
             | Inr _ \<Rightarrow>
                 let load = load_for N (nd_identity self) ann;
                     self1 = count (\<lambda>m. m\<lparr>peers_discovered := inc (peers_discovered m)\<rparr>)
                               (self\<lparr>nd_peer_map := peers_update_with_load now ann load (nd_peer_map self)\<rparr>)
                 in if traced \<and> \<not> slice8_ok (pa_agent_id ann) then (Panics, self1)
                    else (case process_presence N S traced now msgs self1 of
                            (Returns n, self2) \<Rightarrow> (Returns (Suc n), self2)
                          | panicked \<Rightarrow> panicked))
      | _ \<Rightarrow> process_presence N S traced now msgs self)"

definition poll_presence ::
    "('bf, 'tr, 'rx, 'c, 'w) node_env \<Rightarrow> ('sk, 'vk, 'sig) signing \<Rightarrow> bool \<Rightarrow> u64 \<Rightarrow> ('bf, 'tr, 'rx, 'sk, 'w) node
       \<Rightarrow> (node_error + nat) exec \<times> ('bf, 'tr, 'rx, 'sk, 'w) node" where
  "poll_presence N S traced now self =
     (case ensure_rx N PRESENCE (nd_presence_rx self) self of
        (Inl e, self1) \<Rightarrow> (Returns (Inl e), self1)
      | (Inr rx, self1) \<Rightarrow>
          let (msgs, self2) = drain_rx N rx (self1\<lparr>nd_presence_rx := Some rx\<rparr>)
          in (case process_presence N S traced now msgs self2 of
                (Returns n, self3) \<Rightarrow> (Returns (Inr n), self3)
              | (Panics, self3) \<Rightarrow> (Panics, self3)))"

definition find_peers_by_capability ::
    "(peer_map \<Rightarrow> (string \<times> peer_info) list) \<Rightarrow> u64 \<Rightarrow> string \<Rightarrow> ('bf, 'tr, 'rx, 'sk, 'w) node
       \<Rightarrow> (string \<times> peer_info) list" where
  "find_peers_by_capability it now capability self = peers_find_by_capability it now capability (nd_peer_map self)"

section \<open>Lemmas\<close>

lemma find_map_all:
  assumes "\<And>x y. x \<in> set xs \<Longrightarrow> f x = Some y \<Longrightarrow> y = z"
  shows "find_map f xs = (if \<exists>x \<in> set xs. f x \<noteq> None then Some z else None)"
  using assms
proof (induction xs)
  case (Cons a xs)
  have "find_map f xs = (if \<exists>x \<in> set xs. f x \<noteq> None then Some z else None)"
    using Cons.prems by (intro Cons.IH) auto
  then show ?case using Cons.prems [of a] by (auto split: option.splits)
qed simp

declare hm_get_insert [simp]

text \<open>The entry a node records for an announcement.\<close>

definition info_of :: "u64 \<Rightarrow> presence_announcement \<Rightarrow> load_status option \<Rightarrow> peer_info" where
  "info_of now a load =
     \<lparr>pi_name = pa_name a, pi_capabilities = pa_capabilities a, pi_waku_topic = pa_waku_topic a,
      pi_ttl_secs = pa_ttl_secs a, pi_last_seen = now, pi_load = load\<rparr>"

lemma get_update_with_load:
  "hm_get (peers_update_with_load now a load m) k = (if k = pa_agent_id a then Some (info_of now a load) else hm_get m k)"
  by (simp add: peers_update_with_load_def info_of_def)

lemma process_presence_frame:
  "process_presence N S traced now ms self = (r, self') \<Longrightarrow>
     nd_identity self' = nd_identity self \<and> nd_card self' = nd_card self \<and> nd_channel self' = nd_channel self"
  by (induction ms arbitrary: self r self')
     (fastforce simp: Let_def split: option.splits a2a_envelope.splits if_splits sum.splits prod.splits exec.splits)+

text \<open>An announcement among the messages that the node accepts.\<close>

definition accepted_presence ::
    "('bf, 'tr, 'rx, 'c, 'w) node_env \<Rightarrow> ('sk, 'vk, 'sig) signing \<Rightarrow> string \<Rightarrow> bytes list \<Rightarrow> presence_announcement \<Rightarrow> bool" where
  "accepted_presence N S own ms ann \<longleftrightarrow> (\<exists>m \<in> set ms. ne_env_from_slice N m = Some (EnvPresence ann))
     \<and> pa_agent_id ann \<noteq> own \<and> verify S ann = Inr ()"

lemma process_presence_authentic:
  "process_presence N S traced now ms self = (r, self') \<Longrightarrow>
     hm_get (nd_peer_map self') k = hm_get (nd_peer_map self) k
     \<or> (\<exists>ann. accepted_presence N S (pubkey self) ms ann \<and> pa_agent_id ann = k
            \<and> hm_get (nd_peer_map self') k = Some (info_of now ann (load_for N (nd_identity self) ann)))"
proof (induction ms arbitrary: self r)
  case (Cons m ms)
  have mono: "accepted_presence N S own ms ann \<Longrightarrow> accepted_presence N S own (m # ms) ann" for own ann
    by (auto simp: accepted_presence_def)
  show ?case
  proof (cases "\<exists>ann. ne_env_from_slice N m = Some (EnvPresence ann) \<and> pa_agent_id ann \<noteq> pubkey self \<and> verify S ann = Inr ()")
    case False
    then have "process_presence N S traced now ms self = (r, self') \<or> self' = self"
      using Cons.prems by (auto split: option.splits a2a_envelope.splits if_splits sum.splits)
    then show ?thesis using Cons.IH [of self r] mono by blast
  next
    case True
    then obtain ann where ann: "ne_env_from_slice N m = Some (EnvPresence ann)" "pa_agent_id ann \<noteq> pubkey self"
      "verify S ann = Inr ()" by blast
    let ?load = "load_for N (nd_identity self) ann"
    let ?s1 = "count (\<lambda>m. m\<lparr>peers_discovered := inc (peers_discovered m)\<rparr>)
                 (self\<lparr>nd_peer_map := peers_update_with_load now ann ?load (nd_peer_map self)\<rparr>)"
    have s1: "pubkey ?s1 = pubkey self" "nd_identity ?s1 = nd_identity self"
      "nd_peer_map ?s1 = peers_update_with_load now ann ?load (nd_peer_map self)"
      by (simp_all add: pubkey_def count_def)
    have acc: "accepted_presence N S (pubkey self) (m # ms) ann" using ann by (auto simp: accepted_presence_def)
    have "self' = ?s1 \<or> (\<exists>r'. process_presence N S traced now ms ?s1 = (r', self'))"
      using Cons.prems ann by (auto simp: Let_def split: if_splits prod.splits exec.splits)
    then show ?thesis
    proof
      assume "self' = ?s1"
      then show ?thesis using acc s1(3) by (auto simp: get_update_with_load)
    next
      assume "\<exists>r'. process_presence N S traced now ms ?s1 = (r', self')"
      then obtain r' where "process_presence N S traced now ms ?s1 = (r', self')" by blast
      from Cons.IH [OF this, unfolded s1] show ?thesis
        using acc mono by (auto simp: get_update_with_load split: if_splits)
    qed
  qed
qed simp

lemma process_presence_last:
  assumes "process_presence N S traced now (ms1 @ m # ms2) self = (Returns n, self')"
    and "ne_env_from_slice N m = Some (EnvPresence ann)" and "pa_agent_id ann \<noteq> pubkey self" and "verify S ann = Inr ()"
    and "\<forall>x \<in> set ms2. \<forall>a. ne_env_from_slice N x = Some (EnvPresence a) \<longrightarrow> pa_agent_id a \<noteq> pa_agent_id ann"
  shows "hm_get (nd_peer_map self') (pa_agent_id ann) = Some (info_of now ann (load_for N (nd_identity self) ann))"
  using assms(1,3)
proof (induction ms1 arbitrary: self n)
  case Nil
  let ?s1 = "count (\<lambda>m. m\<lparr>peers_discovered := inc (peers_discovered m)\<rparr>)
      (self\<lparr>nd_peer_map := peers_update_with_load now ann (load_for N (nd_identity self) ann) (nd_peer_map self)\<rparr>)"
  obtain k where "process_presence N S traced now ms2 ?s1 = (Returns k, self')"
    using Nil assms(2,4) by (auto simp: Let_def split: if_splits prod.splits exec.splits)
  from process_presence_authentic [OF this, of "pa_agent_id ann"] assms(5) show ?case
    by (auto simp: accepted_presence_def get_update_with_load count_def)
next
  case (Cons x ms1)
  obtain s k where s: "process_presence N S traced now (ms1 @ m # ms2) s = (Returns k, self')"
    "pubkey s = pubkey self" "nd_identity s = nd_identity self"
    using Cons.prems(1)
    by (auto simp: Let_def pubkey_def count_def split: option.splits a2a_envelope.splits if_splits sum.splits prod.splits exec.splits)
  show ?case using Cons.IH [OF s(1)] s(2,3) Cons.prems(2) by simp
qed

section \<open>What the envelopes of an announcement tell\<close>

abbreviation trust_entries :: "('bf, 'tr, 'rx, 'sk, 'w) node \<Rightarrow> trust_entry set" where
  "trust_entries self \<equiv> set (snd (trust_snapshot self))"

text \<open>The trust list of \<open>A\<close> names the public key of \<open>me\<close> as an encryption key.\<close>

definition shares_load_with ::
    "'c crypto_prims \<Rightarrow> ('bf, 'tr, 'rx, 'sk, 'w) node \<Rightarrow> agent_identity \<Rightarrow> bool" where
  "shares_load_with P A me \<longleftrightarrow>
     (\<exists>e \<in> trust_entries A. \<exists>h. te_encryption_pubkey e = Some h \<and> parse_public_key P h = Inr (id_public me))"

text \<open>
  No other key of the trust list ends in the same 8 bytes, the draws have the right lengths, and
  the status can be sealed for the key of \<open>me\<close>.
\<close>

definition sealing_ok ::
    "('bf, 'tr, 'rx, 'c, 'w) node_env \<Rightarrow> (string \<Rightarrow> bytes \<times> bytes) \<Rightarrow> ('bf, 'tr, 'rx, 'sk, 'w) node
       \<Rightarrow> agent_identity \<Rightarrow> bool" where
  "sealing_ok N draws A me \<longleftrightarrow>
     (\<forall>k. length (fst (draws k)) = 32 \<and> length (snd (draws k)) = 12)
   \<and> (\<forall>e \<in> trust_entries A. \<forall>h k. te_encryption_pubkey e = Some h \<longrightarrow> parse_public_key (ne_crypto N) h = Inr k \<longrightarrow>
        recipient_hint k = recipient_hint (id_public me) \<longrightarrow> k = id_public me
        \<and> (\<exists>env. seal (ne_crypto N) (ne_status N) (fst (draws (te_pubkey e))) (snd (draws (te_pubkey e))) h
                    (current_load_status A) = Inr env))"

lemma in_map_filter: "y \<in> set (List.map_filter f xs) \<longleftrightarrow> (\<exists>x \<in> set xs. f x = Some y)"
  by (induction xs) (auto simp: List.map_filter_simps split: option.splits)

lemma sealed_envelopes:
  "env \<in> set (build_sealed_status_envelopes N draws A) \<longleftrightarrow>
     (\<exists>e \<in> trust_entries A. \<exists>h. te_encryption_pubkey e = Some h
        \<and> seal (ne_crypto N) (ne_status N) (fst (draws (te_pubkey e))) (snd (draws (te_pubkey e))) h
            (current_load_status A) = Inr env)"
proof -
  let ?seal = "\<lambda>(e :: trust_entry) h. seal (ne_crypto N) (ne_status N) (fst (draws (te_pubkey e))) (snd (draws (te_pubkey e))) h
      (current_load_status A)"
  have "(case te_encryption_pubkey e of None \<Rightarrow> None
          | Some h \<Rightarrow> (case ?seal e h of Inr env \<Rightarrow> Some env | Inl _ \<Rightarrow> None)) = Some env
        \<longleftrightarrow> (\<exists>h. te_encryption_pubkey e = Some h \<and> ?seal e h = Inr env)" for e :: trust_entry
    by (cases "te_encryption_pubkey e") (simp_all split: sum.split)
  then show ?thesis unfolding build_sealed_status_envelopes_def Let_def case_prod_beta in_map_filter by (simp only:)
qed

lemma seal_parses: "seal P J s n h st = Inr env \<Longrightarrow> \<exists>k. parse_public_key P h = Inr k"
  by (auto simp: seal_def split: sum.splits)

lemma load_for_announced:
  assumes "crypto_ok (ne_crypto N)" and "status_ok (ne_status N)" and "identity_wf (ne_crypto N) me"
    and ok: "sealing_ok N draws A me" and "pa_sealed_status ann = build_sealed_status_envelopes N draws A"
  shows "load_for N (Some me) ann = (if shares_load_with (ne_crypto N) A me then Some (current_load_status A) else None)"
proof -
  let ?P = "ne_crypto N" and ?J = "ne_status N" and ?st = "current_load_status A"
  let ?open = "\<lambda>env. case unseal_with ?P ?J env me of Inr (Some st) \<Rightarrow> Some st | _ \<Rightarrow> None"
  have opened: "?open env = (if parse_public_key ?P h = Inr (id_public me) then Some ?st else None)"
    if e: "e \<in> trust_entries A" "te_encryption_pubkey e = Some h"
      and env: "seal ?P ?J (fst (draws (te_pubkey e))) (snd (draws (te_pubkey e))) h ?st = Inr env" for env e h
  proof -
    obtain k where k: "parse_public_key ?P h = Inr k" using seal_parses env by blast
    show ?thesis
    proof (cases "recipient_hint k = recipient_hint (id_public me)")
      case True
      then have km: "k = id_public me" using ok e k unfolding sealing_ok_def by blast
      have "unseal_with ?P ?J env me = Inr (Some ?st)"
        using ok k km unfolding sealing_ok_def by (intro unseal_sealed [OF assms(1,2) _ assms(3) _ _ env]) auto
      then show ?thesis using k km by simp
    next
      case False
      then show ?thesis using unseal_other_hint [OF k env, of me] k by auto
    qed
  qed
  have "find_map ?open (pa_sealed_status ann)
      = (if \<exists>env \<in> set (pa_sealed_status ann). ?open env \<noteq> None then Some ?st else None)"
    using opened by (intro find_map_all) (force simp: assms(5) sealed_envelopes split: if_splits)
  moreover have "(\<exists>env \<in> set (pa_sealed_status ann). ?open env \<noteq> None) \<longleftrightarrow> shares_load_with ?P A me"
  proof
    assume "\<exists>env \<in> set (pa_sealed_status ann). ?open env \<noteq> None"
    then show "shares_load_with ?P A me"
      using opened by (fastforce simp: assms(5) sealed_envelopes shares_load_with_def split: if_splits)
  next
    assume "shares_load_with ?P A me"
    then obtain e h where e: "e \<in> trust_entries A" "te_encryption_pubkey e = Some h"
      "parse_public_key ?P h = Inr (id_public me)" unfolding shares_load_with_def by blast
    then obtain env where env: "seal ?P ?J (fst (draws (te_pubkey e))) (snd (draws (te_pubkey e))) h ?st = Inr env"
      using ok unfolding sealing_ok_def by blast
    then have "?open env = Some ?st" using opened [OF e(1,2) env] e(3) by simp
    moreover have "env \<in> set (pa_sealed_status ann)" using e env by (auto simp: assms(5) sealed_envelopes)
    ultimately show "\<exists>env \<in> set (pa_sealed_status ann). ?open env \<noteq> None" by auto
  qed
  ultimately show ?thesis by (simp add: load_for_def)
qed

section \<open>A client of the registry\<close>

lemma option_eqI: "(\<And>c. a = Some c \<longleftrightarrow> b = Some c) \<Longrightarrow> a = b"
  by (cases a; cases b) auto

context registry
begin

text \<open>The listing of a registry, entered over other cards, decides every key but the node's own.\<close>

lemma listing_wins:
  assumes "inv r" and "rg_list R r = Inr reg" and "hm_wf m"
  shows "hm_get (insert_cards (filter (\<lambda>c. card_public_key c \<noteq> own) reg) m) k =
    (if k = own then hm_get m k else case mem r k of Some c \<Rightarrow> Some c | None \<Rightarrow> hm_get m k)"
proof -
  let ?kvs = "map (\<lambda>c. (card_public_key c, c)) (filter (\<lambda>c. card_public_key c \<noteq> own) reg)"
  have reg: "set reg = ran (mem r)" "distinct (map card_public_key reg)" using list [OF assms(1)] assms(2) by auto
  have "distinct (map fst ?kvs)"
    using reg(2) by (simp add: comp_def distinct_map_filter)
  then have rev: "map_of (rev ?kvs) = map_of ?kvs" by (subst map_of_inject_set) (simp_all flip: rev_map)
  have iff: "map_of ?kvs k = Some c \<longleftrightarrow> mem r k = Some c \<and> k \<noteq> own" for c
    using \<open>distinct (map fst ?kvs)\<close> keyed [OF assms(1)] by (auto simp: reg(1) ran_def)
  have "map_of ?kvs k = (if k = own then None else mem r k)"
    by (rule option_eqI) (simp only: iff split: if_split, auto)
  then show ?thesis
    using hm.get_ins_all [OF assms(3), of ?kvs k] by (auto simp: insert_cards_def rev split: option.splits)
qed

end

lemma insert_cards_wf: "hm_wf m \<Longrightarrow> hm_wf (insert_cards cs m)"
  unfolding insert_cards_def by (rule hm.ins_all_invar)

lemma insert_cards_keyed:
  "\<forall>(k, c) \<in> set m. k = card_public_key c \<Longrightarrow> \<forall>(k, c) \<in> set (insert_cards cs m). k = card_public_key c"
proof (induction cs arbitrary: m)
  case (Cons c cs)
  have "\<forall>(k, c') \<in> set (hm_insert (card_public_key c) c m). k = card_public_key c'"
    using Cons.prems set_hm_insert [of "card_public_key c" c m] by auto
  from Cons.IH [OF this] show ?case by (simp add: insert_cards_def)
qed (simp add: insert_cards_def)

lemma discover_frame:
  assumes "discover N self = (r, self1)"
  shows "nd_world self1 = nd_world self \<and> nd_registry self1 = nd_registry self \<and> nd_card self1 = nd_card self"
  using assms
  by (auto simp: discover_def ensure_rx_def drain_rx_def set_transport_def Let_def count_def
      split: option.splits prod.splits sum.splits)

section \<open>Properties\<close>

text \<open>
  What \<open>discover_all\<close> returns on the in-memory registry. Each public key occurs once; a key that is
  registered (and is not the node's own) is represented by its registered card, whatever was
  announced for it; a key that is not registered by the last card announced for it.
\<close>

lemma discover_all_registry_wins:
  assumes "ne_registry N = in_memory_registry (hash_order h)" and "mem_wf (nd_world self)" and "nd_registry self"
    and "hash_iter it" and "discover N self = (Inr announced, self1)" and "discover_all N it self = (Inr cards, self')"
    and "k \<noteq> pubkey self"
  shows "distinct (map card_public_key cards)
    \<and> map_of (map (\<lambda>c. (card_public_key c, c)) cards) k =
        (case mem_get k (nd_world self) of
           Inr c \<Rightarrow> Some c
         | Inl _ \<Rightarrow> map_of (rev (map (\<lambda>c. (card_public_key c, c)) announced)) k)"
proof -
  let ?by = "insert_cards announced []" and ?own = "card_public_key (nd_card self)"
  note fr = discover_frame [OF assms(5)]
  obtain reg where reg: "rg_list (ne_registry N) (nd_world self) = Inr reg"
    using mem_reg.list [OF assms(2)] assms(1) by auto
  let ?by1 = "insert_cards (filter (\<lambda>c. card_public_key c \<noteq> ?own) reg) ?by"
  have cards: "cards = map snd (it ?by1)"
    using assms(3,5,6) fr reg by (simp add: discover_all_def)
  have wf: "hm_wf ?by" "hm_wf ?by1" by (simp_all add: insert_cards_wf)
  have keyed: "\<forall>(k, c) \<in> set ?by1. k = card_public_key c" by (intro insert_cards_keyed) simp
  then have it: "map (\<lambda>c. (card_public_key c, c)) cards = it ?by1"
    unfolding cards map_map by (intro map_idI) (auto simp: hash_iter_set [OF assms(4)])
  have dist: "distinct (map fst (it ?by1))"
    using wf(2) assms(4) unfolding hm_wf_def hash_iter_def by (metis mset_eq_imp_distinct_iff mset_map)
  have "map card_public_key cards = map fst (it ?by1)" using arg_cong [OF it, of "map fst"] by (simp add: comp_def)
  then have d: "distinct (map card_public_key cards)" using dist by simp
  have m: "map_of (it ?by1) = map_of ?by1"
    using dist wf(2) hash_iter_set [OF assms(4)] by (subst map_of_inject_set) (simp_all add: hm_wf_def)
  have "hm_get ?by1 k = (case hm_get (nd_world self) k of Some c \<Rightarrow> Some c | None \<Rightarrow> hm_get ?by k)"
    using mem_reg.listing_wins [OF assms(2) reg [unfolded assms(1)] wf(1)] assms(7) by (simp add: pubkey_def)
  moreover have "hm_get ?by k = map_of (rev (map (\<lambda>c. (card_public_key c, c)) announced)) k"
    using hm.get_ins_all [of "[]" "map (\<lambda>c. (card_public_key c, c)) announced" k]
    by (simp add: insert_cards_def hm_get_def split: option.splits)
  ultimately show ?thesis using d it m by (simp add: hm_get_def mem_get_def split: option.split)
qed

text \<open>A node with an in-memory registry that holds \<open>example_card\<close> and drains one other announcement for its key.\<close>

definition registry_nenv :: "(string list, bytes list, unit, bytes, mem_registry) node_env" where
  "registry_nenv = \<lparr>ne_sds = ne_sds (example_nenv []), ne_crypto = toy_prims, ne_status = ne_status (example_nenv []),
     ne_env_to_vec = (\<lambda>_. Inl ''none''),
     ne_env_from_slice = map_of [([1], EnvAgentCard (example_card\<lparr>card_name := ''stale''\<rparr>))],
     ne_task_to_vec = (\<lambda>_. Inl ''none''), ne_task_from_slice = (\<lambda>_. Inl ''none''), ne_rows = example_rows,
     ne_upload = (\<lambda>_ w. (Inl ''none'', w)), ne_download = (\<lambda>_ w. (Inl ''none'', w)),
     ne_pay = (\<lambda>_ _ w. (Inl ''none'', w)), ne_verify_transfer = (\<lambda>_ w. (Inl ''none'', w)),
     ne_append = (\<lambda>_ w. (Inr (), w)), ne_registry = in_memory_registry (hash_order length)\<rparr>"

definition registry_node :: "(string list, bytes list, unit, unit, mem_registry) node" where
  "registry_node = with_registry (node_from_key registry_nenv 7 ''02ffffffff'' ''n'' ''d'' [] [[1]] () [(''02ab'', example_card)])"

lemma discover_all_registry_wins_witness:
  "\<exists>announced cards. fst (discover registry_nenv registry_node) = Inr announced \<and> announced \<noteq> [example_card]
     \<and> fst (discover_all registry_nenv (\<lambda>m. m) registry_node) = Inr cards
     \<and> map_of (map (\<lambda>c. (card_public_key c, c)) cards) ''02ab'' = Some example_card"
proof -
  have ne: "ne_registry registry_nenv = in_memory_registry (hash_order length)" by (simp add: registry_nenv_def)
  have nd: "nd_world registry_node = [(''02ab'', example_card)]" "nd_registry registry_node" "pubkey registry_node = ''02ffffffff''"
    by (simp_all add: registry_node_def with_registry_def node_from_key_def node_with_channel_def pubkey_def card_of_def)
  then have wf: "mem_wf (nd_world registry_node)" by (simp add: mem_wf_def hm_wf_def example_card_def)
  obtain s1 where d: "discover registry_nenv registry_node = (Inr [example_card\<lparr>card_name := ''stale''\<rparr>], s1)"
    by (simp add: discover_def registry_node_def with_registry_def registry_nenv_def example_nenv_def poll_defs example_card_def)
  obtain cards s' where a: "discover_all registry_nenv (\<lambda>m. m) registry_node = (Inr cards, s')"
    using d by (simp add: discover_all_def Let_def)
  have "mem_get ''02ab'' (nd_world registry_node) = Inr example_card" by (simp add: nd mem_get_def hm_get_def)
  then have "map_of (map (\<lambda>c. (card_public_key c, c)) cards) ''02ab'' = Some example_card"
    using discover_all_registry_wins [OF ne wf nd(2) hash_iter_id d a, of "''02ab''"] nd(3) by simp
  then show ?thesis using d a by (simp add: example_card_def)
qed

lemma poll_presence_cases:
  assumes "env_transport (ne_sds N) = logged T" and "poll_presence N S traced now self = (r, self')"
  obtains (unsubscribed) e where "r = Returns (Inl e)" "nd_peer_map self' = nd_peer_map self" "nd_log self' = nd_log self"
    | (polled) ms self2 r' where "process_presence N S traced now ms self2 = (r', self')"
        "log_drained (nd_log self') = log_drained (nd_log self) @ ms" "nd_peer_map self2 = nd_peer_map self"
        "pubkey self2 = pubkey self" "nd_identity self2 = nd_identity self" "\<And>n. r = Returns (Inr n) \<Longrightarrow> r' = Returns n"
proof -
  obtain rx self1 where e: "ensure_rx N PRESENCE (nd_presence_rx self) self = (rx, self1)" by fastforce
  note el = ensure_drain_log(1) [OF assms(1) e]
  have e1: "nd_peer_map self1 = nd_peer_map self" "nd_card self1 = nd_card self" "nd_identity self1 = nd_identity self"
    using e by (auto simp: ensure_rx_def set_transport_def split: option.splits prod.splits sum.splits)
  show thesis
  proof (cases rx)
    case (Inl err)
    then show thesis using unsubscribed [of err] e e1 el assms(2) by (simp add: poll_presence_def)
  next
    case (Inr h)
    obtain ms self2 where d: "drain_rx N h (self1\<lparr>nd_presence_rx := Some h\<rparr>) = (ms, self2)" by fastforce
    have d1: "nd_peer_map self2 = nd_peer_map self" "pubkey self2 = pubkey self" "nd_identity self2 = nd_identity self"
      using d e1 by (auto simp: drain_rx_def set_transport_def pubkey_def split: prod.splits)
    obtain r' where p: "process_presence N S traced now ms self2 = (r', self')" "\<And>n. r = Returns (Inr n) \<Longrightarrow> r' = Returns n"
      using assms(2) e Inr d by (auto simp: poll_presence_def Let_def split: prod.splits exec.splits)
    have "log_drained (nd_log self') = log_drained (nd_log self) @ ms"
      using process_presence_frame [OF p(1)] ensure_drain_log(2) [OF assms(1) d] el by simp
    then show thesis using polled p d1 by blast
  qed
qed

section \<open>A closed example\<close>

text \<open>\<open>presence_A\<close> trusts \<open>presence_B\<close>, whose transport hands over \<open>presence_A\<close>'s announcement as the message \<open>[1]\<close>.\<close>

definition presence_me :: agent_identity where
  "presence_me = identity_generate toy_prims (replicate 32 3)"

definition presence_draws :: "string \<Rightarrow> bytes \<times> bytes" where
  "presence_draws = (\<lambda>_. (replicate 32 5, replicate 12 0))"

definition presence_A :: "(string list, unit \<times> tp_log, unit, unit, unit) node" where
  "presence_A = with_trust_list
     (trust_add (example_entry\<lparr>te_encryption_pubkey := Some (public_key_hex toy_prims presence_me)\<rparr>) (with_mode Log))
     stream_node"

definition presence_B :: "(string list, unit \<times> tp_log, unit, unit, unit) node" where
  "presence_B = (node_with_channel (card_of ''b'' ''d'' [] ''03'' None) (logged_channel ()) () None ())
     \<lparr>nd_identity := Some presence_me\<rparr>"

definition presence_base :: "(string list, unit \<times> tp_log, unit, bytes, unit) node_env" where
  "presence_base = stream_nenv\<lparr>ne_sds := logged_env (quiet_transport\<lparr>tp_drain := (\<lambda>u _. ([[1]], u))\<rparr>),
     ne_status := \<lparr>status_to_vec = (\<lambda>st. if st = current_load_status presence_A then Inr [7] else Inl ''e''),
                   status_from_slice = (\<lambda>_. Inr (current_load_status presence_A))\<rparr>\<rparr>"

definition presence_ann :: presence_announcement where
  "presence_ann = sign example_signing ()
     (presence_of presence_A 300 (build_sealed_status_envelopes presence_base presence_draws presence_A))"

definition presence_nenv :: "(string list, unit \<times> tp_log, unit, bytes, unit) node_env" where
  "presence_nenv = presence_base\<lparr>
     ne_env_to_vec := (\<lambda>e. if e = EnvPresence presence_ann then Inr [1] else Inl ''none''),
     ne_env_from_slice := (\<lambda>b. if b = [1] then Some (EnvPresence presence_ann) else None)\<rparr>"

lemma presence_nenv_simps:
  "env_transport (ne_sds presence_nenv) = logged (quiet_transport\<lparr>tp_drain := (\<lambda>u _. ([[1]], u))\<rparr>)"
  "codecs_ok presence_nenv" "ne_crypto presence_nenv = toy_prims" "status_ok (ne_status presence_nenv)"
  "build_sealed_status_envelopes presence_nenv draws self = build_sealed_status_envelopes presence_base draws self"
proof -
  have "ne_crypto presence_nenv = ne_crypto presence_base" "ne_status presence_nenv = ne_status presence_base"
    by (simp_all add: presence_nenv_def)
  then show "build_sealed_status_envelopes presence_nenv draws self = build_sealed_status_envelopes presence_base draws self"
    by (simp only: build_sealed_status_envelopes_def)
qed (simp_all add: presence_nenv_def presence_base_def stream_nenv_def logged_env_def codecs_ok_def status_ok_def)

lemma presence_AB_simps:
  "pubkey presence_A = ''02''" "pubkey presence_B = ''03''" "nd_identity presence_B = Some presence_me"
  "nd_log presence_A = \<lparr>log_published = [], log_received = [], log_drained = []\<rparr>"
  "nd_log presence_B = \<lparr>log_published = [], log_received = [], log_drained = []\<rparr>" "nd_peer_map presence_B = []"
  "nd_signing_key presence_A = ()" "nd_presence_rx presence_B = None"
  by (simp_all add: presence_A_def presence_B_def stream_node_def with_trust_list_def node_with_channel_def pubkey_def
      card_of_def logged_channel_def peers_new_def)

lemma presence_sealing: "sealing_ok presence_nenv presence_draws presence_A presence_me"
  and presence_shares: "shares_load_with toy_prims presence_A presence_me"
proof -
  let ?h = "public_key_hex toy_prims presence_me"
  have entries: "trust_entries presence_A = {example_entry\<lparr>te_encryption_pubkey := Some ?h\<rparr>}"
    by (simp add: presence_A_def with_trust_list_def trust_snapshot_def trust_iter_def trust_add_def with_mode_def)
  have parse: "parse_public_key toy_prims ?h = Inr (id_public presence_me)"
    by (rule parse_public_key_hex [OF toy_prims_ok]) (simp add: presence_me_def identity_wf_generate)
  have "\<exists>env. seal toy_prims (ne_status presence_nenv) (replicate 32 5) (replicate 12 0) ?h (current_load_status presence_A) = Inr env"
    using parse by (simp add: seal_def seal_for_def encrypt_raw_def Let_def toy_prims_def presence_nenv_def presence_base_def)
  then show "sealing_ok presence_nenv presence_draws presence_A presence_me" and "shares_load_with toy_prims presence_A presence_me"
    using parse by (simp_all add: sealing_ok_def shares_load_with_def entries presence_nenv_simps presence_draws_def)
qed

lemma presence_announced:
  "\<exists>A'. announce_presence_with_ttl presence_nenv example_signing presence_draws 300 presence_A = (Inr (), A')
     \<and> log_published (nd_log A') = [(PRESENCE, [1])]"
proof -
  have "ne_env_to_vec presence_nenv (EnvPresence presence_ann) = Inr [1]" by (simp add: presence_nenv_def)
  moreover obtain s where s: "node_publish presence_nenv PRESENCE [1] presence_A = (Inr (), s)"
    by (cases "ch_transport (nd_channel presence_A)")
       (simp add: node_publish_def ch_publish_def presence_nenv_simps quiet_transport_def)
  moreover have "log_published (nd_log s) = [(PRESENCE, [1])]"
    using node_publish_log [OF presence_nenv_simps(1) s] by (simp add: presence_AB_simps)
  ultimately show ?thesis
    by (simp add: announce_presence_with_ttl_def presence_nenv_simps presence_AB_simps presence_ann_def)
qed

lemma presence_polled:
  "\<exists>B'. poll_presence presence_nenv example_signing False 9 presence_B = (Returns (Inr 1), B')
     \<and> log_drained (nd_log B') = [[1]]"
proof -
  have "verify example_signing presence_ann = Inr ()" "pa_agent_id presence_ann = ''02''"
    by (simp_all add: presence_ann_def verify_def sign_def example_signing_def canonical_bytes_def presence_of_def presence_AB_simps)
  moreover have "ne_env_from_slice presence_nenv [1] = Some (EnvPresence presence_ann)" by (simp add: presence_nenv_def)
  moreover obtain tr l where "ch_transport (nd_channel presence_B) = (tr, l)" "l = \<lparr>log_published = [], log_received = [], log_drained = []\<rparr>"
    using presence_AB_simps(5) by (metis prod.collapse)
  ultimately show ?thesis
    using presence_AB_simps(2)
    by (simp add: poll_presence_def ensure_rx_def drain_rx_def set_transport_def presence_nenv_simps presence_AB_simps(8)
        quiet_transport_def Let_def count_def pubkey_def)
qed

section \<open>Properties of presence\<close>

text \<open>
  C11. The peer map only learns from signed announcements of others. Whatever a poll of the presence
  topic does, also when it panics, the entry of a key is either unchanged or the one that an
  announcement made, received in this poll, for that key, not the node's own, whose signature
  verifies under that key.
\<close>

theorem poll_presence_authentic:
  assumes "env_transport (ne_sds N) = logged T" and "poll_presence N S traced now self = (r, self')"
    and "log_drained (nd_log self') = log_drained (nd_log self) @ ms"
  shows "hm_get (nd_peer_map self') k = hm_get (nd_peer_map self) k
    \<or> (\<exists>ann. accepted_presence N S (pubkey self) ms ann \<and> pa_agent_id ann = k
          \<and> hm_get (nd_peer_map self') k = Some (info_of now ann (load_for N (nd_identity self) ann)))"
  using assms(1,2)
proof (cases rule: poll_presence_cases)
  case (polled ms' self2 r')
  then have "ms' = ms" using assms(3) by simp
  then show ?thesis using process_presence_authentic [OF polled(1), of k] polled(3-5) by simp
qed simp

theorem poll_presence_authentic_witness:
  "let B' = snd (poll_presence presence_nenv example_signing False 9 presence_B)
   in hm_get (nd_peer_map B') ''02'' = None
      \<or> (\<exists>ann. accepted_presence presence_nenv example_signing ''03'' [[1]] ann \<and> pa_agent_id ann = ''02'')"
proof -
  obtain B' where B: "poll_presence presence_nenv example_signing False 9 presence_B = (Returns (Inr 1), B')"
    "log_drained (nd_log B') = log_drained (nd_log presence_B) @ [[1]]"
    using presence_polled by (auto simp: presence_AB_simps)
  from poll_presence_authentic [OF presence_nenv_simps(1) B, of "''02''"] show ?thesis
    using B(1) by (auto simp: presence_AB_simps hm_get_def)
qed

text \<open>
  C16. Load reports reach exactly the trusted peers. When \<open>A\<close> announces its presence and \<open>B\<close>, another
  node, polls and receives that announcement as the last one of \<open>A\<close>, then \<open>B\<close> knows \<open>A\<close> as a live peer
  with \<open>A\<close>'s name and capabilities, and it knows \<open>A\<close>'s current load if \<open>A\<close>'s trust list holds \<open>B\<close>'s
  encryption key and no load otherwise. The hypotheses on \<open>S\<close> say that a signature made with \<open>A\<close>'s
  key verifies under the key its id encodes; \<open>sealing_ok\<close> excludes a collision of the 8-byte hints.
\<close>

theorem presence_shares_load_with_trusted:
  fixes A :: "('bf, 'tr \<times> tp_log, 'rx, 'sk, 'w) node" and B :: "('bf, 'tr \<times> tp_log, 'rx, 'sk, 'w) node"
  assumes log: "env_transport (ne_sds N) = logged T"
    and ok: "codecs_ok N" "crypto_ok (ne_crypto N)" "status_ok (ne_status N)"
    and sig: "agent_hex_decode S (pubkey A) = Inr pk" "vk_from_sec1 S pk = Inr vk"
      "\<forall>sg. sig_from_der S (sig_to_der S sg) = Inr sg" "\<forall>m. vk_verify S vk m (sk_sign S (nd_signing_key A) m) = Inr ()"
    and announced: "announce_presence_with_ttl N S draws ttl A = (Inr (), A')" "ttl \<noteq> 0"
      "log_published (nd_log A') = log_published (nd_log A) @ [(PRESENCE, p)]"
    and B: "nd_identity B = Some me" "identity_wf (ne_crypto N) me" "pubkey B \<noteq> pubkey A" "sealing_ok N draws A me"
    and recv: "poll_presence N S traced now B = (Returns (Inr n), B')"
      "log_drained (nd_log B') = log_drained (nd_log B) @ ms1 @ p # ms2"
      "\<forall>m \<in> set ms2. \<forall>a. ne_env_from_slice N m = Some (EnvPresence a) \<longrightarrow> pa_agent_id a \<noteq> pubkey A"
  shows "\<exists>info. peers_get now (nd_peer_map B') (pubkey A) = Some info \<and> pi_name info = card_name (nd_card A)
    \<and> pi_capabilities info = card_capabilities (nd_card A)
    \<and> pi_load info = (if shares_load_with (ne_crypto N) A me then Some (current_load_status A) else None)"
proof -
  define ann where "ann = sign S (nd_signing_key A) (presence_of A ttl (build_sealed_status_envelopes N draws A))"
  have ann: "pa_agent_id ann = pubkey A" "pa_name ann = card_name (nd_card A)" "pa_ttl_secs ann = ttl"
    "pa_capabilities ann = card_capabilities (nd_card A)" "pa_sealed_status ann = build_sealed_status_envelopes N draws A"
    by (simp_all add: ann_def sign_def presence_of_def)
  obtain p' A1 where pub: "ne_env_to_vec N (EnvPresence ann) = Inr p'" "node_publish N PRESENCE p' A = (Inr (), A1)"
    "nd_channel A' = nd_channel A1"
    using announced(1) by (auto simp: announce_presence_with_ttl_def Let_def ann_def split: sum.splits prod.splits)
  then have "p' = p" using node_publish_log [OF log pub(2)] announced(3) by simp
  then have dec: "ne_env_from_slice N p = Some (EnvPresence ann)" using ok(1) pub(1) by (simp add: codecs_ok_def)
  have ver: "verify S ann = Inr ()"
    using sig by (simp add: verify_def ann_def sign_def presence_of_def canonical_bytes_def)
  from log recv(1) have "hm_get (nd_peer_map B') (pubkey A) = Some (info_of now ann (load_for N (Some me) ann))"
  proof (cases rule: poll_presence_cases)
    case (polled ms s2 r')
    then have "ms = ms1 @ p # ms2" "r' = Returns n" using polled(2,6) recv(2) by simp_all
    then show ?thesis
      using process_presence_last [of N S traced now ms1 p ms2 s2 n B' ann] polled(1,4,5) dec ver B(1,3) recv(3)
      by (simp add: ann(1))
  qed simp
  moreover have "\<not> is_expired_at (info_of now ann l) now" for l
    using announced(2) by (simp add: is_expired_at_def info_of_def ann(3) sat_sub_def)
  ultimately show ?thesis
    using load_for_announced [OF ok(2,3) B(2,4) ann(5)] by (auto simp: peers_get_def info_of_def ann)
qed

theorem presence_shares_load_with_trusted_witness:
  "let B' = snd (poll_presence presence_nenv example_signing False 9 presence_B)
   in \<exists>info. peers_get 9 (nd_peer_map B') ''02'' = Some info \<and> pi_load info = Some (current_load_status presence_A)"
proof -
  obtain A' where A: "announce_presence_with_ttl presence_nenv example_signing presence_draws 300 presence_A = (Inr (), A')"
    "log_published (nd_log A') = log_published (nd_log presence_A) @ [(PRESENCE, [1])]"
    using presence_announced by (auto simp: presence_AB_simps)
  obtain B' where B: "poll_presence presence_nenv example_signing False 9 presence_B = (Returns (Inr 1), B')"
    "log_drained (nd_log B') = log_drained (nd_log presence_B) @ [] @ [1] # []"
    using presence_polled by (auto simp: presence_AB_simps)
  have S: "agent_hex_decode example_signing (pubkey presence_A) = Inr []" "vk_from_sec1 example_signing [] = Inr ()"
    "\<forall>sg. sig_from_der example_signing (sig_to_der example_signing sg) = Inr sg"
    "\<forall>m. vk_verify example_signing () m (sk_sign example_signing (nd_signing_key presence_A) m) = Inr ()"
    by (simp_all add: example_signing_def)
  have P: "crypto_ok (ne_crypto presence_nenv)" "identity_wf (ne_crypto presence_nenv) presence_me"
    "pubkey presence_B \<noteq> pubkey presence_A" "(300 :: u64) \<noteq> 0"
    by (simp_all add: presence_nenv_simps toy_prims_ok presence_me_def identity_wf_generate presence_AB_simps)
  from presence_shares_load_with_trusted [OF presence_nenv_simps(1,2) P(1) presence_nenv_simps(4) S A(1) P(4) A(2)
      presence_AB_simps(3) P(2,3) presence_sealing B]
  show ?thesis using B(1) presence_shares by (auto simp: presence_nenv_simps presence_AB_simps)
qed

end
