(* ===== verification/Node_Delegation.thy ===== *)
theory Node_Delegation
  imports Node_Discovery
begin

text \<open>
  Delegation of subtasks (\<open>crates/logos-messaging-a2a-node/src/delegation.rs\<close>): the choice of a peer by
  strategy, load and trust, the exchange with the chosen peer, and the history row it leaves. \<open>it\<close>
  is the iteration order of the peer map and \<open>now\<close> the clock in seconds. The waiting loop reads a
  clock of its own, \<open>tm_elapsed\<close>; it has fuel, and \<open>None\<close> means that it has not ended within it.
\<close>

section \<open>Choosing a peer\<close>

definition DEFAULT_DELEGATION_TIMEOUT_SECS :: u64 where
  "DEFAULT_DELEGATION_TIMEOUT_SECS = 30"

definition load_rank :: "peer_info \<Rightarrow> nat" where
  "load_rank info =
     (case map_option ls_bucket (pi_load info) of
        Some Free \<Rightarrow> 0 | Some Busy \<Rightarrow> 1 | None \<Rightarrow> 2 | Some Full \<Rightarrow> 3)"

fun show_trust_mode :: "trust_mode \<Rightarrow> string" where
  "show_trust_mode Off = ''Off''"
| "show_trust_mode Enforce = ''Enforce''"
| "show_trust_mode Log = ''Log''"

definition quoted :: "char \<Rightarrow> string \<Rightarrow> string" where
  "quoted q s = [q] @ s @ [q]"

definition no_trusted_peers_err :: "('bf, 'tr, 'rx, 'sk, 'w) node \<Rightarrow> nat \<Rightarrow> string option \<Rightarrow> node_error" where
  "no_trusted_peers_err self total_candidates capability =
     (let what = (case capability of Some cap \<Rightarrow> ''with capability '' @ quoted (CHR 0x27) cap | None \<Rightarrow> ''available'')
      in if 0 < total_candidates \<and> node_trust_mode self \<noteq> Off then
           NOther (''no trusted peers '' @ what @ '' for delegation: '' @ show_nat total_candidates
             @ '' live peer(s) all filtered by trust list (mode='' @ show_trust_mode (node_trust_mode self)
             @ ''). Add them with '' @ quoted (CHR 0x60) ''lmao trust add <pubkey>'' @ '' or pass ''
             @ quoted (CHR 0x60) ''--trust-file <path>'' @ '' to use a different list.'')
         else NOther (''no live peers '' @ what @ '' for delegation''))"

definition effective_timeout :: "delegation_request \<Rightarrow> u64" where
  "effective_timeout request =
     (if dr_timeout_secs request = 0 then DEFAULT_DELEGATION_TIMEOUT_SECS else dr_timeout_secs request)"

text \<open>\<open>sort_by_key(load_rank)\<close>, then the first peer that passes.\<close>

definition best_peer :: "(string \<times> peer_info) list \<Rightarrow> (string \<Rightarrow> bool) \<Rightarrow> string option" where
  "best_peer peers passes = find passes (map fst (sort_key (\<lambda>(_, info). load_rank info) peers))"

text \<open>The candidates of a round robin: the trusted ones of the best load tier of all live peers.\<close>

definition round_robin_peers ::
    "(string \<times> peer_info) list \<Rightarrow> ('bf, 'tr, 'rx, 'sk, 'w) node \<Rightarrow> string list" where
  "round_robin_peers live self =
     (let ranks = map (\<lambda>(_, info). load_rank info) live;
          best_rank = (if ranks = [] then 2 else Min (set ranks))
      in filter (node_is_trusted self) (map fst (filter (\<lambda>(_, info). load_rank info = best_rank) live)))"

definition select_peer ::
    "(peer_map \<Rightarrow> (string \<times> peer_info) list) \<Rightarrow> u64 \<Rightarrow> delegation_strategy \<Rightarrow> ('bf, 'tr, 'rx, 'sk, 'w) node
       \<Rightarrow> ('bf, 'tr, 'rx, 'sk, 'w, string) node_result" where
  "select_peer it now strategy self =
     (let live = peers_all_live it now (nd_peer_map self) in
      case strategy of
        FirstAvailable \<Rightarrow>
          (case best_peer live (node_is_trusted self) of
             Some i \<Rightarrow> (Inr i, self)
           | None \<Rightarrow> (Inl (no_trusted_peers_err self (length live) None), self))
      | CapabilityMatch capability \<Rightarrow>
          (let peers = find_peers_by_capability it now capability self
           in case best_peer peers (\<lambda>i. node_is_trusted_for self i capability) of
                Some i \<Rightarrow> (Inr i, self)
              | None \<Rightarrow> (Inl (no_trusted_peers_err self (length peers) (Some capability)), self))
      | BroadcastCollect \<Rightarrow>
          (case best_peer live (node_is_trusted self) of
             Some i \<Rightarrow> (Inr i, self)
           | None \<Rightarrow> (Inl (NOther ''no live peers available for broadcast delegation''), self))
      | RoundRobin \<Rightarrow>
          (let peers = round_robin_peers live self
           in if peers = [] then (Inl (NOther ''no live peers available for round-robin delegation''), self)
              else (Inr (peers ! (unat (nd_round_robin_counter self) mod length peers)),
                    self\<lparr>nd_round_robin_counter := nd_round_robin_counter self + 1\<rparr>)))"

section \<open>The exchange with a peer\<close>

definition capability_of :: "delegation_strategy \<Rightarrow> string" where
  "capability_of strategy = (case strategy of CapabilityMatch capability \<Rightarrow> capability | _ \<Rightarrow> [])"

text \<open>
  \<open>tm_elapsed i\<close> is the time in milliseconds since the start at the \<open>i\<close>-th test of the loop,
  \<open>tm_secs i\<close> the system clock of the poll after it, \<open>tm_end\<close> the clocks in seconds and
  milliseconds and the time elapsed when the history row is written.
\<close>

record timing =
  tm_elapsed :: "nat \<Rightarrow> nat"
  tm_secs :: "nat \<Rightarrow> u64"
  tm_end :: "u64 \<times> u64 \<times> u64"

definition record_delegation_history ::
    "('bf, 'tr, 'rx, 'c, 'w) node_env \<Rightarrow> u64 \<times> u64 \<times> u64 \<Rightarrow> delegation_result \<Rightarrow> string \<Rightarrow> string \<Rightarrow> string option
       \<Rightarrow> ('bf, 'tr, 'rx, 'sk, 'w) node \<Rightarrow> ('bf, 'tr, 'rx, 'sk, 'w) node" where
  "record_delegation_history N clk result subtask_text capability session_id self =
     (if \<not> nd_history self then self
      else
        let (now, now_ms, elapsed) = clk;
            body = (case res_result_text result of None \<Rightarrow> [] | Some b \<Rightarrow> b)
        in append_history N
             \<lparr>h_task_id = res_subtask_id result, h_parent_id = res_parent_task_id result, h_created_at_ms = now_ms,
              h_direction = ''delegated'', h_peer_pubkey = res_agent_id result,
              h_peer_name = peer_name_of now self (res_agent_id result), h_capability = capability,
              h_text = subtask_text, h_body = body, h_cid = extract_codex_cid body,
              h_success = res_success result, h_error = res_error result, h_elapsed_ms = elapsed,
              h_session_id = (case session_id of None \<Rightarrow> [] | Some s \<Rightarrow> s)\<rparr> self)"

definition subtask_of :: "string \<Rightarrow> delegation_request \<Rightarrow> string \<Rightarrow> ('bf, 'tr, 'rx, 'sk, 'w) node \<Rightarrow> task" where
  "subtask_of uuid request peer_id self =
     (case dr_session_id request of
        Some sid \<Rightarrow>
          if sid \<noteq> [] then task_new_in_session uuid (pubkey self) peer_id (dr_subtask_text request) sid
          else task_new uuid (pubkey self) peer_id (dr_subtask_text request)
      | None \<Rightarrow> task_new uuid (pubkey self) peer_id (dr_subtask_text request))"

text \<open>
  The waiting loop: the response with the id of the subtask, or \<open>None\<close> inside when the deadline
  has passed.
\<close>

fun await_response ::
    "nat \<Rightarrow> ('bf, 'tr, 'rx, 'c, 'w) node_env \<Rightarrow> (string \<Rightarrow> string) \<Rightarrow> timing \<Rightarrow> nat \<Rightarrow> string \<Rightarrow> nat
       \<Rightarrow> ('bf, 'tr, 'rx, 'sk, 'w) node \<Rightarrow> ((node_error + task option) exec \<times> ('bf, 'tr, 'rx, 'sk, 'w) node) option" where
  "await_response 0 N sid_of tm deadline subtask_id i self = None"
| "await_response (Suc fuel) N sid_of tm deadline subtask_id i self =
     (if \<not> tm_elapsed tm i < deadline then Some (Returns (Inr None), self)
      else case poll_tasks N sid_of (tm_secs tm i) self of
             (Panics, self1) \<Rightarrow> Some (Panics, self1)
           | (Returns (Inl e), self1) \<Rightarrow> Some (Returns (Inl e), self1)
           | (Returns (Inr tasks), self1) \<Rightarrow>
               (case find (\<lambda>t. task_id t = subtask_id) tasks of
                  Some received \<Rightarrow> Some (Returns (Inr (Some received)), self1)
                | None \<Rightarrow> await_response fuel N sid_of tm deadline subtask_id (Suc i) self1))"

definition result_of :: "delegation_request \<Rightarrow> string \<Rightarrow> string \<Rightarrow> task option \<Rightarrow> delegation_result" where
  "result_of request subtask_id peer_id response =
     (case response of
        Some received \<Rightarrow>
          (let body = task_result_text received; success = (task_state received \<noteq> Failed)
           in \<lparr>res_parent_task_id = dr_parent_task_id request, res_subtask_id = subtask_id, res_agent_id = peer_id,
               res_result_text = (if success then body else None), res_success = success,
               res_error = (if success then None else body)\<rparr>)
      | None \<Rightarrow>
          \<lparr>res_parent_task_id = dr_parent_task_id request, res_subtask_id = subtask_id, res_agent_id = peer_id,
           res_result_text = None, res_success = False, res_error = Some ''delegation timed out''\<rparr>)"

definition delegate_to_peer ::
    "nat \<Rightarrow> ('bf, 'tr, 'rx, 'c, 'w) node_env \<Rightarrow> (string \<Rightarrow> string) \<Rightarrow> timing \<Rightarrow> string \<Rightarrow> delegation_request \<Rightarrow> string
       \<Rightarrow> u64 \<Rightarrow> ('bf, 'tr, 'rx, 'sk, 'w) node
       \<Rightarrow> ((node_error + delegation_result) exec \<times> ('bf, 'tr, 'rx, 'sk, 'w) node) option" where
  "delegate_to_peer fuel N sid_of tm uuid request peer_id timeout_secs self =
     (let t = subtask_of uuid request peer_id self
      in case ne_env_to_vec N (EnvTask t) of
           Inl e \<Rightarrow> Some (Returns (Inl (NSerialization e)), self)
         | Inr payload \<Rightarrow>
             (case node_publish N (task_topic peer_id) payload self of
                (Inl e, self1) \<Rightarrow> Some (Returns (Inl e), self1)
              | (Inr _, self1) \<Rightarrow>
                  (case await_response fuel N sid_of tm (unat timeout_secs * 1000) (task_id t) 0 self1 of
                     None \<Rightarrow> None
                   | Some (Panics, self2) \<Rightarrow> Some (Panics, self2)
                   | Some (Returns (Inl e), self2) \<Rightarrow> Some (Returns (Inl e), self2)
                   | Some (Returns (Inr response), self2) \<Rightarrow>
                       let result = result_of request (task_id t) peer_id response
                       in Some (Returns (Inr result),
                                record_delegation_history N (tm_end tm) result (dr_subtask_text request)
                                  (capability_of (dr_strategy request)) (dr_session_id request) self2))))"

definition delegate_task ::
    "nat \<Rightarrow> ('bf, 'tr, 'rx, 'c, 'w) node_env \<Rightarrow> (peer_map \<Rightarrow> (string \<times> peer_info) list) \<Rightarrow> u64 \<Rightarrow> (string \<Rightarrow> string)
       \<Rightarrow> timing \<Rightarrow> string \<Rightarrow> delegation_request \<Rightarrow> ('bf, 'tr, 'rx, 'sk, 'w) node
       \<Rightarrow> ((node_error + delegation_result) exec \<times> ('bf, 'tr, 'rx, 'sk, 'w) node) option" where
  "delegate_task fuel N it now sid_of tm uuid request self =
     (case select_peer it now (dr_strategy request) self of
        (Inl e, self1) \<Rightarrow> Some (Returns (Inl e), self1)
      | (Inr peer_id, self1) \<Rightarrow>
          delegate_to_peer fuel N sid_of tm uuid request peer_id (effective_timeout request)
            (count (\<lambda>m. m\<lparr>delegations_sent := inc (delegations_sent m)\<rparr>) self1))"

definition delegate_direct ::
    "nat \<Rightarrow> ('bf, 'tr, 'rx, 'c, 'w) node_env \<Rightarrow> (string \<Rightarrow> string) \<Rightarrow> timing \<Rightarrow> string \<Rightarrow> delegation_request \<Rightarrow> string
       \<Rightarrow> ('bf, 'tr, 'rx, 'sk, 'w) node
       \<Rightarrow> ((node_error + delegation_result) exec \<times> ('bf, 'tr, 'rx, 'sk, 'w) node) option" where
  "delegate_direct fuel N sid_of tm uuid request peer_pubkey self =
     (if \<not> node_is_trusted self peer_pubkey then
        Some (Returns (Inl (NOther (''direct delegation to '' @ peer_pubkey
          @ '' blocked: peer not on trust list (mode='' @ show_trust_mode (node_trust_mode self)
          @ ''). Add it with '' @ quoted (CHR 0x60) ''lmao trust add'' @ '' or pass an alternate ''
          @ quoted (CHR 0x60) ''--trust-file'' @ ''.''))), self)
      else
        delegate_to_peer fuel N sid_of tm uuid request peer_pubkey (effective_timeout request)
          (count (\<lambda>m. m\<lparr>delegations_sent := inc (delegations_sent m)\<rparr>) self))"

text \<open>The peers of a broadcast, and its loop; \<open>tm\<close> and \<open>uuid\<close> give the clocks and the id of each exchange.\<close>

definition broadcast_peers ::
    "(peer_map \<Rightarrow> (string \<times> peer_info) list) \<Rightarrow> u64 \<Rightarrow> delegation_strategy \<Rightarrow> ('bf, 'tr, 'rx, 'sk, 'w) node
       \<Rightarrow> string list" where
  "broadcast_peers it now strategy self =
     (case strategy of
        CapabilityMatch capability \<Rightarrow>
          filter (\<lambda>i. node_is_trusted_for self i capability) (map fst (find_peers_by_capability it now capability self))
      | _ \<Rightarrow> filter (node_is_trusted self) (map fst (peers_all_live it now (nd_peer_map self))))"

definition broadcast_failure :: "delegation_request \<Rightarrow> string \<Rightarrow> node_error \<Rightarrow> delegation_result" where
  "broadcast_failure request peer_id e =
     \<lparr>res_parent_task_id = dr_parent_task_id request, res_subtask_id = [], res_agent_id = peer_id,
      res_result_text = None, res_success = False, res_error = Some (show_node_error e)\<rparr>"

fun broadcast_loop ::
    "nat \<Rightarrow> ('bf, 'tr, 'rx, 'c, 'w) node_env \<Rightarrow> (string \<Rightarrow> string) \<Rightarrow> (string \<Rightarrow> timing) \<Rightarrow> (string \<Rightarrow> string)
       \<Rightarrow> delegation_request \<Rightarrow> u64 \<Rightarrow> string list \<Rightarrow> ('bf, 'tr, 'rx, 'sk, 'w) node
       \<Rightarrow> (delegation_result list exec \<times> ('bf, 'tr, 'rx, 'sk, 'w) node) option" where
  "broadcast_loop fuel N sid_of tm uuid request timeout_secs [] self = Some (Returns [], self)"
| "broadcast_loop fuel N sid_of tm uuid request timeout_secs (peer_id # rest) self =
     (case delegate_to_peer fuel N sid_of (tm peer_id) (uuid peer_id) request peer_id timeout_secs self of
        None \<Rightarrow> None
      | Some (Panics, self1) \<Rightarrow> Some (Panics, self1)
      | Some (Returns r, self1) \<Rightarrow>
          let result = (case r of Inr res \<Rightarrow> res | Inl e \<Rightarrow> broadcast_failure request peer_id e)
          in (case broadcast_loop fuel N sid_of tm uuid request timeout_secs rest self1 of
                Some (Returns results, self2) \<Rightarrow> Some (Returns (result # results), self2)
              | out \<Rightarrow> out))"

definition delegate_broadcast ::
    "nat \<Rightarrow> ('bf, 'tr, 'rx, 'c, 'w) node_env \<Rightarrow> (peer_map \<Rightarrow> (string \<times> peer_info) list) \<Rightarrow> u64 \<Rightarrow> (string \<Rightarrow> string)
       \<Rightarrow> (string \<Rightarrow> timing) \<Rightarrow> (string \<Rightarrow> string) \<Rightarrow> delegation_request \<Rightarrow> ('bf, 'tr, 'rx, 'sk, 'w) node
       \<Rightarrow> ((node_error + delegation_result list) exec \<times> ('bf, 'tr, 'rx, 'sk, 'w) node) option" where
  "delegate_broadcast fuel N it now sid_of tm uuid request self =
     (let peer_ids = broadcast_peers it now (dr_strategy request) self
      in if peer_ids = [] then
           Some (Returns (Inl (NOther ''no live peers available for broadcast delegation'')), self)
         else
           (case broadcast_loop fuel N sid_of tm uuid request (effective_timeout request) peer_ids
                   (count (\<lambda>m. m\<lparr>delegations_sent := inc_by (length peer_ids) (delegations_sent m)\<rparr>) self) of
              None \<Rightarrow> None
            | Some (Panics, self1) \<Rightarrow> Some (Panics, self1)
            | Some (Returns results, self1) \<Rightarrow> Some (Returns (Inr results), self1)))"

section \<open>Lemmas on the choice\<close>

text \<open>What makes a live peer a candidate of a strategy.\<close>

definition eligible :: "delegation_strategy \<Rightarrow> ('bf, 'tr, 'rx, 'sk, 'w) node \<Rightarrow> string \<Rightarrow> peer_info \<Rightarrow> bool" where
  "eligible strategy self i info =
     (case strategy of
        CapabilityMatch c \<Rightarrow> c \<in> set (pi_capabilities info) \<and> node_is_trusted_for self i c
      | _ \<Rightarrow> node_is_trusted self i)"

lemma best_peer_Some:
  assumes "best_peer peers passes = Some i"
  shows "\<exists>info. (i, info) \<in> set peers \<and> passes i
    \<and> (\<forall>j info'. (j, info') \<in> set peers \<longrightarrow> passes j \<longrightarrow> load_rank info \<le> load_rank info')"
proof -
  let ?s = "sort_key (\<lambda>(_, info). load_rank info) peers"
  obtain n where n: "n < length ?s" "passes i" "i = fst (?s ! n)" "\<forall>m < n. \<not> passes (fst (?s ! m))"
    using assms by (auto simp: best_peer_def find_Some_iff)
  obtain info where info: "?s ! n = (i, info)" using n(3) by (metis prod.collapse)
  have "load_rank info \<le> load_rank info'" if j: "(j, info') \<in> set peers" "passes j" for j info'
  proof -
    have "(j, info') \<in> set ?s" using j(1) by simp
    then obtain m where m: "m < length ?s" "?s ! m = (j, info')" by (metis in_set_conv_nth)
    then have "n \<le> m" using n(4) j(2) by (metis fst_conv not_le)
    moreover have "sorted (map (\<lambda>(_, info). load_rank info) ?s)" by simp
    ultimately have "map (\<lambda>(_, info). load_rank info) ?s ! n \<le> map (\<lambda>(_, info). load_rank info) ?s ! m"
      using m(1) by (intro sorted_nth_mono) auto
    then show ?thesis using n(1) m info by simp
  qed
  moreover have "(i, info) \<in> set peers" using n(1) info by (metis nth_mem set_sort)
  ultimately show ?thesis using n(2) by blast
qed

lemma best_peer_None: "best_peer peers passes = None \<Longrightarrow> (i, info) \<in> set peers \<Longrightarrow> \<not> passes i"
  by (fastforce simp: best_peer_def find_None_iff image_iff)

lemma live_iff:
  assumes "hash_iter it" and "hm_wf pm"
  shows "(i, info) \<in> set (peers_all_live it now pm) \<longleftrightarrow> peers_get now pm i = Some info"
    and "(i, info) \<in> set (peers_find_by_capability it now c pm) \<longleftrightarrow>
      peers_get now pm i = Some info \<and> c \<in> set (pi_capabilities info)"
proof -
  have "(i, info) \<in> set (it pm) \<longleftrightarrow> hm_get pm i = Some info"
    using hash_iter_set [OF assms(1)] hm_get_in [OF assms(2)] by simp
  then show "(i, info) \<in> set (peers_all_live it now pm) \<longleftrightarrow> peers_get now pm i = Some info"
    and "(i, info) \<in> set (peers_find_by_capability it now c pm) \<longleftrightarrow>
      peers_get now pm i = Some info \<and> c \<in> set (pi_capabilities info)"
    by (auto simp: peers_all_live_def peers_find_by_capability_def peers_get_def split: option.splits)
qed

lemma best_peer_choice:
  assumes "\<And>i info. (i, info) \<in> set peers \<and> passes i \<longleftrightarrow> peers_get now pm i = Some info \<and> E i info"
  shows "best_peer peers passes = Some i \<Longrightarrow> \<exists>info. peers_get now pm i = Some info \<and> E i info
      \<and> (\<forall>j info'. peers_get now pm j = Some info' \<longrightarrow> E j info' \<longrightarrow> load_rank info \<le> load_rank info')"
    and "best_peer peers passes = None \<Longrightarrow> peers_get now pm j = Some info' \<Longrightarrow> \<not> E j info'"
  using best_peer_Some [of peers passes i] best_peer_None [of peers passes j info'] assms by blast+

lemma round_robin_best:
  assumes "i \<in> set (round_robin_peers live self)"
  shows "\<exists>info. (i, info) \<in> set live \<and> node_is_trusted self i
    \<and> (\<forall>j info'. (j, info') \<in> set live \<longrightarrow> load_rank info \<le> load_rank info')"
proof -
  obtain info where i: "(i, info) \<in> set live" "node_is_trusted self i"
    "load_rank info = Min ((\<lambda>(_, info). load_rank info) ` set live)"
    using assms by (auto simp: round_robin_peers_def Let_def split: if_splits)
  have "load_rank info \<le> load_rank info'" if "(j, info') \<in> set live" for j info'
    unfolding i(3) using that by (intro Min_le) force+
  then show ?thesis using i by blast
qed

section \<open>Properties of the choice\<close>

lemma select_peer_spec:
  assumes "hash_iter it" and "hm_wf (nd_peer_map self)" and "select_peer it now strategy self = (r, self')"
  shows "(\<forall>i. r = Inr i \<longrightarrow> (\<exists>info. peers_get now (nd_peer_map self) i = Some info \<and> eligible strategy self i info
        \<and> (\<forall>j info'. peers_get now (nd_peer_map self) j = Some info' \<longrightarrow> eligible strategy self j info'
              \<longrightarrow> load_rank info \<le> load_rank info')))
    \<and> (\<forall>e j info'. r = Inl e \<longrightarrow> strategy \<noteq> RoundRobin \<longrightarrow> peers_get now (nd_peer_map self) j = Some info'
        \<longrightarrow> \<not> eligible strategy self j info')"
proof (cases "strategy = RoundRobin")
  case True
  let ?peers = "round_robin_peers (peers_all_live it now (nd_peer_map self)) self"
  have "i \<in> set ?peers" if "r = Inr i" for i
    using assms(3) True that by (auto simp: select_peer_def Let_def split: if_splits)
  then show ?thesis
    using True round_robin_best [of _ "peers_all_live it now (nd_peer_map self)" self]
    by (fastforce simp: eligible_def live_iff [OF assms(1,2)])
next
  case False
  define peers where "peers = (case strategy of
      CapabilityMatch c \<Rightarrow> find_peers_by_capability it now c self | _ \<Rightarrow> peers_all_live it now (nd_peer_map self))"
  define passes where "passes = (\<lambda>i. case strategy of
      CapabilityMatch c \<Rightarrow> node_is_trusted_for self i c | _ \<Rightarrow> node_is_trusted self i)"
  have "(i, info) \<in> set peers \<and> passes i \<longleftrightarrow> peers_get now (nd_peer_map self) i = Some info \<and> eligible strategy self i info"
    for i info
    using live_iff [OF assms(1,2)]
    by (auto simp: peers_def passes_def eligible_def find_peers_by_capability_def split: delegation_strategy.splits)
  note choice = best_peer_choice [OF this]
  have "best_peer peers passes = (case r of Inr i \<Rightarrow> Some i | Inl _ \<Rightarrow> None)"
    using assms(3) False
    by (auto simp: select_peer_def Let_def peers_def passes_def split: delegation_strategy.splits option.splits)
  then show ?thesis using choice by (auto split: sum.splits)
qed

lemmas select_peer_sound = select_peer_spec [THEN conjunct1, rule_format, OF _ _ _ refl]

text \<open>
  C12. Whom a subtask goes to. Under every strategy the chosen peer is live, trusted (for the
  capability, when one is asked for) and offers the capability, and no live peer that is a
  candidate under the strategy reports a lower load. Except for \<open>RoundRobin\<close>, an error means that
  there is no live candidate at all.
\<close>

theorem delegation_target_sound:
  assumes "hash_iter it" and "hm_wf (nd_peer_map self)" and "select_peer it now strategy self = (r, self')"
  shows "(\<forall>i. r = Inr i \<longrightarrow> (\<exists>info. peers_get now (nd_peer_map self) i = Some info \<and> eligible strategy self i info
        \<and> (\<forall>j info'. peers_get now (nd_peer_map self) j = Some info' \<longrightarrow> eligible strategy self j info'
              \<longrightarrow> load_rank info \<le> load_rank info')))
    \<and> (\<forall>e j info'. r = Inl e \<longrightarrow> strategy \<noteq> RoundRobin \<longrightarrow> peers_get now (nd_peer_map self) j = Some info'
        \<longrightarrow> \<not> eligible strategy self j info')"
  by (rule select_peer_spec [OF assms])

definition example_peer :: "load_bucket \<Rightarrow> peer_info" where
  "example_peer b = \<lparr>pi_name = ''p'', pi_capabilities = [''echo''], pi_waku_topic = [], pi_ttl_secs = 60, pi_last_seen = 5,
     pi_load = Some \<lparr>ls_bucket = b, ls_queue_depth = 0, ls_max_concurrent = 1, ls_avg_latency_ms = 0\<rparr>\<rparr>"

text \<open>A node that enforces a trust list with the single peer \<open>02ab\<close>, and knows an untrusted and the trusted peer.\<close>

definition delegating_node :: "(string list, bytes list, unit, unit, unit) node" where
  "delegating_node = (with_trust_list (trust_add example_entry (with_mode Enforce)) (example_node []))
     \<lparr>nd_peer_map := [(''02cd'', example_peer Free), (''02ab'', example_peer Busy)]\<rparr>"

lemma delegating_node_simps:
  "nd_peer_map delegating_node = [(''02cd'', example_peer Free), (''02ab'', example_peer Busy)]"
  "node_is_trusted delegating_node i \<longleftrightarrow> i = ''02ab''" "node_trust_mode delegating_node = Enforce"
  by (auto simp: delegating_node_def node_is_trusted_def is_trusted_def with_trust_list_def trust_add_def with_mode_def
      example_entry_def bt_contains_def node_trust_mode_def)

theorem delegation_target_sound_witness:
  "fst (select_peer (\<lambda>m. m) 9 FirstAvailable delegating_node) = Inr ''02ab''
   \<and> peers_get 9 (nd_peer_map delegating_node) ''02ab'' \<noteq> None"
proof -
  have wf: "hm_wf (nd_peer_map delegating_node)" by (simp add: delegating_node_simps hm_wf_def)
  have sel: "select_peer (\<lambda>m. m) 9 FirstAvailable delegating_node = (Inr ''02ab'', delegating_node)"
    by (simp add: select_peer_def Let_def best_peer_def peers_all_live_def delegating_node_simps is_expired_at_def
        example_peer_def load_rank_def sat_sub_def)
  from delegation_target_sound [OF hash_iter_id wf sel] sel show ?thesis by auto
qed

text \<open>
  A round robin can fail although a trusted live peer exists: the best load tier is taken over
  all live peers, trusted or not, and the trusted ones are looked for in that tier only. One
  untrusted peer that reports to be free hides a trusted one that is busy.
\<close>

lemma round_robin_hides_trusted_peer:
  "fst (select_peer (\<lambda>m. m) 9 RoundRobin delegating_node)
     = Inl (NOther ''no live peers available for round-robin delegation'')
   \<and> (\<exists>info. peers_get 9 (nd_peer_map delegating_node) ''02ab'' = Some info \<and> eligible RoundRobin delegating_node ''02ab'' info)"
  by (simp add: select_peer_def Let_def round_robin_peers_def peers_all_live_def delegating_node_simps is_expired_at_def
      example_peer_def load_rank_def sat_sub_def peers_get_def hm_get_def eligible_def)

text \<open>Consecutive round-robin selections on an unchanged peer map.\<close>

primrec round_robin_picks ::
    "nat \<Rightarrow> (peer_map \<Rightarrow> (string \<times> peer_info) list) \<Rightarrow> u64 \<Rightarrow> ('bf, 'tr, 'rx, 'sk, 'w) node \<Rightarrow> (node_error + string) list" where
  "round_robin_picks 0 it now self = []"
| "round_robin_picks (Suc n) it now self =
     (let (r, self1) = select_peer it now RoundRobin self in r # round_robin_picks n it now self1)"

lemma round_robin_picks_nth:
  assumes "peers = round_robin_peers (peers_all_live it now (nd_peer_map self)) self" and "peers \<noteq> []"
    and "unat (nd_round_robin_counter self) + n < 2 ^ 64"
  shows "round_robin_picks n it now self =
    map (\<lambda>i. Inr (peers ! ((unat (nd_round_robin_counter self) + i) mod length peers))) [0..<n]"
  using assms
proof (induction n arbitrary: self)
  case (Suc n)
  let ?s = "self\<lparr>nd_round_robin_counter := nd_round_robin_counter self + 1\<rparr>"
  have c: "unat (nd_round_robin_counter ?s) = Suc (unat (nd_round_robin_counter self))"
    using Suc.prems(3) by (simp add: unat_word_ariths)
  have "node_is_trusted ?s = node_is_trusted self" by (simp add: fun_eq_iff node_is_trusted_def)
  then have "round_robin_peers l ?s = round_robin_peers l self" for l by (simp only: round_robin_peers_def)
  then have "peers = round_robin_peers (peers_all_live it now (nd_peer_map ?s)) ?s" using Suc.prems(1) by simp
  then have "round_robin_picks n it now ?s =
      map (\<lambda>i. Inr (peers ! ((unat (nd_round_robin_counter ?s) + i) mod length peers))) [0..<n]"
    using Suc.prems(2,3) c by (intro Suc.IH) simp_all
  moreover have "select_peer it now RoundRobin self =
      (Inr (peers ! (unat (nd_round_robin_counter self) mod length peers)), ?s)"
    using Suc.prems(1,2) by (simp add: select_peer_def Let_def)
  ultimately show ?case using c by (simp add: map_upt_Suc del: upt_Suc)
qed simp

lemma mset_rotation:
  assumes "xs \<noteq> []"
  shows "mset (map (\<lambda>i. xs ! ((k + i) mod length xs)) [0..<length xs]) = mset xs"
proof -
  have "map (\<lambda>i. xs ! ((k + i) mod length xs)) [0..<length xs] = rotate k xs"
    using assms by (intro nth_equalityI) (simp_all add: nth_rotate add.commute)
  moreover have "mset (rotate k xs) = mset xs"
    by (metis append_take_drop_id mset_append rotate_drop_take union_commute)
  ultimately show ?thesis by simp
qed

text \<open>
  A round robin is fair. As long as the peer map and its iteration order stay as they are, as
  many consecutive selections as there are candidates choose every candidate exactly once, from
  whatever counter value the round starts (below the wrap of the counter).
\<close>

lemma round_robin_fair:
  assumes "peers = round_robin_peers (peers_all_live it now (nd_peer_map self)) self" and "peers \<noteq> []"
    and "unat (nd_round_robin_counter self) + length peers < 2 ^ 64"
  shows "mset (round_robin_picks (length peers) it now self) = mset (map Inr peers)"
proof -
  let ?p = "\<lambda>i. peers ! ((unat (nd_round_robin_counter self) + i) mod length peers)"
  have "round_robin_picks (length peers) it now self = map Inr (map ?p [0..<length peers])"
    using round_robin_picks_nth [OF assms] by simp
  moreover have "mset (map Inr (map ?p [0..<length peers])) = mset (map Inr peers)"
    unfolding mset_map [of Inr] mset_rotation [OF assms(2)] ..
  ultimately show ?thesis by simp
qed

lemma round_robin_fair_witness:
  "let self = with_trust_list trust_empty delegating_node\<lparr>nd_peer_map := [(''02cd'', example_peer Busy), (''02ab'', example_peer Busy)]\<rparr>
   in mset (round_robin_picks 2 (\<lambda>m. m) 9 self) = {#Inr ''02cd'', Inr ''02ab''#}"
proof -
  define self where "self = with_trust_list trust_empty delegating_node\<lparr>nd_peer_map := [(''02cd'', example_peer Busy), (''02ab'', example_peer Busy)]\<rparr>"
  have peers: "[''02cd'', ''02ab''] = round_robin_peers (peers_all_live (\<lambda>m. m) 9 (nd_peer_map self)) self"
    by (simp add: self_def round_robin_peers_def Let_def peers_all_live_def is_expired_at_def example_peer_def load_rank_def
        sat_sub_def with_trust_list_def node_is_trusted_def is_trusted_def trust_empty_def)
  have counter: "nd_round_robin_counter self = 0"
    by (simp add: self_def with_trust_list_def delegating_node_def example_node_def node_from_key_def node_with_channel_def)
  have bound: "unat (nd_round_robin_counter self) + length [''02cd'', ''02ab''] < 2 ^ 64" by (simp add: counter)
  from round_robin_fair [OF peers list.distinct(2) bound] show ?thesis
    unfolding Let_def self_def [symmetric] by (simp add: numeral_2_eq_2)
qed

section \<open>Properties of the exchange\<close>

lemma poll_keeps:
  assumes "poll_tasks N sid_of now self = (r, self')"
  shows "nd_trust_list self' = nd_trust_list self" and "nd_payment self' = nd_payment self"
    and "r = Returns (Inr ts) \<Longrightarrow> t \<in> set ts \<Longrightarrow> admitted (nd_trust_list self) t"
proof -
  have "nd_trust_list self' = nd_trust_list self \<and> nd_payment self' = nd_payment self
    \<and> (r = Returns (Inr ts) \<longrightarrow> t \<in> set ts \<longrightarrow> admitted (nd_trust_list self) t)"
    using assms
  proof (cases rule: poll_tasks_cases)
    case (ok tasks s4 vs s5)
    then show ?thesis using verify_all_spec(1) [OF ok(2)] by (auto simp: admitting_def same_policy_def)
  qed (simp add: same_policy_def)
  then show "nd_trust_list self' = nd_trust_list self" and "nd_payment self' = nd_payment self"
    and "r = Returns (Inr ts) \<Longrightarrow> t \<in> set ts \<Longrightarrow> admitted (nd_trust_list self) t" by blast+
qed

lemma await_response_spec:
  assumes "await_response fuel N sid_of tm deadline k i self = Some (Returns (Inr (Some received)), self')"
  shows "task_id received = k \<and> admitted (nd_trust_list self) received
    \<and> (\<forall>cfg. nd_payment self = Some cfg \<longrightarrow> pc_required_amount cfg \<noteq> 0 \<longrightarrow> task_payment_tx received \<noteq> None)"
  using assms
proof (induction fuel arbitrary: i self)
  case (Suc fuel)
  obtain ts s1 where p: "poll_tasks N sid_of (tm_secs tm i) self = (Returns (Inr ts), s1)"
    and rest: "(case find (\<lambda>t. task_id t = k) ts of
        Some t \<Rightarrow> Some (Returns (Inr (Some t)), s1)
      | None \<Rightarrow> await_response fuel N sid_of tm deadline k (Suc i) s1) = Some (Returns (Inr (Some received)), self')"
    using Suc.prems by (auto split: if_splits prod.splits exec.splits sum.splits)
  show ?case
  proof (cases "find (\<lambda>t. task_id t = k) ts")
    case None
    then have "await_response fuel N sid_of tm deadline k (Suc i) s1 = Some (Returns (Inr (Some received)), self')"
      using rest by simp
    from Suc.IH [OF this] show ?thesis using poll_keeps(1,2) [OF p] by simp
  next
    case (Some t)
    then have "received = t" using rest by simp
    moreover have "t \<in> set ts" "task_id t = k" using Some by (auto simp: find_Some_iff)
    moreover have "task_payment_tx t \<noteq> None" if "nd_payment self = Some cfg" "pc_required_amount cfg \<noteq> 0" for cfg
      using poll_payment [OF p that] \<open>t \<in> set ts\<close> by (auto simp: fresh_txs_def)
    ultimately show ?thesis using poll_keeps(3) [OF p] by blast
  qed
qed simp

lemma await_response_ends:
  fixes N :: "('bf, 'tr, 'rx, 'c, 'w) node_env" and self :: "('bf, 'tr, 'rx, 'sk, 'w) node"
  assumes "\<And>i. tm_elapsed tm i + 50 \<le> tm_elapsed tm (Suc i)" and "0 < fuel"
    and "deadline \<le> tm_elapsed tm i + 50 * (fuel - 1)"
  shows "await_response fuel N sid_of tm deadline k i self \<noteq> None"
  using assms(2,3)
proof (induction fuel arbitrary: i self)
  case (Suc fuel)
  have "await_response fuel N sid_of tm deadline k (Suc i) s \<noteq> None" if "tm_elapsed tm i < deadline"
    for s :: "('bf, 'tr, 'rx, 'sk, 'w) node"
  proof (rule Suc.IH)
    show "0 < fuel" using that Suc.prems(2) by (cases fuel) auto
    then show "deadline \<le> tm_elapsed tm (Suc i) + 50 * (fuel - 1)"
      using Suc.prems(2) assms(1) [of i] by (simp add: diff_mult_distrib2)
  qed
  then show ?case by (auto split: prod.split exec.split sum.split option.split)
qed simp

lemma delegate_to_peer_ends:
  assumes "\<And>i. tm_elapsed tm i + 50 \<le> tm_elapsed tm (Suc i)" and "20 * unat timeout_secs < fuel"
  shows "delegate_to_peer fuel N sid_of tm uuid request peer timeout_secs self \<noteq> None"
proof -
  have "await_response fuel N sid_of tm (unat timeout_secs * 1000) k 0 s \<noteq> None" for k s
    using assms(2) by (intro await_response_ends [OF assms(1)]) auto
  then show ?thesis by (auto simp: delegate_to_peer_def Let_def simp del: not_None_eq split: sum.split prod.split option.split exec.split)
qed

text \<open>
  C15. A delegation ends. The loop sleeps 50 ms between two polls; when the clock shows that, no
  delegation polls more than \<open>20 * timeout + 1\<close> times before it has an answer, an error or the
  timeout.
\<close>

theorem delegation_terminates:
  assumes "\<forall>i. tm_elapsed tm i + 50 \<le> tm_elapsed tm (Suc i)" and "20 * unat (effective_timeout request) < fuel"
  shows "\<exists>out. delegate_task fuel N it now sid_of tm uuid request self = Some out"
proof (cases "select_peer it now (dr_strategy request) self")
  case (Pair r s1)
  then show ?thesis
    using delegate_to_peer_ends [of tm "effective_timeout request" fuel] assms
    by (auto simp: delegate_task_def split: sum.split)
qed

definition example_request :: delegation_request where
  "example_request = \<lparr>dr_parent_task_id = ''p'', dr_subtask_text = ''do'', dr_strategy = FirstAvailable, dr_timeout_secs = 1,
     dr_session_id = None\<rparr>"

definition example_timing :: timing where
  "example_timing = \<lparr>tm_elapsed = (\<lambda>i. 50 * i), tm_secs = (\<lambda>_. 9), tm_end = (9, 9000, 50)\<rparr>"

theorem delegation_terminates_witness:
  "\<exists>out. delegate_task 21 (example_nenv []) (\<lambda>m. m) 9 (\<lambda>s. s) example_timing ''u'' example_request delegating_node = Some out"
  by (rule delegation_terminates) (simp_all add: example_timing_def example_request_def effective_timeout_def)

lemma subtask_id: "task_id (subtask_of uuid request peer self) = uuid"
  by (simp add: subtask_of_def task_new_def task_new_in_session_def split: option.split)

lemma delegate_to_peer_answer:
  assumes "delegate_to_peer fuel N sid_of tm uuid request peer timeout self = Some (Returns (Inr res), self')"
  shows "\<exists>response. res = result_of request uuid peer response
    \<and> (\<forall>t. response = Some t \<longrightarrow> task_id t = uuid \<and> admitted (nd_trust_list self) t)"
proof -
  obtain p s1 response s2 where pub: "node_publish N (task_topic peer) p self = (Inr (), s1)"
    and aw: "await_response fuel N sid_of tm (unat timeout * 1000) uuid 0 s1 = Some (Returns (Inr response), s2)"
    and res: "res = result_of request uuid peer response"
    using assms by (auto simp: delegate_to_peer_def Let_def subtask_id split: sum.splits prod.splits option.splits exec.splits)
  have "nd_trust_list s1 = nd_trust_list self" using pub by (auto simp: node_publish_def split: prod.splits sum.splits)
  then show ?thesis using res await_response_spec [of fuel N sid_of tm _ uuid 0 s1 _ s2] aw by auto
qed

lemma select_peer_policy: "select_peer it now strategy self = (r, s1) \<Longrightarrow> nd_trust_list s1 = nd_trust_list self"
  by (auto simp: select_peer_def Let_def split: delegation_strategy.splits option.splits if_splits)


definition example_answer :: task where
  "example_answer = task_respond (task_new ''u'' ''02ffffffff'' ''02ab'' ''do'') ''done''"

definition answering_nenv :: "(string list, bytes list, unit, bytes, unit) node_env" where
  "answering_nenv = (example_nenv [([1], EnvTask example_answer)])\<lparr>ne_env_to_vec := (\<lambda>_. Inr [0])\<rparr>"


text \<open>
  A node that requires payment never receives the answer to what it delegates. The responses
  that \<open>Task::respond\<close> and \<open>Task::respond_failed\<close> build carry no payment, and the poll of the waiting
  loop drops every task without one: such a delegation can only time out.
\<close>

lemma paid_node_drops_answers:
  assumes "nd_payment self = Some cfg" and "pc_required_amount cfg \<noteq> 0"
    and "await_response fuel N sid_of tm deadline k i self = Some (Returns (Inr (Some received)), self')"
  shows "received \<noteq> task_respond t body \<and> received \<noteq> task_respond_failed t body"
  using await_response_spec [OF assms(3)] assms(1,2) by (auto simp: task_respond_def task_respond_failed_def)

lemma paid_node_drops_answers_witness:
  "let cfg = \<lparr>pc_required_amount = 5, pc_auto_pay = False, pc_auto_pay_amount = 0, pc_verify_on_chain = False, pc_receiving_account = []\<rparr>;
       paid = example_answer\<lparr>task_payment_tx := Some ''tx'', task_payment_amount := Some 5\<rparr>;
       N = example_nenv [([1], EnvTask paid)]; self = with_payment cfg (set_transport [[1]] (example_node []))
   in map_option fst (await_response 1 N (\<lambda>s. s) example_timing 1000 ''u'' 0 self) = Some (Returns (Inr (Some paid)))
      \<and> paid \<noteq> task_respond paid ''done''"
proof -
  define cfg where "cfg = \<lparr>pc_required_amount = 5, pc_auto_pay = False, pc_auto_pay_amount = 0, pc_verify_on_chain = False, pc_receiving_account = []\<rparr>"
  define paid where "paid = example_answer\<lparr>task_payment_tx := Some ''tx'', task_payment_amount := Some 5\<rparr>"
  define N where "N = example_nenv [([1], EnvTask paid)]"
  define self where "self = with_payment cfg (set_transport [[1]] (example_node []))"
  have "fst (poll_tasks N (\<lambda>s. s) 9 self) = Returns (Inr [paid])"
    by (simp add: N_def self_def paid_def cfg_def with_payment_def example_nenv_def example_answer_def task_respond_def
        respond_with_state_def example_node_def poll_defs)
  moreover have "task_id paid = ''u''" by (simp add: paid_def example_answer_def task_respond_def task_new_def)
  ultimately have aw: "await_response 1 N (\<lambda>s. s) example_timing 1000 ''u'' 0 self
      = Some (Returns (Inr (Some paid)), snd (poll_tasks N (\<lambda>s. s) 9 self))"
    by (simp add: example_timing_def case_prod_beta)
  have "nd_payment self = Some cfg" "pc_required_amount cfg \<noteq> 0" by (simp_all add: self_def with_payment_def cfg_def)
  from paid_node_drops_answers [OF this aw] aw show ?thesis by (simp add: Let_def N_def self_def paid_def cfg_def)
qed

lemma broadcast_loop_agents:
  "broadcast_loop fuel N sid_of tm uuid request timeout peers self = Some (Returns results, self') \<Longrightarrow>
     map res_agent_id results = peers"
proof (induction peers arbitrary: self results)
  case (Cons p peers)
  obtain r s1 results' where d: "delegate_to_peer fuel N sid_of (tm p) (uuid p) request p timeout self = Some (Returns r, s1)"
    and l: "broadcast_loop fuel N sid_of tm uuid request timeout peers s1 = Some (Returns results', self')"
    and res: "results = (case r of Inr res \<Rightarrow> res | Inl e \<Rightarrow> broadcast_failure request p e) # results'"
    using Cons.prems by (auto simp: Let_def split: option.splits prod.splits exec.splits)
  have "res_agent_id (case r of Inr res \<Rightarrow> res | Inl e \<Rightarrow> broadcast_failure request p e) = p"
  proof (cases r)
    case (Inr out)
    then show ?thesis
      using delegate_to_peer_answer [of fuel N sid_of "tm p" "uuid p" request p timeout self out s1] d
      by (auto simp: result_of_def Let_def split: option.splits)
  qed (simp add: broadcast_failure_def)
  then show ?case using Cons.IH [OF l] res by simp
qed simp

text \<open>
  A broadcast reports on every peer it went to: one result per trusted live peer (that offers
  the capability, when one is asked for), in the order of the peers, and an exchange that failed is
  an unsuccessful result with the error's text.
\<close>

lemma broadcast_reports_every_peer:
  assumes "hash_iter it" and "hm_wf (nd_peer_map self)"
    and "delegate_broadcast fuel N it now sid_of tm uuid request self = Some (Returns (Inr results), self')"
  shows "distinct (map res_agent_id results)
    \<and> set (map res_agent_id results) = {i. \<exists>info. peers_get now (nd_peer_map self) i = Some info
          \<and> eligible (dr_strategy request) self i info}"
proof -
  let ?peers = "broadcast_peers it now (dr_strategy request) self"
  have ids: "map res_agent_id results = ?peers"
    using assms(3) broadcast_loop_agents [of fuel N sid_of tm uuid request _ ?peers]
    by (auto simp: delegate_broadcast_def Let_def split: if_splits option.splits prod.splits exec.splits)
  have "distinct (map fst (it (nd_peer_map self)))"
    using assms(1,2) unfolding hm_wf_def hash_iter_def by (metis mset_eq_imp_distinct_iff mset_map)
  then have "distinct ?peers"
    by (auto simp: broadcast_peers_def find_peers_by_capability_def peers_find_by_capability_def peers_all_live_def
        distinct_map_filter split: delegation_strategy.split)
  moreover have "set ?peers = {i. \<exists>info. peers_get now (nd_peer_map self) i = Some info \<and> eligible (dr_strategy request) self i info}"
  proof -
    have f: "set (filter P (map fst xs)) = {i. \<exists>info. (i, info) \<in> set xs \<and> P i}" for P and xs :: "(string \<times> peer_info) list"
      by force
    show ?thesis
      by (cases "dr_strategy request")
         (auto simp: broadcast_peers_def find_peers_by_capability_def eligible_def f live_iff [OF assms(1,2)] simp del: set_filter)
  qed
  ultimately show ?thesis using ids by simp
qed

lemma broadcast_reports_every_peer_witness:
  "\<exists>results. map_option fst (delegate_broadcast 21 (example_nenv []) (\<lambda>m. m) 9 (\<lambda>s. s) (\<lambda>_. example_timing) (\<lambda>_. ''u'')
       example_request delegating_node) = Some (Returns (Inr results)) \<and> set (map res_agent_id results) = {''02ab''}"
proof -
  have wf: "hm_wf (nd_peer_map delegating_node)" by (simp add: delegating_node_simps hm_wf_def)
  have live: "peers_get 9 (nd_peer_map delegating_node) i = Some info \<and> eligible FirstAvailable delegating_node i info
      \<longleftrightarrow> i = ''02ab'' \<and> info = example_peer Busy" for i info
    by (auto simp: peers_get_def hm_get_def delegating_node_simps eligible_def is_expired_at_def example_peer_def sat_sub_def
        split: if_splits)
  obtain results s' where run: "delegate_broadcast 21 (example_nenv []) (\<lambda>m. m) 9 (\<lambda>s. s) (\<lambda>_. example_timing) (\<lambda>_. ''u'')
      example_request delegating_node = Some (Returns (Inr results), s')"
    by (simp add: delegate_broadcast_def broadcast_peers_def example_request_def peers_all_live_def delegating_node_simps
        is_expired_at_def example_peer_def sat_sub_def delegate_to_peer_def Let_def example_nenv_def)
  from broadcast_reports_every_peer [OF hash_iter_id wf run] have "set (map res_agent_id results) = {''02ab''}"
    using live by (simp add: example_request_def)
  then show ?thesis using run by simp
qed

end
