(* ===== verification/Memory_Transport.thy ===== *)
theory Memory_Transport
  imports Transport
begin

text \<open>
  The in-memory transport (\<open>crates/logos-messaging-a2a-transport/src/memory.rs\<close>), shared by the nodes
  of one process. The tokio channel behind a subscription is its queue and whether its receiver is
  alive; a sender and a receiver are the position of the channel in \<open>ms_channels\<close>. The senders that
  are alive are those of the map \<open>subscribers\<close>.
\<close>

section \<open>State\<close>

record mpsc =
  mp_queue :: "bytes list"
  mp_open :: bool

record mem_state =
  ms_subscribers :: "(string, nat list) hash_map"
  ms_history :: "(string, bytes list) hash_map"
  ms_channels :: "mpsc list"

definition mem_new :: mem_state where
  "mem_new = \<lparr>ms_subscribers = [], ms_history = [], ms_channels = []\<rparr>"

definition MPSC_CAPACITY :: nat where
  "MPSC_CAPACITY = 1024"

text \<open>\<open>Sender::try_send\<close> fails when the receiver is gone or the queue full.\<close>

definition accepts :: "mpsc list \<Rightarrow> nat \<Rightarrow> bool" where
  "accepts cs tx \<longleftrightarrow> mp_open (cs ! tx) \<and> length (mp_queue (cs ! tx)) < MPSC_CAPACITY"

definition try_send :: "bytes \<Rightarrow> nat \<Rightarrow> mpsc list \<Rightarrow> bool \<times> mpsc list" where
  "try_send d tx cs =
     (if accepts cs tx then (True, cs[tx := (cs ! tx)\<lparr>mp_queue := mp_queue (cs ! tx) @ [d]\<rparr>])
      else (False, cs))"

section \<open>The transport\<close>

text \<open>\<open>subs.retain(|tx| tx.try_send(data.clone()).is_ok())\<close>\<close>

fun retain_sent :: "bytes \<Rightarrow> nat list \<Rightarrow> mpsc list \<Rightarrow> nat list \<times> mpsc list" where
  "retain_sent d [] cs = ([], cs)"
| "retain_sent d (tx # txs) cs =
     (let (ok, cs1) = try_send d tx cs; (kept, cs2) = retain_sent d txs cs1
      in (if ok then tx # kept else kept, cs2))"

definition entry_push :: "string \<Rightarrow> 'a \<Rightarrow> (string, 'a list) hash_map \<Rightarrow> (string, 'a list) hash_map" where
  "entry_push k x m = hm_insert k ((case hm_get m k of None \<Rightarrow> [] | Some xs \<Rightarrow> xs) @ [x]) m"

definition mem_publish :: "mem_state \<Rightarrow> string \<Rightarrow> bytes \<Rightarrow> (transport_error + unit) \<times> mem_state" where
  "mem_publish st topic payload =
     (let st1 = st\<lparr>ms_history := entry_push topic payload (ms_history st)\<rparr>
      in case hm_get (ms_subscribers st1) topic of
           None \<Rightarrow> (Inr (), st1)
         | Some subs \<Rightarrow>
             let (kept, cs) = retain_sent payload subs (ms_channels st1)
             in (Inr (), st1\<lparr>ms_subscribers := hm_insert topic kept (ms_subscribers st1), ms_channels := cs\<rparr>))"

definition mem_subscribe :: "mem_state \<Rightarrow> string \<Rightarrow> (transport_error + nat) \<times> mem_state" where
  "mem_subscribe st topic =
     (let tx = length (ms_channels st);
          cs = ms_channels st @ [\<lparr>mp_queue = [], mp_open = True\<rparr>];
          cs1 = (case hm_get (ms_history st) topic of
                   None \<Rightarrow> cs | Some msgs \<Rightarrow> fold (\<lambda>m cs. snd (try_send m tx cs)) msgs cs)
      in (Inr tx, st\<lparr>ms_subscribers := entry_push topic tx (ms_subscribers st), ms_channels := cs1\<rparr>))"

definition mem_unsubscribe :: "mem_state \<Rightarrow> string \<Rightarrow> (transport_error + unit) \<times> mem_state" where
  "mem_unsubscribe st topic = (Inr (), st\<lparr>ms_subscribers := hm_remove topic (ms_subscribers st)\<rparr>)"

section \<open>Receivers\<close>

text \<open>
  The receiver side of a tokio channel: taking the head of the queue, draining it, and dropping the
  receiver. A wait ends with a message, with the end of the channel when its sender is gone, or with
  the timeout; \<open>others\<close> is what the tasks that run during the wait do to the shared state.
\<close>

definition has_sender :: "mem_state \<Rightarrow> nat \<Rightarrow> bool" where
  "has_sender st rx = list_ex (\<lambda>(_, txs). rx \<in> set txs) (ms_subscribers st)"

definition mem_pop :: "mem_state \<Rightarrow> nat \<Rightarrow> (bytes \<times> mem_state) option" where
  "mem_pop st rx =
     (case mp_queue (ms_channels st ! rx) of
        [] \<Rightarrow> None
      | m # ms \<Rightarrow> Some (m, st\<lparr>ms_channels := (ms_channels st)[rx := (ms_channels st ! rx)\<lparr>mp_queue := ms\<rparr>]\<rparr>))"

definition mem_recv :: "(nat \<Rightarrow> mem_state \<Rightarrow> mem_state) \<Rightarrow> mem_state \<Rightarrow> nat \<Rightarrow> nat \<Rightarrow> recv_outcome \<times> mem_state" where
  "mem_recv others st rx d =
     (case mem_pop st rx of
        Some (m, st1) \<Rightarrow> (RecvData m, st1)
      | None \<Rightarrow>
          if \<not> has_sender st rx then (RecvClosed, st)
          else
            let st1 = others d st
            in case mem_pop st1 rx of
                 Some (m, st2) \<Rightarrow> (RecvData m, st2)
               | None \<Rightarrow> (if has_sender st1 rx then RecvTimeout else RecvClosed, st1))"

definition mem_drain :: "mem_state \<Rightarrow> nat \<Rightarrow> bytes list \<times> mem_state" where
  "mem_drain st rx =
     (mp_queue (ms_channels st ! rx),
      st\<lparr>ms_channels := (ms_channels st)[rx := (ms_channels st ! rx)\<lparr>mp_queue := []\<rparr>]\<rparr>)"

definition mem_close :: "mem_state \<Rightarrow> nat \<Rightarrow> mem_state" where
  "mem_close st rx =
     st\<lparr>ms_channels := (ms_channels st)[rx := \<lparr>mp_queue = [], mp_open = False\<rparr>]\<rparr>"

definition mem_transport :: "(nat \<Rightarrow> mem_state \<Rightarrow> mem_state) \<Rightarrow> (mem_state, nat) transport" where
  "mem_transport others = \<lparr>tp_publish = mem_publish, tp_subscribe = mem_subscribe,
     tp_unsubscribe = mem_unsubscribe, tp_recv = mem_recv others, tp_drain = mem_drain\<rparr>"

section \<open>Lemmas\<close>

definition subs_of :: "mem_state \<Rightarrow> string \<Rightarrow> nat list" where
  "subs_of st t = (case hm_get (ms_subscribers st) t of None \<Rightarrow> [] | Some txs \<Rightarrow> txs)"

definition hist_of :: "mem_state \<Rightarrow> string \<Rightarrow> bytes list" where
  "hist_of st t = (case hm_get (ms_history st) t of None \<Rightarrow> [] | Some ms \<Rightarrow> ms)"

declare hm_get_insert [simp] hm_get_remove [simp]

lemma entry_push_lookup [simp]:
  "hm_get (entry_push k x m) k' =
     (if k' = k then Some ((case hm_get m k of None \<Rightarrow> [] | Some xs \<Rightarrow> xs) @ [x]) else hm_get m k')"
  by (simp add: entry_push_def)

lemma retain_sent_spec:
  assumes "distinct txs" and "set txs \<subseteq> {..<length cs}"
  shows "fst (retain_sent d txs cs) = filter (accepts cs) txs
    \<and> length (snd (retain_sent d txs cs)) = length cs
    \<and> (\<forall>i < length cs. snd (retain_sent d txs cs) ! i =
         (if i \<in> set txs \<and> accepts cs i then (cs ! i)\<lparr>mp_queue := mp_queue (cs ! i) @ [d]\<rparr> else cs ! i))"
  using assms
proof (induction txs arbitrary: cs)
  case (Cons tx txs)
  define cs1 where "cs1 = snd (try_send d tx cs)"
  have len: "length cs1 = length cs" by (simp add: cs1_def try_send_def)
  have other: "i \<noteq> tx \<Longrightarrow> cs1 ! i = cs ! i \<and> accepts cs1 i = accepts cs i" for i
    by (simp add: cs1_def try_send_def accepts_def)
  have at: "cs1 ! tx = (if accepts cs tx then (cs ! tx)\<lparr>mp_queue := mp_queue (cs ! tx) @ [d]\<rparr> else cs ! tx)"
    using Cons.prems by (simp add: cs1_def try_send_def)
  have IH: "fst (retain_sent d txs cs1) = filter (accepts cs1) txs"
    "length (snd (retain_sent d txs cs1)) = length cs1"
    "\<And>i. i < length cs1 \<Longrightarrow> snd (retain_sent d txs cs1) ! i =
       (if i \<in> set txs \<and> accepts cs1 i then (cs1 ! i)\<lparr>mp_queue := mp_queue (cs1 ! i) @ [d]\<rparr> else cs1 ! i)"
    using Cons.IH [of cs1] Cons.prems len by auto
  have flt: "filter (accepts cs1) txs = filter (accepts cs) txs"
    using Cons.prems other by (intro filter_cong) (auto, metis+)
  have step: "retain_sent d (tx # txs) cs =
      (if accepts cs tx then tx # fst (retain_sent d txs cs1) else fst (retain_sent d txs cs1), snd (retain_sent d txs cs1))"
    by (simp add: cs1_def try_send_def case_prod_beta Let_def)
  show ?case
  proof (intro conjI allI impI)
    fix i assume i: "i < length cs"
    show "snd (retain_sent d (tx # txs) cs) ! i = (if i \<in> set (tx # txs) \<and> accepts cs i
        then (cs ! i)\<lparr>mp_queue := mp_queue (cs ! i) @ [d]\<rparr> else cs ! i)"
      using IH(3) [of i] i Cons.prems(1) other [of i] at
      by (cases "i = tx") (simp_all add: step len del: retain_sent.simps)
  qed (simp_all add: step IH flt len del: retain_sent.simps)
qed simp

text \<open>The replay puts the first messages of the history into the new channel, as many as it holds.\<close>

lemma replay_spec:
  assumes "mp_open c" and "length (mp_queue c) \<le> MPSC_CAPACITY"
  shows "fold (\<lambda>m cs. snd (try_send m (length cs0) cs)) msgs (cs0 @ [c]) =
     cs0 @ [c\<lparr>mp_queue := mp_queue c @ take (MPSC_CAPACITY - length (mp_queue c)) msgs\<rparr>]"
  using assms
proof (induction msgs arbitrary: c)
  case (Cons m msgs)
  show ?case
  proof (cases "length (mp_queue c) < MPSC_CAPACITY")
    case True
    let ?c = "c\<lparr>mp_queue := mp_queue c @ [m]\<rparr>"
    have "snd (try_send m (length cs0) (cs0 @ [c])) = cs0 @ [?c]"
      using True Cons.prems by (simp add: try_send_def accepts_def nth_append)
    moreover have "MPSC_CAPACITY - length (mp_queue c) = Suc (MPSC_CAPACITY - length (mp_queue ?c))"
      using True by simp
    ultimately show ?thesis using Cons.IH [of ?c] Cons.prems True by simp
  next
    case False
    then show ?thesis using Cons.IH [of c] Cons.prems by (simp add: try_send_def accepts_def nth_append)
  qed
qed simp

section \<open>Runs\<close>

text \<open>
  The states the transport can reach by its operations, with what each receiver has taken so far
  (\<open>taken\<close>) and the topic and the length of its history when it subscribed (\<open>info\<close>).
\<close>

inductive mem_run :: "mem_state \<Rightarrow> (nat \<Rightarrow> bytes list) \<Rightarrow> (nat \<Rightarrow> string \<times> nat) \<Rightarrow> bool" where
  start: "mem_run mem_new (\<lambda>_. []) (\<lambda>_. ([], 0))"
| publish: "mem_run st taken info \<Longrightarrow> mem_publish st topic p = (r, st') \<Longrightarrow> mem_run st' taken info"
| subscribe: "mem_run st taken info \<Longrightarrow> mem_subscribe st topic = (Inr rx, st') \<Longrightarrow>
    mem_run st' (taken(rx := [])) (info(rx := (topic, length (hist_of st topic))))"
| unsubscribe: "mem_run st taken info \<Longrightarrow> mem_unsubscribe st topic = (r, st') \<Longrightarrow> mem_run st' taken info"
| pop: "mem_run st taken info \<Longrightarrow> rx < length (ms_channels st) \<Longrightarrow> mem_pop st rx = Some (m, st') \<Longrightarrow>
    mem_run st' (taken(rx := taken rx @ [m])) info"
| drain: "mem_run st taken info \<Longrightarrow> rx < length (ms_channels st) \<Longrightarrow> mem_drain st rx = (ms, st') \<Longrightarrow>
    mem_run st' (taken(rx := taken rx @ ms)) info"
| close: "mem_run st taken info \<Longrightarrow> rx < length (ms_channels st) \<Longrightarrow> mem_run (mem_close st rx) taken info"

text \<open>What a receiver hears that subscribed after \<open>h\<close> messages and was served until the \<open>n\<close>-th.\<close>

definition heard :: "nat \<Rightarrow> nat \<Rightarrow> bytes list \<Rightarrow> bytes list" where
  "heard h n msgs = take MPSC_CAPACITY (take h msgs) @ drop h (take n msgs)"

lemma heard_snoc: "h \<le> length msgs \<Longrightarrow> heard h (length msgs) msgs @ [p] = heard h (Suc (length msgs)) (msgs @ [p])"
  by (simp add: heard_def)

lemma heard_stays: "h \<le> n \<Longrightarrow> n \<le> length msgs \<Longrightarrow> heard h n (msgs @ [p]) = heard h n msgs"
  by (simp add: heard_def)

text \<open>The invariant: of the subscriptions, and of one channel with what its receiver took.\<close>

definition chan_ok :: "mpsc \<Rightarrow> bool \<Rightarrow> bytes list \<Rightarrow> nat \<Rightarrow> bytes list \<Rightarrow> bool" where
  "chan_ok c subscribed got h msgs \<longleftrightarrow>
     (mp_open c \<or> mp_queue c = []) \<and> length (mp_queue c) \<le> MPSC_CAPACITY
     \<and> (\<exists>n rest. h \<le> n \<and> n \<le> length msgs \<and> (subscribed \<longrightarrow> n = length msgs)
          \<and> got @ rest = heard h n msgs \<and> (mp_open c \<longrightarrow> rest = mp_queue c))"

definition subs_wf :: "mem_state \<Rightarrow> (nat \<Rightarrow> string \<times> nat) \<Rightarrow> bool" where
  "subs_wf st info \<longleftrightarrow>
     (\<forall>t. distinct (subs_of st t) \<and> (\<forall>rx \<in> set (subs_of st t). rx < length (ms_channels st) \<and> fst (info rx) = t))"

definition mem_inv :: "mem_state \<Rightarrow> (nat \<Rightarrow> bytes list) \<Rightarrow> (nat \<Rightarrow> string \<times> nat) \<Rightarrow> bool" where
  "mem_inv st taken info \<longleftrightarrow> subs_wf st info
     \<and> (\<forall>rx < length (ms_channels st).
          chan_ok (ms_channels st ! rx) (rx \<in> set (subs_of st (fst (info rx)))) (taken rx)
            (snd (info rx)) (hist_of st (fst (info rx))))"

lemma chan_ok_unsubscribed: "chan_ok c s got h msgs \<Longrightarrow> chan_ok c False got h msgs"
  by (auto simp: chan_ok_def)

lemma chan_ok_other: "chan_ok c False got h msgs \<Longrightarrow> chan_ok c False got h (msgs @ [p])"
  unfolding chan_ok_def by (metis heard_stays le_SucI length_append_singleton)

lemma chan_ok_sent:
  assumes "chan_ok c True got h msgs" and "mp_open c" and "length (mp_queue c) < MPSC_CAPACITY"
  shows "chan_ok (c\<lparr>mp_queue := mp_queue c @ [p]\<rparr>) True got h (msgs @ [p])"
proof -
  have h: "h \<le> length msgs" "got @ mp_queue c = heard h (length msgs) msgs"
    using assms by (auto simp: chan_ok_def)
  then have "got @ mp_queue c @ [p] = heard h (Suc (length msgs)) (msgs @ [p])" using heard_snoc [of h msgs p] by (metis append_assoc)
  then show ?thesis using assms h(1) by (auto simp: chan_ok_def)
qed

lemma publish_subs:
  assumes "subs_wf st info"
  shows "subs_of (snd (mem_publish st topic p)) t =
      (if t = topic then filter (accepts (ms_channels st)) (subs_of st t) else subs_of st t)"
    and "length (ms_channels (snd (mem_publish st topic p))) = length (ms_channels st)"
    and "rx < length (ms_channels st) \<Longrightarrow> ms_channels (snd (mem_publish st topic p)) ! rx =
      (if rx \<in> set (subs_of st topic) \<and> accepts (ms_channels st) rx
       then (ms_channels st ! rx)\<lparr>mp_queue := mp_queue (ms_channels st ! rx) @ [p]\<rparr> else ms_channels st ! rx)"
    and "hist_of (snd (mem_publish st topic p)) t = (if t = topic then hist_of st t @ [p] else hist_of st t)"
proof -
  have w: "distinct (subs_of st topic)" "set (subs_of st topic) \<subseteq> {..<length (ms_channels st)}"
    using assms by (auto simp: subs_wf_def)
  note spec = retain_sent_spec [OF w, of p]
  show "subs_of (snd (mem_publish st topic p)) t =
      (if t = topic then filter (accepts (ms_channels st)) (subs_of st t) else subs_of st t)"
    using spec by (auto simp: subs_of_def mem_publish_def Let_def case_prod_beta split: option.splits)
  show "length (ms_channels (snd (mem_publish st topic p))) = length (ms_channels st)"
    using spec by (auto simp: subs_of_def mem_publish_def Let_def case_prod_beta split: option.splits)
  show "rx < length (ms_channels st) \<Longrightarrow> ms_channels (snd (mem_publish st topic p)) ! rx =
      (if rx \<in> set (subs_of st topic) \<and> accepts (ms_channels st) rx
       then (ms_channels st ! rx)\<lparr>mp_queue := mp_queue (ms_channels st ! rx) @ [p]\<rparr> else ms_channels st ! rx)"
    using spec by (auto simp: subs_of_def mem_publish_def Let_def case_prod_beta split: option.splits)
  show "hist_of (snd (mem_publish st topic p)) t = (if t = topic then hist_of st t @ [p] else hist_of st t)"
    by (auto simp: hist_of_def mem_publish_def Let_def case_prod_beta split: option.splits)
qed

lemma publish_inv:
  assumes "mem_inv st taken info"
  shows "mem_inv (snd (mem_publish st topic p)) taken info"
proof -
  have wf: "subs_wf st info" using assms by (simp add: mem_inv_def)
  let ?st = "snd (mem_publish st topic p)"
  note pub = publish_subs [OF wf, where topic = topic and p = p]
  have "subs_wf ?st info" using wf by (auto simp: subs_wf_def pub)
  moreover have "chan_ok (ms_channels ?st ! rx) (rx \<in> set (subs_of ?st (fst (info rx)))) (taken rx)
      (snd (info rx)) (hist_of ?st (fst (info rx)))" if rx: "rx < length (ms_channels st)" for rx
  proof -
    let ?c = "ms_channels st ! rx" and ?msgs = "hist_of st (fst (info rx))"
    have ok: "chan_ok ?c (rx \<in> set (subs_of st (fst (info rx)))) (taken rx) (snd (info rx)) ?msgs"
      using assms rx by (simp add: mem_inv_def)
    have mine: "rx \<in> set (subs_of st topic) \<Longrightarrow> fst (info rx) = topic" using wf by (auto simp: subs_wf_def)
    show ?thesis
    proof (cases "fst (info rx) = topic")
      case False
      then show ?thesis using ok mine by (auto simp: pub(1,3,4) rx simp del: set_filter)
    next
      case t: True
      show ?thesis
      proof (cases "rx \<in> set (subs_of st topic) \<and> accepts (ms_channels st) rx")
        case True
        then show ?thesis using ok t chan_ok_sent [of ?c "taken rx" "snd (info rx)" ?msgs p]
          by (simp add: pub(1,3,4) rx accepts_def)
      next
        case False
        then have "(rx \<in> set (subs_of st topic) \<and> accepts (ms_channels st) rx) = False" by simp
        then show ?thesis using chan_ok_other [OF chan_ok_unsubscribed [OF ok], of p] t
          by (simp only: pub(1,3,4) rx set_filter mem_Collect_eq if_True if_False simp_thms)
      qed
    qed
  qed
  ultimately show ?thesis by (simp add: mem_inv_def pub(2))
qed

lemma subscribe_effect:
  assumes "mem_subscribe st topic = (Inr rx, st')"
  shows "rx = length (ms_channels st)"
    and "ms_channels st' = ms_channels st @ [\<lparr>mp_queue = take MPSC_CAPACITY (hist_of st topic), mp_open = True\<rparr>]"
    and "subs_of st' t = (if t = topic then subs_of st t @ [rx] else subs_of st t)"
    and "hist_of st' t = hist_of st t"
  using assms replay_spec [of "\<lparr>mp_queue = [], mp_open = True\<rparr>" "ms_channels st"]
  by (auto simp: mem_subscribe_def subs_of_def hist_of_def Let_def split: option.splits)

lemma subscribe_inv:
  assumes inv: "mem_inv st taken info" and sub: "mem_subscribe st topic = (Inr rx, st')"
  shows "mem_inv st' (taken(rx := [])) (info(rx := (topic, length (hist_of st topic))))"
proof -
  note e = subscribe_effect [OF sub]
  have wf: "subs_wf st info" using inv by (simp add: mem_inv_def)
  have old: "\<And>t i. i \<in> set (subs_of st t) \<Longrightarrow> i < length (ms_channels st)" using wf by (auto simp: subs_wf_def)
  then have new: "\<And>t. rx \<notin> set (subs_of st t)" using e(1) by blast
  let ?info = "info(rx := (topic, length (hist_of st topic)))"
  have "subs_wf st' ?info" using wf new
    by (auto simp: subs_wf_def e(2,3) e(1) [symmetric] less_Suc_eq)
  moreover have "chan_ok (ms_channels st' ! i) (i \<in> set (subs_of st' (fst (?info i)))) ((taken(rx := [])) i)
      (snd (?info i)) (hist_of st' (fst (?info i)))" if i: "i < length (ms_channels st')" for i
  proof (cases "i = rx")
    case True
    then show ?thesis by (auto simp: e(1-4) chan_ok_def heard_def nth_append min_def)
  next
    case False
    then have "i < length (ms_channels st)" using i e(1,2) by simp
    then show ?thesis using inv False by (auto simp: mem_inv_def e(2,3,4) nth_append)
  qed
  ultimately show ?thesis by (simp add: mem_inv_def)
qed

lemma take_inv:
  assumes inv: "mem_inv st taken info" and rx: "rx < length (ms_channels st)"
    and q: "mp_queue (ms_channels st ! rx) = ms @ q"
  shows "mem_inv (st\<lparr>ms_channels := (ms_channels st)[rx := (ms_channels st ! rx)\<lparr>mp_queue := q\<rparr>]\<rparr>)
           (taken(rx := taken rx @ ms)) info"
proof -
  have "chan_ok c s got h msgs \<Longrightarrow> mp_queue c = ms @ q \<Longrightarrow>
      chan_ok (c\<lparr>mp_queue := q\<rparr>) s (got @ ms) h msgs" for c s got h msgs
    unfolding chan_ok_def by (cases "mp_open c") auto
  then show ?thesis using inv rx q by (auto simp: mem_inv_def subs_wf_def nth_list_update subs_of_def hist_of_def)
qed

lemma close_inv:
  "mem_inv st taken info \<Longrightarrow> rx < length (ms_channels st) \<Longrightarrow> mem_inv (mem_close st rx) taken info"
proof -
  have "chan_ok c s got h msgs \<Longrightarrow> chan_ok \<lparr>mp_queue = [], mp_open = False\<rparr> s got h msgs" for c s got h msgs
    by (auto simp: chan_ok_def)
  then show "mem_inv st taken info \<Longrightarrow> rx < length (ms_channels st) \<Longrightarrow> mem_inv (mem_close st rx) taken info"
    by (auto simp: mem_inv_def subs_wf_def mem_close_def nth_list_update subs_of_def hist_of_def)
qed

lemma unsubscribe_inv: "mem_inv st taken info \<Longrightarrow> mem_inv (snd (mem_unsubscribe st topic)) taken info"
  using chan_ok_unsubscribed by (auto simp: mem_inv_def subs_wf_def mem_unsubscribe_def subs_of_def hist_of_def)

lemma mem_run_inv: "mem_run st taken info \<Longrightarrow> mem_inv st taken info"
proof (induction rule: mem_run.induct)
  case start
  show ?case by (simp add: mem_inv_def subs_wf_def mem_new_def hm_get_def subs_of_def)
next
  case (publish st taken info topic p r st')
  then show ?case using publish_inv [of st taken info topic p] by simp
next
  case (unsubscribe st taken info topic r st')
  then show ?case using unsubscribe_inv [of st taken info topic] by simp
next
  case (pop st taken info rx m st')
  then obtain q where "mp_queue (ms_channels st ! rx) = [m] @ q"
    "st' = st\<lparr>ms_channels := (ms_channels st)[rx := (ms_channels st ! rx)\<lparr>mp_queue := q\<rparr>]\<rparr>"
    by (auto simp: mem_pop_def split: list.splits)
  then show ?case using take_inv [OF pop.IH pop.hyps(2)] by metis
next
  case (drain st taken info rx ms st')
  then have "mp_queue (ms_channels st ! rx) = ms @ []"
    "st' = st\<lparr>ms_channels := (ms_channels st)[rx := (ms_channels st ! rx)\<lparr>mp_queue := []\<rparr>]\<rparr>"
    by (auto simp: mem_drain_def)
  then show ?case using take_inv [OF drain.IH drain.hyps(2)] by metis
qed (blast intro: subscribe_inv close_inv)+

text \<open>
  The in-memory transport serves every subscriber without gaps, duplicates or reordering, in
  every run of publications, subscriptions, removals, receptions and dropped receivers. What a
  receiver has taken and what still waits for it is the replay of the topic's history at its
  subscription, up to the capacity of its channel, followed by the messages published after its
  subscription, up to some message; while it is subscribed nothing published is missing. No queue
  exceeds its capacity. In particular, a receiver that subscribed after at most 1024 messages and is
  subscribed has taken, or finds in its queue, exactly the history of the topic.
\<close>

lemma memory_subscribers_served:
  assumes "mem_run st taken info" and "rx < length (ms_channels st)" and "mp_open (ms_channels st ! rx)"
    and "info rx = (topic, h)"
  shows "length (mp_queue (ms_channels st ! rx)) \<le> MPSC_CAPACITY
    \<and> (\<exists>n. h \<le> n \<and> n \<le> length (hist_of st topic)
         \<and> taken rx @ mp_queue (ms_channels st ! rx) = heard h n (hist_of st topic)
         \<and> (rx \<in> set (subs_of st topic) \<longrightarrow> n = length (hist_of st topic)))
    \<and> (rx \<in> set (subs_of st topic) \<and> h \<le> MPSC_CAPACITY \<longrightarrow>
         taken rx @ mp_queue (ms_channels st ! rx) = hist_of st topic)"
proof -
  have "chan_ok (ms_channels st ! rx) (rx \<in> set (subs_of st topic)) (taken rx) h (hist_of st topic)"
    using mem_run_inv [OF assms(1)] assms(2,4) by (auto simp: mem_inv_def)
  moreover have "h \<le> MPSC_CAPACITY \<Longrightarrow> heard h (length msgs) msgs = msgs" for msgs :: "bytes list"
    by (simp add: heard_def min_def)
  ultimately show ?thesis using assms(3) by (auto simp: chan_ok_def)
qed

lemma memory_subscribers_served_witness:
  "let st = snd (mem_publish (snd (mem_subscribe (snd (mem_publish mem_new ''t'' [1])) ''t'')) ''t'' [2])
   in mp_queue (ms_channels st ! 0) = [[1], [2]]"
proof -
  let ?s1 = "snd (mem_publish mem_new ''t'' [1])"
  let ?s2 = "snd (mem_subscribe ?s1 ''t'')"
  let ?s3 = "snd (mem_publish ?s2 ''t'' [2])"
  let ?info = "(\<lambda>_. ([], 0)) (0 := (''t'', length (hist_of ?s1 ''t'')))"
  have "mem_run ?s1 (\<lambda>_. []) (\<lambda>_. ([], 0))"
    using mem_run.publish [OF mem_run.start, of "''t''" "[1]"] by (metis prod.collapse)
  moreover have "mem_subscribe ?s1 ''t'' = (Inr 0, ?s2)"
    by (simp add: mem_subscribe_def mem_publish_def mem_new_def entry_push_def hm_get_def hm_insert_def)
  ultimately have "mem_run ?s2 ((\<lambda>_. []) (0 := [])) ?info" by (rule mem_run.subscribe)
  then have run: "mem_run ?s3 ((\<lambda>_. []) (0 := [])) ?info" using mem_run.publish by (metis prod.collapse)
  have eval: "length (hist_of ?s1 ''t'') = 1" "hist_of ?s3 ''t'' = [[1], [2]]" "0 < length (ms_channels ?s3)"
    "mp_open (ms_channels ?s3 ! 0)" "0 \<in> set (subs_of ?s3 ''t'')" "1 \<le> MPSC_CAPACITY"
    by (simp_all add: mem_subscribe_def mem_publish_def mem_new_def entry_push_def hm_get_def hm_insert_def
        hist_of_def subs_of_def try_send_def accepts_def MPSC_CAPACITY_def)
  from memory_subscribers_served [OF run eval(3,4), of "''t''" 1] eval show ?thesis
    by (simp add: Let_def heard_def MPSC_CAPACITY_def)
qed

section \<open>The transport as a network\<close>

text \<open>A subscription that takes one more message: known to the transport, alive, with room.\<close>

definition mem_listening :: "mem_state \<Rightarrow> string \<Rightarrow> nat \<Rightarrow> bool" where
  "mem_listening st topic rx \<longleftrightarrow> (\<exists>info. subs_wf st info) \<and> rx \<in> set (subs_of st topic) \<and> accepts (ms_channels st) rx"

definition mem_waiting :: "mem_state \<Rightarrow> nat \<Rightarrow> bytes list" where
  "mem_waiting st rx = mp_queue (ms_channels st ! rx)"

lemma publish_wf: "subs_wf st info \<Longrightarrow> subs_wf (snd (mem_publish st topic p)) info"
  by (auto simp: subs_wf_def publish_subs [of st info])

lemma publish_to_listening:
  assumes "mem_listening st topic rx"
  shows "mem_waiting (snd (mem_publish st topic p)) rx = mem_waiting st rx @ [p]"
proof -
  obtain info where wf: "subs_wf st info" using assms by (auto simp: mem_listening_def)
  then have "rx < length (ms_channels st)" using assms by (auto simp: mem_listening_def subs_wf_def)
  then show ?thesis using publish_subs(3) [OF wf] assms by (simp add: mem_listening_def mem_waiting_def)
qed

lemma publish_to_others:
  assumes "mem_listening st topic rx" and "topic' \<noteq> topic"
  shows "mem_listening (snd (mem_publish st topic' p)) topic rx \<and> mem_waiting (snd (mem_publish st topic' p)) rx = mem_waiting st rx"
proof -
  obtain info where wf: "subs_wf st info" using assms by (auto simp: mem_listening_def)
  have mine: "rx \<in> set (subs_of st topic)" using assms by (simp add: mem_listening_def)
  have known: "rx \<in> set (subs_of st t) \<Longrightarrow> rx < length (ms_channels st) \<and> fst (info rx) = t" for t
    using wf by (simp add: subs_wf_def)
  have rx: "rx < length (ms_channels st)" "rx \<notin> set (subs_of st topic')"
    using known [OF mine] known [of topic'] assms(2) by auto
  have "ms_channels (snd (mem_publish st topic' p)) ! rx = ms_channels st ! rx"
    using publish_subs(3) [OF wf rx(1), of topic' p] rx(2) by simp
  moreover have "subs_of (snd (mem_publish st topic' p)) topic = subs_of st topic"
    using publish_subs(1) [OF wf] assms(2) by simp
  ultimately show ?thesis
    using publish_wf [OF wf, of topic' p] assms(1) by (auto simp: mem_listening_def mem_waiting_def accepts_def)
qed

lemma drain_others:
  assumes "mem_listening st topic rx" and "rx' \<noteq> rx"
  shows "mem_listening (snd (mem_drain st rx')) topic rx \<and> mem_waiting (snd (mem_drain st rx')) rx = mem_waiting st rx"
  using assms by (auto simp: mem_listening_def mem_waiting_def mem_drain_def subs_wf_def subs_of_def accepts_def)

interpretation memtp: pubsub "mem_transport others" mem_waiting mem_listening for others
  by unfold_locales
     (simp_all add: mem_transport_def publish_to_listening publish_to_others drain_others,
      simp_all add: mem_publish_def mem_drain_def mem_waiting_def Let_def case_prod_beta split: option.split)

end
