(* ===== verification/Node_Network.thy ===== *)
theory Node_Network
  imports Node_Delegation Memory_Transport
begin

text \<open>
  Nodes that talk to each other. The nodes of one process share the in-memory transport, so an
  exchange is a sequence of operations of several nodes in which each continues with the transport
  the previous one left. The lemmas are proved for every transport that satisfies the interface
  \<open>pubsub\<close>; the property instantiates them with the in-memory one.
\<close>

section \<open>One task on the wire\<close>

text \<open>The payload is no SDS message, and the channel has not seen its digest.\<close>

definition fresh_raw :: "('bf, 'tr, 'rx, 'c, 'w) node_env \<Rightarrow> bytes \<Rightarrow> ('bf, 'tr, 'rx, 'sk, 'w) node \<Rightarrow> bool" where
  "fresh_raw N p self \<longleftrightarrow> env_from_slice (ne_sds N) p = None
     \<and> \<not> is_duplicate (ne_sds N) (nd_channel self) (compute_message_id (env_sha (ne_sds N)) p)"

text \<open>The node takes tasks from \<open>k\<close>: it trusts the key and asks for no payment.\<close>

definition welcomes :: "('bf, 'tr, 'rx, 'sk, 'w) node \<Rightarrow> string \<Rightarrow> bool" where
  "welcomes self k \<longleftrightarrow> node_is_trusted self k \<and> nd_payment self = None"

lemma set_transport_simps [simp]:
  "fresh_raw N p (set_transport tr self) = fresh_raw N p self"
  "welcomes (set_transport tr self) k = welcomes self k"
  "nd_task_rx (set_transport tr self) = nd_task_rx self"
  "ch_transport (nd_channel (set_transport tr self)) = tr"
  "nd_card (set_transport tr self) = nd_card self"
  "nd_storage_offload (set_transport tr self) = nd_storage_offload self"
  by (simp_all add: fresh_raw_def welcomes_def set_transport_def is_duplicate_def node_is_trusted_def)

lemma track_sessions_channel:
  "nd_channel (track_sessions uuid now ts self) = nd_channel self
   \<and> nd_card (track_sessions uuid now ts self) = nd_card self
   \<and> nd_storage_offload (track_sessions uuid now ts self) = nd_storage_offload self"
  by (induction ts arbitrary: self) (simp_all add: Let_def count_def split: option.split)

lemma poll_one_task:
  assumes "nd_task_rx self = Some rx" and "fst (tp_drain (env_transport (ne_sds N)) (ch_transport (nd_channel self)) rx) = [p]"
    and "fresh_raw N p self" and "ne_env_from_slice N p = Some (EnvTask t)"
    and "welcomes self (task_from t)" and "task_payload_cid t = None"
  shows "\<exists>self'. poll_tasks N uuid now self = (Returns (Inr [t]), self')
    \<and> ch_transport (nd_channel self') = snd (tp_drain (env_transport (ne_sds N)) (ch_transport (nd_channel self)) rx)
    \<and> nd_card self' = nd_card self \<and> nd_storage_offload self' = nd_storage_offload self"
proof -
  obtain tr where drain: "tp_drain (env_transport (ne_sds N)) (ch_transport (nd_channel self)) rx = ([p], tr)"
    using assms(2) by (metis prod.collapse)
  have fresh: "env_from_slice (ne_sds N) p = None"
    "\<not> bloom_check (env_bloom (ne_sds N)) (ch_bloom (nd_channel self)) (compute_message_id (env_sha (ne_sds N)) p)"
    using assms(3) by (simp_all add: fresh_raw_def is_duplicate_def)
  have trusted: "is_trusted (nd_trust_list self) (task_from t)" "nd_payment self = None"
    using assms(5) by (simp_all add: welcomes_def node_is_trusted_def)
  show ?thesis
    using assms(1,4,6) drain fresh trusted
    by (simp add: poll_tasks_def ensure_rx_def drain_rx_def set_transport_def count_def receive_def is_duplicate_def Let_def
        extract_task_from_envelope_def maybe_fetch_offloaded_def then_accept_def accept_or_drop_def node_is_trusted_def
        verify_payment_def mark_seen_def track_sessions_channel del: track_sessions.simps)
qed

lemma respond_in_clear:
  assumes "nd_storage_offload self = None" and "ne_env_to_vec N (EnvTask (task_respond t body)) = Inr q"
    and "tp_publish (env_transport (ne_sds N)) (ch_transport (nd_channel self)) (task_topic (task_from t)) q = (Inr (), tr)"
  shows "\<exists>self'. node_respond N draws clk t body self = (Inr (), self') \<and> ch_transport (nd_channel self') = tr"
proof -
  have to: "task_to (task_respond t body) = task_from t" by (simp add: task_respond_def respond_with_state_def)
  have enc: "maybe_encrypt_task N n (task_respond t body) None self = (Inr (EnvTask (task_respond t body)), self)" for n
    by (simp add: maybe_encrypt_task_def split: option.split)
  show ?thesis
    using assms
    by (cases draws; cases clk)
       (simp add: node_respond_def node_respond_to_def publish_response_def prepare_payload_def enc to ch_publish_def
          count_def append_history_def Let_def case_prod_beta)
qed

lemma task_topic_inj: "task_topic a = task_topic b \<longleftrightarrow> a = b"
  by (simp add: task_topic_def)

section \<open>An exchange\<close>

text \<open>
  \<open>A\<close> publishes a task for \<open>B\<close>; \<open>B\<close> polls and answers; \<open>A\<close> polls. Both listen on their task topics.
\<close>

context pubsub
begin

lemma task_exchange:
  assumes "env_transport (ne_sds N) = T" and "codecs_ok N"
    and t: "task_from t = pubkey A" "task_to t = pubkey B" "task_payload_cid t = None"
    and enc: "ne_env_to_vec N (EnvTask t) = Inr p" "ne_env_to_vec N (EnvTask (task_respond t body)) = Inr q"
    and fresh: "fresh_raw N p B" "fresh_raw N q A"
    and ready: "welcomes B (pubkey A)" "welcomes A (pubkey B)" "nd_storage_offload B = None"
    and A: "nd_task_rx A = Some rx" "listening (ch_transport (nd_channel A)) (task_topic (pubkey A)) rx"
      "waiting (ch_transport (nd_channel A)) rx = []"
    and B: "nd_task_rx B = Some rx'" "listening (ch_transport (nd_channel A)) (task_topic (pubkey B)) rx'"
      "waiting (ch_transport (nd_channel A)) rx' = []"
    and apart: "pubkey A \<noteq> pubkey B" "rx \<noteq> rx'"
  shows "\<exists>A1 B1 B2 A2. node_publish N (task_topic (pubkey B)) p A = (Inr (), A1)
    \<and> poll_tasks N uuid now (set_transport (ch_transport (nd_channel A1)) B) = (Returns (Inr [t]), B1)
    \<and> node_respond N draws clk t body B1 = (Inr (), B2)
    \<and> poll_tasks N uuid' now' (set_transport (ch_transport (nd_channel B2)) A1) = (Returns (Inr [task_respond t body]), A2)"
proof -
  let ?tr = "ch_transport (nd_channel A)"
  define tr1 where "tr1 = snd (tp_publish T ?tr (task_topic (pubkey B)) p)"
  define tr2 where "tr2 = snd (tp_drain T tr1 rx')"
  define tr3 where "tr3 = snd (tp_publish T tr2 (task_topic (pubkey A)) q)"
  have drained: "fst (tp_drain T tr1 rx') = [p]" "fst (tp_drain T tr3 rx) = [q]"
    using request_response [OF A(2) B(2) _ apart(2) A(3) B(3) tr1_def tr2_def tr3_def] apart(1)
    by (simp_all add: task_topic_inj)
  obtain A1 where A1: "node_publish N (task_topic (pubkey B)) p A = (Inr (), A1)" "A1 = set_transport tr1 A"
    using publish_ok [of ?tr "task_topic (pubkey B)" p]
    by (simp add: node_publish_def ch_publish_def assms(1) tr1_def set_transport_def case_prod_beta)
  have dec: "ne_env_from_slice N p = Some (EnvTask t)" "ne_env_from_slice N q = Some (EnvTask (task_respond t body))"
    using assms(2) enc by (simp_all add: codecs_ok_def)
  obtain B1 where B1: "poll_tasks N uuid now (set_transport tr1 B) = (Returns (Inr [t]), B1)"
    "ch_transport (nd_channel B1) = tr2" "nd_storage_offload B1 = None"
    using poll_one_task [of "set_transport tr1 B" rx' N p t uuid now] B(1) drained(1) fresh(1) dec(1) ready(1,3) t
    by (auto simp: assms(1) tr2_def)
  have "tp_publish T tr2 (task_topic (task_from t)) q = (Inr (), tr3)"
    using publish_ok [of tr2 "task_topic (pubkey A)" q] t(1) by (metis prod.collapse tr3_def)
  then obtain B2 where B2: "node_respond N draws clk t body B1 = (Inr (), B2)" "ch_transport (nd_channel B2) = tr3"
    using respond_in_clear [OF B1(3) enc(2)] assms(1) B1(2) by metis
  have r: "task_from (task_respond t body) = pubkey B" "task_payload_cid (task_respond t body) = None"
    using t(2) by (simp_all add: task_respond_def respond_with_state_def)
  obtain A2 where "poll_tasks N uuid' now' (set_transport tr3 A1) = (Returns (Inr [task_respond t body]), A2)"
    using poll_one_task [of "set_transport tr3 A1" rx N q "task_respond t body" uuid' now'] A(1) drained(2) fresh(2) dec(2)
      ready(2) r by (auto simp: assms(1) A1(2))
  then show ?thesis using A1 B1 B2 by auto
qed

end

text \<open>Two nodes of one process on their task topics, and the envelopes of one exchange.\<close>

definition net_task :: task where
  "net_task = task_new ''u'' ''02'' ''03'' ''work''"

definition net_nenv :: "(string list, mem_state, nat, bytes, unit) node_env" where
  "net_nenv = \<lparr>
     ne_sds = \<lparr>env_bloom = exact_crate, env_sha = map (\<lambda>b. char_of (unat b)), env_to_vec = (\<lambda>_. Inl ''none''),
       env_from_slice = (\<lambda>_. None), env_ack_to_vec = (\<lambda>_. Inr []), env_ack_message_id = (\<lambda>_. None),
       env_transport = mem_transport (\<lambda>_ st. st)\<rparr>,
     ne_crypto = toy_prims,
     ne_status = \<lparr>status_to_vec = (\<lambda>_. Inl ''none''), status_from_slice = (\<lambda>_. Inl ''none'')\<rparr>,
     ne_env_to_vec = (\<lambda>e. if e = EnvTask net_task then Inr [1]
                          else if e = EnvTask (task_respond net_task ''done'') then Inr [2] else Inl ''none''),
     ne_env_from_slice = map_of [([1], EnvTask net_task), ([2], EnvTask (task_respond net_task ''done''))],
     ne_task_to_vec = (\<lambda>_. Inl ''none''), ne_task_from_slice = (\<lambda>_. Inl ''none''), ne_rows = example_rows,
     ne_upload = (\<lambda>_ w. (Inl ''none'', w)), ne_download = (\<lambda>_ w. (Inl ''none'', w)),
     ne_pay = (\<lambda>_ _ w. (Inl ''none'', w)), ne_verify_transfer = (\<lambda>_ w. (Inl ''none'', w)),
     ne_append = (\<lambda>_ w. (Inr (), w)),
     ne_registry = \<lparr>rg_register = (\<lambda>_ w. (Inr (), w)), rg_update = (\<lambda>_ w. (Inr (), w)),
       rg_deregister = (\<lambda>_ w. (Inr (), w)), rg_get = (\<lambda>k _. Inl (NotFound k)), rg_list = (\<lambda>_. Inr []),
       rg_find_by_capability = (\<lambda>_ _. Inr [])\<rparr>\<rparr>"

definition net_state :: mem_state where
  "net_state = snd (mem_subscribe (snd (mem_subscribe mem_new (task_topic ''02''))) (task_topic ''03''))"

definition net_node :: "string \<Rightarrow> nat \<Rightarrow> (string list, mem_state, nat, unit, unit) node" where
  "net_node pk rx = (node_from_key net_nenv 7 pk ''n'' ''d'' [] net_state () ())\<lparr>nd_task_rx := Some rx\<rparr>"

lemma net_node_simps:
  "pubkey (net_node pk rx) = pk" "nd_task_rx (net_node pk rx) = Some rx" "nd_storage_offload (net_node pk rx) = None"
  "ch_transport (nd_channel (net_node pk rx)) = net_state" "welcomes (net_node pk rx) k" "fresh_raw net_nenv p (net_node pk rx)"
  by (simp_all add: net_node_def node_from_key_def node_with_channel_def card_of_def pubkey_def channel_new_def
      channel_with_config_def welcomes_def node_is_trusted_def is_trusted_def trust_empty_def fresh_raw_def is_duplicate_def
      bloom_check_def bloom_new_def with_params_def exact_crate_def net_nenv_def)

lemma net_state_listening:
  "mem_listening net_state (task_topic ''02'') 0" "mem_listening net_state (task_topic ''03'') 1"
  "mem_waiting net_state 0 = []" "mem_waiting net_state 1 = []"
proof -
  let ?info = "\<lambda>rx. (if rx = (0 :: nat) then task_topic ''02'' else task_topic ''03'', 0 :: nat)"
  have st: "ms_channels net_state = [\<lparr>mp_queue = [], mp_open = True\<rparr>, \<lparr>mp_queue = [], mp_open = True\<rparr>]"
    "subs_of net_state k = (if k = task_topic ''02'' then [0] else if k = task_topic ''03'' then [1] else [])" for k
    by (simp_all add: net_state_def mem_subscribe_def mem_new_def Let_def entry_push_def hm_get_def hm_insert_def subs_of_def
        task_topic_def)
  have "subs_wf net_state ?info" by (simp add: subs_wf_def st task_topic_inj)
  then show "mem_listening net_state (task_topic ''02'') 0" "mem_listening net_state (task_topic ''03'') 1"
    by (auto simp: mem_listening_def st task_topic_inj accepts_def MPSC_CAPACITY_def)
  show "mem_waiting net_state 0 = []" "mem_waiting net_state 1 = []" by (simp_all add: mem_waiting_def st)
qed

section \<open>Property\<close>

lemma listening_apart:
  "mem_listening st t rx \<Longrightarrow> mem_listening st t' rx' \<Longrightarrow> t \<noteq> t' \<Longrightarrow> rx \<noteq> rx'"
proof
  assume l: "mem_listening st t rx" "mem_listening st t' rx'" "t \<noteq> t'" "rx = rx'"
  then obtain info where "subs_wf st info" by (auto simp: mem_listening_def)
  then have known: "i \<in> set (subs_of st k) \<Longrightarrow> fst (info i) = k" for i k by (simp add: subs_wf_def)
  from l known [of rx t] known [of rx' t'] show False by (simp add: mem_listening_def)
qed



end
