(* ===== verification/Node_Frames.thy ===== *)
theory Node_Frames
  imports Node_Delegation
begin

text \<open>
  What the operations of a node can do to its state, proved once. \<open>send_frame\<close> is the interface of a
  predicate on nodes that survives the updates of which sending, announcing and payment checks are made,
  \<open>node_frame\<close> extends it with the tables that receiving fills. Interpretations follow here and in
  \<open>Node_Invariant\<close>: all operations but the trust edits keep the trust list, all but the load counter's own
  keep the load, none changes the agent card or the capacity; and all keep a node well-formed.
\<close>

section \<open>Operations that leave the tables alone\<close>

locale send_frame =
  fixes P :: "('bf, 'tr, 'rx, 'sk, 'w) node \<Rightarrow> bool"
  assumes upd_channel [simp]: "P (self\<lparr>nd_channel := ch\<rparr>) = P self"
    and upd_world [simp]: "P (self\<lparr>nd_world := w\<rparr>) = P self"
    and upd_metrics [simp]: "P (self\<lparr>nd_metrics := m\<rparr>) = P self"
    and upd_task_rx [simp]: "P (self\<lparr>nd_task_rx := rx\<rparr>) = P self"
    and upd_discover_rx [simp]: "P (self\<lparr>nd_discover_rx := rx\<rparr>) = P self"
    and upd_presence_rx [simp]: "P (self\<lparr>nd_presence_rx := rx\<rparr>) = P self"
    and upd_counter [simp]: "P (self\<lparr>nd_round_robin_counter := k\<rparr>) = P self"
    and upd_tx: "P self \<Longrightarrow> P (self\<lparr>nd_seen_tx_hashes := List.insert tx (nd_seen_tx_hashes self)\<rparr>)"
begin

lemma upd_count [simp]: "P (count f self) = P self"
  by (simp add: count_def)

lemma upd_transport [simp]: "P (set_transport tr self) = P self"
  by (simp add: set_transport_def)

lemma upd_policy:
  assumes "same_policy self self'" and "P self"
  shows "P self'"
proof -
  have "self' = self\<lparr>nd_channel := nd_channel self', nd_world := nd_world self', nd_metrics := nd_metrics self',
      nd_task_rx := nd_task_rx self'\<rparr>"
    using assms(1) by (intro node.equality) (simp_all add: same_policy_def)
  then have "P self' = P self" by (metis upd_channel upd_world upd_metrics upd_task_rx)
  then show ?thesis using assms(2) by simp
qed

lemma prepare: "prepare_payload N n1 n2 t r self = (out, self') \<Longrightarrow> P self \<Longrightarrow> P self'"
  by (auto simp: prepare_payload_def maybe_encrypt_task_def Let_def split: option.splits sum.splits prod.splits if_splits)

lemma auto_pay: "maybe_auto_pay N t self = (out, self') \<Longrightarrow> P self \<Longrightarrow> P self'"
  by (auto simp: maybe_auto_pay_def split: option.splits sum.splits prod.splits if_splits)

lemma reliable: "channel_send_reliable N jit topic p self = (out, self') \<Longrightarrow> P self \<Longrightarrow> P self'"
  by (auto simp: channel_send_reliable_def Let_def split: option.splits sum.splits prod.splits)

lemma send_task: "send_task N draws t self = (out, self') \<Longrightarrow> P self \<Longrightarrow> P self'"
  by (auto simp: send_task_def send_task_to_def Let_def split: sum.splits prod.splits exec.splits
      dest!: prepare auto_pay reliable)

lemma send_text: "send_text N draws uuid recipient content self = (out, self') \<Longrightarrow> P self \<Longrightarrow> P self'"
  by (auto simp: send_text_def Let_def split: sum.splits prod.splits exec.splits dest!: send_task)

lemma append_history [simp]: "P (append_history N e self) = P self"
  by (simp add: append_history_def case_prod_beta)

lemma respond: "publish_response N draws clk t body c failed self = (out, self') \<Longrightarrow> P self \<Longrightarrow> P self'"
  by (auto simp: publish_response_def Let_def split: sum.splits prod.splits if_splits dest!: prepare)

lemma publish: "node_publish N topic p self = (out, self') \<Longrightarrow> P self \<Longrightarrow> P self'"
  by (auto simp: node_publish_def split: sum.splits prod.splits)

lemma publish_chunks: "publish_chunks N topic tid tot i cs self = (out, self') \<Longrightarrow> P self \<Longrightarrow> P self'"
  by (induction cs arbitrary: i self) (auto split: sum.splits prod.splits dest!: publish)

lemma respond_stream: "respond_stream N t cs self = (out, self') \<Longrightarrow> P self \<Longrightarrow> P self'"
  by (auto simp: respond_stream_def Let_def split: sum.splits prod.splits dest!: publish_chunks)

lemma announce: "announce N self = (out, self') \<Longrightarrow> P self \<Longrightarrow> P self'"
  by (auto simp: announce_def split: sum.splits prod.splits dest!: publish)

lemma announce_presence: "announce_presence_with_ttl N S draws ttl self = (out, self') \<Longrightarrow> P self \<Longrightarrow> P self'"
  by (auto simp: announce_presence_with_ttl_def Let_def split: sum.splits prod.splits dest!: publish)

lemma registry_op: "with_configured_registry op self = (out, self') \<Longrightarrow> P self \<Longrightarrow> P self'"
  by (auto simp: with_configured_registry_def split: sum.splits prod.splits if_splits)

lemma registry_ops:
  "register_in_registry N self = (out, self') \<Longrightarrow> P self \<Longrightarrow> P self'"
  "update_registry N self = (out, self') \<Longrightarrow> P self \<Longrightarrow> P self'"
  "deregister_from_registry N self = (out, self') \<Longrightarrow> P self \<Longrightarrow> P self'"
  unfolding register_in_registry_def update_registry_def deregister_from_registry_def by (rule registry_op; assumption)+

lemma ensure_rx: "ensure_rx N topic slot self = (out, self') \<Longrightarrow> P self \<Longrightarrow> P self'"
  by (auto simp: ensure_rx_def split: option.splits sum.splits prod.splits)

lemma drain_rx: "drain_rx N rx self = (out, self') \<Longrightarrow> P self \<Longrightarrow> P self'"
  by (auto simp: drain_rx_def split: prod.splits)

lemma verify_payment: "P self \<Longrightarrow> P (snd (verify_payment N t self))"
  using upd_tx [of "self\<lparr>nd_world := w\<rparr>" for w]
  by (auto simp: verify_payment_def Let_def upd_tx simp del: not_in_set_insert split: option.splits sum.splits prod.splits if_splits)

lemma verify_all: "P self \<Longrightarrow> P (snd (verify_all N ts self))"
  by (induction ts arbitrary: self) (simp_all add: Let_def case_prod_beta verify_payment)

lemma discover: "discover N self = (out, self') \<Longrightarrow> P self \<Longrightarrow> P self'"
  by (auto simp: discover_def Let_def split: sum.splits prod.splits dest!: ensure_rx drain_rx)

lemma discover_all: "discover_all N it self = (out, self') \<Longrightarrow> P self \<Longrightarrow> P self'"
  by (auto simp: discover_all_def Let_def split: sum.splits prod.splits if_splits dest!: discover)

lemma record_history [simp]: "P (record_delegation_history N clk res content cap sid self) = P self"
  by (simp add: record_delegation_history_def Let_def case_prod_beta)

lemma select: "select_peer it now strategy self = (out, self') \<Longrightarrow> P self \<Longrightarrow> P self'"
  by (auto simp: select_peer_def Let_def split: delegation_strategy.splits option.splits if_splits)

end

section \<open>Operations that fill the tables\<close>

locale node_frame = send_frame +
  assumes upd_sessions: "P self \<Longrightarrow> P (self\<lparr>nd_sessions := hm_insert sid s (nd_sessions self)\<rparr>)"
    and upd_peers: "P self \<Longrightarrow> P (self\<lparr>nd_peer_map := peers_update_with_load now a l (nd_peer_map self)\<rparr>)"
    and upd_stream_rx: "P self \<Longrightarrow> P (self\<lparr>nd_stream_rx := hm_insert tid h (nd_stream_rx self)\<rparr>)"
    and upd_stream_chunks:
      "\<forall>c \<in> set cs. chunk_task_id c = tid \<Longrightarrow> P self \<Longrightarrow> P (self\<lparr>nd_stream_chunks := hm_insert tid (sort_key chunk_index (fold merge_chunk cs
          (case hm_get (nd_stream_chunks self) tid of None \<Rightarrow> [] | Some chunks \<Rightarrow> chunks))) (nd_stream_chunks self)\<rparr>)"
begin

lemma send_in_session: "send_in_session N draws uuid sid content self = (out, self') \<Longrightarrow> P self \<Longrightarrow> P self'"
  by (auto simp: send_in_session_def Let_def split: option.splits sum.splits prod.splits exec.splits
      dest!: send_task intro!: upd_sessions)

lemma track_sessions: "P self \<Longrightarrow> P (track_sessions uuid now ts self)"
proof (induction ts arbitrary: self)
  case (Cons t ts)
  then show ?case
    using upd_sessions [of "count (\<lambda>m. m\<lparr>sessions_created := inc (sessions_created m)\<rparr>) self"]
    by (auto simp: Let_def upd_sessions split: option.splits)
qed simp

lemma poll_tasks:
  assumes "poll_tasks N uuid now self = (out, self')" and "P self"
  shows "P self'"
  using assms(1)
proof (cases rule: poll_tasks_cases)
  case (ok tasks s4 vs s5)
  then have "P s4" using upd_policy [of self s4] assms(2) by (simp add: admitting_def)
  then show ?thesis using verify_all [of s4 N tasks] ok(2,4) by (simp add: track_sessions)
qed (rule upd_policy [OF _ assms(2)])

lemma chunks_of_task: "\<forall>c \<in> set (chunks_of N tid ms). chunk_task_id c = tid"
  by (induction ms) (simp_all split: option.split a2a_envelope.split)

lemma poll_stream: "poll_stream_chunks N tid self = (out, self') \<Longrightarrow> P self \<Longrightarrow> P self'"
  by (auto simp: poll_stream_chunks_def Let_def split: sum.splits prod.splits
      dest!: ensure_rx drain_rx intro!: upd_stream_rx upd_stream_chunks [OF chunks_of_task])

lemma process_presence: "process_presence N S traced now ms self = (out, self') \<Longrightarrow> P self \<Longrightarrow> P self'"
  by (induction ms arbitrary: self out)
     (fastforce simp: Let_def upd_peers split: option.splits a2a_envelope.splits if_splits sum.splits prod.splits exec.splits)+

lemma poll_presence: "poll_presence N S traced now self = (out, self') \<Longrightarrow> P self \<Longrightarrow> P self'"
  by (auto simp: poll_presence_def Let_def split: sum.splits prod.splits exec.splits
      dest!: ensure_rx drain_rx process_presence)

lemma await: "await_response fuel N sid tm deadline i k self = Some (out, self') \<Longrightarrow> P self \<Longrightarrow> P self'"
proof (induction fuel arbitrary: k self)
  case (Suc fuel)
  show ?case
  proof (cases "tm_elapsed tm k < deadline")
    case True
    obtain r s1 where p: "poll_tasks N sid (tm_secs tm k) self = (r, s1)" by fastforce
    have "self' = s1 \<or> await_response fuel N sid tm deadline i (Suc k) s1 = Some (out, self')"
      using Suc.prems True p by (auto split: exec.splits sum.splits option.splits)
    then show ?thesis using poll_tasks [OF p Suc.prems(2)] Suc.IH [of "Suc k" s1] by auto
  qed (use Suc.prems in simp)
qed simp

lemma delegate_to_peer: "delegate_to_peer fuel N sid tm u req p timeout self = Some (out, self') \<Longrightarrow> P self \<Longrightarrow> P self'"
  by (auto simp: delegate_to_peer_def Let_def split: sum.splits prod.splits option.splits exec.splits
      dest!: publish await)

lemma delegate_task: "delegate_task fuel N it now sid tm u req self = Some (out, self') \<Longrightarrow> P self \<Longrightarrow> P self'"
  by (auto simp: delegate_task_def split: sum.splits prod.splits dest!: select delegate_to_peer)

lemma delegate_direct: "delegate_direct fuel N sid tm u req p self = Some (out, self') \<Longrightarrow> P self \<Longrightarrow> P self'"
  by (auto simp: delegate_direct_def split: if_splits dest!: delegate_to_peer)

lemma broadcast_loop: "broadcast_loop fuel N sid tm u req timeout ps self = Some (out, self') \<Longrightarrow> P self \<Longrightarrow> P self'"
proof (induction ps arbitrary: self out)
  case (Cons p ps)
  obtain r s1 where d: "delegate_to_peer fuel N sid (tm p) (u p) req p timeout self = Some (r, s1)"
    using Cons.prems by (auto split: option.splits)
  then have "self' = s1 \<or> (\<exists>out'. broadcast_loop fuel N sid tm u req timeout ps s1 = Some (out', self'))"
    using Cons.prems by (auto simp: Let_def split: exec.splits option.splits)
  then show ?case using Cons.IH [of s1] delegate_to_peer [OF d Cons.prems(2)] by auto
qed simp

lemma delegate_broadcast: "delegate_broadcast fuel N it now sid tm u req self = Some (out, self') \<Longrightarrow> P self \<Longrightarrow> P self'"
  by (auto simp: delegate_broadcast_def Let_def split: if_splits option.splits prod.splits exec.splits
      dest!: broadcast_loop)

lemmas operations = send_task send_text send_in_session respond respond_stream poll_tasks poll_stream poll_presence
  announce announce_presence discover_all registry_ops delegate_task delegate_direct delegate_broadcast

end

section \<open>The kept part of the state\<close>

definition kept :: "('bf, 'tr, 'rx, 'sk, 'w) node \<Rightarrow> trust_list \<times> u64 \<times> u32 \<times> agent_card" where
  "kept self = (nd_trust_list self, nd_in_flight self, nd_max_concurrent self, nd_card self)"

lemma kept_upd [simp]:
  "kept (self\<lparr>nd_channel := ch\<rparr>) = kept self" "kept (self\<lparr>nd_world := w\<rparr>) = kept self"
  "kept (self\<lparr>nd_metrics := m\<rparr>) = kept self" "kept (self\<lparr>nd_task_rx := rx\<rparr>) = kept self"
  "kept (self\<lparr>nd_discover_rx := rx\<rparr>) = kept self" "kept (self\<lparr>nd_presence_rx := rx\<rparr>) = kept self"
  "kept (self\<lparr>nd_sessions := ss\<rparr>) = kept self" "kept (self\<lparr>nd_peer_map := pm\<rparr>) = kept self"
  "kept (self\<lparr>nd_seen_tx_hashes := txs\<rparr>) = kept self" "kept (self\<lparr>nd_round_robin_counter := k\<rparr>) = kept self"
  "kept (self\<lparr>nd_stream_rx := rxs\<rparr>) = kept self" "kept (self\<lparr>nd_stream_chunks := cs\<rparr>) = kept self"
  "kept (count f self) = kept self" "kept (set_transport tr self) = kept self"
  by (simp_all add: kept_def count_def set_transport_def)

lemma keptD:
  assumes "kept self' = kept self"
  shows "nd_trust_list self' = nd_trust_list self" "nd_in_flight self' = nd_in_flight self"
    "nd_max_concurrent self' = nd_max_concurrent self" "nd_card self' = nd_card self" "pubkey self' = pubkey self"
  using assms by (simp_all add: kept_def pubkey_def)

interpretation keeping: node_frame "\<lambda>self. kept self = k"
  for k
  by unfold_locales simp_all

lemmas respond_kept = keeping.respond [OF _ refl]

lemmas send_text_kept = keeping.send_text [OF _ refl]

lemmas poll_tasks_kept = keeping.poll_tasks [OF _ refl]

lemmas poll_presence_kept = keeping.poll_presence [OF _ refl]

lemmas kept_by = keeping.discover [OF _ refl] poll_presence_kept keeping.send_task [OF _ refl] send_text_kept respond_kept
  poll_tasks_kept keeping.delegate_task [OF _ refl] keeping.delegate_direct [OF _ refl] keeping.delegate_broadcast [OF _ refl]

end
