(* ===== verification/Node_Keys.thy ===== *)
theory Node_Keys
  imports Node_Safety
begin

text \<open>
  Persistent identities: \<open>LmaoNode::new\<close> and \<open>LmaoNode::from_keyfile\<close>
  (\<open>crates/logos-messaging-a2a-node/src/lib.rs\<close>), and \<open>build_node\<close> with the X25519 file beside the key
  file (\<open>crates/logos-messaging-a2a-cli/src/common.rs\<close>). Keys drawn at random are arguments. The
  secp256k1 keys and the files are parameters; a file operation works on the state \<open>'w\<close> of the node's
  world.
\<close>

section \<open>Parameters\<close>

text \<open>\<open>SigningKey::from_bytes\<close>, \<open>SigningKey::to_bytes\<close> and the compressed form of the verifying key.\<close>

record 'sk key_codec =
  sk_from_bytes :: "bytes \<Rightarrow> string + 'sk"
  sk_to_bytes :: "'sk \<Rightarrow> bytes"
  sk_public :: "'sk \<Rightarrow> bytes"

text \<open>\<open>File::create\<close> empties the file; \<open>write_all\<close> appends to what has been written through the handle.\<close>

record 'w key_files =
  kf_exists :: "'w \<Rightarrow> path \<Rightarrow> bool"
  kf_read_to_string :: "'w \<Rightarrow> path \<Rightarrow> string + string"
  kf_create :: "'w \<Rightarrow> path \<Rightarrow> (string + unit) \<times> 'w"
  kf_set_permissions_0600 :: "'w \<Rightarrow> path \<Rightarrow> (string + unit) \<times> 'w"
  kf_write_all :: "'w \<Rightarrow> path \<Rightarrow> string \<Rightarrow> (string + unit) \<times> 'w"

section \<open>Signing keys\<close>

definition public_key_of :: "'c crypto_prims \<Rightarrow> 'sk key_codec \<Rightarrow> 'sk \<Rightarrow> string" where
  "public_key_of P K key = hex_encode P (sk_public K key)"

definition node_new ::
    "('bf, 'tr, 'rx, 'c, 'w) node_env \<Rightarrow> 'sk key_codec \<Rightarrow> u64 \<Rightarrow> 'sk \<Rightarrow> string \<Rightarrow> string \<Rightarrow> string list \<Rightarrow> 'tr \<Rightarrow> 'w
       \<Rightarrow> ('bf, 'tr, 'rx, 'sk, 'w) node" where
  "node_new N K now_ms random_key name desc caps tr w =
     (let public_key = public_key_of (ne_crypto N) K random_key
      in node_with_channel (card_of name desc caps public_key None)
           (channel_new (ne_sds N) now_ms (''node-'' @ take 8 public_key) public_key tr) random_key None w)"

text \<open>The key of an existing key file.\<close>

definition read_keyfile ::
    "'c crypto_prims \<Rightarrow> 'sk key_codec \<Rightarrow> 'w key_files \<Rightarrow> path \<Rightarrow> 'w \<Rightarrow> node_error + 'sk" where
  "read_keyfile P K F p w =
     (case kf_read_to_string F w p of
        Inl e \<Rightarrow> Inl (NOther (''failed to read keyfile '' @ show_path p @ '': '' @ e))
      | Inr hex_str \<Rightarrow>
          (case hex_decode P (trim hex_str) of
             Inl e \<Rightarrow> Inl (NOther (''invalid hex in keyfile '' @ show_path p @ '': '' @ e))
           | Inr bs \<Rightarrow>
               if length bs \<noteq> 32 then
                 Inl (NOther (''keyfile '' @ show_path p @ '' contains '' @ show_nat (length bs) @ '' bytes, expected 32''))
               else (case sk_from_bytes K bs of
                       Inl e \<Rightarrow> Inl (NOther (''invalid signing key in '' @ show_path p @ '': '' @ e))
                     | Inr key \<Rightarrow> Inr key)))"

definition create_keyfile ::
    "'c crypto_prims \<Rightarrow> 'sk key_codec \<Rightarrow> 'w key_files \<Rightarrow> 'sk \<Rightarrow> path \<Rightarrow> 'w \<Rightarrow> (node_error + 'sk) \<times> 'w" where
  "create_keyfile P K F random_key p w =
     (let hex_str = hex_encode P (sk_to_bytes K random_key)
      in case kf_create F w p of
           (Inl e, w1) \<Rightarrow> (Inl (NOther (''failed to create keyfile '' @ show_path p @ '': '' @ e)), w1)
         | (Inr _, w1) \<Rightarrow>
             (case kf_set_permissions_0600 F w1 p of
                (Inl e, w2) \<Rightarrow> (Inl (NOther (''failed to set permissions on '' @ show_path p @ '': '' @ e)), w2)
              | (Inr _, w2) \<Rightarrow>
                  (case kf_write_all F w2 p hex_str of
                     (Inl e, w3) \<Rightarrow> (Inl (NOther (''failed to write keyfile '' @ show_path p @ '': '' @ e)), w3)
                   | (Inr _, w3) \<Rightarrow> (Inr random_key, w3))))"

definition node_from_keyfile ::
    "('bf, 'tr, 'rx, 'c, 'w) node_env \<Rightarrow> 'sk key_codec \<Rightarrow> 'w key_files \<Rightarrow> u64 \<Rightarrow> 'sk \<Rightarrow> string \<Rightarrow> string \<Rightarrow> string list \<Rightarrow> 'tr
       \<Rightarrow> path \<Rightarrow> 'w \<Rightarrow> (node_error + ('bf, 'tr, 'rx, 'sk, 'w) node) \<times> 'w" where
  "node_from_keyfile N K F now_ms random_key name desc caps tr p w =
     (let (signing_key, w1) =
            (if kf_exists F w p then (read_keyfile (ne_crypto N) K F p w, w)
             else create_keyfile (ne_crypto N) K F random_key p w)
      in case signing_key of
           Inl e \<Rightarrow> (Inl e, w1)
         | Inr key \<Rightarrow>
             (Inr (node_from_key N now_ms (public_key_of (ne_crypto N) K key) name desc caps tr key w1), w1))"

section \<open>The command line's nodes\<close>

text \<open>The extension of a file name: what follows its last dot, if that is not its first character.\<close>

definition file_extension :: "string \<Rightarrow> string option" where
  "file_extension name =
     (let stem_dot = rev (dropWhile (\<lambda>c. c \<noteq> CHR ''.'') (rev name))
      in if name = ''..'' \<or> length stem_dot \<le> 1 then None else Some (drop (length stem_dot) name))"

definition file_stem :: "string \<Rightarrow> string" where
  "file_stem name =
     (case file_extension name of None \<Rightarrow> name | Some ext \<Rightarrow> take (length name - length ext - 1) name)"

text \<open>\<open>Path::file_name\<close> and \<open>PathBuf::set_extension\<close>\<close>

definition file_name :: "path \<Rightarrow> string option" where
  "file_name p = (if p = [] \<or> last p = ''/'' \<or> last p = ''..'' then None else Some (last p))"

definition set_extension :: "string \<Rightarrow> path \<Rightarrow> path" where
  "set_extension ext p =
     (case file_name p of
        None \<Rightarrow> p
      | Some name \<Rightarrow> butlast p @ [if ext = [] then file_stem name else file_stem name @ CHR ''.'' # ext])"

definition sidecar_x25519_path :: "path \<Rightarrow> path" where
  "sidecar_x25519_path keyfile =
     (let ext = (case Option.bind (file_name keyfile) file_extension of
                   Some e \<Rightarrow> e @ ''.x25519''
                 | None \<Rightarrow> ''x25519'')
      in set_extension ext keyfile)"

definition write_secret_file :: "'w key_files \<Rightarrow> path \<Rightarrow> string \<Rightarrow> 'w \<Rightarrow> (string + unit) \<times> 'w" where
  "write_secret_file F p hex_secret w =
     (case kf_create F w p of
        (Inl e, w1) \<Rightarrow> (Inl e, w1)
      | (Inr _, w1) \<Rightarrow>
          (case kf_set_permissions_0600 F w1 p of
             (Inl e, w2) \<Rightarrow> (Inl e, w2)
           | (Inr _, w2) \<Rightarrow> kf_write_all F w2 p hex_secret))"

definition load_or_create_x25519 ::
    "'c crypto_prims \<Rightarrow> 'w key_files \<Rightarrow> bytes \<Rightarrow> path \<Rightarrow> 'w \<Rightarrow> (string + agent_identity) \<times> 'w" where
  "load_or_create_x25519 P F random_secret p w =
     (if kf_exists F w p then
        (case kf_read_to_string F w p of
           Inl e \<Rightarrow> (Inl (''reading X25519 sidecar '' @ show_path p), w)
         | Inr hex \<Rightarrow>
             (case identity_from_hex P (trim hex) of
                Inl e \<Rightarrow> (Inl (''parsing X25519 secret in '' @ show_path p), w)
              | Inr i \<Rightarrow> (Inr i, w)))
      else
        let i = identity_generate P random_secret
        in case write_secret_file F p (secret_hex P i) w of
             (Inl e, w1) \<Rightarrow> (Inl (''writing X25519 sidecar '' @ show_path p), w1)
           | (Inr _, w1) \<Rightarrow> (Inr i, w1))"

record identity_config =
  ic_keyfile :: "path option"
  ic_encrypt :: bool

definition build_node ::
    "('bf, 'tr, 'rx, 'c, 'w) node_env \<Rightarrow> 'sk key_codec \<Rightarrow> 'w key_files \<Rightarrow> u64 \<Rightarrow> 'sk \<Rightarrow> bytes \<Rightarrow> string \<Rightarrow> string \<Rightarrow> string list
       \<Rightarrow> 'tr \<Rightarrow> identity_config \<Rightarrow> 'w \<Rightarrow> (string + ('bf, 'tr, 'rx, 'sk, 'w) node) \<times> 'w" where
  "build_node N K F now_ms random_key random_secret name desc caps tr identity w =
     (case ic_keyfile identity of
        Some p \<Rightarrow>
          (case node_from_keyfile N K F now_ms random_key name desc caps tr p w of
             (Inl e, w1) \<Rightarrow> (Inl (show_node_error e), w1)
           | (Inr n, w1) \<Rightarrow>
               (case load_or_create_x25519 (ne_crypto N) F random_secret (sidecar_x25519_path p) w1 of
                  (Inl e, w2) \<Rightarrow> (Inl e, w2)
                | (Inr i, w2) \<Rightarrow> (Inr (with_identity N i (n\<lparr>nd_world := w2\<rparr>)), w2)))
      | None \<Rightarrow>
          if ic_encrypt identity then
            (Inr (node_new_encrypted N now_ms random_secret (public_key_of (ne_crypto N) K random_key) name desc caps tr random_key w), w)
          else (Inr (node_new N K now_ms random_key name desc caps tr w), w))"

text \<open>\<open>str::split\<close> on a comma; every part is trimmed, empty ones stay.\<close>

fun split_commas :: "string \<Rightarrow> string \<Rightarrow> string list" where
  "split_commas acc [] = [rev acc]"
| "split_commas acc (c # cs) = (if c = CHR '','' then rev acc # split_commas [] cs else split_commas (c # acc) cs)"

definition parse_capabilities :: "string \<Rightarrow> string list" where
  "parse_capabilities capabilities = map trim (split_commas [] capabilities)"

section \<open>Restarts\<close>

text \<open>
  What the files promise, with \<open>contents\<close> giving the text of a file that exists; what the key codec and
  the hex encoding promise.
\<close>

definition key_files_ok :: "'w key_files \<Rightarrow> ('w \<Rightarrow> path \<Rightarrow> string option) \<Rightarrow> bool" where
  "key_files_ok F contents \<longleftrightarrow>
     (\<forall>w p. kf_exists F w p \<longleftrightarrow> contents w p \<noteq> None) \<and> (\<forall>w p s. contents w p = Some s \<longrightarrow> kf_read_to_string F w p = Inr s)
   \<and> (\<forall>w p w'. kf_create F w p = (Inr (), w') \<longrightarrow> contents w' = (contents w)(p \<mapsto> []))
   \<and> (\<forall>w p r w'. kf_set_permissions_0600 F w p = (r, w') \<longrightarrow> contents w' = contents w)
   \<and> (\<forall>w p s w' old. contents w p = Some old \<longrightarrow> kf_write_all F w p s = (Inr (), w') \<longrightarrow> contents w' = (contents w)(p \<mapsto> old @ s))"

definition keys_ok :: "'c crypto_prims \<Rightarrow> 'sk key_codec \<Rightarrow> bool" where
  "keys_ok P K \<longleftrightarrow> (\<forall>b. hex_decode P (hex_encode P b) = Inr b) \<and> (\<forall>b. list_all (\<lambda>c. \<not> is_white c) (hex_encode P b))
   \<and> (\<forall>k. sk_from_bytes K (sk_to_bytes K k) = Inr k \<and> length (sk_to_bytes K k) = 32)"

lemma trim_plain: "list_all (\<lambda>c. \<not> is_white c) s \<Longrightarrow> trim s = s"
proof (cases "s = []")
  case True
  then show ?thesis by (simp add: trim_def)
next
  case False
  assume "list_all (\<lambda>c. \<not> is_white c) s"
  then show ?thesis using trim_id [OF False] False by (simp add: list_all_iff)
qed

lemma write_secret_contents:
  assumes "key_files_ok F contents" and "write_secret_file F p s w = (Inr (), w')"
  shows "contents w' = (contents w)(p \<mapsto> s)"
proof -
  obtain w1 w2 where "kf_create F w p = (Inr (), w1)" "kf_set_permissions_0600 F w1 p = (Inr (), w2)" "kf_write_all F w2 p s = (Inr (), w')"
    using assms(2) by (auto simp: write_secret_file_def split: prod.splits sum.splits)
  moreover from this have "contents w2 = (contents w)(p \<mapsto> [])" using assms(1) unfolding key_files_ok_def by metis
  ultimately have "contents w' = (contents w2)(p \<mapsto> [] @ s)" using assms(1) unfolding key_files_ok_def by (metis fun_upd_same)
  then show ?thesis by (simp add: \<open>contents w2 = _\<close>)
qed

lemma create_keyfile_as_secret:
  "create_keyfile P K F k p w = (Inr k', w') \<Longrightarrow>
     k' = k \<and> write_secret_file F p (hex_encode P (sk_to_bytes K k)) w = (Inr (), w')"
  by (auto simp: create_keyfile_def write_secret_file_def Let_def split: prod.splits sum.splits)

lemma from_key_fields:
  "pubkey (node_from_key N now pk name desc caps tr key w) = pk"
  "nd_signing_key (node_from_key N now pk name desc caps tr key w) = key"
  by (simp_all add: node_from_key_def node_with_channel_def card_of_def pubkey_def)

text \<open>A node made from a key file: the file then holds its key.\<close>

lemma from_keyfile_holds:
  assumes "key_files_ok F contents" and "keys_ok (ne_crypto N) K"
    and "node_from_keyfile N K F now k name desc caps tr p w = (Inr n, w')"
  shows "\<exists>s. contents w' p = Some s \<and> (\<forall>w''. contents w'' p = Some s \<longrightarrow> read_keyfile (ne_crypto N) K F p w'' = Inr (nd_signing_key n))
    \<and> pubkey n = public_key_of (ne_crypto N) K (nd_signing_key n)"
proof -
  have read: "contents v q = Some s \<Longrightarrow> kf_read_to_string F v q = Inr s" "kf_exists F v q \<longleftrightarrow> contents v q \<noteq> None" for v q s
    using assms(1) by (simp_all add: key_files_ok_def)
  show ?thesis
  proof (cases "contents w p")
    case (Some s)
    then show ?thesis using assms(3) by (auto simp: node_from_keyfile_def read from_key_fields read_keyfile_def split: sum.splits if_splits)
  next
    case None
    then obtain key where key: "create_keyfile (ne_crypto N) K F k p w = (Inr key, w')"
        "n = node_from_key N now (public_key_of (ne_crypto N) K key) name desc caps tr key w'"
      using assms(3) by (auto simp: node_from_keyfile_def read split: sum.splits prod.splits)
    note c = create_keyfile_as_secret [OF key(1)]
    let ?s = "hex_encode (ne_crypto N) (sk_to_bytes K k)"
    have "contents w' p = Some ?s" using write_secret_contents [OF assms(1)] c by fastforce
    moreover have "read_keyfile (ne_crypto N) K F p v = Inr k" if "contents v p = Some ?s" for v
      using assms(2) that trim_plain [of ?s] by (simp add: read_keyfile_def read keys_ok_def)
    ultimately show ?thesis using key(2) c by (auto simp: from_key_fields)
  qed
qed

lemma x25519_holds:
  assumes "key_files_ok F contents" and "keys_ok P K" and "length secret = 32"
    and "load_or_create_x25519 P F secret q w = (Inr i, w')"
  shows "(\<forall>p. p \<noteq> q \<longrightarrow> contents w' p = contents w p) \<and> (\<forall>secret'. load_or_create_x25519 P F secret' q w' = (Inr i, w'))"
proof -
  have read: "contents v r = Some s \<Longrightarrow> kf_read_to_string F v r = Inr s" "kf_exists F v r \<longleftrightarrow> contents v r \<noteq> None" for v r s
    using assms(1) by (simp_all add: key_files_ok_def)
  show ?thesis
  proof (cases "contents w q")
    case (Some s)
    then show ?thesis using assms(4) by (auto simp: load_or_create_x25519_def read split: sum.splits)
  next
    case None
    then have w': "write_secret_file F q (secret_hex P (identity_generate P secret)) w = (Inr (), w')" "i = identity_generate P secret"
      using assms(4) by (auto simp: load_or_create_x25519_def Let_def read split: sum.splits prod.splits)
    let ?s = "hex_encode P secret"
    have "contents w' = (contents w)(q \<mapsto> ?s)"
      using write_secret_contents [OF assms(1) w'(1)] by (simp add: secret_hex_def identity_generate_def)
    moreover have "identity_from_hex P (trim ?s) = Inr i"
      using assms(2,3) trim_plain [of ?s] by (simp add: identity_from_hex_def keys_ok_def w'(2) identity_generate_def)
    ultimately show ?thesis by (simp add: load_or_create_x25519_def read)
  qed
qed

lemma extension_split: "file_extension name = Some ext \<Longrightarrow> file_stem name @ CHR ''.'' # ext = name"
proof -
  assume e: "file_extension name = Some ext"
  define d where "d = rev (dropWhile (\<lambda>c. c \<noteq> CHR ''.'') (rev name))"
  have ext: "ext = drop (length d) name" "1 < length d"
    using e by (auto simp: file_extension_def d_def Let_def split: if_splits)
  have "rev name = takeWhile (\<lambda>c. c \<noteq> CHR ''.'') (rev name) @ dropWhile (\<lambda>c. c \<noteq> CHR ''.'') (rev name)" by simp
  then have name: "name = d @ rev (takeWhile (\<lambda>c. c \<noteq> CHR ''.'') (rev name))" unfolding d_def by (metis rev_append rev_rev_ident)
  have "d \<noteq> []" using ext(2) by auto
  then have "hd (rev d) = CHR ''.''" unfolding d_def rev_rev_ident using hd_dropWhile [of "\<lambda>c. c \<noteq> CHR ''.''" "rev name"] by auto
  then have last: "last d = CHR ''.''" using \<open>d \<noteq> []\<close> by (simp add: hd_rev)
  have "take (length d) name = d" by (subst name) simp
  moreover have "length name - length ext - 1 = length d - 1" using ext(1) name by (metis append_eq_conv_conj diff_diff_cancel le_add1 length_append length_drop)
  ultimately have "file_stem name = butlast d"
    using e by (simp add: file_stem_def butlast_conv_take) (metis diff_le_self min.absorb1 take_take)
  then have "file_stem name @ CHR ''.'' # ext = butlast d @ [last d] @ ext" by (simp add: last)
  then show ?thesis using \<open>d \<noteq> []\<close> \<open>take (length d) name = d\<close> ext(1) by (metis append.assoc append_butlast_last_id append_take_drop_id)
qed

lemma sidecar_path:
  assumes "file_name p = Some name"
  shows "sidecar_x25519_path p = butlast p @ [name @ ''.x25519'']"
proof (cases "file_extension name")
  case None
  then show ?thesis using assms by (simp add: sidecar_x25519_path_def set_extension_def file_stem_def)
next
  case (Some ext)
  then show ?thesis using assms extension_split [OF Some] by (simp add: sidecar_x25519_path_def set_extension_def)
qed

text \<open>
  C29. An agent keeps its identity across restarts. When \<open>build_node\<close> with a key file succeeds, whether it
  found the files or created them, then every later start on the files it left, whatever keys are
  drawn and whatever else changes, succeeds with the same signing key, the same public key and the
  same X25519 identity, and changes no file. The encryption secret is in a file of its own.
\<close>

theorem identity_survives_restart:
  assumes "key_files_ok F contents" and "keys_ok (ne_crypto N) K" and "length secret = 32" and "file_name p = Some name"
    and "build_node N K F now k secret nm desc caps tr \<lparr>ic_keyfile = Some p, ic_encrypt = enc\<rparr> w = (Inr n, w1)"
  shows "\<exists>n'. build_node N K F now' k' secret' nm' desc' caps' tr' \<lparr>ic_keyfile = Some p, ic_encrypt = enc'\<rparr> w1 = (Inr n', w1)
    \<and> nd_signing_key n' = nd_signing_key n \<and> pubkey n' = pubkey n \<and> nd_identity n' = nd_identity n
    \<and> sidecar_x25519_path p \<noteq> p"
proof -
  let ?P = "ne_crypto N" and ?q = "sidecar_x25519_path p"
  have "p \<noteq> []" "name = last p" using assms(4) by (auto simp: file_name_def split: if_splits)
  then have q: "?q \<noteq> p" using sidecar_path [OF assms(4)] by (metis append_butlast_last_id append_self_conv list.discI list.inject same_append_eq)
  obtain n0 w0 i where run: "node_from_keyfile N K F now k nm desc caps tr p w = (Inr n0, w0)"
      "load_or_create_x25519 ?P F secret ?q w0 = (Inr i, w1)" "n = with_identity N i (n0\<lparr>nd_world := w1\<rparr>)"
    using assms(5) by (auto simp: build_node_def split: sum.splits prod.splits)
  obtain s where s: "contents w0 p = Some s" "\<And>v. contents v p = Some s \<Longrightarrow> read_keyfile ?P K F p v = Inr (nd_signing_key n0)"
      "pubkey n0 = public_key_of ?P K (nd_signing_key n0)"
    using from_keyfile_holds [OF assms(1,2) run(1)] by blast
  note x = x25519_holds [OF assms(1,2,3) run(2)]
  have "contents w1 p = Some s" using x q s(1) by auto
  then have "kf_exists F w1 p" "read_keyfile ?P K F p w1 = Inr (nd_signing_key n0)" using assms(1) s(2) by (simp_all add: key_files_ok_def)
  then have "node_from_keyfile N K F now' k' nm' desc' caps' tr' p w1 =
      (Inr (node_from_key N now' (pubkey n0) nm' desc' caps' tr' (nd_signing_key n0) w1), w1)"
    by (simp add: node_from_keyfile_def s(3))
  then show ?thesis
    using x q by (simp add: build_node_def run(3) with_identity_def pubkey_def node_from_key_def node_with_channel_def card_of_def)
qed

text \<open>An encoding of bytes by pairs of letters, and a world whose files all hold the same key.\<close>

definition letters :: "bytes \<Rightarrow> string" where
  "letters bs = concat (map (\<lambda>b. [char_of (65 + unat b div 16), char_of (65 + unat b mod 16)]) bs)"

fun unletters :: "string \<Rightarrow> bytes" where
  "unletters (c # d # cs) = word_of_nat ((of_char c - 65) * 16 + (of_char d - 65)) # unletters cs"
| "unletters _ = []"

lemma unletters_letters: "unletters (letters bs) = bs"
proof (induction bs)
  case (Cons b bs)
  have "unat b < 256" using unsigned_less [of b] by simp
  then have "of_char (char_of (65 + unat b div 16) :: char) = 65 + unat b div 16" "of_char (char_of (65 + unat b mod 16) :: char) = 65 + unat b mod 16"
    by (simp_all add: of_char_of)
  then show ?case using Cons by (simp add: letters_def)
qed (simp add: letters_def)

lemma letters_plain: "list_all (\<lambda>c. \<not> is_white c) (letters bs)"
proof -
  have "\<not> is_white (char_of (65 + n))" if "n < 16" for n :: nat
  proof
    assume white: "is_white (char_of (65 + n))"
    have "is_white c \<Longrightarrow> of_char c \<le> (32 :: nat)" for c by (auto simp: is_white_def)
    from this [OF white] show False using that by (simp add: of_char_of)
  qed
  moreover have "unat b div 16 < 16" for b :: u8
  proof -
    have "unat b < 256" using unsigned_less [of b] by simp
    then show ?thesis by simp
  qed
  ultimately show ?thesis by (simp add: letters_def list_all_iff)
qed

definition key_nenv :: "(string list, bytes list, unit, bytes, unit) node_env" where
  "key_nenv = (example_nenv [])\<lparr>ne_crypto := toy_prims\<lparr>hex_encode := letters, hex_decode := (\<lambda>s. Inr (unletters s))\<rparr>\<rparr>"

definition key_world :: "unit key_files" where
  "key_world = \<lparr>kf_exists = (\<lambda>_ _. True), kf_read_to_string = (\<lambda>_ _. Inr (letters (replicate 32 7))),
     kf_create = (\<lambda>_ _. (Inl ''exists'', ())), kf_set_permissions_0600 = (\<lambda>_ _. (Inr (), ())),
     kf_write_all = (\<lambda>_ _ _. (Inl ''read only'', ()))\<rparr>"

definition unit_keys :: "unit key_codec" where
  "unit_keys = \<lparr>sk_from_bytes = (\<lambda>_. Inr ()), sk_to_bytes = (\<lambda>_. replicate 32 7), sk_public = (\<lambda>_. [2])\<rparr>"

theorem identity_survives_restart_witness:
  "\<exists>n n'. build_node key_nenv unit_keys key_world 7 () (replicate 32 1) ''n'' ''d'' [] [] \<lparr>ic_keyfile = Some [''key.hex''], ic_encrypt = False\<rparr> () = (Inr n, ())
    \<and> build_node key_nenv unit_keys key_world 8 () (replicate 32 2) ''m'' ''d'' [] [] \<lparr>ic_keyfile = Some [''key.hex''], ic_encrypt = True\<rparr> () = (Inr n', ())
    \<and> nd_identity n' = nd_identity n"
proof -
  have hex: "trim (letters bs) = letters bs" for bs by (rule trim_plain [OF letters_plain])
  have ok: "key_files_ok key_world (\<lambda>_ _. Some (letters (replicate 32 7)))" "keys_ok (ne_crypto key_nenv) unit_keys"
    "length (replicate 32 (1 :: u8)) = 32" "file_name [''key.hex''] = Some ''key.hex''"
    by (simp_all add: key_files_ok_def key_world_def keys_ok_def unit_keys_def key_nenv_def unletters_letters letters_plain file_name_def)
  obtain n where n: "build_node key_nenv unit_keys key_world 7 () (replicate 32 1) ''n'' ''d'' [] []
      \<lparr>ic_keyfile = Some [''key.hex''], ic_encrypt = False\<rparr> () = (Inr n, ())"
    by (simp add: build_node_def node_from_keyfile_def read_keyfile_def load_or_create_x25519_def identity_from_hex_def key_world_def
        key_nenv_def unit_keys_def hex unletters_letters)
  from identity_survives_restart [OF ok n, of 8 "()" "replicate 32 2" "''m''" "''d''" "[]" "[]" True] n show ?thesis by blast
qed

end
