(* ===== verification/Utf8.thy ===== *)
theory Utf8
  imports Crypto
begin

text \<open>
  Strings of the standard library as the command line and the bridge use them: slices at a byte
  index, which panic inside a character, \<open>String::from_utf8_lossy\<close>, \<open>str::trim\<close>, the conversion between
  a string and its bytes, and \<open>str::parse\<close> of an unsigned integer. A string is its UTF-8 bytes.
\<close>

section \<open>Bytes and characters\<close>

definition as_bytes :: "string \<Rightarrow> bytes" where
  "as_bytes s = map (\<lambda>c. word_of_nat (of_char c)) s"

definition of_bytes :: "bytes \<Rightarrow> string" where
  "of_bytes bs = map (\<lambda>b. char_of (unat b)) bs"

definition is_continuation :: "char \<Rightarrow> bool" where
  "is_continuation c = (128 \<le> (of_char c :: nat) \<and> (of_char c :: nat) < 192)"

text \<open>\<open>str::is_char_boundary\<close>\<close>

definition is_char_boundary :: "string \<Rightarrow> nat \<Rightarrow> bool" where
  "is_char_boundary s n = (n = length s \<or> n < length s \<and> (n = 0 \<or> \<not> is_continuation (s ! n)))"

text \<open>The slice \<open>&s[..n]\<close>.\<close>

definition str_prefix :: "nat \<Rightarrow> string \<Rightarrow> string exec" where
  "str_prefix n s = (if is_char_boundary s n then Returns (take n s) else Panics)"

text \<open>\<open>&s[..n.min(s.len())]\<close>\<close>

definition str_prefix_min :: "nat \<Rightarrow> string \<Rightarrow> string exec" where
  "str_prefix_min n s = str_prefix (min n (length s)) s"

text \<open>\<open>[String]::join\<close>, and an iterator whose closure may panic.\<close>

fun join :: "string \<Rightarrow> string list \<Rightarrow> string" where
  "join sep [] = []"
| "join sep [s] = s"
| "join sep (s # ss) = s @ sep @ join sep ss"

fun exec_map :: "('a \<Rightarrow> 'b exec) \<Rightarrow> 'a list \<Rightarrow> 'b list exec" where
  "exec_map f [] = Returns []"
| "exec_map f (x # xs) =
     (case f x of
        Panics \<Rightarrow> Panics
      | Returns y \<Rightarrow> (case exec_map f xs of Panics \<Rightarrow> Panics | Returns ys \<Rightarrow> Returns (y # ys)))"

section \<open>Lossy decoding\<close>

text \<open>
  The bytes of the first character, or of the invalid sequence replaced by one replacement character:
  how many there are, and whether they are valid. A missing byte reads as 0.
\<close>

definition byte_at :: "bytes \<Rightarrow> nat \<Rightarrow> nat" where
  "byte_at bs i = (if i < length bs then unat (bs ! i) else 0)"

definition continues :: "bytes \<Rightarrow> nat \<Rightarrow> bool" where
  "continues bs i = (128 \<le> byte_at bs i \<and> byte_at bs i < 192)"

definition second_of_three :: "nat \<Rightarrow> nat \<Rightarrow> bool" where
  "second_of_three b n =
     (b = 0xE0 \<and> 0xA0 \<le> n \<and> n \<le> 0xBF \<or> 0xE1 \<le> b \<and> b \<le> 0xEC \<and> 0x80 \<le> n \<and> n \<le> 0xBF
      \<or> b = 0xED \<and> 0x80 \<le> n \<and> n \<le> 0x9F \<or> 0xEE \<le> b \<and> b \<le> 0xEF \<and> 0x80 \<le> n \<and> n \<le> 0xBF)"

definition second_of_four :: "nat \<Rightarrow> nat \<Rightarrow> bool" where
  "second_of_four b n =
     (b = 0xF0 \<and> 0x90 \<le> n \<and> n \<le> 0xBF \<or> 0xF1 \<le> b \<and> b \<le> 0xF3 \<and> 0x80 \<le> n \<and> n \<le> 0xBF
      \<or> b = 0xF4 \<and> 0x80 \<le> n \<and> n \<le> 0x8F)"

definition utf8_step :: "bytes \<Rightarrow> nat \<times> bool" where
  "utf8_step bs =
     (let b = byte_at bs 0; n = byte_at bs 1 in
      if b < 128 then (1, True)
      else if 0xC2 \<le> b \<and> b \<le> 0xDF then (if continues bs 1 then (2, True) else (1, False))
      else if 0xE0 \<le> b \<and> b \<le> 0xEF then
        (if \<not> second_of_three b n then (1, False) else if \<not> continues bs 2 then (2, False) else (3, True))
      else if 0xF0 \<le> b \<and> b \<le> 0xF4 then
        (if \<not> second_of_four b n then (1, False)
         else if \<not> continues bs 2 then (2, False)
         else if \<not> continues bs 3 then (3, False) else (4, True))
      else (1, False))"

definition replacement :: bytes where
  "replacement = [0xEF, 0xBF, 0xBD]"

function lossy_bytes :: "bytes \<Rightarrow> bytes" where
  "lossy_bytes [] = []"
| "lossy_bytes (b # bs) =
     (let (n, ok) = utf8_step (b # bs)
      in (if ok then take n (b # bs) else replacement) @ lossy_bytes (drop n (b # bs)))"
  by pat_completeness auto

lemma utf8_step_pos: "0 < fst (utf8_step bs)"
  by (simp add: utf8_step_def Let_def)

termination lossy_bytes
proof (relation "measure length")
  fix b bs x n ok assume "x = utf8_step (b # bs)" "(n, ok) = x"
  then have "0 < n" using utf8_step_pos [of "b # bs"] by (metis fst_conv)
  then show "(drop n (b # bs), b # bs) \<in> measure length" by simp
qed simp

definition from_utf8_lossy :: "bytes \<Rightarrow> string" where
  "from_utf8_lossy bs = of_bytes (lossy_bytes bs)"

text \<open>\<open>std::str::from_utf8\<close> succeeds.\<close>

function valid_utf8 :: "bytes \<Rightarrow> bool" where
  "valid_utf8 [] = True"
| "valid_utf8 (b # bs) =
     (let (n, ok) = utf8_step (b # bs) in ok \<and> valid_utf8 (drop n (b # bs)))"
  by pat_completeness auto
termination valid_utf8
proof (relation "measure length")
  fix b bs x n ok assume "x = utf8_step (b # bs)" "(n, ok) = x"
  then have "0 < n" using utf8_step_pos [of "b # bs"] by (metis fst_conv)
  then show "(drop n (b # bs), b # bs) \<in> measure length" by simp
qed simp

section \<open>Trimming\<close>

text \<open>The characters of a string: a byte with the continuation bytes after it.\<close>

fun chars :: "string \<Rightarrow> string list" where
  "chars [] = []"
| "chars (c # cs) =
     (case chars cs of
        [] \<Rightarrow> [[c]]
      | g # gs \<Rightarrow> if is_continuation (hd g) then (c # g) # gs else [c] # g # gs)"

text \<open>\<open>char::is_whitespace\<close>: the Unicode property \<open>White_Space\<close>.\<close>

definition is_whitespace :: "string \<Rightarrow> bool" where
  "is_whitespace c =
     (c \<in> {[CHR 0x09], [CHR 0x0A], [CHR 0x0B], [CHR 0x0C], [CHR 0x0D], [CHR 0x20],
           [CHR 0xC2, CHR 0x85], [CHR 0xC2, CHR 0xA0], [CHR 0xE1, CHR 0x9A, CHR 0x80],
           [CHR 0xE2, CHR 0x80, CHR 0xA8], [CHR 0xE2, CHR 0x80, CHR 0xA9], [CHR 0xE2, CHR 0x80, CHR 0xAF],
           [CHR 0xE2, CHR 0x81, CHR 0x9F], [CHR 0xE3, CHR 0x80, CHR 0x80]}
      \<or> (\<exists>k \<in> {0..10}. c = [CHR 0xE2, CHR 0x80, char_of (0x80 + k :: nat)]))"

definition str_trim :: "string \<Rightarrow> string" where
  "str_trim s = concat (rev (dropWhile is_whitespace (rev (dropWhile is_whitespace (chars s)))))"

section \<open>Unsigned integers\<close>

text \<open>\<open>str::parse\<close> of an unsigned type with the largest value \<open>limit\<close>.\<close>

fun parse_digits :: "nat \<Rightarrow> nat \<Rightarrow> string \<Rightarrow> nat option" where
  "parse_digits limit acc [] = Some acc"
| "parse_digits limit acc (c # cs) =
     (if CHR ''0'' \<le> c \<and> c \<le> CHR ''9'' then
        let v = acc * 10 + (of_char c - 48)
        in if v \<le> limit then parse_digits limit v cs else None
      else None)"

definition parse_unsigned :: "nat \<Rightarrow> string \<Rightarrow> nat option" where
  "parse_unsigned limit s =
     (let digits = (case s of c # cs \<Rightarrow> if c = CHR ''+'' then cs else s | [] \<Rightarrow> [])
      in if digits = [] then None else parse_digits limit 0 digits)"

section \<open>Lemmas\<close>

lemma of_as_bytes [simp]: "of_bytes (as_bytes s) = s"
proof -
  have "char_of (unat (word_of_nat (of_char c) :: u8)) = c" for c :: char
    using of_char_mod_256 [of c, where 'a = nat] by (simp add: unat_of_nat)
  then show ?thesis by (simp add: of_bytes_def as_bytes_def o_def)
qed

lemma str_prefix_min_short [simp]: "length s \<le> n \<Longrightarrow> str_prefix_min n s = Returns s"
  by (simp add: str_prefix_min_def str_prefix_def is_char_boundary_def)

lemma str_prefix_short: "length s < n \<Longrightarrow> str_prefix n s = Panics"
  by (simp add: str_prefix_def is_char_boundary_def)

lemma str_prefix_ascii:
  assumes "n \<le> length s" and "\<forall>c \<in> set s. (of_char c :: nat) < 128"
  shows "str_prefix n s = Returns (take n s)"
  using assms by (auto simp: str_prefix_def is_char_boundary_def is_continuation_def not_le dest: nth_mem)

lemma exec_map_panics_iff: "exec_map f xs = Panics \<longleftrightarrow> (\<exists>x \<in> set xs. f x = Panics)"
proof (induction xs)
  case (Cons x xs)
  then show ?case by (cases "f x"; cases "exec_map f xs") auto
qed simp

lemma exec_map_returns: "exec_map f xs = Returns ys \<Longrightarrow> map f xs = map Returns ys"
  by (induction xs arbitrary: ys) (auto split: exec.splits)

lemma exec_map_total: "(\<And>x. x \<in> set xs \<Longrightarrow> f x = Returns (g x)) \<Longrightarrow> exec_map f xs = Returns (map g xs)"
  by (induction xs) auto

lemma chars_concat [simp]: "concat (chars s) = s"
  by (induction s) (auto split: list.splits)

text \<open>What lossy decoding keeps and yields.\<close>

lemma lossy_valid: "valid_utf8 bs \<Longrightarrow> lossy_bytes bs = bs"
  by (induction bs rule: valid_utf8.induct) (auto simp: Let_def split: prod.splits simp del: drop.simps take.simps)

end
