(* ===== verification/Agent_Loop.thy ===== *)
theory Agent_Loop
  imports Node_Frames Node_Keys Utf8
begin

text \<open>
  \<open>lmao agent run\<close> (\<open>crates/logos-messaging-a2a-cli/src/agent.rs\<close>): the executor that answers a task, the
  upload of its log, and the inbox loop with its capacity limit and its evictions. The shell, the storage
  backend and the Unicode escapes of \<open>Debug\<close> are parameters; the clocks and the nonces drawn are arguments.
  What the loop does with a task is recorded as an event, the object the JSON mode prints.
\<close>

section \<open>The executor\<close>

record exec_output =
  xo_response :: string
  xo_log :: string

text \<open>How a child process ends: \<open>ex_status\<close> is the text of the exit status.\<close>

datatype child =
    SpawnFailed
  | StdinFailed
  | WaitFailed
  | Exited (ex_success: bool) (ex_status: string) (ex_stdout: bytes) (ex_stderr: bytes)

text \<open>The shell command, the variables added to its environment, and its standard input.\<close>

type_synonym 'w shell = "string \<Rightarrow> (string \<times> string) list \<Rightarrow> bytes \<Rightarrow> 'w \<Rightarrow> child \<times> 'w"

definition exec_variables :: "string option \<Rightarrow> string \<Rightarrow> (string \<times> string) list" where
  "exec_variables session_id sender =
     (''LMAO_SENDER_PUBKEY'', sender) #
     (case session_id of
        Some sid \<Rightarrow> if sid \<noteq> [] then [(''LMAO_SESSION_ID'', sid)] else []
      | None \<Rightarrow> [])"

definition last_line :: "string \<Rightarrow> string" where
  "last_line log =
     (case find (\<lambda>l. l \<noteq> []) (rev (split_lines [] log)) of Some l \<Rightarrow> l | None \<Rightarrow> ''(no stderr)'')"

definition run_exec ::
    "(string \<Rightarrow> string) \<Rightarrow> 'w shell \<Rightarrow> string \<Rightarrow> string \<Rightarrow> string option \<Rightarrow> string \<Rightarrow> 'w \<Rightarrow> (string + exec_output) \<times> 'w" where
  "run_exec debug sh cmd content session_id sender w =
     (case sh cmd (exec_variables session_id sender) (as_bytes content) w of
        (SpawnFailed, w1) \<Rightarrow>
          (Inl (''failed to spawn '' @ quoted (CHR 0x60) (''sh -c '' @ debug cmd) @ '' '' @ [CHR 0xE2, CHR 0x80, CHR 0x94]
             @ '' is the command on PATH?''), w1)
      | (StdinFailed, w1) \<Rightarrow> (Inl ''writing task text to exec stdin'', w1)
      | (WaitFailed, w1) \<Rightarrow> (Inl ''waiting for exec to finish'', w1)
      | (Exited success status out err, w1) \<Rightarrow>
          let response = str_trim (from_utf8_lossy out); log = from_utf8_lossy err
          in if \<not> success then (Inl (''exec exited with '' @ status @ '': '' @ last_line log), w1)
             else if response = [] then
               (Inl (''exec produced empty stdout (stderr last line: '' @ last_line log @ '')''), w1)
             else (Inr \<lparr>xo_response = response, xo_log = log\<rparr>, w1))"

text \<open>\<open>storage\<close> is the upload of the configured backend.\<close>

definition upload_log ::
    "(bytes \<Rightarrow> 'w \<Rightarrow> (string + string) \<times> 'w) option \<Rightarrow> string \<Rightarrow> 'w \<Rightarrow> string option \<times> 'w" where
  "upload_log storage log w =
     (case storage of
        None \<Rightarrow> (None, w)
      | Some upload \<Rightarrow>
          if log = [] then (None, w)
          else case upload (as_bytes log) w of
                 (Inr cid, w1) \<Rightarrow> (Some cid, w1)
               | (Inl e, w1) \<Rightarrow> (None, w1))"

definition format_response :: "string \<Rightarrow> string option \<Rightarrow> string" where
  "format_response answer log_cid =
     (case log_cid of
        Some cid \<Rightarrow> answer @ [newline, newline] @ ''---'' @ [newline] @ ''execution log: codex://'' @ cid
      | None \<Rightarrow> answer)"

section \<open>One batch of tasks\<close>

record ('bf, 'tr, 'rx, 'c, 'w, 'sk, 'vk, 'sig) agent_env =
  ag_node :: "('bf, 'tr, 'rx, 'c, 'w) node_env"
  ag_signing :: "('sk, 'vk, 'sig) signing"
  ag_shell :: "'w shell"
  ag_debug :: "string \<Rightarrow> string"
  ag_storage :: "(bytes \<Rightarrow> 'w \<Rightarrow> (string + string) \<times> 'w) option"
  ag_exec :: string
  ag_json :: bool

text \<open>The fields of the printed objects \<open>task_received\<close> and \<open>task_rejected\<close>.\<close>

record received_event =
  re_task_id :: string
  re_from :: string
  re_message :: "string option"
  re_session_id :: "string option"
  re_log_bytes :: "nat option"
  re_log_cid :: "string option"
  re_exec_error :: "string option"
  re_response :: "string option"
  re_error :: "string option"

datatype agent_event =
    TaskRejected string string u32
  | TaskReceived received_event

text \<open>The nonces and clocks one response draws.\<close>

record turn =
  tn_nonces :: "bytes \<times> bytes"
  tn_clock :: "u64 \<times> u64 \<times> u64"

definition reject_payload :: string where
  "reject_payload = ''[rejected: at capacity, retry later]''"

definition bare_event :: "task \<Rightarrow> received_event" where
  "bare_event t =
     \<lparr>re_task_id = task_id t, re_from = task_from t, re_message = None, re_session_id = None, re_log_bytes = None,
      re_log_cid = None, re_exec_error = None, re_response = None, re_error = None\<rparr>"

text \<open>The executor on the text of a task: the response, whether it failed, and what the event records.\<close>

definition execute_task ::
    "('bf, 'tr, 'rx, 'c, 'w, 'sk, 'vk, 'sig) agent_env \<Rightarrow> task \<Rightarrow> string \<Rightarrow> ('bf, 'tr, 'rx, 'sk, 'w) node
       \<Rightarrow> (string \<times> bool \<times> received_event) \<times> ('bf, 'tr, 'rx, 'sk, 'w) node" where
  "execute_task A t content self =
     (let event = (bare_event t)\<lparr>re_message := Some content, re_session_id := task_session_id t\<rparr> in
      case run_exec (ag_debug A) (ag_shell A) (ag_exec A) content (task_session_id t) (task_from t) (nd_world self) of
        (Inr out, w) \<Rightarrow>
          (let (cid, w1) = upload_log (ag_storage A) (xo_log out) w
           in ((format_response (xo_response out) cid, False,
                event\<lparr>re_log_bytes := Some (length (xo_log out)), re_log_cid := cid\<rparr>), self\<lparr>nd_world := w1\<rparr>))
      | (Inl e, w) \<Rightarrow>
          ((''[error] '' @ e, True, event\<lparr>re_exec_error := Some e\<rparr>), self\<lparr>nd_world := w\<rparr>))"

text \<open>The preview of the text mode slices the response at byte 200.\<close>

definition preview_panics :: "bool \<Rightarrow> string \<Rightarrow> bool" where
  "preview_panics json response = (\<not> json \<and> 200 < length response \<and> str_prefix 200 response = Panics)"

definition accept_task ::
    "('bf, 'tr, 'rx, 'c, 'w, 'sk, 'vk, 'sig) agent_env \<Rightarrow> turn \<Rightarrow> task \<Rightarrow> string \<Rightarrow> ('bf, 'tr, 'rx, 'sk, 'w) node
       \<Rightarrow> agent_event exec \<times> ('bf, 'tr, 'rx, 'sk, 'w) node" where
  "accept_task A tn t content self =
     (let (_, self1) = load_inc self;
          ((response, failed, event), self2) = execute_task A t content self1;
          (_, self3) = load_dec self2
      in case (if failed then node_respond_failed (ag_node A) (tn_nonces tn) (tn_clock tn) t response self3
               else node_respond (ag_node A) (tn_nonces tn) (tn_clock tn) t response self3) of
           (Inr _, self4) \<Rightarrow>
             if preview_panics (ag_json A) response then (Panics, self4)
             else (Returns (TaskReceived (event\<lparr>re_response := Some response\<rparr>)), self4)
         | (Inl e, self4) \<Rightarrow> (Returns (TaskReceived (event\<lparr>re_error := Some (show_node_error e)\<rparr>)), self4))"

text \<open>
  One task, when \<open>accepted\<close> tasks of the batch have been executed, with the count after it. A rejection that
  cannot be published is ignored.
\<close>

definition serve_task ::
    "('bf, 'tr, 'rx, 'c, 'w, 'sk, 'vk, 'sig) agent_env \<Rightarrow> turn \<Rightarrow> u32 \<Rightarrow> u32 \<Rightarrow> task \<Rightarrow> ('bf, 'tr, 'rx, 'sk, 'w) node
       \<Rightarrow> agent_event exec \<times> u32 \<times> ('bf, 'tr, 'rx, 'sk, 'w) node" where
  "serve_task A tn max_in_batch accepted t self =
     (if max_in_batch \<le> accepted then
        (let (_, self1) = node_respond (ag_node A) (tn_nonces tn) (tn_clock tn) t reject_payload self
         in (Returns (TaskRejected (task_id t) (task_from t) max_in_batch), accepted, self1))
      else case task_text t of
             None \<Rightarrow> (Returns (TaskReceived (bare_event t)), accepted, self)
           | Some content \<Rightarrow> (let (r, self1) = accept_task A tn t content self in (r, accepted + 1, self1)))"

text \<open>The tasks of a poll, from the \<open>i\<close>-th on; \<open>turns i\<close> is what the \<open>i\<close>-th response draws.\<close>

fun serve_batch ::
    "('bf, 'tr, 'rx, 'c, 'w, 'sk, 'vk, 'sig) agent_env \<Rightarrow> (nat \<Rightarrow> turn) \<Rightarrow> u32 \<Rightarrow> nat \<Rightarrow> u32 \<Rightarrow> task list
       \<Rightarrow> ('bf, 'tr, 'rx, 'sk, 'w) node \<Rightarrow> agent_event list exec \<times> ('bf, 'tr, 'rx, 'sk, 'w) node" where
  "serve_batch A turns max_in_batch i accepted [] self = (Returns [], self)"
| "serve_batch A turns max_in_batch i accepted (t # ts) self =
     (case serve_task A (turns i) max_in_batch accepted t self of
        (Panics, _, self1) \<Rightarrow> (Panics, self1)
      | (Returns event, accepted1, self1) \<Rightarrow>
          (case serve_batch A turns max_in_batch (Suc i) accepted1 ts self1 of
             (Returns events, self2) \<Rightarrow> (Returns (event # events), self2)
           | (Panics, self2) \<Rightarrow> (Panics, self2)))"

section \<open>The inbox loop\<close>

definition EVICT_EVERY_TICKS :: u32 where
  "EVICT_EVERY_TICKS = 30"

definition SESSION_IDLE_MAX_SECS :: u64 where
  "SESSION_IDLE_MAX_SECS = 60 * 60"

text \<open>What one iteration draws: the clocks of the evictions and polls, the session ids, and the turns.\<close>

record tick_draws =
  td_evict_peers :: u64
  td_evict_sessions :: u64
  td_presence :: u64
  td_tasks :: u64
  td_traced :: bool
  td_session_uuid :: "string \<Rightarrow> string"
  td_turns :: "nat \<Rightarrow> turn"

definition evict_if_due ::
    "tick_draws \<Rightarrow> u32 \<Rightarrow> ('bf, 'tr, 'rx, 'sk, 'w) node \<Rightarrow> ('bf, 'tr, 'rx, 'sk, 'w) node" where
  "evict_if_due td tick self =
     (if tick mod EVICT_EVERY_TICKS = 0 then
        let (_, peers) = peers_evict_expired (td_evict_peers td) (nd_peer_map self);
            (_, self1) = evict_idle_sessions (td_evict_sessions td) SESSION_IDLE_MAX_SECS (self\<lparr>nd_peer_map := peers\<rparr>)
        in self1
      else self)"

definition agent_tick ::
    "('bf, 'tr, 'rx, 'c, 'w, 'sk, 'vk, 'sig) agent_env \<Rightarrow> tick_draws \<Rightarrow> u32 \<times> ('bf, 'tr, 'rx, 'sk, 'w) node
       \<Rightarrow> agent_event list exec \<times> u32 \<times> ('bf, 'tr, 'rx, 'sk, 'w) node" where
  "agent_tick A td state =
     (let (tick0, self) = state; tick = tick0 + 1; self1 = evict_if_due td tick self in
      case poll_presence (ag_node A) (ag_signing A) (td_traced td) (td_presence td) self1 of
        (Panics, self2) \<Rightarrow> (Panics, tick, self2)
      | (Returns _, self2) \<Rightarrow>
          (case poll_tasks (ag_node A) (td_session_uuid td) (td_tasks td) self2 of
             (Panics, self3) \<Rightarrow> (Panics, tick, self3)
           | (Returns (Inl e), self3) \<Rightarrow> (Returns [], tick, self3)
           | (Returns (Inr tasks), self3) \<Rightarrow>
               (let (r, self4) = serve_batch A (td_turns td) (nd_max_concurrent self3) 0 0 tasks self3
                in (r, tick, self4))))"

section \<open>Startup\<close>

definition PRESENCE_TTL_SECS_DEFAULT :: u64 where
  "PRESENCE_TTL_SECS_DEFAULT = 300"

definition PRESENCE_REANNOUNCE_SECS_DEFAULT :: u64 where
  "PRESENCE_REANNOUNCE_SECS_DEFAULT = 15"

text \<open>The variable \<open>LMAO_AGENT_MAX_CONCURRENT\<close>, and a variable with a number of seconds.\<close>

definition max_concurrent_of :: "string option \<Rightarrow> u32" where
  "max_concurrent_of var =
     max (case Option.bind var (parse_unsigned (2 ^ 32 - 1)) of Some n \<Rightarrow> word_of_nat n | None \<Rightarrow> 1) 1"

definition secs_of :: "u64 \<Rightarrow> string option \<Rightarrow> u64" where
  "secs_of fallback var =
     (case Option.bind var (parse_unsigned (2 ^ 64 - 1)) of Some n \<Rightarrow> word_of_nat n | None \<Rightarrow> fallback)"

text \<open>The node an agent runs: identity, trust list, capacity, and history when there is a storage directory.\<close>

definition agent_node ::
    "('bf, 'tr, 'rx, 'c, 'w) node_env \<Rightarrow> toml_codec \<Rightarrow> 'w file_system \<Rightarrow> 'sk key_codec \<Rightarrow> 'w key_files \<Rightarrow> u64 \<Rightarrow> 'sk \<Rightarrow> bytes
       \<Rightarrow> string \<Rightarrow> string \<Rightarrow> 'tr \<Rightarrow> identity_config \<Rightarrow> path \<Rightarrow> path option \<Rightarrow> string option \<Rightarrow> 'w
       \<Rightarrow> string + ('bf, 'tr, 'rx, 'sk, 'w) node" where
  "agent_node N C F K KF now_ms random_key random_secret name capabilities tr identity trust_path storage_data_dir var w =
     (case load_from C F w trust_path of
        Inl e \<Rightarrow> Inl (''loading trust file '' @ show_path trust_path)
      | Inr l \<Rightarrow>
          (case fst (build_node N K KF now_ms random_key random_secret name (name @ '' agent'') (parse_capabilities capabilities)
                   tr identity w) of
             Inl e \<Rightarrow> Inl e
           | Inr n \<Rightarrow>
               let n1 = with_max_concurrent (max_concurrent_of var) (with_trust_list l n)
               in Inr (if storage_data_dir \<noteq> None then with_history n1 else n1)))"

text \<open>The polls and announcements before the loop; their errors are only printed.\<close>

definition agent_opening ::
    "('bf, 'tr, 'rx, 'c, 'w, 'sk, 'vk, 'sig) agent_env \<Rightarrow> tick_draws \<Rightarrow> (string \<Rightarrow> bytes \<times> bytes) \<Rightarrow> string option
       \<Rightarrow> ('bf, 'tr, 'rx, 'sk, 'w) node \<Rightarrow> unit exec \<times> ('bf, 'tr, 'rx, 'sk, 'w) node" where
  "agent_opening A td draws var self =
     (case poll_tasks (ag_node A) (td_session_uuid td) (td_tasks td) self of
        (Panics, self1) \<Rightarrow> (Panics, self1)
      | (Returns _, self1) \<Rightarrow>
          (case poll_presence (ag_node A) (ag_signing A) (td_traced td) (td_presence td) self1 of
             (Panics, self2) \<Rightarrow> (Panics, self2)
           | (Returns _, self2) \<Rightarrow>
               let (_, self3) = announce (ag_node A) self2;
                   (_, self4) = announce_presence_with_ttl (ag_node A) (ag_signing A) draws
                                  (secs_of PRESENCE_TTL_SECS_DEFAULT var) self3
               in (Returns (), self4)))"

section \<open>Discovery and bundles\<close>

text \<open>\<open>agent discover\<close>: the cards a temporary node drains; a failure is only printed.\<close>

definition agent_discover ::
    "('bf, 'tr, 'rx, 'c, 'w) node_env \<Rightarrow> 'sk key_codec \<Rightarrow> 'w key_files \<Rightarrow> u64 \<Rightarrow> 'sk \<Rightarrow> bytes \<Rightarrow> 'tr \<Rightarrow> identity_config \<Rightarrow> 'w
       \<Rightarrow> string + (string + agent_card list)" where
  "agent_discover N K KF now_ms random_key random_secret tr identity w =
     (case fst (build_node N K KF now_ms random_key random_secret ''discovery-client'' ''temporary'' [] tr identity w) of
        Inl e \<Rightarrow> Inl e
      | Inr n \<Rightarrow>
          (case fst (discover N n) of
             Inl e \<Rightarrow> Inr (Inl (''Discovery failed: '' @ show_node_error e))
           | Inr cards \<Rightarrow> Inr (Inr cards)))"

text \<open>\<open>agent bundle\<close>: the bundle of a node built with encryption, unwrapped.\<close>

definition agent_bundle ::
    "('bf, 'tr, 'rx, 'c, 'w) node_env \<Rightarrow> 'sk key_codec \<Rightarrow> 'w key_files \<Rightarrow> u64 \<Rightarrow> 'sk \<Rightarrow> bytes \<Rightarrow> 'tr \<Rightarrow> identity_config \<Rightarrow> 'w
       \<Rightarrow> (string + intro_bundle) exec" where
  "agent_bundle N K KF now_ms random_key random_secret tr identity w =
     (case fst (build_node N K KF now_ms random_key random_secret ''bundle-gen'' ''temporary'' [] tr
              (identity\<lparr>ic_encrypt := True\<rparr>) w) of
        Inl e \<Rightarrow> Returns (Inl e)
      | Inr n \<Rightarrow>
          (case card_intro_bundle (nd_card n) of
             Some bundle \<Rightarrow> Returns (Inr bundle)
           | None \<Rightarrow> Panics))"

lemma agent_bundle_never_panics: "agent_bundle N K KF now_ms k x tr identity w \<noteq> Panics"
  by (auto simp: agent_bundle_def build_node_def node_new_encrypted_def node_with_channel_def card_of_def with_identity_def Let_def
      split: sum.splits option.splits prod.splits)

section \<open>A batch respects the capacity\<close>

text \<open>What a batch does with the task after \<open>k\<close> executed ones, when \<open>m\<close> may run.\<close>

definition served_as :: "u32 \<Rightarrow> nat \<Rightarrow> task \<Rightarrow> agent_event \<Rightarrow> bool" where
  "served_as m k t ev =
     (if unat m \<le> k then ev = TaskRejected (task_id t) (task_from t) m
      else case task_text t of
             None \<Rightarrow> ev = TaskReceived (bare_event t)
           | Some content \<Rightarrow>
               (case ev of
                  TaskReceived e \<Rightarrow> re_task_id e = task_id t \<and> re_from e = task_from t \<and> re_message e = Some content
                | TaskRejected _ _ _ \<Rightarrow> False))"

definition texts_in :: "task list \<Rightarrow> nat" where
  "texts_in ts = length (filter (\<lambda>t. task_text t \<noteq> None) ts)"

lemma load_inc_dec:
  assumes "load_inc self = (a, self1)" and "nd_in_flight self2 = nd_in_flight self1"
    and "load_dec self2 = (b, self3)" and "nd_in_flight self \<noteq> - 1"
  shows "nd_in_flight self3 = nd_in_flight self"
proof -
  have "nd_in_flight self + 1 \<noteq> 0" using assms(4) by (metis add_eq_0_iff2 minus_equation_iff)
  then show ?thesis using assms by (auto simp: load_inc_def load_dec_def split: if_splits)
qed

lemma execute_task_frame:
  assumes "execute_task A t content self = ((response, failed, e), self')"
  shows "kept self' = kept self" and "re_task_id e = task_id t" and "re_from e = task_from t" and "re_message e = Some content"
  using assms by (auto simp: execute_task_def Let_def bare_event_def split: prod.splits sum.splits)

lemma kept_load [simp]:
  "nd_trust_list (snd (load_inc self)) = nd_trust_list self" "nd_trust_list (snd (load_dec self)) = nd_trust_list self"
  "nd_max_concurrent (snd (load_inc self)) = nd_max_concurrent self" "nd_max_concurrent (snd (load_dec self)) = nd_max_concurrent self"
  "nd_card (snd (load_inc self)) = nd_card self" "nd_card (snd (load_dec self)) = nd_card self"
  by (simp_all add: load_inc_def load_dec_def)

lemma accept_task_kept:
  assumes "accept_task A tn t content self = (r, self')" and "nd_in_flight self \<noteq> - 1"
  shows "kept self' = kept self"
proof -
  obtain a s1 where inc: "load_inc self = (a, s1)" by fastforce
  obtain response failed e s2 where ex: "execute_task A t content s1 = ((response, failed, e), s2)" by (metis prod.exhaust)
  obtain b s3 where dec: "load_dec s2 = (b, s3)" by fastforce
  have k12: "kept s2 = kept s1" by (rule execute_task_frame(1) [OF ex])
  have "nd_in_flight s3 = nd_in_flight self"
    by (rule load_inc_dec [OF inc _ dec assms(2)]) (use k12 in \<open>simp add: kept_def\<close>)
  moreover have "nd_trust_list s3 = nd_trust_list self" "nd_max_concurrent s3 = nd_max_concurrent self" "nd_card s3 = nd_card self"
    using kept_load [of self] kept_load [of s2] keptD [OF k12] inc dec by simp_all
  ultimately have "kept s3 = kept self" by (simp add: kept_def)
  moreover have "kept self' = kept s3"
    using assms(1) inc ex dec
    by (auto simp: accept_task_def Let_def node_respond_failed_def node_respond_def node_respond_to_def
        split: prod.splits sum.splits if_splits dest!: respond_kept)
  ultimately show ?thesis by simp
qed

lemma accept_task_event:
  assumes "accept_task A tn t content self = (Returns ev, self')"
  shows "\<exists>e. ev = TaskReceived e \<and> re_task_id e = task_id t \<and> re_from e = task_from t \<and> re_message e = Some content"
proof -
  obtain a s1 where inc: "load_inc self = (a, s1)" by fastforce
  obtain response failed e s2 where ex: "execute_task A t content s1 = ((response, failed, e), s2)" by (metis prod.exhaust)
  show ?thesis
    using assms inc ex execute_task_frame(2-4) [OF ex]
    by (auto simp: accept_task_def Let_def split: prod.splits sum.splits if_splits)
qed

lemma serve_task_kept:
  assumes "serve_task A tn m acc t self = (r, acc1, self1)" and "nd_in_flight self \<noteq> - 1"
  shows "kept self1 = kept self"
  using assms accept_task_kept [of A tn t _ self]
  by (auto simp: serve_task_def node_respond_def node_respond_to_def split: if_splits option.splits prod.splits dest: respond_kept)

lemma serve_task_spec:
  assumes "serve_task A tn m acc t self = (Returns ev, acc1, self1)"
  shows "served_as m (unat acc) t ev"
    and "unat acc1 = (if unat m \<le> unat acc \<or> task_text t = None then unat acc else Suc (unat acc))"
proof -
  have no_wrap: "unat (acc + 1) = Suc (unat acc)" if "\<not> m \<le> acc"
  proof -
    have "unat m < 2 ^ 32" using unsigned_less [of m] by simp
    moreover have "unat acc < unat m" using that by (simp add: word_le_nat_alt)
    ultimately have "Suc (unat acc) < 2 ^ 32" by linarith
    then show ?thesis by (simp add: unat_word_ariths)
  qed
  have "served_as m (unat acc) t ev
    \<and> unat acc1 = (if unat m \<le> unat acc \<or> task_text t = None then unat acc else Suc (unat acc))"
  proof (cases "m \<le> acc")
    case True
    then show ?thesis using assms by (auto simp: serve_task_def served_as_def word_le_nat_alt split: prod.splits)
  next
    case False
    then show ?thesis
      using assms no_wrap accept_task_event [of A tn t]
      by (fastforce simp: serve_task_def served_as_def word_le_nat_alt split: prod.splits option.splits)
  qed
  then show "served_as m (unat acc) t ev"
    and "unat acc1 = (if unat m \<le> unat acc \<or> task_text t = None then unat acc else Suc (unat acc))" by blast+
qed

lemma serve_batch_spec:
  assumes "serve_batch A turns m i acc ts self = (Returns evs, self')" and "nd_in_flight self \<noteq> - 1" and "unat acc \<le> unat m"
  shows "kept self' = kept self" and "length evs = length ts"
    and "j < length ts \<Longrightarrow> served_as m (min (unat m) (unat acc + texts_in (take j ts))) (ts ! j) (evs ! j)"
proof -
  have "kept self' = kept self \<and> length evs = length ts
    \<and> (\<forall>j < length ts. served_as m (min (unat m) (unat acc + texts_in (take j ts))) (ts ! j) (evs ! j))"
    using assms
  proof (induction ts arbitrary: i acc self evs)
    case (Cons t ts)
    obtain ev evs' s1 acc1 where st: "serve_task A (turns i) m acc t self = (Returns ev, acc1, s1)" and evs: "evs = ev # evs'"
      and rest: "serve_batch A turns m (Suc i) acc1 ts s1 = (Returns evs', self')"
      using Cons.prems(1) by (auto split: prod.splits exec.splits)
    note spec = serve_task_spec [OF st] and keep = serve_task_kept [OF st Cons.prems(2)]
    have "nd_in_flight s1 \<noteq> - 1" "unat acc1 \<le> unat m" using keep Cons.prems(2,3) spec(2) by (auto simp: kept_def)
    from Cons.IH [OF rest this] have IH: "kept self' = kept s1" "length evs' = length ts"
      "\<forall>j < length ts. served_as m (min (unat m) (unat acc1 + texts_in (take j ts))) (ts ! j) (evs' ! j)" by blast+
    have same: "min (unat m) (unat acc1 + texts_in us) = min (unat m) (unat acc + texts_in (t # us))" for us
      using spec(2) Cons.prems(3) by (auto simp: texts_in_def)
    have "served_as m (min (unat m) (unat acc + texts_in (take j (t # ts)))) ((t # ts) ! j) (evs ! j)" if "j < Suc (length ts)" for j
    proof (cases j)
      case 0
      then show ?thesis using spec(1) evs Cons.prems(3) by (simp add: texts_in_def min_absorb2)
    next
      case (Suc j')
      then show ?thesis using IH(3) that evs by (simp add: same)
    qed
    then show ?case using IH(1,2) keep evs by simp
  qed auto
  then show "kept self' = kept self" and "length evs = length ts"
    and "j < length ts \<Longrightarrow> served_as m (min (unat m) (unat acc + texts_in (take j ts))) (ts ! j) (evs ! j)" by blast+
qed

text \<open>
  C21. A batch of tasks respects the capacity. Every task of a poll is accounted for, in order: the ones
  with a text are executed until as many have run as may run at once, then every further one is rejected,
  and a task without a text only counts as received. The load counter is back where it was, and neither the
  trust list nor the capacity changes.
\<close>

theorem agent_batch_respects_capacity:
  assumes "serve_batch A turns m 0 0 ts self = (Returns evs, self')" and "nd_in_flight self \<noteq> - 1"
  shows "length evs = length ts
    \<and> (\<forall>j < length ts. served_as m (min (unat m) (texts_in (take j ts))) (ts ! j) (evs ! j))
    \<and> nd_in_flight self' = nd_in_flight self \<and> nd_max_concurrent self' = nd_max_concurrent self
    \<and> nd_trust_list self' = nd_trust_list self"
  using serve_batch_spec [OF assms] by (simp add: kept_def)

definition example_shell :: "string \<Rightarrow> unit shell" where
  "example_shell out = (\<lambda>_ _ _ w. (Exited True ''exit status: 0'' (as_bytes out) (as_bytes ''log''), w))"

definition example_agent :: "bool \<Rightarrow> string \<Rightarrow> (string list, bytes list, unit, bytes, unit, unit, unit, bytes) agent_env" where
  "example_agent json out = \<lparr>ag_node = answering_nenv,
     ag_signing = example_signing,
     ag_shell = example_shell out, ag_debug = (\<lambda>s. s), ag_storage = Some (\<lambda>_ w. (Inr ''zCid'', w)), ag_exec = ''cat'', ag_json = json\<rparr>"

text \<open>Without the preview of the text mode no task panics.\<close>

lemma accept_task_total:
  assumes "ag_json A"
  shows "\<exists>ev. fst (accept_task A tn t content self) = Returns ev"
  using assms by (auto simp: accept_task_def Let_def preview_panics_def case_prod_beta split: sum.split)

lemma serve_task_total:
  assumes "ag_json A"
  shows "\<exists>ev. fst (serve_task A tn m acc t self) = Returns ev"
  using accept_task_total [OF assms] by (auto simp: serve_task_def case_prod_beta split: option.split)

lemma serve_batch_total:
  assumes "ag_json A"
  shows "\<exists>evs. fst (serve_batch A turns m i acc ts self) = Returns evs"
proof (induction ts arbitrary: i acc self)
  case (Cons t ts)
  obtain ev acc1 s1 where st: "serve_task A (turns i) m acc t self = (Returns ev, acc1, s1)"
    using serve_task_total [OF assms] by (metis prod.collapse)
  obtain evs s2 where "serve_batch A turns m (Suc i) acc1 ts s1 = (Returns evs, s2)" using Cons.IH by (metis prod.collapse)
  then show ?case using st by simp
qed simp

definition example_turn :: turn where
  "example_turn = \<lparr>tn_nonces = ([], []), tn_clock = (9, 9000, 1)\<rparr>"

theorem agent_batch_respects_capacity_witness:
  "let ts = [task_new ''1'' ''02ab'' ''me'' ''hi'', task_new ''2'' ''02cd'' ''me'' ''hi''];
       out = serve_batch (example_agent True ''ok'') (\<lambda>_. example_turn) 1 0 0 ts (example_node [])
   in \<exists>evs. fst out = Returns evs \<and> evs ! 1 = TaskRejected ''2'' ''02cd'' 1 \<and> nd_in_flight (snd out) = 0"
proof -
  define ts where "ts = [task_new ''1'' ''02ab'' ''me'' ''hi'', task_new ''2'' ''02cd'' ''me'' ''hi'']"
  obtain evs self' where run: "serve_batch (example_agent True ''ok'') (\<lambda>_. example_turn) 1 0 0 ts (example_node []) = (Returns evs, self')"
    using serve_batch_total [of "example_agent True ''ok''" "\<lambda>_. example_turn" 1 0 0 ts "example_node []"]
    by (metis (no_types, lifting) agent_env.select_convs(7) example_agent_def prod.collapse)
  have idle: "nd_in_flight (example_node []) = 0" by (simp add: example_node_def node_from_key_def node_with_channel_def)
  have texts: "length ts = 2" "texts_in (take 1 ts) = 1"
    by (simp_all add: ts_def texts_in_def task_text_def task_new_def)
  have "served_as 1 1 (ts ! 1) (evs ! 1) \<and> nd_in_flight self' = 0"
    using agent_batch_respects_capacity [OF run, THEN conjunct2, THEN conjunct1, rule_format, of 1]
      agent_batch_respects_capacity [OF run] idle texts by simp
  then show ?thesis
    unfolding Let_def using run by (simp add: ts_def served_as_def task_new_def)
qed

section \<open>The pointer to the execution log\<close>

lemma after_first_append:
  assumes "after_first pat s = None" and "c \<notin> set pat" and "pat \<noteq> []"
  shows "after_first pat (s @ c # u) = after_first pat u"
  using assms(1)
proof (induction s)
  case Nil
  have "take (length pat) (c # u) \<noteq> pat" using assms(2,3) by (cases pat) auto
  then show ?case by simp
next
  case (Cons a s)
  have "take (length pat) ((a # s) @ c # u) \<noteq> pat"
  proof (cases "length pat \<le> length (a # s)")
    case True
    then have "take (length pat) ((a # s) @ c # u) = take (length pat) (a # s)" by (simp only: take_append) simp
    then show ?thesis using Cons.prems by (auto split: if_splits)
  next
    case False
    then have "c \<in> set (take (length pat) ((a # s) @ c # u))" using assms(3) by (simp add: take_Cons')
    then show ?thesis using assms(2) by metis
  qed
  then show ?case using Cons by (simp split: if_splits)
qed

text \<open>
  The pointer to the execution log survives the exchange: the CID that the agent appends to its
  answer is the one that the history of the agent and the history of the delegating node extract from the
  response, unless the answer itself has a \<open>codex://\<close> link. Without an upload there is nothing to extract.
\<close>

lemma log_pointer_roundtrip:
  assumes "after_first ''codex://'' answer = None" and "\<forall>c \<in> set cid. is_ascii_alphanumeric c"
  shows "extract_codex_cid (format_response answer (Some cid)) = cid \<and> extract_codex_cid (format_response answer None) = []"
proof
  have "after_first ''codex://'' (answer @ newline # newline # ''---'' @ [newline] @ ''execution log: codex://'' @ cid)
    = after_first ''codex://'' (newline # ''---'' @ [newline] @ ''execution log: codex://'' @ cid)"
    by (rule after_first_append [OF assms(1)]) simp_all
  also have "\<dots> = Some cid" by simp
  finally show "extract_codex_cid (format_response answer (Some cid)) = cid"
    using assms(2) by (simp add: extract_codex_cid_def format_response_def)
  show "extract_codex_cid (format_response answer None) = []"
    using assms(1) by (simp add: extract_codex_cid_def format_response_def)
qed

text \<open>An answer with a link of its own hides the pointer to the log.\<close>

lemma answer_link_hides_log:
  "extract_codex_cid (format_response ''see codex://other for details'' (Some ''zDvZ'')) = ''other''"
  by (simp add: extract_codex_cid_def format_response_def is_ascii_alphanumeric_def)

text \<open>A rejected task is answered as a completed one: the delegating node takes the notice for a result.\<close>

lemma rejection_reads_as_success:
  "let res = result_of request k peer (Some (task_respond t reject_payload))
   in res_success res \<and> res_result_text res = Some reject_payload \<and> res_error res = None"
  by (simp add: result_of_def task_respond_def)

section \<open>The preview of the text mode\<close>

text \<open>
  In the text mode an answer can end the agent. The preview slices the response at byte 200: when
  that byte is inside a character and the response has been published, the loop panics, whatever the task
  was; the JSON mode has no preview and never panics there.
\<close>

lemma text_preview_ends_agent:
  assumes "run_exec (ag_debug A) (ag_shell A) (ag_exec A) content (task_session_id t) (task_from t) (nd_world self) = (Inr out, w)"
    and "upload_log (ag_storage A) (xo_log out) w = (cid, w1)" and "200 < length (format_response (xo_response out) cid)"
    and "is_continuation (format_response (xo_response out) cid ! 200)" and "\<not> ag_json A"
    and "accept_task A tn t content self = (r, self')"
  shows "r = Panics \<or> (\<exists>e. r = Returns (TaskReceived e) \<and> re_response e = None \<and> re_error e \<noteq> None)"
proof -
  let ?response = "format_response (xo_response out) cid"
  have pan: "preview_panics False ?response"
    using assms(3,4) by (simp add: preview_panics_def str_prefix_def is_char_boundary_def)
  have world: "nd_world (snd (load_inc self)) = nd_world self" by (simp add: load_inc_def)
  have ex: "fst (fst (execute_task A t content (snd (load_inc self)))) = ?response"
    "\<not> fst (snd (fst (execute_task A t content (snd (load_inc self)))))"
    "re_response (snd (snd (fst (execute_task A t content (snd (load_inc self)))))) = None"
    using assms(1,2) world by (simp_all add: execute_task_def Let_def bare_event_def)
  show ?thesis
    using assms(5,6) ex pan by (auto simp: accept_task_def Let_def case_prod_beta split: sum.splits prod.splits)
qed

text \<open>199 letters and a dash, whose three bytes lie across byte 200.\<close>

definition long_answer :: string where
  "long_answer = replicate 199 (CHR ''x'') @ [CHR 0xE2, CHR 0x80, CHR 0x94]"

lemma lossy_letters: "lossy_bytes (replicate k 120 @ bs) = replicate k 120 @ lossy_bytes bs"
  by (induction k) (simp_all add: utf8_step_def byte_at_def)

lemma chars_letters: "chars (replicate k (CHR ''x'') @ [CHR 0xE2, CHR 0x80, CHR 0x94]) = replicate k ''x'' @ [[CHR 0xE2, CHR 0x80, CHR 0x94]]"
proof (induction k)
  case (Suc k)
  then show ?case by (cases k) (simp_all add: is_continuation_def)
qed (simp add: is_continuation_def)

lemma long_answer_read: "str_trim (from_utf8_lossy (as_bytes long_answer)) = long_answer"
proof -
  have "as_bytes long_answer = replicate 199 120 @ [0xE2, 0x80, 0x94]"
    by (simp add: as_bytes_def long_answer_def map_replicate_const)
  moreover have "lossy_bytes [0xE2, 0x80, 0x94] = [0xE2, 0x80, 0x94]"
    by (simp add: utf8_step_def byte_at_def second_of_three_def continues_def)
  ultimately have "lossy_bytes (as_bytes long_answer) = as_bytes long_answer" by (simp only: lossy_letters)
  then have "from_utf8_lossy (as_bytes long_answer) = long_answer" by (simp add: from_utf8_lossy_def)
  moreover have "dropWhile is_whitespace (replicate 199 ''x'' @ xs) = replicate 199 ''x'' @ xs" for xs
  proof -
    have "replicate 199 ''x'' = ''x'' # replicate 198 ''x''" by (metis Suc_numeral replicate_Suc semiring_norm(5))
    then show ?thesis by (simp add: is_whitespace_def)
  qed
  moreover have "\<not> is_whitespace [CHR 0xE2, CHR 0x80, CHR 0x94]"
  proof -
    have "char_of (0x80 + k) \<noteq> CHR 0x94" if "k \<le> 10" for k :: nat
    proof
      assume "char_of (0x80 + k) = CHR 0x94"
      then have "of_char (char_of (0x80 + k) :: char) = (148 :: nat)" by simp
      then show False using that by (simp add: of_char_of)
    qed
    then show ?thesis by (force simp: is_whitespace_def)
  qed
  ultimately show ?thesis by (simp add: str_trim_def chars_letters long_answer_def)
qed

lemma text_preview_ends_agent_witness:
  "let r = fst (accept_task (example_agent False long_answer) example_turn (task_new ''1'' ''02ab'' ''me'' ''hi'') ''hi'' (example_node []))
   in r = Panics \<or> (\<exists>e. r = Returns (TaskReceived e) \<and> re_response e = None \<and> re_error e \<noteq> None)"
proof -
  define A where "A = example_agent False long_answer"
  define t where "t = task_new ''1'' ''02ab'' ''me'' ''hi''"
  define out where "out = \<lparr>xo_response = long_answer, xo_log = str_trim (from_utf8_lossy (as_bytes ''log''))\<rparr>"
  have ne: "long_answer \<noteq> []" by (simp add: long_answer_def)
  have log: "from_utf8_lossy (as_bytes ''log'') = ''log''" "str_trim ''log'' = ''log''"
  proof -
    have "lossy_bytes (as_bytes ''log'') = as_bytes ''log''" by (simp add: as_bytes_def utf8_step_def byte_at_def)
    then show "from_utf8_lossy (as_bytes ''log'') = ''log''" by (simp add: from_utf8_lossy_def)
  qed (simp add: str_trim_def is_continuation_def is_whitespace_def)
  have run: "run_exec (ag_debug A) (ag_shell A) (ag_exec A) ''hi'' (task_session_id t) (task_from t) (nd_world (example_node [])) = (Inr out, ())"
    by (simp add: run_exec_def A_def example_agent_def example_shell_def long_answer_read ne Let_def out_def log)
  have up: "upload_log (ag_storage A) (xo_log out) () = (Some ''zCid'', ())"
    by (simp add: upload_log_def A_def example_agent_def out_def log)
  have resp: "format_response (xo_response out) (Some ''zCid'') = long_answer @ [newline, newline] @ ''---'' @ [newline] @ ''execution log: codex://zCid''"
    by (simp add: format_response_def out_def)
  have "200 < length (format_response (xo_response out) (Some ''zCid''))" by (simp add: resp long_answer_def)
  moreover have "is_continuation (format_response (xo_response out) (Some ''zCid'') ! 200)"
    unfolding resp by (simp add: long_answer_def nth_append is_continuation_def)
  moreover have "\<not> ag_json A" by (simp add: A_def example_agent_def)
  ultimately show ?thesis
    using text_preview_ends_agent [OF run up _ _ _ prod.collapse [symmetric]]
    unfolding Let_def A_def t_def by blast
qed

section \<open>The loop\<close>

inductive agent_step ::
    "('bf, 'tr, 'rx, 'c, 'w, 'sk, 'vk, 'sig) agent_env \<Rightarrow> u32 \<times> ('bf, 'tr, 'rx, 'sk, 'w) node
       \<Rightarrow> u32 \<times> ('bf, 'tr, 'rx, 'sk, 'w) node \<Rightarrow> bool" for A where
  "agent_tick A td s = (Returns evs, s') \<Longrightarrow> agent_step A s s'"

inductive_cases agent_stepE: "agent_step A s s'"

lemma evict_kept [simp]: "kept (evict_if_due td tick self) = kept self"
  by (simp add: evict_if_due_def evict_idle_sessions_def Let_def case_prod_beta)

lemma agent_tick_kept:
  assumes "agent_tick A td (tick, self) = (Returns evs, tick', self')" and "nd_in_flight self \<noteq> - 1"
  shows "kept self' = kept self"
proof -
  let ?s1 = "evict_if_due td (tick + 1) self"
  obtain r2 s2 where pres: "poll_presence (ag_node A) (ag_signing A) (td_traced td) (td_presence td) ?s1 = (Returns r2, s2)"
    using assms(1) by (auto simp: agent_tick_def Let_def split: prod.splits exec.splits)
  obtain r3 s3 where tasks: "poll_tasks (ag_node A) (td_session_uuid td) (td_tasks td) s2 = (Returns r3, s3)"
    using assms(1) pres by (auto simp: agent_tick_def Let_def split: prod.splits exec.splits)
  have k3: "kept s3 = kept self" using poll_presence_kept [OF pres] poll_tasks_kept [OF tasks] by simp
  show ?thesis
  proof (cases r3)
    case (Inl e)
    then show ?thesis using assms(1) pres tasks k3 by (simp add: agent_tick_def Let_def)
  next
    case (Inr ts)
    then have "serve_batch A (td_turns td) (nd_max_concurrent s3) 0 0 ts s3 = (Returns evs, self')"
      using assms(1) pres tasks by (auto simp: agent_tick_def Let_def split: prod.splits)
    then have "kept self' = kept s3"
      by (rule serve_batch_spec(1)) (use k3 assms(2) in \<open>simp_all add: kept_def\<close>)
    then show ?thesis using k3 by simp
  qed
qed

interpretation agent_idle: step_system "\<lambda>s. kept (snd s) = k \<and> fst (snd k) = 0" "agent_step A" "\<lambda>s. kept (snd s) = k \<and> fst (snd k) = 0"
  for A :: "('bf, 'tr, 'rx, 'c, 'w, 'sk, 'vk, 'sig) agent_env" and k
proof unfold_locales
  fix s t :: "u32 \<times> ('bf, 'tr, 'rx, 'sk, 'w) node"
  assume inv: "kept (snd s) = k \<and> fst (snd k) = 0" and "agent_step A s t"
  then obtain td evs where "agent_tick A td (fst s, snd s) = (Returns evs, fst t, snd t)" by (auto elim: agent_stepE)
  from agent_tick_kept [OF this] inv show "kept (snd t) = k \<and> fst (snd k) = 0" by (auto simp: kept_def)
qed


definition example_ticks :: tick_draws where
  "example_ticks = \<lparr>td_evict_peers = 9, td_evict_sessions = 9, td_presence = 9, td_tasks = 9, td_traced = False,
     td_session_uuid = (\<lambda>s. s), td_turns = (\<lambda>_. example_turn)\<rparr>"

lemma example_tick:
  assumes "ag_json A" and "ag_node A = answering_nenv"
  shows "\<exists>evs self'. agent_tick A example_ticks (0, example_node []) = (Returns evs, 1, self')"
proof -
  have "fst (poll_presence answering_nenv (ag_signing A) False 9 (example_node [])) = Returns (Inr 0)"
    by (simp add: poll_presence_def answering_nenv_def example_nenv_def example_node_def poll_defs)
  then obtain s2 where pres: "poll_presence answering_nenv (ag_signing A) False 9 (example_node []) = (Returns (Inr 0), s2)"
    by (metis prod.collapse)
  have "fst (poll_tasks answering_nenv (\<lambda>s. s) 9 s2) = Returns (Inr [])"
    using pres by (auto simp: poll_presence_def answering_nenv_def example_nenv_def example_node_def poll_defs)
  then obtain s3 where tasks: "poll_tasks answering_nenv (\<lambda>s. s) 9 s2 = (Returns (Inr []), s3)" by (metis prod.collapse)
  show ?thesis using assms(2) pres tasks by (simp add: agent_tick_def evict_if_due_def EVICT_EVERY_TICKS_def example_ticks_def)
qed


section \<open>Evictions\<close>

lemma multiple_ahead_nat:
  assumes "n < M"
  shows "\<exists>k < 30. (n + k) mod M mod 30 = (0 :: nat)"
proof -
  define d where "d = (30 - n mod 30) mod 30"
  have "(n + d) mod 30 = (n + (30 - n mod 30)) mod 30" by (simp add: d_def mod_add_right_eq)
  also have "n + (30 - n mod 30) = 30 * (n div 30) + 30"
    using div_mult_mod_eq [of n 30] mod_less_divisor [of 30 n] by linarith
  finally have d: "d < 30" "(n + d) mod 30 = 0" by (simp_all add: d_def)
  show ?thesis
  proof (cases "n + d < M")
    case True
    then show ?thesis using d by (intro exI [of _ d]) simp
  next
    case False
    then show ?thesis using d(1) assms by (intro exI [of _ "M - n"]) simp
  qed
qed

lemma multiple_ahead: "\<exists>k < 30. (tick + 1 + word_of_nat k) mod (30 :: u32) = 0"
proof -
  have "unat (tick + 1) < 2 ^ 32" using unsigned_less [of "tick + 1"] by simp
  from multiple_ahead_nat [OF this] obtain k where k: "k < 30" "(unat (tick + 1) + k) mod 2 ^ 32 mod 30 = 0"
    by (elim exE conjE)
  have "unat (word_of_nat k :: u32) = k" using k(1) by (simp add: unat_of_nat)
  then have "unat (tick + 1 + word_of_nat k) = (unat (tick + 1) + k) mod 2 ^ 32"
    using unat_word_ariths(1) [of "tick + 1" "word_of_nat k"] by simp
  then have "unat ((tick + 1 + word_of_nat k) mod (30 :: u32)) = 0" using k(2) by (simp only: unat_mod) simp
  then have "(tick + 1 + word_of_nat k) mod 30 = 0" by (simp only: unat_eq_0)
  with k(1) show ?thesis by (intro exI conjI)
qed

lemma evict_due:
  assumes "tick mod 30 = (0 :: u32)"
  shows "nd_peer_map (evict_if_due td tick self) = filter (\<lambda>(_, info). \<not> is_expired_at info (td_evict_peers td)) (nd_peer_map self)"
    and "nd_sessions (evict_if_due td tick self) = filter (\<lambda>(_, s). sat_sub (td_evict_sessions td) (sess_last_seen s) \<le> 3600) (nd_sessions self)"
  using assms by (simp_all add: evict_if_due_def EVICT_EVERY_TICKS_def SESSION_IDLE_MAX_SECS_def
      peers_evict_expired_def evict_idle_sessions_def hm_retain_def Let_def)

text \<open>
  The loop evicts at least every 30 iterations, even when its counter wraps: among any 30 consecutive
  values of the counter one is an eviction. It leaves no expired peer and no session idle for more than an
  hour, and it drops nothing else.
\<close>

lemma agent_evicts_in_time:
  "\<exists>k < 30. \<forall>td (self :: ('bf, 'tr, 'rx, 'sk, 'w) node). let self' = evict_if_due td (tick + 1 + word_of_nat k) self in
     (\<forall>p info. (p, info) \<in> set (nd_peer_map self') \<longleftrightarrow>
        (p, info) \<in> set (nd_peer_map self) \<and> \<not> is_expired_at info (td_evict_peers td))
     \<and> (\<forall>sid s. (sid, s) \<in> set (nd_sessions self') \<longleftrightarrow>
        (sid, s) \<in> set (nd_sessions self) \<and> sat_sub (td_evict_sessions td) (sess_last_seen s) \<le> 3600)"
proof -
  from multiple_ahead [of tick] obtain k where k: "k < 30" "(tick + 1 + word_of_nat k) mod (30 :: u32) = 0"
    by (elim exE conjE)
  show ?thesis by (intro exI [of _ k] conjI k(1)) (simp add: evict_due [OF k(2)] Let_def)
qed

end
