(* ===== verification/Ipc_Frame.thy ===== *)
theory Ipc_Frame
  imports Prelude
begin

text \<open>
  The framing of the daemon's socket (\<open>crates/logos-messaging-a2a-cli/src/daemon/frame.rs\<close>): a length
  prefix of four bytes, little-endian, and a JSON body. An end of a connection is what it can still
  read before the end of the stream, what it has written, and after how many more bytes the writes
  fail, if they do. An error is the text \<open>anyhow\<close> shows, the outermost context.
\<close>

section \<open>Operations\<close>

record conn =
  cn_in :: bytes
  cn_out :: bytes
  cn_broken :: "(nat \<times> string) option"

text \<open>\<open>AsyncReadExt::read_exact\<close> and \<open>AsyncWriteExt::write_all\<close>\<close>

definition read_exact :: "nat \<Rightarrow> conn \<Rightarrow> bytes option \<times> conn" where
  "read_exact n c =
     (if n \<le> length (cn_in c) then (Some (take n (cn_in c)), c\<lparr>cn_in := drop n (cn_in c)\<rparr>)
      else (None, c\<lparr>cn_in := []\<rparr>))"

definition write_all :: "bytes \<Rightarrow> conn \<Rightarrow> (string + unit) \<times> conn" where
  "write_all bs c =
     (case cn_broken c of
        None \<Rightarrow> (Inr (), c\<lparr>cn_out := cn_out c @ bs\<rparr>)
      | Some (n, e) \<Rightarrow>
          if length bs \<le> n then (Inr (), c\<lparr>cn_out := cn_out c @ bs, cn_broken := Some (n - length bs, e)\<rparr>)
          else (Inl e, c\<lparr>cn_out := cn_out c @ take n bs, cn_broken := Some (0, e)\<rparr>))"

definition MAX_FRAME_BYTES :: nat where
  "MAX_FRAME_BYTES = 16 * 1024 * 1024"

definition read_frame :: "(bytes \<Rightarrow> 'a option) \<Rightarrow> conn \<Rightarrow> (string + 'a) \<times> conn" where
  "read_frame from_slice stream =
     (case read_exact 4 stream of
        (None, s1) \<Rightarrow> (Inl ''reading frame length'', s1)
      | (Some len_buf, s1) \<Rightarrow>
          let len = unat (u32_from_le len_buf) in
          if MAX_FRAME_BYTES < len then (Inl (''frame too large: '' @ show_nat len @ '' bytes''), s1)
          else case read_exact len s1 of
                 (None, s2) \<Rightarrow> (Inl ''reading frame body'', s2)
               | (Some body, s2) \<Rightarrow>
                   (case from_slice body of
                      None \<Rightarrow> (Inl ''parsing frame body'', s2)
                    | Some v \<Rightarrow> (Inr v, s2)))"

text \<open>\<open>as u32\<close> keeps the low 32 bits of the length; flushing a socket does nothing.\<close>

definition write_frame :: "('a \<Rightarrow> string + bytes) \<Rightarrow> 'a \<Rightarrow> conn \<Rightarrow> (string + unit) \<times> conn" where
  "write_frame to_vec value stream =
     (case to_vec value of
        Inl e \<Rightarrow> (Inl e, stream)
      | Inr body \<Rightarrow>
          let len = (word_of_nat (length body) :: u32)
          in case write_all (u32_to_le len) stream of
               (Inl e, s1) \<Rightarrow> (Inl e, s1)
             | (Inr _, s1) \<Rightarrow> write_all body s1)"

section \<open>The wire\<close>

lemma write_frame_bytes:
  assumes "to_vec v = Inr body" and "cn_broken c = None"
  shows "write_frame to_vec v c =
    (Inr (), c\<lparr>cn_out := cn_out c @ u32_to_le (word_of_nat (length body)) @ body\<rparr>)"
  using assms by (simp add: write_frame_def write_all_def)

lemma read_exact_append: "length bs = n \<Longrightarrow> cn_in c = bs @ rest \<Longrightarrow> read_exact n c = (Some bs, c\<lparr>cn_in := rest\<rparr>)"
  by (simp add: read_exact_def)

lemma read_frame_prefixed:
  assumes "cn_in c = u32_to_le w @ rest"
  shows "read_frame from_slice c =
    (if MAX_FRAME_BYTES < unat w then (Inl (''frame too large: '' @ show_nat (unat w) @ '' bytes''), c\<lparr>cn_in := rest\<rparr>)
     else if length rest < unat w then (Inl ''reading frame body'', c\<lparr>cn_in := []\<rparr>)
     else (case from_slice (take (unat w) rest) of None \<Rightarrow> Inl ''parsing frame body'' | Some v \<Rightarrow> Inr v,
           c\<lparr>cn_in := drop (unat w) rest\<rparr>))"
  using read_exact_append [OF _ assms] by (simp add: read_frame_def read_exact_def split: option.split)

text \<open>
  A frame arrives whole or not at all. Whatever follows on the wire, a value whose encoding has at
  most \<open>MAX_FRAME_BYTES\<close> bytes is read back as itself by the receiver, which then stands right behind
  the frame; and when the connection breaks anywhere inside the frame, the receiver gets an error and
  never a value. An encoding above the limit and below 4 GiB is refused by the receiver.
\<close>

lemma frame_transfer:
  assumes "to_vec v = Inr body" and "from_slice body = Some v" and "cn_broken s = None"
    and "write_frame to_vec v s = (Inr (), s')" and "cn_out s' = cn_out s @ wire"
  shows "(length body \<le> MAX_FRAME_BYTES \<longrightarrow>
           read_frame from_slice (c\<lparr>cn_in := wire @ rest\<rparr>) = (Inr v, c\<lparr>cn_in := rest\<rparr>)
           \<and> (\<forall>k < length wire. \<exists>e c'. read_frame from_slice (c\<lparr>cn_in := take k wire\<rparr>) = (Inl e, c')))
    \<and> (MAX_FRAME_BYTES < length body \<and> length body < 2 ^ 32 \<longrightarrow>
         (\<exists>e c'. read_frame from_slice (c\<lparr>cn_in := wire @ rest\<rparr>) = (Inl e, c')))"
proof -
  let ?w = "word_of_nat (length body) :: u32"
  have wire: "wire = u32_to_le ?w @ body"
    using write_frame_bytes [of to_vec v, OF assms(1,3)] assms(4,5) by auto
  have w: "length body < 2 ^ 32 \<Longrightarrow> unat ?w = length body"
    by (simp add: unat_of_nat take_bit_nat_eq_self)
  have max: "length body \<le> MAX_FRAME_BYTES \<Longrightarrow> length body < 2 ^ 32" by (simp add: MAX_FRAME_BYTES_def)
  have "\<exists>e c'. read_frame from_slice (c\<lparr>cn_in := take k wire\<rparr>) = (Inl e, c')"
    if k: "k < length wire" and le: "length body \<le> MAX_FRAME_BYTES" for k
  proof (cases "k < 4")
    case True
    then show ?thesis by (simp add: read_frame_def read_exact_def wire)
  next
    case False
    then have "cn_in (c\<lparr>cn_in := take k wire\<rparr>) = u32_to_le ?w @ take (k - 4) body" by (simp add: wire)
    moreover have "k - 4 < length body" using k False by (simp add: wire)
    ultimately show ?thesis
      using read_frame_prefixed [of "c\<lparr>cn_in := take k wire\<rparr>" ?w "take (k - 4) body" from_slice] le
      by (simp add: w [OF max [OF le]])
  qed
  then show ?thesis
    using read_frame_prefixed [of "c\<lparr>cn_in := wire @ rest\<rparr>" ?w "body @ rest" from_slice] assms(2) w max by (simp add: wire)
qed

lemma frame_transfer_witness:
  "let c = \<lparr>cn_in = [], cn_out = [], cn_broken = None\<rparr>
   in read_frame Some (c\<lparr>cn_in := cn_out (snd (write_frame Inr [104, 105] c)) @ [7]\<rparr>) = (Inr [104, 105], c\<lparr>cn_in := [7]\<rparr>)"
proof -
  let ?c = "\<lparr>cn_in = [], cn_out = [], cn_broken = None\<rparr>"
  have "write_frame Inr [104, 105] ?c = (Inr (), snd (write_frame Inr [104, 105] ?c))"
    by (simp add: write_frame_def write_all_def)
  then show ?thesis
    using frame_transfer [of Inr "[104, 105]" "[104, 105]" Some ?c "snd (write_frame Inr [104, 105] ?c)"
        "cn_out (snd (write_frame Inr [104, 105] ?c))" "[7]" ?c]
    by (simp add: MAX_FRAME_BYTES_def)
qed

end
