(* ===== verification/Daemon.thy ===== *)
theory Daemon
  imports Ipc_Frame Node_Delegation
begin

text \<open>
  The daemon (\<open>crates/logos-messaging-a2a-cli/src/daemon\<close>): the protocol's types (\<open>protocol.rs\<close>), the
  server that runs each request on the node (\<open>server.rs\<close>) and the client (\<open>client.rs\<close>). What the
  server calls outside the repository is in \<open>daemon_env\<close>; what one request draws from the clocks and
  the random sources is in \<open>call\<close>. A request that panics ends its connection without a response.
\<close>

section \<open>Protocol\<close>

datatype request =
    ReqInfo
  | ReqDiscover
  | ReqPresencePeers "string option"
  | ReqTaskSend string string
  | ReqTaskStatus string
  | ReqTaskDelegate (rq_to: "string option") (rq_capability: "string option") (rq_text: string) (rq_parent_id: string)
      (rq_timeout_secs: u64) (rq_broadcast: bool) (rq_strategy: "string option") (rq_session_id: "string option")
  | ReqStorageFetch string
  | ReqTrustList
  | ReqTrustAdd (rq_pubkey: string) (rq_nickname: string) (rq_capabilities: "string list") (rq_notes: "string option")
      (rq_encryption_pubkey: "string option")
  | ReqTrustRemove string
  | ReqTrustMode "string option"
  | ReqTaskHistoryList (rq_limit: "nat option") (rq_offset: "nat option") (rq_direction: "string option")
      (rq_cap_filter: "string option") (rq_since_ms: "u64 option")
  | ReqTaskHistoryGet string
  | ReqShutdown

record load_status_wire =
  lw_bucket :: string
  lw_queue_depth :: u32
  lw_max_concurrent :: u32
  lw_avg_latency_ms :: u32

definition load_status_to_wire :: "load_status \<Rightarrow> load_status_wire" where
  "load_status_to_wire s =
     \<lparr>lw_bucket = (case ls_bucket s of Free \<Rightarrow> ''free'' | Busy \<Rightarrow> ''busy'' | Full \<Rightarrow> ''full''),
      lw_queue_depth = ls_queue_depth s, lw_max_concurrent = ls_max_concurrent s,
      lw_avg_latency_ms = ls_avg_latency_ms s\<rparr>"

record agent_card_wire =
  cw_name :: string
  cw_description :: string
  cw_version :: string
  cw_capabilities :: "string list"
  cw_public_key :: string
  cw_has_intro_bundle :: bool

record peer_wire =
  pw_agent_id :: string
  pw_name :: string
  pw_capabilities :: "string list"
  pw_waku_topic :: string
  pw_last_seen_secs :: u64
  pw_ttl_secs :: u64
  pw_load :: "load_status_wire option"

record task_wire =
  tw_id :: string
  tw_state :: string
  tw_from :: string
  tw_to :: string
  tw_text :: "string option"
  tw_result_text :: "string option"

record trust_entry_wire =
  ew_pubkey :: string
  ew_nickname :: string
  ew_capabilities :: "string list"
  ew_notes :: "string option"

record delegation_wire =
  dw_parent_task_id :: string
  dw_subtask_id :: string
  dw_agent_id :: string
  dw_success :: bool
  dw_result_text :: "string option"
  dw_error :: "string option"

record history_entry_wire =
  hw_task_id :: string
  hw_parent_id :: string
  hw_created_at_ms :: u64
  hw_direction :: string
  hw_peer_pubkey :: string
  hw_peer_name :: string
  hw_capability :: string
  hw_text :: string
  hw_body :: string
  hw_cid :: string
  hw_success :: bool
  hw_error :: "string option"
  hw_elapsed_ms :: u64
  hw_session_id :: string

datatype response =
    RespInfo (rs_name: string) (rs_pubkey: string) (rs_capabilities: "string list") (rs_uptime_secs: u64)
      (rs_socket_path: path) (rs_storage_enabled: bool) (rs_encryption_pubkey: "string option")
      (rs_load: "load_status_wire option")
  | RespDiscover "agent_card_wire list"
  | RespPresencePeers "peer_wire list"
  | RespTaskSend string string bool
  | RespTaskStatus "task_wire list"
  | RespTaskDelegate "delegation_wire list"
  | RespStorageFetch string string
  | RespTrustList string "trust_entry_wire list" "path option"
  | RespTrustAdd string string bool
  | RespTrustRemove string string bool
  | RespTrustMode string string bool
  | RespTaskHistoryList "history_entry_wire list" "path option"
  | RespTaskHistoryGet "history_entry_wire option"
  | RespShutdownAck
  | RespError string

text \<open>The arguments are the variables \<open>XDG_RUNTIME_DIR\<close>, \<open>XDG_CACHE_HOME\<close> and \<open>HOME\<close>.\<close>

definition default_socket_path :: "path option \<Rightarrow> path option \<Rightarrow> path option \<Rightarrow> path" where
  "default_socket_path runtime cache home =
     (case runtime of
        Some d \<Rightarrow> d @ [''lmao.sock'']
      | None \<Rightarrow>
         (case cache of
            Some d \<Rightarrow> d @ [''lmao'', ''lmao.sock'']
          | None \<Rightarrow>
             (case home of
                Some h \<Rightarrow> h @ [''.cache'', ''lmao'', ''lmao.sock'']
              | None \<Rightarrow> [''/'', ''tmp'', ''lmao.sock''])))"

section \<open>Conversions of the server\<close>

definition history_to_wire :: "hist_entry \<Rightarrow> history_entry_wire" where
  "history_to_wire e =
     \<lparr>hw_task_id = h_task_id e, hw_parent_id = h_parent_id e, hw_created_at_ms = h_created_at_ms e,
      hw_direction = h_direction e, hw_peer_pubkey = h_peer_pubkey e, hw_peer_name = h_peer_name e,
      hw_capability = h_capability e, hw_text = h_text e, hw_body = h_body e, hw_cid = h_cid e,
      hw_success = h_success e, hw_error = h_error e, hw_elapsed_ms = h_elapsed_ms e,
      hw_session_id = h_session_id e\<rparr>"

fun mode_to_str :: "trust_mode \<Rightarrow> string" where
  "mode_to_str Off = ''off''"
| "mode_to_str Enforce = ''enforce''"
| "mode_to_str Log = ''log''"

definition parse_trust_mode :: "string \<Rightarrow> string + trust_mode" where
  "parse_trust_mode s =
     (let lower = to_lowercase s
      in if lower = ''off'' then Inr Off
         else if lower = ''enforce'' then Inr Enforce
         else if lower = ''log'' then Inr Log
         else Inl (''unknown trust mode: '' @ lower @ '' (expected off|enforce|log)''))"

definition build_strategy :: "string option \<Rightarrow> string option \<Rightarrow> string option \<Rightarrow> delegation_strategy" where
  "build_strategy recipient capability strategy_name =
     (if recipient \<noteq> None then FirstAvailable
      else if strategy_name = Some ''round-robin'' then RoundRobin
      else if strategy_name = Some ''broadcast'' then BroadcastCollect
      else if strategy_name = Some ''first-available'' then FirstAvailable
      else case capability of
             Some c \<Rightarrow> CapabilityMatch c
           | None \<Rightarrow> FirstAvailable)"

definition card_to_wire :: "agent_card \<Rightarrow> agent_card_wire" where
  "card_to_wire c =
     \<lparr>cw_name = card_name c, cw_description = card_description c, cw_version = card_version c,
      cw_capabilities = card_capabilities c, cw_public_key = card_public_key c,
      cw_has_intro_bundle = (card_intro_bundle c \<noteq> None)\<rparr>"

definition peer_to_wire :: "u64 \<Rightarrow> string \<times> peer_info \<Rightarrow> peer_wire" where
  "peer_to_wire now_secs p =
     (let (i, info) = p
      in \<lparr>pw_agent_id = i, pw_name = pi_name info, pw_capabilities = pi_capabilities info,
          pw_waku_topic = pi_waku_topic info, pw_last_seen_secs = min (pi_last_seen info) now_secs,
          pw_ttl_secs = pi_ttl_secs info, pw_load = map_option load_status_to_wire (pi_load info)\<rparr>)"

fun show_task_state :: "task_state \<Rightarrow> string" where
  "show_task_state Submitted = ''Submitted''"
| "show_task_state Working = ''Working''"
| "show_task_state InputRequired = ''InputRequired''"
| "show_task_state Completed = ''Completed''"
| "show_task_state Failed = ''Failed''"
| "show_task_state Cancelled = ''Cancelled''"

definition task_to_wire :: "task \<Rightarrow> task_wire" where
  "task_to_wire t =
     \<lparr>tw_id = task_id t, tw_state = show_task_state (task_state t), tw_from = task_from t, tw_to = task_to t,
      tw_text = task_text t, tw_result_text = task_result_text t\<rparr>"

definition delegation_to_wire :: "delegation_result \<Rightarrow> delegation_wire" where
  "delegation_to_wire r =
     \<lparr>dw_parent_task_id = res_parent_task_id r, dw_subtask_id = res_subtask_id r, dw_agent_id = res_agent_id r,
      dw_success = res_success r, dw_result_text = res_result_text r, dw_error = res_error r\<rparr>"

definition trust_entry_to_wire :: "trust_entry \<Rightarrow> trust_entry_wire" where
  "trust_entry_to_wire e =
     \<lparr>ew_pubkey = te_pubkey e, ew_nickname = te_nickname e, ew_capabilities = te_capabilities e,
      ew_notes = te_notes e\<rparr>"

section \<open>The server\<close>

text \<open>
  \<open>de_history\<close> reads the history log of the node, \<open>None\<close> when the file does not exist; \<open>de_iter\<close> is the
  iteration order of the peer map.
\<close>

record ('bf, 'tr, 'rx, 'c, 'w, 'sk, 'vk, 'sig) daemon_env =
  de_node :: "('bf, 'tr, 'rx, 'c, 'w) node_env"
  de_signing :: "('sk, 'vk, 'sig) signing"
  de_toml :: toml_codec
  de_fs :: "'w file_system"
  de_history :: "'w \<Rightarrow> string + string option"
  de_download :: "string \<Rightarrow> 'w \<Rightarrow> (string + bytes) \<times> 'w"
  de_base64 :: "bytes \<Rightarrow> string"
  de_iter :: "peer_map \<Rightarrow> (string \<times> peer_info) list"

record call =
  cl_uptime_secs :: u64
  cl_now_secs :: u64
  cl_system_time :: nat
  cl_traced :: bool
  cl_uuid :: string
  cl_send :: "bytes \<times> bytes \<times> (u32 \<Rightarrow> u64)"
  cl_session_uuid :: "string \<Rightarrow> string"
  cl_fuel :: nat
  cl_timing :: timing
  cl_timings :: "string \<Rightarrow> timing"
  cl_uuids :: "string \<Rightarrow> string"

record ('bf, 'tr, 'rx, 'sk, 'w) server =
  ds_socket_path :: path
  ds_node :: "('bf, 'tr, 'rx, 'sk, 'w) node"
  ds_storage :: bool
  ds_name :: string
  ds_trust_file :: "path option"
  ds_history_path :: path

type_synonym ('bf, 'tr, 'rx, 'sk, 'w) dispatched =
  "((string + response) exec \<times> ('bf, 'tr, 'rx, 'sk, 'w) server) option"

abbreviation on_node :: "('bf, 'tr, 'rx, 'sk, 'w) server \<Rightarrow> ('bf, 'tr, 'rx, 'sk, 'w) node \<Rightarrow> ('bf, 'tr, 'rx, 'sk, 'w) server" where
  "on_node self n \<equiv> self\<lparr>ds_node := n\<rparr>"

abbreviation reply :: "string + response \<Rightarrow> ('bf, 'tr, 'rx, 'sk, 'w) server \<Rightarrow> ('bf, 'tr, 'rx, 'sk, 'w) dispatched" where
  "reply r self \<equiv> Some (Returns r, self)"

definition trust_save_to ::
    "toml_codec \<Rightarrow> 'w file_system \<Rightarrow> path \<Rightarrow> ('bf, 'tr, 'rx, 'sk, 'w) node \<Rightarrow> ('bf, 'tr, 'rx, 'sk, 'w, unit) node_result" where
  "trust_save_to C F p self =
     (case save_to C F p (nd_trust_list self) (nd_world self) of
        (Inl e, w) \<Rightarrow> (Inl (NOther (''trust save failed: '' @ show_trust_error e)), self\<lparr>nd_world := w\<rparr>)
      | (Inr _, w) \<Rightarrow> (Inr (), self\<lparr>nd_world := w\<rparr>))"

definition persist_trust ::
    "('bf, 'tr, 'rx, 'c, 'w, 'sk, 'vk, 'sig) daemon_env \<Rightarrow> ('bf, 'tr, 'rx, 'sk, 'w) server
       \<Rightarrow> bool \<times> ('bf, 'tr, 'rx, 'sk, 'w) server" where
  "persist_trust D self =
     (case ds_trust_file self of
        None \<Rightarrow> (False, self)
      | Some p \<Rightarrow>
          (case trust_save_to (de_toml D) (de_fs D) p (ds_node self) of
             (Inl e, n) \<Rightarrow> (False, on_node self n)
           | (Inr _, n) \<Rightarrow> (True, on_node self n)))"

subsection \<open>Requests about the node and its peers\<close>

definition dispatch_info ::
    "('bf, 'tr, 'rx, 'c, 'w, 'sk, 'vk, 'sig) daemon_env \<Rightarrow> call \<Rightarrow> ('bf, 'tr, 'rx, 'sk, 'w) server
       \<Rightarrow> ('bf, 'tr, 'rx, 'sk, 'w) dispatched" where
  "dispatch_info D cl self =
     reply (Inr (RespInfo (ds_name self) (pubkey (ds_node self)) (card_capabilities (nd_card (ds_node self)))
              (cl_uptime_secs cl) (ds_socket_path self) (ds_storage self)
              (map_option (public_key_hex (ne_crypto (de_node D))) (nd_identity (ds_node self)))
              (Some (load_status_to_wire (current_load_status (ds_node self)))))) self"

definition dispatch_discover ::
    "('bf, 'tr, 'rx, 'c, 'w, 'sk, 'vk, 'sig) daemon_env \<Rightarrow> ('bf, 'tr, 'rx, 'sk, 'w) server
       \<Rightarrow> ('bf, 'tr, 'rx, 'sk, 'w) dispatched" where
  "dispatch_discover D self =
     (case discover (de_node D) (ds_node self) of
        (Inl e, n) \<Rightarrow> reply (Inl (show_node_error e)) (on_node self n)
      | (Inr cards, n) \<Rightarrow> reply (Inr (RespDiscover (map card_to_wire cards))) (on_node self n))"

definition dispatch_presence_peers ::
    "('bf, 'tr, 'rx, 'c, 'w, 'sk, 'vk, 'sig) daemon_env \<Rightarrow> call \<Rightarrow> string option \<Rightarrow> ('bf, 'tr, 'rx, 'sk, 'w) server
       \<Rightarrow> ('bf, 'tr, 'rx, 'sk, 'w) dispatched" where
  "dispatch_presence_peers D cl capability self =
     (case poll_presence (de_node D) (de_signing D) (cl_traced cl) (cl_now_secs cl) (ds_node self) of
        (Panics, n) \<Rightarrow> Some (Panics, on_node self n)
      | (Returns (Inl e), n) \<Rightarrow> reply (Inl (show_node_error e)) (on_node self n)
      | (Returns (Inr _), n) \<Rightarrow>
          let peers = (case capability of
                         Some cap \<Rightarrow> find_peers_by_capability (de_iter D) (cl_now_secs cl) cap n
                       | None \<Rightarrow> peers_all_live (de_iter D) (cl_now_secs cl) (nd_peer_map n))
          in reply (Inr (RespPresencePeers (map (peer_to_wire (cl_now_secs cl)) peers))) (on_node self n))"

subsection \<open>Requests about tasks\<close>

definition dispatch_task_send ::
    "('bf, 'tr, 'rx, 'c, 'w, 'sk, 'vk, 'sig) daemon_env \<Rightarrow> call \<Rightarrow> string \<Rightarrow> string \<Rightarrow> ('bf, 'tr, 'rx, 'sk, 'w) server
       \<Rightarrow> ('bf, 'tr, 'rx, 'sk, 'w) dispatched" where
  "dispatch_task_send D cl recipient content self =
     (let t = task_new (cl_uuid cl) (pubkey (ds_node self)) recipient content
      in case send_task (de_node D) (cl_send cl) t (ds_node self) of
           (Panics, n) \<Rightarrow> Some (Panics, on_node self n)
         | (Returns (Inl e), n) \<Rightarrow> reply (Inl (show_node_error e)) (on_node self n)
         | (Returns (Inr ack), n) \<Rightarrow> reply (Inr (RespTaskSend (task_id t) (pubkey n) ack)) (on_node self n))"

definition dispatch_task_status ::
    "('bf, 'tr, 'rx, 'c, 'w, 'sk, 'vk, 'sig) daemon_env \<Rightarrow> call \<Rightarrow> string \<Rightarrow> ('bf, 'tr, 'rx, 'sk, 'w) server
       \<Rightarrow> ('bf, 'tr, 'rx, 'sk, 'w) dispatched" where
  "dispatch_task_status D cl tid self =
     (case poll_tasks (de_node D) (cl_session_uuid cl) (cl_now_secs cl) (ds_node self) of
        (Panics, n) \<Rightarrow> Some (Panics, on_node self n)
      | (Returns (Inl e), n) \<Rightarrow> reply (Inl (show_node_error e)) (on_node self n)
      | (Returns (Inr ts), n) \<Rightarrow>
          reply (Inr (RespTaskStatus (map task_to_wire (filter (\<lambda>t. task_id t = tid) ts)))) (on_node self n))"

text \<open>A delegation's outcome as a reply; \<open>results\<close> are the results of a success.\<close>

definition delegated ::
    "('bf, 'tr, 'rx, 'sk, 'w) server \<Rightarrow> ('a \<Rightarrow> delegation_result list)
       \<Rightarrow> ((node_error + 'a) exec \<times> ('bf, 'tr, 'rx, 'sk, 'w) node) option \<Rightarrow> ('bf, 'tr, 'rx, 'sk, 'w) dispatched" where
  "delegated self results outcome =
     (case outcome of
        None \<Rightarrow> None
      | Some (Panics, n) \<Rightarrow> Some (Panics, on_node self n)
      | Some (Returns (Inl e), n) \<Rightarrow> reply (Inl (show_node_error e)) (on_node self n)
      | Some (Returns (Inr r), n) \<Rightarrow>
          reply (Inr (RespTaskDelegate (map delegation_to_wire (results r)))) (on_node self n))"

definition dispatch_task_delegate ::
    "('bf, 'tr, 'rx, 'c, 'w, 'sk, 'vk, 'sig) daemon_env \<Rightarrow> call \<Rightarrow> string option \<Rightarrow> string option \<Rightarrow> string \<Rightarrow> string \<Rightarrow> u64
       \<Rightarrow> bool \<Rightarrow> string option \<Rightarrow> string option \<Rightarrow> ('bf, 'tr, 'rx, 'sk, 'w) server \<Rightarrow> ('bf, 'tr, 'rx, 'sk, 'w) dispatched" where
  "dispatch_task_delegate D cl recipient capability content parent_id timeout_secs broadcast strategy session_id self =
     (let req = \<lparr>dr_parent_task_id = parent_id, dr_subtask_text = content,
                 dr_strategy = build_strategy recipient capability strategy, dr_timeout_secs = timeout_secs,
                 dr_session_id = session_id\<rparr>
      in case recipient of
           Some pk \<Rightarrow>
             if broadcast then
               reply (Inr (RespError ''--broadcast cannot be combined with --to (direct delegation targets a single peer)'')) self
             else delegated self (\<lambda>r. [r])
                    (delegate_direct (cl_fuel cl) (de_node D) (cl_session_uuid cl) (cl_timing cl) (cl_uuid cl) req pk (ds_node self))
         | None \<Rightarrow>
             if broadcast then
               delegated self (\<lambda>rs. rs)
                 (delegate_broadcast (cl_fuel cl) (de_node D) (de_iter D) (cl_now_secs cl) (cl_session_uuid cl) (cl_timings cl)
                    (cl_uuids cl) req (ds_node self))
             else
               delegated self (\<lambda>r. [r])
                 (delegate_task (cl_fuel cl) (de_node D) (de_iter D) (cl_now_secs cl) (cl_session_uuid cl) (cl_timing cl)
                    (cl_uuid cl) req (ds_node self)))"

definition dispatch_storage_fetch ::
    "('bf, 'tr, 'rx, 'c, 'w, 'sk, 'vk, 'sig) daemon_env \<Rightarrow> string \<Rightarrow> ('bf, 'tr, 'rx, 'sk, 'w) server
       \<Rightarrow> ('bf, 'tr, 'rx, 'sk, 'w) dispatched" where
  "dispatch_storage_fetch D cid self =
     (if \<not> ds_storage self then reply (Inl ''daemon has no storage backend configured'') self
      else case de_download D cid (nd_world (ds_node self)) of
             (Inl e, w) \<Rightarrow>
               reply (Inl (''downloading '' @ cid @ '' from storage'')) (on_node self ((ds_node self)\<lparr>nd_world := w\<rparr>))
           | (Inr data, w) \<Rightarrow>
               reply (Inr (RespStorageFetch cid (de_base64 D data))) (on_node self ((ds_node self)\<lparr>nd_world := w\<rparr>)))"

subsection \<open>Requests about the trust list\<close>

definition dispatch_trust_list :: "('bf, 'tr, 'rx, 'sk, 'w) server \<Rightarrow> ('bf, 'tr, 'rx, 'sk, 'w) dispatched" where
  "dispatch_trust_list self =
     (let (mode, entries) = trust_snapshot (ds_node self)
      in reply (Inr (RespTrustList (mode_to_str mode) (map trust_entry_to_wire entries) (ds_trust_file self))) self)"

definition dispatch_trust_add ::
    "('bf, 'tr, 'rx, 'c, 'w, 'sk, 'vk, 'sig) daemon_env \<Rightarrow> call \<Rightarrow> string \<Rightarrow> string \<Rightarrow> string list \<Rightarrow> string option
       \<Rightarrow> string option \<Rightarrow> ('bf, 'tr, 'rx, 'sk, 'w) server \<Rightarrow> ('bf, 'tr, 'rx, 'sk, 'w) dispatched" where
  "dispatch_trust_add D cl pk nickname capabilities notes encryption_pubkey self =
     (let (current_mode, entries) = trust_snapshot (ds_node self);
          n = (if current_mode = Off \<and> length entries = 0 then node_trust_set_mode Enforce (ds_node self) else ds_node self);
          n1 = node_trust_add
                 \<lparr>te_pubkey = pk, te_nickname = nickname, te_capabilities = capabilities, te_notes = notes,
                  te_encryption_pubkey = encryption_pubkey, te_added_at = cl_system_time cl\<rparr> n;
          (persisted, self1) = persist_trust D (on_node self n1)
      in reply (Inr (RespTrustAdd pk nickname persisted)) self1)"

definition dispatch_trust_remove ::
    "('bf, 'tr, 'rx, 'c, 'w, 'sk, 'vk, 'sig) daemon_env \<Rightarrow> string \<Rightarrow> ('bf, 'tr, 'rx, 'sk, 'w) server
       \<Rightarrow> ('bf, 'tr, 'rx, 'sk, 'w) dispatched" where
  "dispatch_trust_remove D target self =
     (case node_trust_remove target (ds_node self) of
        (None, n) \<Rightarrow> reply (Inl (''no entry matched '' @ target)) (on_node self n)
      | (Some dropped, n) \<Rightarrow>
          let (persisted, self1) = persist_trust D (on_node self n)
          in reply (Inr (RespTrustRemove (te_pubkey dropped) (te_nickname dropped) persisted)) self1)"

definition dispatch_trust_mode ::
    "('bf, 'tr, 'rx, 'c, 'w, 'sk, 'vk, 'sig) daemon_env \<Rightarrow> string option \<Rightarrow> ('bf, 'tr, 'rx, 'sk, 'w) server
       \<Rightarrow> ('bf, 'tr, 'rx, 'sk, 'w) dispatched" where
  "dispatch_trust_mode D mode self =
     (let previous = node_trust_mode (ds_node self)
      in case (case mode of None \<Rightarrow> Inr previous | Some s \<Rightarrow> parse_trust_mode s) of
           Inl e \<Rightarrow> reply (Inl e) self
         | Inr next \<Rightarrow>
             let (persisted, self1) =
                   (if next \<noteq> previous then persist_trust D (on_node self (node_trust_set_mode next (ds_node self)))
                    else (False, self))
             in reply (Inr (RespTrustMode (mode_to_str previous) (mode_to_str next) persisted)) self1)"

subsection \<open>Requests about the history\<close>

definition dispatch_history_list ::
    "('bf, 'tr, 'rx, 'c, 'w, 'sk, 'vk, 'sig) daemon_env \<Rightarrow> nat option \<Rightarrow> nat option \<Rightarrow> string option \<Rightarrow> string option
       \<Rightarrow> u64 option \<Rightarrow> ('bf, 'tr, 'rx, 'sk, 'w) server \<Rightarrow> ('bf, 'tr, 'rx, 'sk, 'w) dispatched" where
  "dispatch_history_list D limit offset direction capability since_ms self =
     (if \<not> nd_history (ds_node self) then reply (Inr (RespTaskHistoryList [] None)) self
      else
        let flt = \<lparr>f_direction = direction, f_capability = capability, f_since_ms = since_ms\<rparr>;
            lim = min (case limit of None \<Rightarrow> 100 | Some n \<Rightarrow> n) 10000;
            off = (case offset of None \<Rightarrow> 0 | Some n \<Rightarrow> n)
        in case de_history D (nd_world (ds_node self)) of
             Inl e \<Rightarrow> reply (Inl (''history list failed: '' @ e)) self
           | Inr file \<Rightarrow>
               reply (Inr (RespTaskHistoryList
                        (map history_to_wire (history_list (ne_rows (de_node D)) lim off flt file))
                        (Some (ds_history_path self)))) self)"

definition dispatch_history_get ::
    "('bf, 'tr, 'rx, 'c, 'w, 'sk, 'vk, 'sig) daemon_env \<Rightarrow> string \<Rightarrow> ('bf, 'tr, 'rx, 'sk, 'w) server
       \<Rightarrow> ('bf, 'tr, 'rx, 'sk, 'w) dispatched" where
  "dispatch_history_get D tid self =
     (if \<not> nd_history (ds_node self) then reply (Inr (RespTaskHistoryGet None)) self
      else case de_history D (nd_world (ds_node self)) of
             Inl e \<Rightarrow> reply (Inl (''history get failed: '' @ e)) self
           | Inr file \<Rightarrow>
               reply (Inr (RespTaskHistoryGet (map_option history_to_wire (history_get (ne_rows (de_node D)) tid file)))) self)"

subsection \<open>Dispatch\<close>

definition dispatch ::
    "('bf, 'tr, 'rx, 'c, 'w, 'sk, 'vk, 'sig) daemon_env \<Rightarrow> call \<Rightarrow> request \<Rightarrow> ('bf, 'tr, 'rx, 'sk, 'w) server
       \<Rightarrow> ('bf, 'tr, 'rx, 'sk, 'w) dispatched" where
  "dispatch D cl req self =
     (case req of
        ReqInfo \<Rightarrow> dispatch_info D cl self
      | ReqDiscover \<Rightarrow> dispatch_discover D self
      | ReqPresencePeers capability \<Rightarrow> dispatch_presence_peers D cl capability self
      | ReqTaskSend recipient content \<Rightarrow> dispatch_task_send D cl recipient content self
      | ReqTaskStatus tid \<Rightarrow> dispatch_task_status D cl tid self
      | ReqTaskDelegate recipient capability content parent_id timeout_secs broadcast strategy session_id \<Rightarrow>
          dispatch_task_delegate D cl recipient capability content parent_id timeout_secs broadcast strategy session_id self
      | ReqStorageFetch cid \<Rightarrow> dispatch_storage_fetch D cid self
      | ReqTrustList \<Rightarrow> dispatch_trust_list self
      | ReqTrustAdd pk nickname capabilities notes encryption_pubkey \<Rightarrow>
          dispatch_trust_add D cl pk nickname capabilities notes encryption_pubkey self
      | ReqTrustRemove target \<Rightarrow> dispatch_trust_remove D target self
      | ReqTrustMode mode \<Rightarrow> dispatch_trust_mode D mode self
      | ReqTaskHistoryList limit offset direction capability since_ms \<Rightarrow>
          dispatch_history_list D limit offset direction capability since_ms self
      | ReqTaskHistoryGet tid \<Rightarrow> dispatch_history_get D tid self
      | ReqShutdown \<Rightarrow> reply (Inr RespShutdownAck) self)"

section \<open>Connections\<close>

text \<open>The JSON codec of the two wire types.\<close>

record ipc_codec =
  req_to_vec :: "request \<Rightarrow> string + bytes"
  req_from_slice :: "bytes \<Rightarrow> request option"
  resp_to_vec :: "response \<Rightarrow> string + bytes"
  resp_from_slice :: "bytes \<Rightarrow> response option"

definition handle_connection ::
    "('bf, 'tr, 'rx, 'c, 'w, 'sk, 'vk, 'sig) daemon_env \<Rightarrow> ipc_codec \<Rightarrow> call \<Rightarrow> conn \<Rightarrow> ('bf, 'tr, 'rx, 'sk, 'w) server
       \<Rightarrow> ((string + unit) exec \<times> conn \<times> ('bf, 'tr, 'rx, 'sk, 'w) server) option" where
  "handle_connection D K cl stream self =
     (case read_frame (req_from_slice K) stream of
        (Inl e, stream1) \<Rightarrow> Some (Returns (Inl e), stream1, self)
      | (Inr req, stream1) \<Rightarrow>
          (case dispatch D cl req self of
             None \<Rightarrow> None
           | Some (Panics, self1) \<Rightarrow> Some (Panics, stream1, self1)
           | Some (Returns r, self1) \<Rightarrow>
               let resp = (case r of Inr resp \<Rightarrow> resp | Inl e \<Rightarrow> RespError e);
                   (w, stream2) = write_frame (resp_to_vec K) resp stream1
               in Some (Returns w, stream2, self1)))"

text \<open>
  \<open>socket\<close> is the outcome of connecting to \<open>socket_path\<close>, \<open>daemon\<close> what the other end sends once it has
  received the given bytes.
\<close>

definition client_send ::
    "ipc_codec \<Rightarrow> path \<Rightarrow> string + conn \<Rightarrow> (bytes \<Rightarrow> bytes) \<Rightarrow> request \<Rightarrow> string + response" where
  "client_send K socket_path socket daemon req =
     (case socket of
        Inl e \<Rightarrow> Inl (''connecting to daemon at '' @ show_path socket_path)
      | Inr stream \<Rightarrow>
          (case write_frame (req_to_vec K) req stream of
             (Inl e, _) \<Rightarrow> Inl e
           | (Inr _, stream1) \<Rightarrow>
               (case fst (read_frame (resp_from_slice K) (stream1\<lparr>cn_in := daemon (cn_out stream1)\<rparr>)) of
                  Inl e \<Rightarrow> Inl e
                | Inr resp \<Rightarrow> (case resp of RespError message \<Rightarrow> Inl (''daemon error: '' @ message) | _ \<Rightarrow> Inr resp))))"

definition probe :: "string + conn \<Rightarrow> bool" where
  "probe socket = (case socket of Inr _ \<Rightarrow> True | Inl _ \<Rightarrow> False)"

end
