(* ===== verification/Daemon_Safety.thy ===== *)
theory Daemon_Safety
  imports Daemon Node_Frames
begin

text \<open>
  Properties of the daemon: what a client receives is what the request did on the node, and the trust
  list changes by the trust requests alone and survives a restart once a response says so.
\<close>

text \<open>Every operation of the node but the trust edits keeps its trust list.\<close>

lemmas keeps_trust = kept_by [THEN keptD(1)]

section \<open>What a request does to the trust list\<close>

definition trust_edit :: "call \<Rightarrow> request \<Rightarrow> trust_list \<Rightarrow> trust_list" where
  "trust_edit cl req l =
     (case req of
        ReqTrustAdd pk nickname capabilities notes encryption_pubkey \<Rightarrow>
          trust_add \<lparr>te_pubkey = pk, te_nickname = nickname, te_capabilities = capabilities, te_notes = notes,
                     te_encryption_pubkey = encryption_pubkey, te_added_at = cl_system_time cl\<rparr>
            (if tl_mode l = Off \<and> trust_is_empty l then set_mode Enforce l else l)
      | ReqTrustRemove target \<Rightarrow>
          (if bt_contains (tl_entries l) target then snd (trust_remove target l) else snd (remove_by_nickname target l))
      | ReqTrustMode (Some s) \<Rightarrow> (case parse_trust_mode s of Inr m \<Rightarrow> set_mode m l | Inl _ \<Rightarrow> l)
      | _ \<Rightarrow> l)"

fun says_persisted :: "response \<Rightarrow> bool" where
  "says_persisted (RespTrustAdd pk nickname persisted) = persisted"
| "says_persisted (RespTrustRemove pk nickname persisted) = persisted"
| "says_persisted (RespTrustMode previous current persisted) = persisted"
| "says_persisted _ = False"

text \<open>What the trust file's file system promises: a file holds what was written, and permissions are not contents.\<close>

definition fs_ok :: "'fs file_system \<Rightarrow> bool" where
  "fs_ok F \<longleftrightarrow> (\<forall>fs p text fs'. fs_write F fs p text = (Inr (), fs') \<longrightarrow> fs_read_to_string F fs' p = ReadOk text)
     \<and> (\<forall>fs p r fs'. fs_set_permissions_0600 F fs p = (r, fs') \<longrightarrow> fs_read_to_string F fs' p = fs_read_to_string F fs p)"

lemma saved_reloads:
  assumes "toml_ok C" and "fs_ok F" and "trust_wf l" and "save_to C F p l w = (Inr (), w')"
  shows "load_from C F w' p = Inr l"
proof -
  obtain toml w1 w2 where t: "to_toml_string C l = Inr toml" "fs_write F w1 p toml = (Inr (), w2)"
    "fs_read_to_string F w' p = fs_read_to_string F w2 p"
    using assms(2,4) by (auto simp: save_to_def Let_def fs_ok_def split: option.splits sum.splits prod.splits if_splits)
  then have "fs_read_to_string F w' p = ReadOk toml" using assms(2) by (simp add: fs_ok_def)
  then show ?thesis using toml_reload [OF assms(1,3) t(1)] by (simp add: load_from_def)
qed

lemma persist_trust_cases:
  assumes "persist_trust D self = (b, self')"
  shows "nd_trust_list (ds_node self') = nd_trust_list (ds_node self) \<and> ds_trust_file self' = ds_trust_file self
    \<and> (b \<longrightarrow> (\<exists>p w'. ds_trust_file self = Some p \<and> nd_world (ds_node self') = w'
         \<and> save_to (de_toml D) (de_fs D) p (nd_trust_list (ds_node self)) (nd_world (ds_node self)) = (Inr (), w')))"
  using assms by (auto simp: persist_trust_def trust_save_to_def split: option.splits sum.splits prod.splits)

lemma trust_edit_wf: "trust_wf l \<Longrightarrow> trust_wf (trust_edit cl req l)"
proof -
  have "trust_wf l \<Longrightarrow> trust_wf (set_mode m l)" for l m by (simp add: trust_wf_def set_mode_def)
  moreover have "trust_wf l \<Longrightarrow> trust_wf (trust_add e l)" for l e by (simp add: trust_add_def wf_insert)
  ultimately show "trust_wf l \<Longrightarrow> trust_wf (trust_edit cl req l)"
    by (auto simp: trust_edit_def trust_remove_def remove_by_nickname_def wf_insert wf_remove
        split: request.split option.split sum.split)
qed

lemma bt_remove_absent: "map_of m k = None \<Longrightarrow> bt_remove k m = m"
  by (induction m) (auto simp: bt_remove_def split: if_splits)

lemma dispatch_trust_edit:
  assumes "dispatch D cl req self = Some (out, self')"
  shows "nd_trust_list (ds_node self') = trust_edit cl req (nd_trust_list (ds_node self))"
proof (cases req)
  case (ReqTrustAdd pk nick caps remarks enc)
  then show ?thesis
    using assms persist_trust_cases
    by (fastforce simp: dispatch_def dispatch_trust_add_def trust_edit_def trust_snapshot_def trust_iter_def trust_is_empty_def
        node_trust_add_def node_trust_set_mode_def Let_def split: prod.splits)
next
  case (ReqTrustRemove target)
  then show ?thesis
    using assms
    by (auto simp: dispatch_def dispatch_trust_remove_def trust_edit_def node_trust_remove_def trust_remove_def bt_contains_def
        bt_get_def bt_remove_absent Let_def split: option.splits prod.splits dest!: persist_trust_cases)
next
  case (ReqTrustMode mode)
  then show ?thesis
    using assms
    by (auto simp: dispatch_def dispatch_trust_mode_def trust_edit_def node_trust_set_mode_def node_trust_mode_def set_mode_def Let_def
        split: option.splits prod.splits sum.splits if_splits dest!: persist_trust_cases)
qed (use assms in \<open>auto simp: dispatch_def trust_edit_def dispatch_info_def dispatch_discover_def dispatch_presence_peers_def
      dispatch_task_send_def dispatch_task_status_def dispatch_task_delegate_def delegated_def dispatch_storage_fetch_def
      dispatch_trust_list_def dispatch_history_list_def dispatch_history_get_def Let_def
      split: option.splits prod.splits sum.splits if_splits exec.splits dest!: keeps_trust\<close>)

text \<open>A response that says persisted comes from a save of the list as it is afterwards.\<close>

lemma dispatch_persisted:
  assumes "dispatch D cl req self = Some (Returns (Inr resp), self')" and "says_persisted resp"
  shows "\<exists>p w. ds_trust_file self = Some p
    \<and> save_to (de_toml D) (de_fs D) p (nd_trust_list (ds_node self')) w = (Inr (), nd_world (ds_node self'))"
proof (cases req)
  case (ReqTrustAdd pk nick caps remarks enc)
  then obtain n where "persist_trust D (on_node self n) = (True, self')"
    using assms by (auto simp: dispatch_def dispatch_trust_add_def Let_def split: prod.splits)
  from persist_trust_cases [OF this] show ?thesis by auto
next
  case (ReqTrustRemove target)
  then obtain n where "persist_trust D (on_node self n) = (True, self')"
    using assms by (auto simp: dispatch_def dispatch_trust_remove_def Let_def split: prod.splits option.splits)
  from persist_trust_cases [OF this] show ?thesis by auto
next
  case (ReqTrustMode mode)
  then obtain n where "persist_trust D (on_node self n) = (True, self')"
    using assms by (auto simp: dispatch_def dispatch_trust_mode_def Let_def split: prod.splits option.splits sum.splits if_splits)
  from persist_trust_cases [OF this] show ?thesis by auto
qed (use assms in \<open>auto simp: dispatch_def dispatch_info_def dispatch_discover_def dispatch_presence_peers_def
      dispatch_task_send_def dispatch_task_status_def dispatch_task_delegate_def delegated_def dispatch_storage_fetch_def
      dispatch_trust_list_def dispatch_history_list_def dispatch_history_get_def Let_def
      split: option.splits prod.splits sum.splits if_splits exec.splits\<close>)

section \<open>Closed examples\<close>

text \<open>A daemon on a node without peers, whose file system holds one file with the text of \<open>example_codec\<close>.\<close>

definition example_denv :: "(string list, bytes list, unit, bytes, unit, unit, unit, bytes) daemon_env" where
  "example_denv = \<lparr>de_node = example_nenv [], de_signing = example_signing, de_toml = example_codec,
     de_fs = \<lparr>fs_read_to_string = (\<lambda>_ _. ReadOk ''f''), fs_create_dir_all = (\<lambda>_ _. (Inr (), ())),
       fs_write = (\<lambda>_ _ s. (if s = ''f'' then Inr () else Inl ''full'', ())), fs_set_permissions_0600 = (\<lambda>_ _. (Inr (), ()))\<rparr>,
     de_history = (\<lambda>_. Inr None), de_download = (\<lambda>_ w. (Inl ''none'', w)), de_base64 = (\<lambda>_. []), de_iter = (\<lambda>m. m)\<rparr>"

definition example_call :: call where
  "example_call = \<lparr>cl_uptime_secs = 1, cl_now_secs = 9, cl_system_time = 5, cl_traced = False, cl_uuid = ''u'',
     cl_send = ([], [], \<lambda>_. 0), cl_session_uuid = (\<lambda>s. s), cl_fuel = 1, cl_timing = example_timing,
     cl_timings = (\<lambda>_. example_timing), cl_uuids = (\<lambda>s. s)\<rparr>"

definition example_server :: "(string list, bytes list, unit, unit, unit) server" where
  "example_server = \<lparr>ds_socket_path = [''s''], ds_node = example_node [], ds_storage = False, ds_name = ''n'',
     ds_trust_file = Some [''t''], ds_history_path = [''h'']\<rparr>"

definition add_alice :: request where
  "add_alice = ReqTrustAdd ''02ab'' ''alice'' [''echo''] None None"

lemma example_node_trust: "nd_trust_list (ds_node example_server) = trust_empty"
  by (simp add: example_server_def example_node_def node_from_key_def node_with_channel_def)

lemma example_persists:
  assumes "nd_trust_list (ds_node self) = trust_add example_entry (with_mode Enforce)" and "ds_trust_file self = Some [''t'']"
  shows "fst (persist_trust example_denv self)"
proof -
  have "to_toml_string example_codec (trust_add example_entry (with_mode Enforce)) = Inr ''f''"
    by (simp add: to_toml_string_def trust_add_def with_mode_def example_codec_def Let_def)
  then show ?thesis
    by (simp add: assms persist_trust_def trust_save_to_def save_to_def path_parent_def example_denv_def Let_def)
qed

lemma add_alice_served:
  "\<exists>self'. dispatch example_denv example_call add_alice example_server =
     Some (Returns (Inr (RespTrustAdd ''02ab'' ''alice'' True)), self')"
proof -
  let ?n = "node_trust_add example_entry (node_trust_set_mode Enforce (ds_node example_server))"
  have "nd_trust_list ?n = trust_add example_entry (with_mode Enforce)"
    by (simp add: node_trust_add_def node_trust_set_mode_def example_node_trust set_mode_def trust_empty_def with_mode_def)
  then have "fst (persist_trust example_denv (on_node example_server ?n))"
    by (intro example_persists) (simp_all add: example_server_def)
  then have "dispatch_trust_add example_denv example_call ''02ab'' ''alice'' [''echo''] None None example_server =
      Some (Returns (Inr (RespTrustAdd ''02ab'' ''alice'' True)), snd (persist_trust example_denv (on_node example_server ?n)))"
    unfolding dispatch_trust_add_def trust_snapshot_def example_node_trust
    by (simp add: Let_def trust_empty_def trust_iter_def case_prod_beta example_call_def example_entry_def)
  then show ?thesis by (simp add: dispatch_def add_alice_def)
qed

section \<open>Properties\<close>

text \<open>
  C27. Trust requests and only they change the trust list, and what the daemon reports as persisted is
  on disk. For every request that the daemon answers, the node's trust list afterwards is the one the
  request's edit gives (the identity for all but the three trust requests) and is well-formed; the
  first entry added to an empty list that was off makes that key the only trusted one; and when the
  response says persisted, loading the trust file gives exactly the node's list, so that a restart
  continues with it.
\<close>

theorem daemon_trust_durable:
  assumes "toml_ok (de_toml D)" and "fs_ok (de_fs D)" and "trust_wf (nd_trust_list (ds_node self))"
    and "dispatch D cl req self = Some (Returns (Inr resp), self')"
  shows "nd_trust_list (ds_node self') = trust_edit cl req (nd_trust_list (ds_node self))
    \<and> trust_wf (nd_trust_list (ds_node self'))
    \<and> (\<forall>pk nick caps remarks enc. req = ReqTrustAdd pk nick caps remarks enc \<and> nd_trust_list (ds_node self) = trust_empty
         \<longrightarrow> (\<forall>k. node_is_trusted (ds_node self') k \<longleftrightarrow> k = pk))
    \<and> (says_persisted resp \<longrightarrow> (\<exists>p. ds_trust_file self = Some p
         \<and> load_from (de_toml D) (de_fs D) (nd_world (ds_node self')) p = Inr (nd_trust_list (ds_node self'))))"
proof -
  note edit = dispatch_trust_edit [OF assms(4)]
  have wf: "trust_wf (nd_trust_list (ds_node self'))" using trust_edit_wf [OF assms(3)] by (simp add: edit)
  have "says_persisted resp \<longrightarrow> (\<exists>p. ds_trust_file self = Some p
      \<and> load_from (de_toml D) (de_fs D) (nd_world (ds_node self')) p = Inr (nd_trust_list (ds_node self')))"
    using dispatch_persisted [OF assms(4)] saved_reloads [OF assms(1,2) wf] by blast
  moreover have "\<forall>k. node_is_trusted (ds_node self') k \<longleftrightarrow> k = pk"
    if "req = ReqTrustAdd pk nick caps remarks enc" "nd_trust_list (ds_node self) = trust_empty" for pk nick caps remarks enc
    using that by (simp add: node_is_trusted_def edit trust_edit_def trust_empty_def trust_is_empty_def set_mode_def trust_add_def
        is_trusted_def bt_contains_def)
  ultimately show ?thesis using edit wf by blast
qed

theorem daemon_trust_durable_witness:
  "\<exists>self'. dispatch example_denv example_call add_alice example_server =
       Some (Returns (Inr (RespTrustAdd ''02ab'' ''alice'' True)), self')
     \<and> load_from example_codec (de_fs example_denv) () [''t''] = Inr (nd_trust_list (ds_node self'))
     \<and> \<not> node_is_trusted (ds_node self') ''02cd''"
proof -
  obtain self' where run: "dispatch example_denv example_call add_alice example_server =
      Some (Returns (Inr (RespTrustAdd ''02ab'' ''alice'' True)), self')" using add_alice_served by blast
  have ok: "toml_ok (de_toml example_denv)" "fs_ok (de_fs example_denv)" "trust_wf (nd_trust_list (ds_node example_server))"
    by (simp_all add: toml_ok_def example_codec_def Let_def fs_ok_def example_denv_def example_node_trust trust_empty_def
        trust_wf_def bt_wf_def)
  note fact = daemon_trust_durable [OF ok run]
  have "de_toml example_denv = example_codec" "ds_trust_file example_server = Some [''t'']"
    by (simp_all add: example_denv_def example_server_def)
  then have "load_from example_codec (de_fs example_denv) () [''t''] = Inr (nd_trust_list (ds_node self'))"
    using fact by simp
  moreover have "\<not> node_is_trusted (ds_node self') ''02cd''"
    using fact by (simp add: add_alice_def example_node_trust)
  ultimately show ?thesis using run by blast
qed

text \<open>The bytes that the server's end \<open>stream\<close> of a connection sends in reply.\<close>

definition served ::
    "('bf, 'tr, 'rx, 'c, 'w, 'sk, 'vk, 'sig) daemon_env \<Rightarrow> ipc_codec \<Rightarrow> call \<Rightarrow> conn \<Rightarrow> ('bf, 'tr, 'rx, 'sk, 'w) server
       \<Rightarrow> bytes \<Rightarrow> bytes" where
  "served D K cl stream self wire =
     (case handle_connection D K cl (stream\<lparr>cn_in := wire\<rparr>) self of Some (_, stream1, _) \<Rightarrow> cn_out stream1 | None \<Rightarrow> [])"

definition answer_of :: "string + response \<Rightarrow> response" where
  "answer_of r = (case r of Inr resp \<Rightarrow> resp | Inl e \<Rightarrow> RespError e)"

definition ipc_ok :: "ipc_codec \<Rightarrow> bool" where
  "ipc_ok K \<longleftrightarrow> (\<forall>r b. req_to_vec K r = Inr b \<longrightarrow> req_from_slice K b = Some r)
     \<and> (\<forall>r b. resp_to_vec K r = Inr b \<longrightarrow> resp_from_slice K b = Some r)"

lemma frame_read_back:
  assumes "to_vec v = Inr body" and "from_slice body = Some v" and "length body \<le> MAX_FRAME_BYTES"
  shows "read_frame from_slice (c\<lparr>cn_in := u32_to_le (word_of_nat (length body)) @ body\<rparr>) = (Inr v, c\<lparr>cn_in := []\<rparr>)"
proof -
  have "unat (word_of_nat (length body) :: u32) = length body"
    using assms(3) by (simp add: unat_of_nat take_bit_nat_eq_self MAX_FRAME_BYTES_def)
  then show ?thesis
    using read_frame_prefixed [of "c\<lparr>cn_in := u32_to_le (word_of_nat (length body)) @ body\<rparr>" "word_of_nat (length body)" body from_slice]
      assms by simp
qed

text \<open>
  C28. A client gets the outcome of its request. Over an unbroken connection, with a request and a
  response within the frame limit, the client's call returns the response the daemon's dispatch
  computed, or an error with the text of its error (also one the dispatch put into an error response),
  and the daemon's state is the one after that dispatch. When the request panics, the client gets an
  error and no response.
\<close>

theorem client_gets_dispatch_outcome:
  assumes "ipc_ok K" and "req_to_vec K req = Inr rb" "length rb \<le> MAX_FRAME_BYTES"
    and "dispatch D cl req self = Some (out, self')"
    and "\<forall>r. out = Returns r \<longrightarrow> (\<exists>pb. resp_to_vec K (answer_of r) = Inr pb \<and> length pb \<le> MAX_FRAME_BYTES)"
    and "cn_broken client = None" "cn_out client = []" "cn_broken stream = None" "cn_out stream = []"
    and "cn_out (snd (write_frame (req_to_vec K) req client)) = wire"
  shows "client_send K p (Inr client) (served D K cl stream self) req =
      (case out of
         Panics \<Rightarrow> Inl ''reading frame length''
       | Returns r \<Rightarrow> (case answer_of r of RespError m \<Rightarrow> Inl (''daemon error: '' @ m) | _ \<Rightarrow> Inr (answer_of r)))
    \<and> (\<exists>w stream'. handle_connection D K cl (stream\<lparr>cn_in := wire\<rparr>) self = Some (w, stream', self'))"
proof -
  have wr: "write_frame (req_to_vec K) req client =
      (Inr (), client\<lparr>cn_out := u32_to_le (word_of_nat (length rb)) @ rb\<rparr>)"
    using write_frame_bytes [of "req_to_vec K" req, OF assms(2,6)] assms(7) by simp
  then have wire: "wire = u32_to_le (word_of_nat (length rb)) @ rb" using assms(10) by simp
  have rd: "read_frame (req_from_slice K) (stream\<lparr>cn_in := wire\<rparr>) = (Inr req, stream\<lparr>cn_in := []\<rparr>)"
    using frame_read_back [of "req_to_vec K" req rb, OF assms(2) _ assms(3)] assms(1,2) by (simp add: wire ipc_ok_def)
  show ?thesis
  proof (cases out)
    case Panics
    then have "handle_connection D K cl (stream\<lparr>cn_in := wire\<rparr>) self = Some (Panics, stream\<lparr>cn_in := []\<rparr>, self')"
      using rd assms(4) by (simp add: handle_connection_def)
    then show ?thesis using wr Panics assms(9)
      by (simp add: client_send_def served_def wire read_frame_def read_exact_def)
  next
    case (Returns r)
    then obtain pb where pb: "resp_to_vec K (answer_of r) = Inr pb" "length pb \<le> MAX_FRAME_BYTES" using assms(5) by blast
    let ?sent = "u32_to_le (word_of_nat (length pb)) @ pb"
    have h: "handle_connection D K cl (stream\<lparr>cn_in := wire\<rparr>) self = Some (Returns (Inr ()), stream\<lparr>cn_in := [], cn_out := ?sent\<rparr>, self')"
      using rd assms(4,8,9) Returns write_frame_bytes [of "resp_to_vec K" "answer_of r" pb "stream\<lparr>cn_in := []\<rparr>"] pb(1)
      by (simp add: handle_connection_def answer_of_def)
    have "read_frame (resp_from_slice K) (c\<lparr>cn_in := ?sent\<rparr>) = (Inr (answer_of r), c\<lparr>cn_in := []\<rparr>)" for c
      using frame_read_back [of "resp_to_vec K" "answer_of r" pb, OF pb(1) _ pb(2)] assms(1) pb(1) by (simp add: ipc_ok_def)
    then show ?thesis using wr h Returns by (simp add: client_send_def served_def wire)
  qed
qed

theorem client_gets_dispatch_outcome_witness:
  "let K = \<lparr>req_to_vec = (\<lambda>r. if r = add_alice then Inr [1] else Inl ''none''), req_from_slice = (\<lambda>b. if b = [1] then Some add_alice else None),
            resp_to_vec = (\<lambda>r. if r = RespTrustAdd ''02ab'' ''alice'' True then Inr [2] else Inl ''none''),
            resp_from_slice = (\<lambda>b. if b = [2] then Some (RespTrustAdd ''02ab'' ''alice'' True) else None)\<rparr>;
       c = \<lparr>cn_in = [], cn_out = [], cn_broken = None\<rparr>
   in client_send K [''s''] (Inr c) (served example_denv K example_call c example_server) add_alice
        = Inr (RespTrustAdd ''02ab'' ''alice'' True)"
proof -
  let ?resp = "RespTrustAdd ''02ab'' ''alice'' True"
  define K where "K = \<lparr>req_to_vec = (\<lambda>r. if r = add_alice then Inr [1] else Inl ''none''),
      req_from_slice = (\<lambda>b. if b = [1] then Some add_alice else None),
      resp_to_vec = (\<lambda>r. if r = ?resp then Inr [2] else Inl ''none''),
      resp_from_slice = (\<lambda>b. if b = [2] then Some ?resp else None)\<rparr>"
  let ?c = "\<lparr>cn_in = [], cn_out = [], cn_broken = None\<rparr>"
  obtain self' where run: "dispatch example_denv example_call add_alice example_server = Some (Returns (Inr ?resp), self')"
    using add_alice_served by blast
  have K: "ipc_ok K" "req_to_vec K add_alice = Inr [1]" "length [1 :: u8] \<le> MAX_FRAME_BYTES"
    "\<forall>r. Returns (Inr ?resp) = Returns r \<longrightarrow> (\<exists>pb. resp_to_vec K (answer_of r) = Inr pb \<and> length pb \<le> MAX_FRAME_BYTES)"
    by (simp_all add: K_def ipc_ok_def answer_of_def MAX_FRAME_BYTES_def)
  have "client_send K [''s''] (Inr ?c) (served example_denv K example_call ?c example_server) add_alice = Inr ?resp"
    using client_gets_dispatch_outcome [OF K(1,2,3) run K(4), of ?c ?c _ "[''s'']"] by (simp add: answer_of_def)
  then show ?thesis by (simp add: Let_def K_def)
qed

end
