(* ===== verification/Cli_Trust.thy ===== *)
theory Cli_Trust
  imports Daemon_Safety Node_Keys Utf8
begin

text \<open>
  \<open>lmao trust\<close> (\<open>crates/logos-messaging-a2a-cli/src/trust.rs\<close>): each command goes to the daemon when one
  listens, else it edits the trust file. The result is what the command reports; \<open>source\<close> of the JSON
  output is the constructor. The file system, the TOML codec and the connection are parameters, an error
  is the text \<open>anyhow\<close> shows.
\<close>

section \<open>Commands and reports\<close>

datatype trust_action =
    ActList
  | ActAdd string string "string list" "string option" "string option"
  | ActRemove string
  | ActMode "string option"
  | ActImport string
  | ActExport
  | ActPubkey

datatype trust_report =
    DaemonList string "trust_entry_wire list" "path option"
  | DaemonAdded string string bool
  | DaemonRemoved string string bool
  | DaemonMode string string bool
  | FileList path trust_mode "trust_entry list"
  | FileAdded string string path
  | FileRemoved string string
  | FileMode trust_mode
  | FileModeSet trust_mode trust_mode
  | FileImported nat path
  | Exported string
  | PubkeyOf string path

text \<open>The text listing slices every key at byte 16.\<close>

definition listing_panics :: "bool \<Rightarrow> string list \<Rightarrow> bool" where
  "listing_panics json pks = (\<not> json \<and> list_ex (\<lambda>pk. str_prefix_min 16 pk = Panics) pks)"

section \<open>Through the daemon\<close>

text \<open>\<open>ask\<close> is \<open>client.send\<close>, \<open>debug\<close> the \<open>Debug\<close> text of a response.\<close>

definition list_via_daemon ::
    "(response \<Rightarrow> string) \<Rightarrow> (request \<Rightarrow> string + response) \<Rightarrow> bool \<Rightarrow> (string + trust_report) exec" where
  "list_via_daemon debug ask json =
     (case ask ReqTrustList of
        Inl e \<Rightarrow> Returns (Inl e)
      | Inr (RespTrustList mode entries trust_file) \<Rightarrow>
          if listing_panics json (map ew_pubkey entries) then Panics
          else Returns (Inr (DaemonList mode entries trust_file))
      | Inr resp \<Rightarrow> Returns (Inl (''unexpected response from daemon: '' @ debug resp)))"

definition add_via_daemon ::
    "(response \<Rightarrow> string) \<Rightarrow> (request \<Rightarrow> string + response) \<Rightarrow> string \<Rightarrow> string \<Rightarrow> string list \<Rightarrow> string option \<Rightarrow> string option
       \<Rightarrow> string + trust_report" where
  "add_via_daemon debug ask pk nickname capabilities remarks encryption_pubkey =
     (case ask (ReqTrustAdd pk nickname capabilities remarks encryption_pubkey) of
        Inl e \<Rightarrow> Inl e
      | Inr (RespTrustAdd pk1 nickname1 persisted) \<Rightarrow> Inr (DaemonAdded pk1 nickname1 persisted)
      | Inr resp \<Rightarrow> Inl (''unexpected response from daemon: '' @ debug resp))"

definition remove_via_daemon ::
    "(response \<Rightarrow> string) \<Rightarrow> (request \<Rightarrow> string + response) \<Rightarrow> string \<Rightarrow> string + trust_report" where
  "remove_via_daemon debug ask target =
     (case ask (ReqTrustRemove target) of
        Inl e \<Rightarrow> Inl e
      | Inr (RespTrustRemove pk nickname persisted) \<Rightarrow> Inr (DaemonRemoved pk nickname persisted)
      | Inr resp \<Rightarrow> Inl (''unexpected response from daemon: '' @ debug resp))"

definition mode_via_daemon ::
    "(response \<Rightarrow> string) \<Rightarrow> (request \<Rightarrow> string + response) \<Rightarrow> string option \<Rightarrow> string + trust_report" where
  "mode_via_daemon debug ask new_mode =
     (case ask (ReqTrustMode new_mode) of
        Inl e \<Rightarrow> Inl e
      | Inr (RespTrustMode previous current persisted) \<Rightarrow> Inr (DaemonMode previous current persisted)
      | Inr resp \<Rightarrow> Inl (''unexpected response from daemon: '' @ debug resp))"

section \<open>On the file\<close>

definition loading :: "toml_codec \<Rightarrow> 'w file_system \<Rightarrow> path \<Rightarrow> 'w \<Rightarrow> string + trust_list" where
  "loading C F p w =
     (case load_from C F w p of Inl e \<Rightarrow> Inl (''loading trust file '' @ show_path p) | Inr l \<Rightarrow> Inr l)"

definition saving :: "toml_codec \<Rightarrow> 'w file_system \<Rightarrow> path \<Rightarrow> trust_list \<Rightarrow> 'w \<Rightarrow> (string + unit) \<times> 'w" where
  "saving C F p l w =
     (case save_to C F p l w of
        (Inl e, w1) \<Rightarrow> (Inl (''saving trust file '' @ show_path p), w1)
      | (Inr _, w1) \<Rightarrow> (Inr (), w1))"

definition list_file :: "toml_codec \<Rightarrow> 'w file_system \<Rightarrow> path \<Rightarrow> bool \<Rightarrow> 'w \<Rightarrow> (string + trust_report) exec" where
  "list_file C F p json w =
     (case loading C F p w of
        Inl e \<Rightarrow> Returns (Inl e)
      | Inr l \<Rightarrow>
          if listing_panics json (map te_pubkey (trust_iter l)) then Panics
          else Returns (Inr (FileList p (tl_mode l) (trust_iter l))))"

text \<open>\<open>now\<close> is the system time of the entry.\<close>

definition add_to_file ::
    "toml_codec \<Rightarrow> 'w file_system \<Rightarrow> path \<Rightarrow> nat \<Rightarrow> string \<Rightarrow> string \<Rightarrow> string list \<Rightarrow> string option \<Rightarrow> string option \<Rightarrow> 'w
       \<Rightarrow> (string + trust_report) \<times> 'w" where
  "add_to_file C F p now pk nickname capabilities remarks encryption_pubkey w =
     (case loading C F p w of
        Inl e \<Rightarrow> (Inl e, w)
      | Inr l \<Rightarrow>
          let l1 = (if tl_mode l = Off \<and> trust_is_empty l then set_mode Enforce l else l);
              l2 = trust_add \<lparr>te_pubkey = pk, te_nickname = nickname, te_capabilities = capabilities, te_notes = remarks,
                     te_encryption_pubkey = encryption_pubkey, te_added_at = now\<rparr> l1
          in case saving C F p l2 w of
               (Inl e, w1) \<Rightarrow> (Inl e, w1)
             | (Inr _, w1) \<Rightarrow> (Inr (FileAdded pk nickname p), w1))"

definition remove_from_file ::
    "toml_codec \<Rightarrow> 'w file_system \<Rightarrow> path \<Rightarrow> string \<Rightarrow> 'w \<Rightarrow> (string + trust_report) \<times> 'w" where
  "remove_from_file C F p target w =
     (case loading C F p w of
        Inl e \<Rightarrow> (Inl e, w)
      | Inr l \<Rightarrow>
          let (dropped, l1) = (case trust_remove target l of
                                 (Some e, l') \<Rightarrow> (Some e, l')
                               | (None, l') \<Rightarrow> remove_by_nickname target l')
          in case dropped of
               None \<Rightarrow> (Inl (''no entry matched '' @ target), w)
             | Some entry \<Rightarrow>
                 (case saving C F p l1 w of
                    (Inl e, w1) \<Rightarrow> (Inl e, w1)
                  | (Inr _, w1) \<Rightarrow> (Inr (FileRemoved (te_pubkey entry) (te_nickname entry)), w1)))"

definition mode_of_file ::
    "toml_codec \<Rightarrow> 'w file_system \<Rightarrow> path \<Rightarrow> string option \<Rightarrow> 'w \<Rightarrow> (string + trust_report) \<times> 'w" where
  "mode_of_file C F p new_mode w =
     (case loading C F p w of
        Inl e \<Rightarrow> (Inl e, w)
      | Inr l \<Rightarrow>
          (case new_mode of
             None \<Rightarrow> (Inr (FileMode (tl_mode l)), w)
           | Some new \<Rightarrow>
               let lower = to_lowercase new;
                   next = (if lower = ''off'' then Some Off else if lower = ''enforce'' then Some Enforce
                           else if lower = ''log'' then Some Log else None)
               in case next of
                    None \<Rightarrow> (Inl (''unknown mode: '' @ lower @ '' (expected off|enforce|log)''), w)
                  | Some m \<Rightarrow>
                      (case saving C F p (set_mode m l) w of
                         (Inl e, w1) \<Rightarrow> (Inl e, w1)
                       | (Inr _, w1) \<Rightarrow> (Inr (FileModeSet (tl_mode l) m), w1))))"

text \<open>\<open>stdin\<close> is the standard input, \<open>rd\<close> reads the file of the given name.\<close>

definition import_file ::
    "toml_codec \<Rightarrow> 'w file_system \<Rightarrow> string + string \<Rightarrow> ('w \<Rightarrow> string \<Rightarrow> string + string) \<Rightarrow> path \<Rightarrow> string \<Rightarrow> 'w
       \<Rightarrow> (string + trust_report) \<times> 'w" where
  "import_file C F stdin rd p src w =
     (case loading C F p w of
        Inl e \<Rightarrow> (Inl e, w)
      | Inr l \<Rightarrow>
          let input = (if src = ''-''
                       then (case stdin of Inl e \<Rightarrow> Inl ''reading trust import from stdin'' | Inr s \<Rightarrow> Inr s)
                       else (case rd w src of Inl e \<Rightarrow> Inl (''reading '' @ src) | Inr s \<Rightarrow> Inr s))
          in case input of
               Inl e \<Rightarrow> (Inl e, w)
             | Inr s \<Rightarrow>
                 (case from_toml_str C s of
                    Inl e \<Rightarrow> (Inl (''parsing '' @ src @ '' as TOML''), w)
                  | Inr incoming \<Rightarrow>
                      let (added, l1) = trust_merge incoming l
                      in case saving C F p l1 w of
                           (Inl e, w1) \<Rightarrow> (Inl e, w1)
                         | (Inr _, w1) \<Rightarrow> (Inr (FileImported added p), w1)))"

definition export_file :: "toml_codec \<Rightarrow> 'w file_system \<Rightarrow> path \<Rightarrow> 'w \<Rightarrow> string + trust_report" where
  "export_file C F p w =
     (case loading C F p w of
        Inl e \<Rightarrow> Inl e
      | Inr l \<Rightarrow>
          (case to_toml_string C l of
             Inl e \<Rightarrow> Inl ''serialising trust list to TOML''
           | Inr toml \<Rightarrow> Inr (Exported toml)))"

text \<open>The public key of a key file, which is created when it is missing; \<open>tr\<close> is an in-memory transport.\<close>

definition show_pubkey ::
    "('bf, 'tr, 'rx, 'c, 'w) node_env \<Rightarrow> 'sk key_codec \<Rightarrow> 'w key_files \<Rightarrow> u64 \<Rightarrow> 'sk \<Rightarrow> 'tr \<Rightarrow> path option \<Rightarrow> 'w
       \<Rightarrow> (string + trust_report) \<times> 'w" where
  "show_pubkey N K KF now_ms random_key tr keyfile w =
     (case keyfile of
        None \<Rightarrow>
          (Inl (quoted (CHR 0x60) ''lmao trust pubkey'' @ '' requires --keyfile (the path to a persistent identity file)''), w)
      | Some p \<Rightarrow>
          (case node_from_keyfile N K KF now_ms random_key ''trust-pubkey'' ''trust-pubkey'' [] tr p w of
             (Inl e, w1) \<Rightarrow> (Inl (''loading keyfile '' @ show_path p), w1)
           | (Inr n, w1) \<Rightarrow> (Inr (PubkeyOf (pubkey n) p), w1)))"

section \<open>The command\<close>

text \<open>
  What a command works on: \<open>tr_probe\<close> is the connection of the probe and \<open>tr_send\<close> the client's \<open>send\<close>. What
  the daemon writes is not part of the world that a command returns.
\<close>

record ('bf, 'tr, 'rx, 'c, 'w, 'sk) trust_env =
  tr_toml :: toml_codec
  tr_fs :: "'w file_system"
  tr_stdin :: "string + string"
  tr_read :: "'w \<Rightarrow> string \<Rightarrow> string + string"
  tr_node :: "('bf, 'tr, 'rx, 'c, 'w) node_env"
  tr_keys :: "'sk key_codec"
  tr_key_files :: "'w key_files"
  tr_random_key :: 'sk
  tr_now_ms :: u64
  tr_system_time :: nat
  tr_transport :: 'tr
  tr_debug :: "response \<Rightarrow> string"
  tr_probe :: "string + conn"
  tr_send :: "request \<Rightarrow> string + response"

definition trust_command ::
    "('bf, 'tr, 'rx, 'c, 'w, 'sk) trust_env \<Rightarrow> trust_action \<Rightarrow> path \<Rightarrow> path option \<Rightarrow> bool \<Rightarrow> 'w
       \<Rightarrow> (string + trust_report) exec \<times> 'w" where
  "trust_command T action p keyfile json w =
     (let daemon_up = probe (tr_probe T);
          returns = (\<lambda>(r, w1). (Returns r, w1))
      in case action of
           ActList \<Rightarrow>
             (if daemon_up then list_via_daemon (tr_debug T) (tr_send T) json else list_file (tr_toml T) (tr_fs T) p json w, w)
         | ActAdd pk nickname capabilities remarks encryption_pubkey \<Rightarrow>
             if daemon_up
             then (Returns (add_via_daemon (tr_debug T) (tr_send T) pk nickname capabilities remarks encryption_pubkey), w)
             else returns (add_to_file (tr_toml T) (tr_fs T) p (tr_system_time T) pk nickname capabilities remarks encryption_pubkey w)
         | ActRemove target \<Rightarrow>
             if daemon_up then (Returns (remove_via_daemon (tr_debug T) (tr_send T) target), w)
             else returns (remove_from_file (tr_toml T) (tr_fs T) p target w)
         | ActMode new_mode \<Rightarrow>
             if daemon_up then (Returns (mode_via_daemon (tr_debug T) (tr_send T) new_mode), w)
             else returns (mode_of_file (tr_toml T) (tr_fs T) p new_mode w)
         | ActImport src \<Rightarrow> returns (import_file (tr_toml T) (tr_fs T) (tr_stdin T) (tr_read T) p src w)
         | ActExport \<Rightarrow> (Returns (export_file (tr_toml T) (tr_fs T) p w), w)
         | ActPubkey \<Rightarrow>
             returns (show_pubkey (tr_node T) (tr_keys T) (tr_key_files T) (tr_now_ms T) (tr_random_key T) (tr_transport T) keyfile w))"

section \<open>Offline and online edits agree\<close>

text \<open>The request that a command sends when a daemon listens.\<close>

fun request_of :: "trust_action \<Rightarrow> request option" where
  "request_of (ActAdd pk nickname capabilities remarks encryption_pubkey) =
     Some (ReqTrustAdd pk nickname capabilities remarks encryption_pubkey)"
| "request_of (ActRemove target) = Some (ReqTrustRemove target)"
| "request_of (ActMode new_mode) = Some (ReqTrustMode new_mode)"
| "request_of _ = None"

lemma saving_reloads:
  assumes "toml_ok C" and "fs_ok F" and "trust_wf l" and "saving C F p l w = (Inr (), w')"
  shows "load_from C F w' p = Inr l"
  using assms(4) saved_reloads [OF assms(1-3)] by (auto simp: saving_def split: prod.splits sum.splits)

lemma remove_as_edit:
  assumes "(case trust_remove target l of (Some e, l') \<Rightarrow> (Some e, l') | (None, l') \<Rightarrow> remove_by_nickname target l') = (Some entry, l1)"
  shows "l1 = trust_edit cl (ReqTrustRemove target) l"
proof (cases "bt_contains (tl_entries l) target")
  case True
  then show ?thesis using assms by (auto simp: trust_edit_def trust_remove_def bt_contains_def bt_get_def split: option.splits)
next
  case False
  then have "bt_remove target (tl_entries l) = tl_entries l" by (intro bt_remove_absent) (simp add: bt_contains_def)
  then show ?thesis using False assms by (auto simp: trust_edit_def trust_remove_def bt_contains_def bt_get_def)
qed

lemma add_to_file_edit:
  assumes "toml_ok C" "fs_ok F" "load_from C F w p = Inr l" "trust_wf l"
    and "add_to_file C F p (cl_system_time cl) pk nick caps remarks enc w = (Inr r, w')"
  shows "load_from C F w' p = Inr (trust_edit cl (ReqTrustAdd pk nick caps remarks enc) l)"
proof -
  have "saving C F p (trust_edit cl (ReqTrustAdd pk nick caps remarks enc) l) w = (Inr (), w')"
    using assms(3,5) by (auto simp: add_to_file_def loading_def trust_edit_def Let_def split: prod.splits sum.splits)
  then show ?thesis by (rule saving_reloads [OF assms(1,2) trust_edit_wf [OF assms(4)]])
qed

lemma remove_from_file_edit:
  assumes "toml_ok C" "fs_ok F" "load_from C F w p = Inr l" "trust_wf l"
    and "remove_from_file C F p target w = (Inr r, w')"
  shows "load_from C F w' p = Inr (trust_edit cl (ReqTrustRemove target) l)"
proof -
  obtain dropped l1 where d: "(case trust_remove target l of (Some e, l') \<Rightarrow> (Some e, l') | (None, l') \<Rightarrow> remove_by_nickname target l')
      = (dropped, l1)" by fastforce
  then obtain entry where "dropped = Some entry" and sv: "saving C F p l1 w = (Inr (), w')"
    using assms(3,5) by (auto simp: remove_from_file_def loading_def Let_def split: prod.splits sum.splits option.splits)
  then have "l1 = trust_edit cl (ReqTrustRemove target) l" using remove_as_edit d by blast
  then show ?thesis using saving_reloads [OF assms(1,2) trust_edit_wf [OF assms(4)]] sv by simp
qed

lemma mode_of_file_edit:
  assumes "toml_ok C" "fs_ok F" "load_from C F w p = Inr l" "trust_wf l"
    and "mode_of_file C F p new_mode w = (Inr r, w')"
  shows "load_from C F w' p = Inr (trust_edit cl (ReqTrustMode new_mode) l)"
proof (cases new_mode)
  case None
  then show ?thesis using assms(3,5) by (auto simp: mode_of_file_def loading_def trust_edit_def)
next
  case (Some new)
  then have "saving C F p (trust_edit cl (ReqTrustMode new_mode) l) w = (Inr (), w')"
    using assms(3,5)
    by (auto simp: mode_of_file_def loading_def trust_edit_def parse_trust_mode_def Let_def split: prod.splits sum.splits if_splits option.splits)
  then show ?thesis by (rule saving_reloads [OF assms(1,2) trust_edit_wf [OF assms(4)]])
qed

section \<open>Closed examples\<close>

text \<open>A world that is the text of one file, and a codec for the lists with alice, with bob and with both.\<close>

definition bob :: trust_entry where
  "bob = example_entry\<lparr>te_pubkey := ''02cd'', te_nickname := ''bob''\<rparr>"

definition file_codec :: toml_codec where
  "file_codec =
     (let table = [(''a'', \<lparr>tf_mode = Enforce, tf_peers = [example_entry]\<rparr>), (''b'', \<lparr>tf_mode = Enforce, tf_peers = [bob]\<rparr>),
                   (''ab'', \<lparr>tf_mode = Enforce, tf_peers = [example_entry, bob]\<rparr>)]
      in \<lparr>toml_from_str = (\<lambda>t. case map_of table t of Some f \<Rightarrow> Inr f | None \<Rightarrow> Inl ''parse''),
          toml_to_string_pretty = (\<lambda>f. case map_of (map prod.swap table) f of Some t \<Rightarrow> Inr t | None \<Rightarrow> Inl ''write'')\<rparr>)"

definition one_file :: "string option file_system" where
  "one_file = \<lparr>fs_read_to_string = (\<lambda>w _. case w of Some s \<Rightarrow> ReadOk s | None \<Rightarrow> ReadNotFound ''none''),
     fs_create_dir_all = (\<lambda>w _. (Inr (), w)), fs_write = (\<lambda>_ _ s. (Inr (), Some s)), fs_set_permissions_0600 = (\<lambda>w _. (Inr (), w))\<rparr>"

lemma one_file_ok: "toml_ok file_codec" "fs_ok one_file"
  by (auto simp: toml_ok_def file_codec_def Let_def bob_def example_entry_def split: if_splits) (simp add: fs_ok_def one_file_def)

definition file_nenv :: "(string list, bytes list, unit, bytes, string option) node_env" where
  "file_nenv = (let N = example_nenv [] in \<lparr>
     ne_sds = ne_sds N, ne_crypto = ne_crypto N, ne_status = ne_status N, ne_env_to_vec = ne_env_to_vec N,
     ne_env_from_slice = ne_env_from_slice N, ne_task_to_vec = ne_task_to_vec N, ne_task_from_slice = ne_task_from_slice N,
     ne_rows = ne_rows N, ne_upload = (\<lambda>_ w. (Inl ''none'', w)), ne_download = (\<lambda>_ w. (Inl ''none'', w)),
     ne_pay = (\<lambda>_ _ w. (Inl ''none'', w)), ne_verify_transfer = (\<lambda>_ w. (Inl ''none'', w)), ne_append = (\<lambda>_ w. (Inr (), w)),
     ne_registry = \<lparr>rg_register = (\<lambda>_ w. (Inr (), w)), rg_update = (\<lambda>_ w. (Inr (), w)),
       rg_deregister = (\<lambda>_ w. (Inr (), w)), rg_get = (\<lambda>k _. Inl (NotFound k)), rg_list = (\<lambda>_. Inr []),
       rg_find_by_capability = (\<lambda>_ _. Inr [])\<rparr>\<rparr>)"

definition file_denv :: "(string list, bytes list, unit, bytes, string option, unit, unit, bytes) daemon_env" where
  "file_denv = \<lparr>de_node = file_nenv, de_signing = example_signing, de_toml = file_codec, de_fs = one_file,
     de_history = (\<lambda>_. Inr None), de_download = (\<lambda>_ w. (Inl ''none'', w)), de_base64 = (\<lambda>_. []), de_iter = (\<lambda>m. m)\<rparr>"

definition file_server :: "trust_list \<Rightarrow> string option \<Rightarrow> (string list, bytes list, unit, unit, string option) server" where
  "file_server l w = \<lparr>ds_socket_path = [''s''],
     ds_node = with_trust_list l (node_from_key file_nenv 7 ''02ffffffff'' ''n'' ''d'' [] [] () w),
     ds_storage = False, ds_name = ''n'', ds_trust_file = Some [''t''], ds_history_path = [''h'']\<rparr>"

definition offline_env :: "(string list, bytes list, unit, bytes, string option, unit) trust_env" where
  "offline_env = \<lparr>tr_toml = file_codec, tr_fs = one_file, tr_stdin = Inr [], tr_read = (\<lambda>_ _. Inr ''b''), tr_node = file_nenv,
     tr_keys = \<lparr>sk_from_bytes = (\<lambda>_. Inr ()), sk_to_bytes = (\<lambda>_. []), sk_public = (\<lambda>_. [])\<rparr>,
     tr_key_files = \<lparr>kf_exists = (\<lambda>_ _. False), kf_read_to_string = (\<lambda>_ _. Inl ''none''), kf_create = (\<lambda>w _. (Inr (), w)),
       kf_set_permissions_0600 = (\<lambda>w _. (Inr (), w)), kf_write_all = (\<lambda>w _ _. (Inr (), w))\<rparr>,
     tr_random_key = (), tr_now_ms = 7, tr_system_time = 5, tr_transport = [], tr_debug = (\<lambda>_. []),
     tr_probe = Inl ''refused'', tr_send = (\<lambda>_. Inl ''refused'')\<rparr>"

abbreviation alice_list :: trust_list where
  "alice_list \<equiv> trust_add example_entry (with_mode Enforce)"

lemma file_server_simps:
  "nd_trust_list (ds_node (file_server l w)) = l" "nd_world (ds_node (file_server l w)) = w" "ds_trust_file (file_server l w) = Some [''t'']"
  by (simp_all add: file_server_def with_trust_list_def node_from_key_def node_with_channel_def)

lemma alice_text: "to_toml_string file_codec alice_list = Inr ''a''"
  by (simp add: to_toml_string_def trust_add_def with_mode_def file_codec_def Let_def)

lemma save_alice: "save_to file_codec one_file [''t''] alice_list w = (Inr (), Some ''a'')"
  by (simp add: save_to_def path_parent_def alice_text one_file_def Let_def)

lemma file_server_adds:
  assumes "l = trust_empty \<or> l = alice_list"
  shows "\<exists>self'. dispatch file_denv example_call add_alice (file_server l w) = Some (Returns (Inr (RespTrustAdd ''02ab'' ''alice'' True)), self')"
proof -
  have "trust_edit example_call add_alice l = alice_list"
    using assms by (auto simp: trust_edit_def add_alice_def trust_empty_def trust_add_def with_mode_def set_mode_def trust_is_empty_def
        example_call_def example_entry_def)
  then show ?thesis
    using assms save_alice
    by (auto simp: dispatch_def add_alice_def dispatch_trust_add_def trust_snapshot_def file_server_simps Let_def
        trust_iter_def trust_edit_def trust_is_empty_def persist_trust_def trust_save_to_def node_trust_add_def node_trust_set_mode_def
        file_denv_def example_call_def split: if_splits prod.splits)
qed

section \<open>Properties\<close>

text \<open>
  C26. It makes no difference to the trust list whether a command finds a daemon. When no daemon listens and
  an \<open>add\<close>, \<open>remove\<close> or \<open>mode\<close> on the file succeeds, the file then holds exactly the list that a daemon with
  the same list has after serving the request that the command would have sent it.
\<close>

theorem trust_offline_matches_daemon:
  assumes "toml_ok (tr_toml T)" and "fs_ok (tr_fs T)"
    and "load_from (tr_toml T) (tr_fs T) w p = Inr (nd_trust_list (ds_node self))" and "trust_wf (nd_trust_list (ds_node self))"
    and "probe (tr_probe T) = False" and "tr_system_time T = cl_system_time cl"
    and "trust_command T action p keyfile json w = (Returns (Inr report), w')" and "request_of action = Some req"
    and "dispatch D cl req self = Some (Returns (Inr resp), self')"
  shows "load_from (tr_toml T) (tr_fs T) w' p = Inr (nd_trust_list (ds_node self'))"
proof -
  have "load_from (tr_toml T) (tr_fs T) w' p = Inr (trust_edit cl req (nd_trust_list (ds_node self)))"
  proof (cases action)
    case (ActAdd pk nick caps remarks enc)
    then show ?thesis
      using assms(5-8) add_to_file_edit [OF assms(1-4), of cl pk nick caps remarks enc report w']
      by (auto simp: trust_command_def Let_def split: prod.splits)
  next
    case (ActRemove target)
    then show ?thesis
      using assms(5-8) remove_from_file_edit [OF assms(1-4), of target report w' cl]
      by (auto simp: trust_command_def Let_def split: prod.splits)
  next
    case (ActMode new_mode)
    then show ?thesis
      using assms(5-8) mode_of_file_edit [OF assms(1-4), of new_mode report w' cl]
      by (auto simp: trust_command_def Let_def split: prod.splits)
  qed (use assms(8) in auto)
  then show ?thesis using dispatch_trust_edit [OF assms(9)] by simp
qed

theorem trust_offline_matches_daemon_witness:
  "\<exists>w'. trust_command offline_env (ActAdd ''02ab'' ''alice'' [''echo''] None None) [''t''] None True None =
       (Returns (Inr (FileAdded ''02ab'' ''alice'' [''t''])), w')
     \<and> load_from file_codec one_file w' [''t''] = Inr alice_list"
proof -
  let ?act = "ActAdd ''02ab'' ''alice'' [''echo''] None None"
  obtain self' where run: "dispatch file_denv example_call add_alice (file_server trust_empty None) =
      Some (Returns (Inr (RespTrustAdd ''02ab'' ''alice'' True)), self')" using file_server_adds by blast
  have load: "load_from file_codec one_file None [''t''] = Inr trust_empty" by (simp add: load_from_def one_file_def)
  have alice: "trust_edit example_call add_alice trust_empty = alice_list"
    by (simp add: trust_edit_def add_alice_def trust_empty_def trust_add_def with_mode_def set_mode_def trust_is_empty_def
        example_call_def example_entry_def)
  have cmd: "trust_command offline_env ?act [''t''] None True None = (Returns (Inr (FileAdded ''02ab'' ''alice'' [''t''])), Some ''a'')"
    using alice save_alice [of None]
    by (simp add: trust_command_def offline_env_def probe_def add_to_file_def loading_def load saving_def Let_def trust_edit_def
        add_alice_def example_call_def)
  have "load_from (tr_toml offline_env) (tr_fs offline_env) (Some ''a'') [''t''] = Inr (nd_trust_list (ds_node self'))"
    by (rule trust_offline_matches_daemon [OF _ _ _ _ _ _ cmd _ run])
       (use one_file_ok load in \<open>simp_all add: offline_env_def file_server_simps probe_def example_call_def add_alice_def
          trust_wf_def trust_empty_def bt_wf_def\<close>)
  moreover have "nd_trust_list (ds_node self') = alice_list" using dispatch_trust_edit [OF run] alice by (simp add: file_server_simps)
  ultimately show ?thesis using cmd by (simp add: offline_env_def)
qed

text \<open>
  An import behind a running daemon is lost. \<open>import\<close> edits the file whether or not a daemon listens,
  and the daemon writes its own list over the file at its next edit: after an import that succeeded, a
  trust request that the daemon answers as persisted leaves a file without the imported keys that the
  daemon does not know.
\<close>

lemma trust_import_lost_to_daemon:
  assumes "trust_command T (ActImport src) p keyfile json w = (Returns (Inr (FileImported added p)), w1)"
    and "toml_ok (de_toml D)" "fs_ok (de_fs D)" "trust_wf (nd_trust_list (ds_node self))"
    and "nd_world (ds_node self) = w1" and "ds_trust_file self = Some p"
    and "dispatch D cl (ReqTrustAdd pk nick caps remarks enc) self = Some (Returns (Inr resp), self')" and "says_persisted resp"
    and "k \<noteq> pk" and "\<not> bt_contains (tl_entries (nd_trust_list (ds_node self))) k"
  shows "\<exists>l. load_from (de_toml D) (de_fs D) (nd_world (ds_node self')) p = Inr l \<and> \<not> bt_contains (tl_entries l) k"
proof -
  let ?l = "nd_trust_list (ds_node self')"
  note edit = dispatch_trust_edit [OF assms(7)]
  have wf: "trust_wf ?l" using trust_edit_wf [OF assms(4)] by (simp add: edit)
  have "load_from (de_toml D) (de_fs D) (nd_world (ds_node self')) p = Inr ?l"
    using dispatch_persisted [OF assms(7)] assms(6,8) saved_reloads [OF assms(2,3) wf] by auto
  moreover have "bt_get (tl_entries ?l) k = bt_get (tl_entries (nd_trust_list (ds_node self))) k"
    using assms(9) by (simp add: edit trust_edit_def trust_add_def bt_get_insert set_mode_def)
  ultimately show ?thesis using assms(10) by (simp add: bt_contains_get)
qed

lemma trust_import_lost_to_daemon_witness:
  "\<exists>self'. fst (trust_command offline_env (ActImport ''peers.toml'') [''t''] None True (Some ''a'')) = Returns (Inr (FileImported 1 [''t'']))
     \<and> dispatch file_denv example_call add_alice (file_server alice_list (Some ''ab'')) =
         Some (Returns (Inr (RespTrustAdd ''02ab'' ''alice'' True)), self')
     \<and> (\<exists>l. load_from file_codec one_file (nd_world (ds_node self')) [''t''] = Inr l \<and> \<not> bt_contains (tl_entries l) ''02cd'')"
proof -
  obtain self' where run: "dispatch file_denv example_call add_alice (file_server alice_list (Some ''ab'')) =
      Some (Returns (Inr (RespTrustAdd ''02ab'' ''alice'' True)), self')" using file_server_adds by blast
  have load: "load_from file_codec one_file (Some ''a'') [''t''] = Inr alice_list"
    by (simp add: load_from_def one_file_def from_toml_str_def file_codec_def Let_def trust_add_def with_mode_def)
  let ?both = "alice_list\<lparr>tl_entries := [(''02ab'', example_entry), (''02cd'', bob)]\<rparr>"
  have merged: "from_toml_str file_codec ''b'' = Inr (trust_add bob (with_mode Enforce))"
    "trust_merge (trust_add bob (with_mode Enforce)) alice_list = (1, ?both)"
    by (simp_all add: from_toml_str_def file_codec_def Let_def trust_merge_def trust_add_def with_mode_def bt_contains_def bob_def example_entry_def)
  have "to_toml_string file_codec ?both = Inr ''ab''"
    by (simp add: to_toml_string_def trust_add_def with_mode_def file_codec_def Let_def bob_def example_entry_def)
  then have "save_to file_codec one_file [''t''] ?both (Some ''a'') = (Inr (), Some ''ab'')"
    by (simp add: save_to_def path_parent_def one_file_def Let_def)
  then have cmd: "trust_command offline_env (ActImport ''peers.toml'') [''t''] None True (Some ''a'') =
      (Returns (Inr (FileImported 1 [''t''])), Some ''ab'')"
    using load merged by (simp add: trust_command_def offline_env_def import_file_def loading_def saving_def Let_def)
  have "\<exists>l. load_from (de_toml file_denv) (de_fs file_denv) (nd_world (ds_node self')) [''t''] = Inr l \<and> \<not> bt_contains (tl_entries l) ''02cd''"
    by (rule trust_import_lost_to_daemon [OF cmd _ _ _ _ _ run [unfolded add_alice_def]])
       (use one_file_ok in \<open>simp_all add: file_denv_def file_server_simps trust_wf_def trust_add_def with_mode_def bt_wf_def
          example_entry_def bt_contains_def\<close>)
  then show ?thesis using cmd run by (simp add: file_denv_def)
qed

end
