(* ===== verification/Daemon_Serve.thy ===== *)
theory Daemon_Serve
  imports Daemon_Safety
begin

text \<open>
  The daemon's accept loop (\<open>serve\<close> of \<open>crates/logos-messaging-a2a-cli/src/daemon/server.rs\<close>): taking the socket, the
  connections one after the other, and the exit after a shutdown request. The operating system's sockets
  are a parameter.
\<close>

section \<open>Taking the socket\<close>

text \<open>A listener is a number. The result of setting the permissions is ignored, as is that of removing the file.\<close>

record 'w socket_os =
  so_remove_file :: "path \<Rightarrow> 'w \<Rightarrow> 'w"
  so_create_dir_all :: "path \<Rightarrow> 'w \<Rightarrow> (string + unit) \<times> 'w"
  so_bind :: "path \<Rightarrow> 'w \<Rightarrow> (string + nat) \<times> 'w"
  so_set_mode :: "nat \<Rightarrow> path \<Rightarrow> 'w \<Rightarrow> 'w"

definition SOCKET_MODE :: nat where
  "SOCKET_MODE = 6 * 64"

definition set_socket_perms :: "'w socket_os \<Rightarrow> path \<Rightarrow> 'w \<Rightarrow> 'w" where
  "set_socket_perms S p w = so_set_mode S SOCKET_MODE p w"

definition make_parent :: "'w socket_os \<Rightarrow> path \<Rightarrow> 'w \<Rightarrow> (string + unit) \<times> 'w" where
  "make_parent S p w =
     (case path_parent p of
        None \<Rightarrow> (Inr (), w)
      | Some parent \<Rightarrow>
          (case so_create_dir_all S parent w of
             (Inl _, w1) \<Rightarrow> (Inl (''creating daemon socket parent dir '' @ show_path parent), w1)
           | (Inr _, w1) \<Rightarrow> (Inr (), w1)))"

definition serve_bind :: "'w socket_os \<Rightarrow> path \<Rightarrow> 'w \<Rightarrow> (string + nat) \<times> 'w" where
  "serve_bind S socket_path w =
     (case make_parent S socket_path (so_remove_file S socket_path w) of
        (Inl e, w1) \<Rightarrow> (Inl e, w1)
      | (Inr _, w1) \<Rightarrow>
          (case so_bind S socket_path w1 of
             (Inl _, w2) \<Rightarrow> (Inl (''binding daemon socket '' @ show_path socket_path), w2)
           | (Inr listener, w2) \<Rightarrow> (Inr listener, set_socket_perms S socket_path w2)))"

section \<open>The loop\<close>

text \<open>
  What \<open>accept\<close> returns, with the time in milliseconds. The process exits 150 ms after a shutdown request was
  dispatched.
\<close>

datatype accept_event = AcceptFailed nat string | Accepted nat call conn

fun event_time :: "accept_event \<Rightarrow> nat" where
  "event_time (AcceptFailed at _) = at"
| "event_time (Accepted at _ _) = at"

definition conn_request :: "ipc_codec \<Rightarrow> conn \<Rightarrow> request option" where
  "conn_request K stream = (case fst (read_frame (req_from_slice K) stream) of Inr req \<Rightarrow> Some req | Inl _ \<Rightarrow> None)"

definition exit_after :: "ipc_codec \<Rightarrow> nat \<Rightarrow> conn \<Rightarrow> nat option \<Rightarrow> nat option" where
  "exit_after K at stream exit_at =
     (if conn_request K stream = Some ReqShutdown
      then Some (case exit_at of None \<Rightarrow> at + 150 | Some t \<Rightarrow> min t (at + 150)) else exit_at)"

definition exited :: "nat option \<Rightarrow> nat \<Rightarrow> bool" where
  "exited exit_at at = (case exit_at of None \<Rightarrow> False | Some t \<Rightarrow> t \<le> at)"

text \<open>
  The outcomes of the connections and the server afterwards; \<open>None\<close> when a connection's request does not end
  within its fuel. An error or panic of a connection ends that connection's task only.
\<close>

fun serve_loop ::
    "('bf, 'tr, 'rx, 'c, 'w, 'sk, 'vk, 'sig) daemon_env \<Rightarrow> ipc_codec \<Rightarrow> nat option \<Rightarrow> accept_event list
       \<Rightarrow> ('bf, 'tr, 'rx, 'sk, 'w) server \<Rightarrow> (((string + unit) exec \<times> conn) list \<times> ('bf, 'tr, 'rx, 'sk, 'w) server) option" where
  "serve_loop D K exit_at [] self = Some ([], self)"
| "serve_loop D K exit_at (ev # evs) self =
     (if exited exit_at (event_time ev) then Some ([], self)
      else case ev of
             AcceptFailed _ _ \<Rightarrow> serve_loop D K exit_at evs self
           | Accepted at cl stream \<Rightarrow>
               (case handle_connection D K cl stream self of
                  None \<Rightarrow> None
                | Some (r, stream1, self1) \<Rightarrow>
                    (case serve_loop D K (exit_after K at stream exit_at) evs self1 of
                       None \<Rightarrow> None
                     | Some (rs, self2) \<Rightarrow> Some ((r, stream1) # rs, self2))))"

section \<open>The requests of a run\<close>

text \<open>The connections that are accepted before the process exits, and their requests that arrive whole.\<close>

fun live_conns :: "ipc_codec \<Rightarrow> nat option \<Rightarrow> accept_event list \<Rightarrow> (call \<times> conn) list" where
  "live_conns K exit_at [] = []"
| "live_conns K exit_at (ev # evs) =
     (if exited exit_at (event_time ev) then []
      else case ev of
             AcceptFailed _ _ \<Rightarrow> live_conns K exit_at evs
           | Accepted at cl stream \<Rightarrow> (cl, stream) # live_conns K (exit_after K at stream exit_at) evs)"

definition conn_edit :: "ipc_codec \<Rightarrow> call \<times> conn \<Rightarrow> trust_list \<Rightarrow> trust_list" where
  "conn_edit K c l = (case c of (cl, stream) \<Rightarrow> (case conn_request K stream of None \<Rightarrow> l | Some req \<Rightarrow> trust_edit cl req l))"

lemma handle_connection_edit:
  assumes "handle_connection D K cl stream self = Some (r, stream', self')"
  shows "nd_trust_list (ds_node self') = conn_edit K (cl, stream) (nd_trust_list (ds_node self))"
  using assms
  by (auto simp: handle_connection_def conn_edit_def conn_request_def Let_def dest: dispatch_trust_edit
      split: prod.splits sum.splits option.splits exec.splits)

lemma conn_edit_wf: "trust_wf l \<Longrightarrow> trust_wf (conn_edit K c l)"
  by (auto simp: conn_edit_def trust_edit_wf split: prod.split option.split)

lemma serve_loop_edits:
  assumes "serve_loop D K exit_at evs self = Some (outs, self')"
  shows "nd_trust_list (ds_node self') = fold (conn_edit K) (live_conns K exit_at evs) (nd_trust_list (ds_node self))
    \<and> length outs = length (live_conns K exit_at evs)"
  using assms
proof (induction evs arbitrary: exit_at self outs)
  case (Cons ev evs)
  show ?case
  proof (cases "exited exit_at (event_time ev)")
    case True
    then show ?thesis using Cons.prems by simp
  next
    case live: False
    show ?thesis
    proof (cases ev)
      case (AcceptFailed t e)
      then show ?thesis using Cons.IH [of exit_at self outs] Cons.prems live by simp
    next
      case (Accepted t cl stream)
      then obtain r stream1 self1 rs where h: "handle_connection D K cl stream self = Some (r, stream1, self1)"
          "serve_loop D K (exit_after K t stream exit_at) evs self1 = Some (rs, self')" "outs = (r, stream1) # rs"
        using Cons.prems live by (auto split: option.splits prod.splits)
      show ?thesis using Cons.IH [OF h(2)] handle_connection_edit [OF h(1)] h(3) live by (simp add: Accepted)
    qed
  qed
qed simp

lemma conn_edits_wf: "trust_wf l \<Longrightarrow> trust_wf (fold (conn_edit K) cs l)"
  by (induction cs arbitrary: l) (simp_all add: conn_edit_wf)


text \<open>A daemon that gets a failed accept, a request that adds an entry, a broken request, and a connection.\<close>

definition example_ipc :: ipc_codec where
  "example_ipc =
     \<lparr>req_to_vec = (\<lambda>r. if r = add_alice then Inr [1] else Inl ''none''), req_from_slice = (\<lambda>b. if b = [1] then Some add_alice else None),
      resp_to_vec = (\<lambda>_. Inr [2]), resp_from_slice = (\<lambda>_. None)\<rparr>"

definition incoming :: "bytes \<Rightarrow> conn" where
  "incoming bs = \<lparr>cn_in = bs, cn_out = [], cn_broken = None\<rparr>"

definition example_accepts :: "accept_event list" where
  "example_accepts = [AcceptFailed 0 ''e'', Accepted 1 example_call (incoming (u32_to_le 1 @ [1])), Accepted 2 example_call (incoming [])]"

lemma incoming_requests:
  "read_frame (req_from_slice example_ipc) (incoming (u32_to_le 1 @ [1])) = (Inr add_alice, incoming [])"
  "\<exists>e c. read_frame (req_from_slice example_ipc) (incoming []) = (Inl e, c)"
proof -
  show "read_frame (req_from_slice example_ipc) (incoming (u32_to_le 1 @ [1])) = (Inr add_alice, incoming [])"
    using frame_read_back [of "req_to_vec example_ipc" add_alice "[1]" "req_from_slice example_ipc" "incoming []"]
    by (simp add: example_ipc_def incoming_def MAX_FRAME_BYTES_def)
  show "\<exists>e c. read_frame (req_from_slice example_ipc) (incoming []) = (Inl e, c)"
    by (simp add: read_frame_def read_exact_def incoming_def)
qed


section \<open>Two daemons on one path\<close>

text \<open>
  What an operating system promises: \<open>owner w p\<close> is the listener that a connection to \<open>p\<close> reaches. A path without
  an owner can be bound, to a new listener; one with an owner cannot; removing the file takes the
  name and leaves the listener.
\<close>

definition sockets_ok :: "'w socket_os \<Rightarrow> ('w \<Rightarrow> path \<Rightarrow> nat option) \<Rightarrow> ('w \<Rightarrow> nat set) \<Rightarrow> bool" where
  "sockets_ok S owner listeners \<longleftrightarrow>
     (\<forall>p w. owner (so_remove_file S p w) p = None \<and> listeners (so_remove_file S p w) = listeners w)
   \<and> (\<forall>d w. \<exists>w'. so_create_dir_all S d w = (Inr (), w') \<and> owner w' = owner w \<and> listeners w' = listeners w)
   \<and> (\<forall>m p w. owner (so_set_mode S m p w) = owner w \<and> listeners (so_set_mode S m p w) = listeners w)
   \<and> (\<forall>p w. case owner w p of
        Some _ \<Rightarrow> (\<exists>e w'. so_bind S p w = (Inl e, w'))
      | None \<Rightarrow> (\<exists>l w'. so_bind S p w = (Inr l, w') \<and> l \<notin> listeners w \<and> owner w' p = Some l \<and> listeners w' = insert l (listeners w)))"

lemma make_parent_ok:
  assumes "sockets_ok S owner listeners"
  shows "\<exists>w'. make_parent S p w = (Inr (), w') \<and> owner w' = owner w \<and> listeners w' = listeners w"
proof (cases "path_parent p")
  case (Some parent)
  obtain w' where "so_create_dir_all S parent w = (Inr (), w')" "owner w' = owner w" "listeners w' = listeners w"
    using assms unfolding sockets_ok_def by blast
  then show ?thesis by (simp add: make_parent_def Some)
qed (simp add: make_parent_def)

text \<open>
  A second daemon takes the path of a running one: its start succeeds and connections reach it from then on,
  while the first one still listens.
\<close>

lemma serve_takes_over:
  assumes ok: "sockets_ok S owner listeners" and running: "owner w p = Some l1" "l1 \<in> listeners w"
  shows "\<exists>l2 w'. serve_bind S p w = (Inr l2, w') \<and> owner w' p = Some l2 \<and> l2 \<noteq> l1 \<and> l1 \<in> listeners w'"
proof -
  let ?w = "so_remove_file S p w"
  have r: "owner ?w p = None" "listeners ?w = listeners w" using ok unfolding sockets_ok_def by blast+
  obtain w1 where w1: "make_parent S p ?w = (Inr (), w1)" "owner w1 = owner ?w" "listeners w1 = listeners ?w"
    using make_parent_ok [OF ok] by blast
  have "case owner w1 p of
        Some _ \<Rightarrow> (\<exists>e w'. so_bind S p w1 = (Inl e, w'))
      | None \<Rightarrow> (\<exists>l w'. so_bind S p w1 = (Inr l, w') \<and> l \<notin> listeners w1 \<and> owner w' p = Some l \<and> listeners w' = insert l (listeners w1))"
    using ok unfolding sockets_ok_def by blast
  then obtain l2 w2 where w2: "so_bind S p w1 = (Inr l2, w2)" "l2 \<notin> listeners w1" "owner w2 p = Some l2" "listeners w2 = insert l2 (listeners w1)"
    using w1(2) r(1) by auto
  have "owner (set_socket_perms S p w2) = owner w2" "listeners (set_socket_perms S p w2) = listeners w2"
    using ok unfolding sockets_ok_def set_socket_perms_def by blast+
  then show ?thesis using w1 w2 r running by (auto simp: serve_bind_def)
qed

text \<open>Sockets as a map from paths to listeners and the number of listeners so far.\<close>

definition example_sockets :: "((path \<Rightarrow> nat option) \<times> nat) socket_os" where
  "example_sockets =
     \<lparr>so_remove_file = (\<lambda>p (m, n). (m(p := None), n)), so_create_dir_all = (\<lambda>_ w. (Inr (), w)),
      so_bind = (\<lambda>p (m, n). case m p of None \<Rightarrow> (Inr n, (m(p := Some n), Suc n)) | Some _ \<Rightarrow> (Inl ''in use'', (m, n))),
      so_set_mode = (\<lambda>_ _ w. w)\<rparr>"

lemma serve_takes_over_witness:
  "\<exists>l2 w'. serve_bind example_sockets [''s''] ([[''s''] \<mapsto> 0], 1) = (Inr l2, w') \<and> fst w' [''s''] = Some l2 \<and> l2 \<noteq> 0"
proof -
  have "sockets_ok example_sockets fst (\<lambda>w. {..< snd w})"
    by (auto simp: sockets_ok_def example_sockets_def split: option.split)
  from serve_takes_over [OF this, of "([[''s''] \<mapsto> 0], 1)" "[''s'']" 0] show ?thesis by auto
qed

end
