(* ===== verification/Logos_Core.thy ===== *)
theory Logos_Core
  imports Execution Utf8
begin

text \<open>
  The boundary to the Logos libraries: the bindings of the C++ SDK
  (\<open>crates/logos-core-bindings/src/lib.rs\<close>), the calls of the plugin interface of Logos Core
  (\<open>crates/logos-messaging-a2a-transport/src/logos_core.rs\<close> and the helpers of
  \<open>crates/logos-messaging-a2a-storage/src/logos_core_backend.rs\<close>), and the future that waits for the
  callback of such a call. The C functions are parameters. A C string is its bytes without the terminator,
  \<open>None\<close> the null pointer; a call whose callback never comes has no result.
\<close>

section \<open>C strings\<close>

text \<open>\<open>CString::new\<close> fails on an interior NUL.\<close>

definition has_nul :: "string \<Rightarrow> bool" where
  "has_nul s = (CHR 0x00 \<in> set s)"

text \<open>The message of a callback: the empty string for the null pointer, else read lossily.\<close>

definition c_text :: "bytes option \<Rightarrow> string" where
  "c_text msg = (case msg of None \<Rightarrow> [] | Some bs \<Rightarrow> from_utf8_lossy bs)"

text \<open>Decimal formatting of a \<open>c_int\<close>.\<close>

definition show_int :: "int \<Rightarrow> string" where
  "show_int i = (if i < 0 then ''-'' @ show_nat (nat (- i)) else show_nat (nat i))"

lemma show_nat_no_nul: "\<not> has_nul (show_nat n)"
proof (induction n rule: show_nat.induct)
  case (1 n)
  have "CHR 0x00 \<noteq> char_of (48 + d)" if "d < 10" for d :: nat
  proof
    assume "CHR 0x00 = char_of (48 + d)"
    then have "of_char (CHR 0x00) = (of_char (char_of (48 + d) :: char) :: nat)" by simp
    then show False using that by simp
  qed
  then show ?case using 1 by (subst show_nat.simps) (auto simp: has_nul_def)
qed

text \<open>
  The result of code that shares memory with C: \<open>Undef\<close> is undefined behaviour, \<open>Hangs\<close> a future whose callback
  never comes.
\<close>

datatype 'a ffi = Done 'a | Hangs | Undef

section \<open>The bindings of the SDK\<close>

datatype shim_error = NotCompiledIn | InitFailed | NulInArg string | InvalidUtf8 | ShimError string

fun show_shim_error :: "shim_error \<Rightarrow> string" where
  "show_shim_error NotCompiledIn =
     ''logos-core-bindings was built without LOGOS_CPP_SDK_DIR '' @ [CHR 0xE2, CHR 0x80, CHR 0x94]
     @ '' set the env var to a logos-cpp-sdk checkout and rebuild.''"
| "show_shim_error InitFailed = ''logos_shim_new returned null''"
| "show_shim_error (NulInArg name) = ''interior NUL in arg: '' @ name"
| "show_shim_error InvalidUtf8 = ''shim returned non-UTF-8 string''"
| "show_shim_error (ShimError s) = ''shim error: '' @ s"

text \<open>
  The C functions of the shim; pointers are addresses and 0 is null. \<open>sl_str\<close> reads the string at an
  address, \<open>sl_real\<close> says whether the crate was built with the SDK.
\<close>

record 'w shim_lib =
  sl_real :: bool
  sl_new :: "string \<Rightarrow> 'w \<Rightarrow> nat \<times> 'w"
  sl_call :: "string \<Rightarrow> string \<Rightarrow> string \<Rightarrow> int \<Rightarrow> 'w \<Rightarrow> nat \<times> 'w"
  sl_listen :: "string \<Rightarrow> string \<Rightarrow> 'w \<Rightarrow> int \<times> 'w"
  sl_poll :: "int \<Rightarrow> 'w \<Rightarrow> nat \<times> 'w"
  sl_str :: "'w \<Rightarrow> nat \<Rightarrow> bytes"
  sl_free :: "nat \<Rightarrow> 'w \<Rightarrow> 'w"
  sl_destroy :: "nat \<Rightarrow> 'w \<Rightarrow> 'w"

definition shim_new :: "'w shim_lib \<Rightarrow> string \<Rightarrow> 'w \<Rightarrow> (shim_error + nat) \<times> 'w" where
  "shim_new L module_name w =
     (if \<not> sl_real L then (Inl NotCompiledIn, w)
      else if has_nul module_name then (Inl (NulInArg ''module_name''), w)
      else let (inner, w1) = sl_new L module_name w
           in if inner = 0 then (Inl InitFailed, w1) else (Inr inner, w1))"

text \<open>The owned copy of a string the shim allocated, which is then freed.\<close>

definition take_str :: "'w shim_lib \<Rightarrow> nat \<Rightarrow> 'w \<Rightarrow> (shim_error + string) \<times> 'w" where
  "take_str L raw w =
     (if valid_utf8 (sl_str L w raw) then Inr (of_bytes (sl_str L w raw)) else Inl InvalidUtf8, sl_free L raw w)"

definition shim_call ::
    "'w shim_lib \<Rightarrow> string \<Rightarrow> string \<Rightarrow> string \<Rightarrow> int \<Rightarrow> 'w \<Rightarrow> (shim_error + string) \<times> 'w" where
  "shim_call L target_module meth args_json timeout_ms w =
     (if \<not> sl_real L then (Inl NotCompiledIn, w)
      else if has_nul target_module then (Inl (NulInArg ''target''), w)
      else if has_nul meth then (Inl (NulInArg ''method''), w)
      else if has_nul args_json then (Inl (NulInArg ''args_json''), w)
      else
        let (raw, w1) = sl_call L target_module meth args_json timeout_ms w
        in if raw = 0 then
             (Inl (ShimError (''{'' @ [CHR 0x22] @ ''error'' @ [CHR 0x22] @ '':'' @ [CHR 0x22]
                @ ''shim returned null pointer'' @ [CHR 0x22] @ ''}'')), w1)
           else take_str L raw w1)"

definition shim_listen :: "'w shim_lib \<Rightarrow> string \<Rightarrow> string \<Rightarrow> 'w \<Rightarrow> (shim_error + unit) \<times> 'w" where
  "shim_listen L module_name event_name w =
     (if \<not> sl_real L then (Inl NotCompiledIn, w)
      else if has_nul module_name then (Inl (NulInArg ''module''), w)
      else if has_nul event_name then (Inl (NulInArg ''event_name''), w)
      else
        let (ok, w1) = sl_listen L module_name event_name w
        in if ok = 1 then (Inr (), w1)
           else (Inl (ShimError (''{'' @ [CHR 0x22] @ ''error'' @ [CHR 0x22] @ '':'' @ [CHR 0x22]
                   @ ''listen('' @ module_name @ '', '' @ event_name @ '') failed '' @ [CHR 0xE2, CHR 0x80, CHR 0x94]
                   @ '' module not loaded?'' @ [CHR 0x22] @ ''}'')), w1))"

definition shim_poll_event :: "'w shim_lib \<Rightarrow> int \<Rightarrow> 'w \<Rightarrow> (shim_error + string option) \<times> 'w" where
  "shim_poll_event L timeout_ms w =
     (if \<not> sl_real L then (Inl NotCompiledIn, w)
      else
        let (raw, w1) = sl_poll L timeout_ms w
        in if raw = 0 then (Inr None, w1)
           else case take_str L raw w1 of (Inl e, w2) \<Rightarrow> (Inl e, w2) | (Inr s, w2) \<Rightarrow> (Inr (Some s), w2))"

definition shim_drop :: "'w shim_lib \<Rightarrow> nat \<Rightarrow> 'w \<Rightarrow> 'w" where
  "shim_drop L inner w = (if sl_real L \<and> inner \<noteq> 0 then sl_destroy L inner w else w)"

section \<open>JSON responses of a module\<close>

text \<open>\<open>serde_json\<close> reading and writing a value.\<close>

record json_lib =
  js_from_str :: "string \<Rightarrow> string + json"
  js_to_string :: "json \<Rightarrow> string + string"

fun as_bool :: "json \<Rightarrow> bool option" where
  "as_bool (JBool b) = Some b"
| "as_bool _ = None"

definition get_str :: "string \<Rightarrow> json \<Rightarrow> string option" where
  "get_str k v = Option.bind (json_get k v) as_str"

text \<open>The shape \<open>{"kind": "error", "message": ...}\<close>.\<close>

definition kind_error :: "json \<Rightarrow> string option" where
  "kind_error v = (if get_str ''kind'' v = Some ''error'' then get_str ''message'' v else None)"

section \<open>The plugin interface\<close>

text \<open>
  \<open>pl_call plugin method params\<close> is the result code and message of the callback.
\<close>

record 'w plugin_lib =
  pl_call :: "string \<Rightarrow> string \<Rightarrow> string \<Rightarrow> 'w \<Rightarrow> (int \<times> bytes option) option \<times> 'w"
  pl_listen :: "string \<Rightarrow> string \<Rightarrow> 'w \<Rightarrow> 'w"

text \<open>The callback of the transport's calls.\<close>

definition plugin_outcome :: "int \<Rightarrow> bytes option \<Rightarrow> string + string" where
  "plugin_outcome code msg = (if code = 1 then Inr (c_text msg) else Inl (c_text msg))"

definition call_plugin_method ::
    "'w plugin_lib \<Rightarrow> string \<Rightarrow> string \<Rightarrow> string \<Rightarrow> 'w \<Rightarrow> (string + string) exec option \<times> 'w" where
  "call_plugin_method L plugin meth params w =
     (if has_nul plugin \<or> has_nul meth \<or> has_nul params then (Some Panics, w)
      else case pl_call L plugin meth params w of
             (None, w1) \<Rightarrow> (None, w1)
           | (Some (code, msg), w1) \<Rightarrow> (Some (Returns (plugin_outcome code msg)), w1))"

text \<open>The parameters of a call, as text; nothing is escaped.\<close>

definition json_quoted :: "string \<Rightarrow> string" where
  "json_quoted s = [CHR 0x22] @ s @ [CHR 0x22]"

definition param_entry :: "string \<times> string \<times> string \<Rightarrow> string" where
  "param_entry p =
     (case p of (name, value, ty) \<Rightarrow>
        ''{'' @ json_quoted ''name'' @ '':'' @ json_quoted name @ '','' @ json_quoted ''value'' @ '':'' @ json_quoted value
        @ '','' @ json_quoted ''type'' @ '':'' @ json_quoted ty @ ''}'')"

definition params_json :: "(string \<times> string \<times> string) list \<Rightarrow> string" where
  "params_json params = ''['' @ join '','' (map param_entry params) @ '']''"

definition string_params :: "(string \<times> string) list \<Rightarrow> string" where
  "string_params pairs = params_json (map (\<lambda>(name, value). (name, value, ''string'')) pairs)"

section \<open>The future of a call\<close>

text \<open>
  \<open>CallState\<close>, shared by the future and the callback under a mutex: \<open>poll\<close> takes the result or leaves the
  waker of the task, the callback leaves the result and takes the waker to wake.
\<close>

record 'r call_state =
  cs_result :: "'r option"
  cs_waker :: "nat option"

definition call_state_new :: "'r call_state" where
  "call_state_new = \<lparr>cs_result = None, cs_waker = None\<rparr>"

definition call_poll :: "nat \<Rightarrow> 'r call_state \<Rightarrow> 'r option \<times> 'r call_state" where
  "call_poll waker st =
     (case cs_result st of
        Some r \<Rightarrow> (Some r, st\<lparr>cs_result := None\<rparr>)
      | None \<Rightarrow> (None, st\<lparr>cs_waker := Some waker\<rparr>))"

definition call_complete :: "'r \<Rightarrow> 'r call_state \<Rightarrow> nat option \<times> 'r call_state" where
  "call_complete r st = (cs_waker st, st\<lparr>cs_result := Some r, cs_waker := None\<rparr>)"

text \<open>
  The task that awaits the future, on an executor: it runs when scheduled, sleeps after \<open>Pending\<close>, and is
  scheduled again by its waker, which the executor may renew at every poll, or spuriously.
\<close>

datatype 'r phase = Scheduled | Parked | Finished 'r

record 'r call_run =
  cr_state :: "'r call_state"
  cr_phase :: "'r phase"
  cr_waker :: nat
  cr_called :: "'r option"

definition call_start :: "nat \<Rightarrow> 'r call_run" where
  "call_start waker = \<lparr>cr_state = call_state_new, cr_phase = Scheduled, cr_waker = waker, cr_called = None\<rparr>"

definition run_poll :: "nat \<Rightarrow> 'r call_run \<Rightarrow> 'r call_run" where
  "run_poll waker run =
     (case call_poll waker (cr_state run) of
        (Some r, st) \<Rightarrow> run\<lparr>cr_state := st, cr_phase := Finished r\<rparr>
      | (None, st) \<Rightarrow> run\<lparr>cr_state := st, cr_phase := Parked, cr_waker := waker\<rparr>)"

definition wake :: "nat option \<Rightarrow> 'r call_run \<Rightarrow> 'r call_run" where
  "wake waker run = (if cr_phase run = Parked \<and> waker = Some (cr_waker run) then run\<lparr>cr_phase := Scheduled\<rparr> else run)"

definition run_callback :: "'r \<Rightarrow> 'r call_run \<Rightarrow> 'r call_run" where
  "run_callback r run =
     (case call_complete r (cr_state run) of
        (waker, st) \<Rightarrow> wake waker (run\<lparr>cr_state := st, cr_called := Some r\<rparr>))"

inductive call_step :: "'r call_run \<Rightarrow> 'r call_run \<Rightarrow> bool" where
  poll: "cr_phase run = Scheduled \<Longrightarrow> call_step run (run_poll waker run)"
| callback: "cr_called run = None \<Longrightarrow> call_step run (run_callback r run)"
| spurious: "cr_phase run = Parked \<Longrightarrow> call_step run (run\<lparr>cr_phase := Scheduled\<rparr>)"

code_pred call_step .

text \<open>A parked task has left its waker; a result is there exactly between the callback and the poll that takes it.\<close>

definition call_inv :: "'r call_run \<Rightarrow> bool" where
  "call_inv run \<longleftrightarrow>
     (case cr_phase run of
        Scheduled \<Rightarrow> cs_result (cr_state run) = cr_called run
      | Parked \<Rightarrow> cr_called run = None \<and> cs_result (cr_state run) = None \<and> cs_waker (cr_state run) = Some (cr_waker run)
      | Finished r \<Rightarrow> cr_called run = Some r)"

lemma call_step_inv: "call_inv run \<Longrightarrow> call_step run run' \<Longrightarrow> call_inv run'"
  by (cases run; cases "cr_state run"; cases "cr_phase run")
     (auto elim!: call_step.cases
        simp: call_inv_def run_poll_def run_callback_def wake_def call_poll_def call_complete_def split: option.splits)

interpretation call: step_system "\<lambda>run. \<exists>waker. run = call_start waker" call_step call_inv
proof
  show "\<exists>waker. run = call_start waker \<Longrightarrow> call_inv run" for run :: "'a call_run"
    by (auto simp: call_inv_def call_start_def call_state_new_def)
qed (rule call_step_inv)

text \<open>
  C19. No wake-up is lost: however the polls of the task, the callback and spurious wake-ups interleave, once
  the callback has delivered a result the task has it or is scheduled, never asleep, and its next poll
  finishes with exactly that result; before the callback it has not finished.
\<close>

theorem call_completes:
  assumes "rtranclp call_step (call_start waker0) run"
  shows "case cr_called run of
      None \<Rightarrow> \<forall>r. cr_phase run \<noteq> Finished r
    | Some r \<Rightarrow> cr_phase run = Finished r \<or> (cr_phase run = Scheduled \<and> cr_phase (run_poll waker run) = Finished r)"
proof -
  have "call_inv run" using call.reachable_inv [OF _ assms] by blast
  then show ?thesis
    by (auto simp: call_inv_def run_poll_def call_poll_def split: option.splits phase.splits)
qed

theorem call_completes_witness:
  "cr_phase (run_poll 7 (run_callback ''ok'' (run_poll 5 (call_start 5)))) = Finished ''ok''"
proof -
  have "call_step (call_start 5) (run_poll 5 (call_start 5))"
    by (rule poll) (simp add: call_start_def)
  moreover have "call_step (run_poll 5 (call_start 5)) (run_callback ''ok'' (run_poll 5 (call_start 5)))"
    by (rule callback) (simp add: call_start_def call_state_new_def run_poll_def call_poll_def)
  ultimately have "rtranclp call_step (call_start 5) (run_callback ''ok'' (run_poll 5 (call_start 5)))"
    by (rule converse_rtranclp_into_rtranclp [OF _ r_into_rtranclp])
  from call_completes [OF this, of 7] show ?thesis
    by (simp add: call_start_def call_state_new_def run_poll_def call_poll_def run_callback_def wake_def call_complete_def)
qed

section \<open>Facts on the calls\<close>

lemma get_str_simps [simp]:
  "get_str k (JObj m) = (case map_of m k of Some (JStr s) \<Rightarrow> Some s | _ \<Rightarrow> None)" "get_str k (JStr s) = None"
  "get_str k (JArr xs) = None" "get_str k (JBool b) = None" "get_str k JNull = None" "get_str k (JNum s) = None"
  by (auto simp: get_str_def split: option.split json.split)

text \<open>The stub build answers every call with the same error and leaves the world alone.\<close>

lemma shim_stub:
  assumes "\<not> sl_real L"
  shows "shim_new L m w = (Inl NotCompiledIn, w)" "shim_call L m f args t w = (Inl NotCompiledIn, w)"
    "shim_listen L m e w = (Inl NotCompiledIn, w)" "shim_poll_event L t w = (Inl NotCompiledIn, w)"
  using assms by (simp_all add: shim_new_def shim_call_def shim_listen_def shim_poll_event_def)

section \<open>String literals of JSON\<close>

text \<open>
  The grammar of RFC 8259 for a string, from behind its opening quote: the characters up to the closing
  quote and the text behind it. The escapes \<open>u\<close> with four digits are left out.
\<close>

definition unescape :: "char \<Rightarrow> char option" where
  "unescape c = map_of [(CHR 0x22, CHR 0x22), (CHR 0x5C, CHR 0x5C), (CHR 0x2F, CHR 0x2F), (CHR ''b'', CHR 0x08),
     (CHR ''f'', CHR 0x0C), (CHR ''n'', CHR 0x0A), (CHR ''r'', CHR 0x0D), (CHR ''t'', CHR 0x09)] c"

fun lex_string :: "string \<Rightarrow> (string \<times> string) option" where
  "lex_string [] = None"
| "lex_string [c] = (if c = CHR 0x22 then Some ([], []) else None)"
| "lex_string (c # d # cs) =
     (if c = CHR 0x22 then Some ([], d # cs)
      else if c = CHR 0x5C then
        (case unescape d of
           None \<Rightarrow> None
         | Some e \<Rightarrow> map_option (\<lambda>(s, rest). (e # s, rest)) (lex_string cs))
      else if of_char c < (32 :: nat) then None
      else map_option (\<lambda>(s, rest). (c # s, rest)) (lex_string (d # cs)))"

text \<open>Characters that stand for themselves.\<close>

definition plain_char :: "char \<Rightarrow> bool" where
  "plain_char c \<longleftrightarrow> c \<noteq> CHR 0x22 \<and> c \<noteq> CHR 0x5C \<and> 32 \<le> (of_char c :: nat)"

lemma lex_plain_char:
  assumes "plain_char c" and "t \<noteq> []"
  shows "lex_string (c # t) = map_option (\<lambda>(s, rest). (c # s, rest)) (lex_string t)"
  using assms by (cases t) (auto simp: plain_char_def)

lemma lex_plain: "list_all plain_char s \<Longrightarrow> lex_string (s @ CHR 0x22 # rest) = Some (s, rest)"
proof (induction s)
  case Nil
  then show ?case by (cases rest) simp_all
next
  case (Cons c s)
  then show ?case by (simp add: lex_plain_char)
qed

text \<open>
  A parameter whose value is plain reads back; a value with a quote, such as a configuration that is itself
  JSON, is cut at its first quote, and the text behind it is read as more of the document.
\<close>

lemma string_params_value:
  "string_params [(name, v)] =
     (''[{'' @ json_quoted ''name'' @ '':'' @ json_quoted name @ '','' @ json_quoted ''value'' @ '':'' @ [CHR 0x22])
     @ v @ CHR 0x22 # ('','' @ json_quoted ''type'' @ '':'' @ json_quoted ''string'' @ ''}]'')"
  by (simp add: string_params_def params_json_def param_entry_def json_quoted_def)

lemma string_params_read:
  assumes "list_all plain_char v"
  shows "\<exists>opened rest. string_params [(name, v)] = opened @ v @ CHR 0x22 # rest
    \<and> lex_string (v @ CHR 0x22 # rest) = Some (v, rest)"
  using string_params_value [of name v] lex_plain [OF assms] by blast

lemma string_params_cut:
  assumes "list_all plain_char pre"
  shows "\<exists>opened rest. string_params [(name, pre @ CHR 0x22 # post)] = opened @ pre @ CHR 0x22 # post @ rest
    \<and> lex_string (pre @ CHR 0x22 # post @ rest) = Some (pre, post @ rest)"
proof -
  obtain opened rest where "string_params [(name, pre @ CHR 0x22 # post)] = opened @ (pre @ CHR 0x22 # post) @ CHR 0x22 # rest"
    using string_params_value by blast
  then have "string_params [(name, pre @ CHR 0x22 # post)] = opened @ pre @ CHR 0x22 # post @ (CHR 0x22 # rest)" by simp
  then show ?thesis using lex_plain [OF assms] by blast
qed

end
