(* ===== verification/Base64.thy ===== *)
theory Base64
  imports Prelude
begin

text \<open>
  The Base64 codec of the REST transport (\<open>crates/logos-messaging-a2a-transport/src/nwaku_rest.rs\<close>), on
  32-bit words as the code has it, and that decoding gives back what was encoded.
\<close>

unbundle bit_operations_syntax

section \<open>Encoding\<close>

definition alphabet :: string where
  "alphabet = ''ABCDEFGHIJKLMNOPQRSTUVWXYZabcdefghijklmnopqrstuvwxyz0123456789+/''"

text \<open>The character for six bits of a triple, from the given bit on.\<close>

definition sextet :: "u32 \<Rightarrow> nat \<Rightarrow> char" where
  "sextet triple k = alphabet ! unat (drop_bit k triple AND 0x3F)"

definition encode_chunk :: "bytes \<Rightarrow> string" where
  "encode_chunk chunk =
     (let b0 = (ucast (chunk ! 0) :: u32);
          b1 = (if 1 < length chunk then ucast (chunk ! 1) else 0);
          b2 = (if 2 < length chunk then ucast (chunk ! 2) else 0);
          triple = push_bit 16 b0 OR push_bit 8 b1 OR b2
      in [sextet triple 18, sextet triple 12,
          if 1 < length chunk then sextet triple 6 else CHR ''='',
          if 2 < length chunk then sextet triple 0 else CHR ''=''])"

text \<open>The loop over \<open>data.chunks(3)\<close>.\<close>

fun base64_encode :: "bytes \<Rightarrow> string" where
  "base64_encode [] = []"
| "base64_encode [b0] = encode_chunk [b0]"
| "base64_encode [b0, b1] = encode_chunk [b0, b1]"
| "base64_encode (b0 # b1 # b2 # rest) = encode_chunk [b0, b1, b2] @ base64_encode rest"

section \<open>Decoding\<close>

text \<open>\<open>alphabet.iter().position(...)\<close>\<close>

definition position :: "char \<Rightarrow> u8 option" where
  "position c = map_option word_of_nat (find (\<lambda>i. alphabet ! i = c) [0..<64])"

definition decode_chunk :: "u8 list \<Rightarrow> bytes" where
  "decode_chunk chunk =
     (let len = length chunk in
      if len < 2 then []
      else
        let b0 = (ucast (chunk ! 0) :: u32); b1 = ucast (chunk ! 1);
            b2 = (if 2 < len then ucast (chunk ! 2) else 0);
            b3 = (if 3 < len then ucast (chunk ! 3) else 0);
            triple = push_bit 18 b0 OR push_bit 12 b1 OR push_bit 6 b2 OR b3
        in [ucast (drop_bit 16 triple AND 0xFF)]
           @ (if 2 < len then [ucast (drop_bit 8 triple AND 0xFF)] else [])
           @ (if 3 < len then [ucast (triple AND 0xFF)] else []))"

text \<open>The loop over \<open>chars.chunks(4)\<close>; only the last chunk can be too short.\<close>

fun decode_chunks :: "u8 list \<Rightarrow> bytes" where
  "decode_chunks (c0 # c1 # c2 # c3 # rest) = decode_chunk [c0, c1, c2, c3] @ decode_chunks rest"
| "decode_chunks chunk = decode_chunk chunk"

text \<open>\<open>str::trim_end_matches\<close> of one character.\<close>

definition trim_end_matches :: "char \<Rightarrow> string \<Rightarrow> string" where
  "trim_end_matches c s = rev (dropWhile (\<lambda>d. d = c) (rev s))"

text \<open>The result is always \<open>Ok\<close>.\<close>

definition base64_decode :: "string \<Rightarrow> bytes" where
  "base64_decode input = decode_chunks (List.map_filter position (trim_end_matches (CHR ''='') input))"

section \<open>Bits\<close>

lemma bits8:
  fixes a b :: u8
  assumes "bit a 0 = bit b 0" "bit a 1 = bit b 1" "bit a 2 = bit b 2" "bit a 3 = bit b 3"
    "bit a 4 = bit b 4" "bit a 5 = bit b 5" "bit a 6 = bit b 6" "bit a 7 = bit b 7"
  shows "a = b"
proof (rule bit_word_eqI)
  fix n assume "n < LENGTH(8)"
  then have "n = 0 \<or> n = 1 \<or> n = 2 \<or> n = 3 \<or> n = 4 \<or> n = 5 \<or> n = 6 \<or> n = 7" by simp arith
  then show "bit a n \<longleftrightarrow> bit b n" using assms by (elim disjE) simp_all
qed

lemma high_bit: "8 \<le> n \<Longrightarrow> \<not> bit (b :: u8) n"
  using bit_imp_le_length [of b n] by auto

lemma masks: "(0x3F :: u32) = mask 6" "(0xFF :: u32) = mask 8"
  by (simp_all add: mask_eq_exp_minus_1)

text \<open>The sextets of a triple as the decoder reads them.\<close>

definition six :: "u32 \<Rightarrow> nat \<Rightarrow> u8" where
  "six t k = ucast (drop_bit k t AND 0x3F)"

lemmas chunk_bits = bit_simps masks high_bit

lemma decode_three:
  fixes b0 b1 b2 :: u8
  defines "t \<equiv> push_bit 16 (ucast b0 :: u32) OR push_bit 8 (ucast b1) OR ucast b2"
  shows "decode_chunk [six t 18, six t 12, six t 6, six t 0] = [b0, b1, b2]"
  unfolding decode_chunk_def Let_def t_def six_def by simp (intro conjI bits8; simp add: chunk_bits)

lemma decode_two:
  fixes b0 b1 :: u8
  defines "t \<equiv> push_bit 16 (ucast b0 :: u32) OR push_bit 8 (ucast b1) OR 0"
  shows "decode_chunk [six t 18, six t 12, six t 6] = [b0, b1]"
  unfolding decode_chunk_def Let_def t_def six_def by simp (intro conjI bits8; simp add: chunk_bits)

lemma decode_one:
  fixes b0 :: u8
  defines "t \<equiv> push_bit 16 (ucast b0 :: u32) OR push_bit 8 0 OR 0"
  shows "decode_chunk [six t 18, six t 12] = [b0]"
  unfolding decode_chunk_def Let_def t_def six_def by simp (intro bits8; simp add: chunk_bits)

section \<open>Characters\<close>

lemma position_alphabet: "i < 64 \<Longrightarrow> position (alphabet ! i) = Some (word_of_nat i)"
proof -
  have "distinct alphabet" "length alphabet = 64" by (simp_all add: alphabet_def)
  moreover assume "i < 64"
  ultimately have "find (\<lambda>j. alphabet ! j = alphabet ! i) [0..<64] = Some i"
    by (auto simp: find_Some_iff distinct_conv_nth)
  then show ?thesis by (simp add: position_def)
qed

lemma position_sextet: "position (sextet t k) = Some (six t k)"
proof -
  have "drop_bit k t AND 0x3F \<le> (0x3F :: u32)" by (rule word_and_le1)
  then have "unat (drop_bit k t AND 0x3F) < 64" by (simp add: word_le_nat_alt)
  from position_alphabet [OF this] show ?thesis by (simp add: sextet_def six_def)
qed

lemma position_pad: "position (CHR ''='') = None"
proof -
  have "CHR ''='' \<notin> set alphabet" "length alphabet = 64" by (simp_all add: alphabet_def)
  then have "find (\<lambda>i. alphabet ! i = CHR ''='') [0..<64] = None" by (auto simp: find_None_iff in_set_conv_nth)
  then show ?thesis by (simp add: position_def)
qed

lemma map_filter_append: "List.map_filter f (xs @ ys) = List.map_filter f xs @ List.map_filter f ys"
  by (simp add: map_filter_def)

lemma trim_pad: "List.map_filter position (trim_end_matches (CHR ''='') s) = List.map_filter position s"
proof -
  have "s = trim_end_matches (CHR ''='') s @ rev (takeWhile (\<lambda>d. d = CHR ''='') (rev s))"
    by (metis rev_append rev_rev_ident takeWhile_dropWhile_id trim_end_matches_def)
  moreover have "List.map_filter position (rev (takeWhile (\<lambda>d. d = CHR ''='') (rev s))) = []"
    by (auto simp: map_filter_def filter_empty_conv position_pad dest: set_takeWhileD)
  ultimately show ?thesis by (metis append_Nil2 map_filter_append)
qed

text \<open>What the decoder sees of one encoded chunk.\<close>

lemma encoded_positions:
  "List.map_filter position (encode_chunk [b0, b1, b2]) =
     (let t = push_bit 16 (ucast b0) OR push_bit 8 (ucast b1) OR ucast b2 in [six t 18, six t 12, six t 6, six t 0])"
  "List.map_filter position (encode_chunk [b0, b1]) =
     (let t = push_bit 16 (ucast b0) OR push_bit 8 (ucast b1) OR 0 in [six t 18, six t 12, six t 6])"
  "List.map_filter position (encode_chunk [b0]) =
     (let t = push_bit 16 (ucast b0) OR push_bit 8 0 OR 0 in [six t 18, six t 12])"
  by (simp_all add: encode_chunk_def Let_def map_filter_def position_sextet position_pad)

text \<open>
  Payloads survive the REST transport: the decoder returns exactly the bytes that were encoded, for
  every length and every padding.
\<close>

lemma base64_decode_encode: "base64_decode (base64_encode data) = data"
proof -
  have "decode_chunks (List.map_filter position (base64_encode data)) = data"
  proof (induction data rule: base64_encode.induct)
    case (4 b0 b1 b2 rest)
    then show ?case using decode_three [of b0 b1 b2] by (simp add: map_filter_append encoded_positions Let_def)
  next
    case (2 b0)
    then show ?case using decode_one [of b0] by (simp add: encoded_positions Let_def)
  next
    case (3 b0 b1)
    then show ?case using decode_two [of b0 b1] by (simp add: encoded_positions Let_def)
  qed (simp add: map_filter_def decode_chunk_def)
  then show ?thesis by (simp add: base64_decode_def trim_pad)
qed

text \<open>Characters outside the alphabet are skipped, and a single trailing character is dropped.\<close>

lemma base64_decode_lenient: "base64_decode ''Y*W-I=#'' = base64_decode ''YWI='' \<and> base64_decode ''YWIXX'' = base64_decode ''YWIX''"
  by (simp add: base64_decode_def trim_end_matches_def map_filter_def position_def alphabet_def upt_conv_Cons decode_chunk_def)

end
