(* ===== verification/Nwaku_Rest.thy ===== *)
theory Nwaku_Rest
  imports Base64 Node_Discovery
begin

text \<open>
  The transport over the REST interface of an nwaku node
  (\<open>crates/logos-messaging-a2a-transport/src/nwaku_rest.rs\<close>): publication, the request that polls the relay,
  and the background task of a subscription, which drops what it has seen by a 64-bit hash. HTTP, the clock
  and the hash function are parameters. The task of a subscription runs in steps that interleave with the
  operations of the transport.
\<close>

section \<open>Requests\<close>

record relay_message =
  rm_payload :: string
  rm_content_topic :: string
  rm_timestamp :: u64

record waku_message =
  wm_payload :: string
  wm_content_topic :: "string option"

text \<open>A response: its status, its body as text, and its body as the JSON of a list of messages.\<close>

record http_reply =
  hr_success :: bool
  hr_status :: string
  hr_text :: "string option"
  hr_json :: "waku_message list option"

record 'h http =
  http_post :: "string \<Rightarrow> relay_message \<Rightarrow> 'h \<Rightarrow> (string + http_reply) \<times> 'h"
  http_get :: "string \<Rightarrow> 'h \<Rightarrow> (string + http_reply) \<times> 'h"

definition encode_topic :: "string \<Rightarrow> string" where
  "encode_topic topic = concat (map (\<lambda>c. if c = CHR ''/'' then ''%2F'' else [c]) topic)"

definition DEFAULT_PUBSUB_TOPIC :: string where
  "DEFAULT_PUBSUB_TOPIC = ''/waku/2/default-waku/proto''"

definition messages_url :: "string \<Rightarrow> string" where
  "messages_url waku_url = waku_url @ ''/relay/v1/messages/'' @ encode_topic DEFAULT_PUBSUB_TOPIC"

definition unwrap_text :: "string option \<Rightarrow> string" where
  "unwrap_text s = (case s of Some t \<Rightarrow> t | None \<Rightarrow> [])"

text \<open>The payloads for one topic; a message without a topic is for every topic.\<close>

definition topic_payloads :: "string \<Rightarrow> waku_message list \<Rightarrow> bytes list" where
  "topic_payloads topic messages =
     map (\<lambda>msg. base64_decode (wm_payload msg))
       (filter (\<lambda>msg. case wm_content_topic msg of Some ct \<Rightarrow> ct = topic | None \<Rightarrow> True) messages)"

definition poll_rest_messages ::
    "'h http \<Rightarrow> string \<Rightarrow> string \<Rightarrow> 'h \<Rightarrow> (transport_error + bytes list) \<times> 'h" where
  "poll_rest_messages H waku_url topic h =
     (case http_get H (messages_url waku_url) h of
        (Inl e, h1) \<Rightarrow> (Inl (TErr_Transport (''Failed to poll nwaku: '' @ e)), h1)
      | (Inr resp, h1) \<Rightarrow>
          if \<not> hr_success resp then
            (Inl (TErr_Transport (''nwaku poll failed ('' @ hr_status resp @ ''): '' @ unwrap_text (hr_text resp))), h1)
          else (Inr (topic_payloads topic (case hr_json resp of Some ms \<Rightarrow> ms | None \<Rightarrow> [])), h1))"

section \<open>The transport\<close>

text \<open>
  The task of a subscription: the messages of its last poll that it has still to handle, the hashes it has
  seen, and the channel of 256 messages as everything sent and how much of it has been taken.
\<close>

record pump =
  pm_topic :: string
  pm_running :: bool
  pm_pending :: "bytes list"
  pm_seen :: "u64 set"
  pm_sent :: "bytes list"
  pm_taken :: nat
  pm_receiver :: bool

record 'h rest =
  rt_waku_url :: string
  rt_http :: 'h
  rt_subscriptions :: "(string, nat) hash_map"
  rt_pumps :: "pump list"

definition rest_new :: "string \<Rightarrow> 'h \<Rightarrow> 'h rest" where
  "rest_new waku_url h =
     \<lparr>rt_waku_url = trim_end_matches (CHR ''/'') waku_url, rt_http = h, rt_subscriptions = [], rt_pumps = []\<rparr>"

definition rest_publish ::
    "'h http \<Rightarrow> u64 \<Rightarrow> 'h rest \<Rightarrow> string \<Rightarrow> bytes \<Rightarrow> (transport_error + unit) \<times> 'h rest" where
  "rest_publish H now self topic payload =
     (let msg = \<lparr>rm_payload = base64_encode payload, rm_content_topic = topic, rm_timestamp = now\<rparr>
      in case http_post H (messages_url (rt_waku_url self)) msg (rt_http self) of
           (Inl e, h) \<Rightarrow> (Inl (TErr_Transport (''Failed to publish to nwaku: '' @ e)), self\<lparr>rt_http := h\<rparr>)
         | (Inr resp, h) \<Rightarrow>
             if \<not> hr_success resp then
               (Inl (TErr_Transport (''nwaku publish failed ('' @ hr_status resp @ ''): '' @ unwrap_text (hr_text resp))),
                self\<lparr>rt_http := h\<rparr>)
             else (Inr (), self\<lparr>rt_http := h\<rparr>))"

definition abort_pump :: "nat \<Rightarrow> 'h rest \<Rightarrow> 'h rest" where
  "abort_pump i self = self\<lparr>rt_pumps := (rt_pumps self)[i := (rt_pumps self ! i)\<lparr>pm_running := False\<rparr>]\<rparr>"

definition rest_unsubscribe :: "'h rest \<Rightarrow> string \<Rightarrow> (transport_error + unit) \<times> 'h rest" where
  "rest_unsubscribe self topic =
     (case hm_get (rt_subscriptions self) topic of
        Some i \<Rightarrow> (Inr (), abort_pump i (self\<lparr>rt_subscriptions := hm_remove topic (rt_subscriptions self)\<rparr>))
      | None \<Rightarrow> (Inr (), self))"

text \<open>The receiver is the index of the task.\<close>

definition rest_subscribe :: "'h rest \<Rightarrow> string \<Rightarrow> (transport_error + nat) \<times> 'h rest" where
  "rest_subscribe self topic =
     (let (_, self1) = rest_unsubscribe self topic;
          rx = length (rt_pumps self1);
          pump = \<lparr>pm_topic = topic, pm_running = True, pm_pending = [], pm_seen = {}, pm_sent = [], pm_taken = 0,
                  pm_receiver = True\<rparr>
      in (Inr rx, self1\<lparr>rt_pumps := rt_pumps self1 @ [pump],
                        rt_subscriptions := hm_insert topic rx (rt_subscriptions self1)\<rparr>))"

text \<open>
  One step of a task: a poll when nothing is pending, else the next message, which waits while the channel
  is full and ends the task when the receiver is gone.
\<close>

definition handle_message :: "(bytes \<Rightarrow> u64) \<Rightarrow> pump \<Rightarrow> pump" where
  "handle_message hash pump =
     (case pm_pending pump of
        [] \<Rightarrow> pump
      | msg # rest \<Rightarrow>
          if hash msg \<in> pm_seen pump then pump\<lparr>pm_pending := rest\<rparr>
          else if \<not> pm_receiver pump then pump\<lparr>pm_seen := insert (hash msg) (pm_seen pump), pm_running := False\<rparr>
          else if length (pm_sent pump) - pm_taken pump < 256 then
            pump\<lparr>pm_seen := insert (hash msg) (pm_seen pump), pm_sent := pm_sent pump @ [msg], pm_pending := rest\<rparr>
          else pump)"

definition pump_step :: "'h http \<Rightarrow> (bytes \<Rightarrow> u64) \<Rightarrow> nat \<Rightarrow> 'h rest \<Rightarrow> 'h rest" where
  "pump_step H hash i self =
     (if \<not> (i < length (rt_pumps self) \<and> pm_running (rt_pumps self ! i)) then self
      else
        let pump = rt_pumps self ! i in
        if pm_pending pump = [] then
          (case poll_rest_messages H (rt_waku_url self) (pm_topic pump) (rt_http self) of
             (Inl _, h) \<Rightarrow> self\<lparr>rt_http := h\<rparr>
           | (Inr messages, h) \<Rightarrow> self\<lparr>rt_http := h, rt_pumps := (rt_pumps self)[i := pump\<lparr>pm_pending := messages\<rparr>]\<rparr>)
        else self\<lparr>rt_pumps := (rt_pumps self)[i := handle_message hash pump]\<rparr>)"

text \<open>What the receiver takes until it would wait, and the end of a receiver.\<close>

definition rest_drain :: "'h rest \<Rightarrow> nat \<Rightarrow> bytes list \<times> 'h rest" where
  "rest_drain self i =
     (if i < length (rt_pumps self) then
        let pump = rt_pumps self ! i
        in (drop (pm_taken pump) (pm_sent pump),
            self\<lparr>rt_pumps := (rt_pumps self)[i := pump\<lparr>pm_taken := length (pm_sent pump)\<rparr>]\<rparr>)
      else ([], self))"

definition rest_drop_receiver :: "nat \<Rightarrow> 'h rest \<Rightarrow> 'h rest" where
  "rest_drop_receiver i self =
     (if i < length (rt_pumps self)
      then self\<lparr>rt_pumps := (rt_pumps self)[i := (rt_pumps self ! i)\<lparr>pm_receiver := False\<rparr>]\<rparr> else self)"

section \<open>Every message once\<close>

inductive rest_step :: "'h http \<Rightarrow> (bytes \<Rightarrow> u64) \<Rightarrow> 'h rest \<Rightarrow> 'h rest \<Rightarrow> bool" for H hash where
  publish: "rest_step H hash self (snd (rest_publish H now self topic payload))"
| subscribe: "rest_step H hash self (snd (rest_subscribe self topic))"
| unsubscribe: "rest_step H hash self (snd (rest_unsubscribe self topic))"
| pump: "rest_step H hash self (pump_step H hash i self)"
| drain: "rest_step H hash self (snd (rest_drain self i))"
| drop_receiver: "rest_step H hash self (rest_drop_receiver i self)"

definition pump_ok :: "(bytes \<Rightarrow> u64) \<Rightarrow> pump \<Rightarrow> bool" where
  "pump_ok hash pump \<longleftrightarrow> distinct (map hash (pm_sent pump)) \<and> hash ` set (pm_sent pump) \<subseteq> pm_seen pump
     \<and> (pm_receiver pump \<longrightarrow> pm_seen pump \<subseteq> hash ` set (pm_sent pump))
     \<and> pm_taken pump \<le> length (pm_sent pump) \<and> length (pm_sent pump) - pm_taken pump \<le> 256"

definition rest_ok :: "(bytes \<Rightarrow> u64) \<Rightarrow> 'h rest \<Rightarrow> bool" where
  "rest_ok hash self \<longleftrightarrow> list_all (pump_ok hash) (rt_pumps self)"

lemma pump_ok_upd [simp]:
  "pump_ok hash (p\<lparr>pm_running := b\<rparr>) = pump_ok hash p" "pump_ok hash (p\<lparr>pm_pending := ms\<rparr>) = pump_ok hash p"
  by (simp_all add: pump_ok_def)

lemma pump_ok_drop: "pump_ok hash p \<Longrightarrow> pump_ok hash (p\<lparr>pm_receiver := False\<rparr>)"
  by (simp add: pump_ok_def)

lemma pump_ok_handle: "pump_ok hash p \<Longrightarrow> pump_ok hash (handle_message hash p)"
  by (auto simp: handle_message_def pump_ok_def split: list.split)

lemma rest_ok_update: "rest_ok hash self \<Longrightarrow> pump_ok hash p \<Longrightarrow> list_all (pump_ok hash) ((rt_pumps self)[i := p])"
  by (auto simp: rest_ok_def list_all_iff dest!: set_update_subset_insert [THEN subsetD])

lemma rest_ok_nth: "rest_ok hash self \<Longrightarrow> i < length (rt_pumps self) \<Longrightarrow> pump_ok hash (rt_pumps self ! i)"
  by (simp add: rest_ok_def list_all_length)

lemma unsubscribe_ok:
  assumes "rest_ok hash self"
  shows "rest_ok hash (snd (rest_unsubscribe self topic))"
proof (cases "hm_get (rt_subscriptions self) topic")
  case (Some i)
  have "list_all (pump_ok hash) ((rt_pumps self)[i := (rt_pumps self ! i)\<lparr>pm_running := False\<rparr>])"
  proof (cases "i < length (rt_pumps self)")
    case True
    then show ?thesis using rest_ok_update [OF assms] rest_ok_nth [OF assms True] by simp
  qed (use assms in \<open>simp add: rest_ok_def list_update_beyond not_less\<close>)
  then show ?thesis using Some by (simp add: rest_unsubscribe_def abort_pump_def rest_ok_def)
qed (use assms in \<open>simp add: rest_unsubscribe_def\<close>)

lemma rest_step_ok:
  assumes "rest_step H hash self self'" and "rest_ok hash self"
  shows "rest_ok hash self'"
  using assms
proof (induction rule: rest_step.induct)
  case (publish self now topic payload)
  then show ?case by (auto simp: rest_publish_def rest_ok_def Let_def split: prod.split sum.split)
next
  case (subscribe self topic)
  then have "rest_ok hash (snd (rest_unsubscribe self topic))" by (rule unsubscribe_ok)
  then show ?case by (simp add: rest_subscribe_def rest_ok_def Let_def case_prod_beta pump_ok_def)
next
  case (unsubscribe self topic)
  then show ?case by (rule unsubscribe_ok)
next
  case (pump self i)
  show ?case
  proof (cases "i < length (rt_pumps self)")
    case True
    note ok = rest_ok_nth [OF pump True]
    show ?thesis
      using pump rest_ok_update [OF pump pump_ok_handle [OF ok]] rest_ok_update [OF pump, of "(rt_pumps self ! i)\<lparr>pm_pending := ms\<rparr>" i for ms] ok
      by (auto simp: pump_step_def rest_ok_def Let_def split: prod.split sum.split)
  qed (use pump in \<open>simp add: pump_step_def\<close>)
next
  case (drain self i)
  show ?case
  proof (cases "i < length (rt_pumps self)")
    case True
    have "pump_ok hash ((rt_pumps self ! i)\<lparr>pm_taken := length (pm_sent (rt_pumps self ! i))\<rparr>)"
      using rest_ok_nth [OF drain True] by (simp add: pump_ok_def)
    then show ?thesis using True rest_ok_update [OF drain] by (simp add: rest_drain_def rest_ok_def Let_def)
  qed (use drain in \<open>simp add: rest_drain_def\<close>)
next
  case (drop_receiver self i)
  then show ?case
    using rest_ok_update [OF drop_receiver, of "(rt_pumps self ! i)\<lparr>pm_receiver := False\<rparr>" i] rest_ok_nth [OF drop_receiver, of i]
    by (auto simp: rest_drop_receiver_def rest_ok_def pump_ok_drop)
qed

lemma rest_new_ok: "rest_ok hash (rest_new url h)"
  by (simp add: rest_new_def rest_ok_def)

interpretation rest_sys: step_system "\<lambda>self. \<exists>url h. self = rest_new url h" "rest_step H hash" "rest_ok hash"
  for H :: "'h http" and hash
  by unfold_locales (blast intro: rest_new_ok rest_step_ok)+

section \<open>Every message arrives\<close>

text \<open>A task that has room for what is pending hands over all of it, up to messages of equal hash.\<close>

definition has_room :: "pump \<Rightarrow> nat \<Rightarrow> bool" where
  "has_room p n \<longleftrightarrow> pm_running p \<and> pm_receiver p \<and> length (pm_sent p) - pm_taken p + n \<le> 256"

lemma handle_one:
  assumes "pump_ok hash p" and "pm_pending p = m # ms" and "has_room p (Suc n)"
  shows "pm_pending (handle_message hash p) = ms" and "has_room (handle_message hash p) n"
    and "insert (hash m) (hash ` set (pm_sent p)) \<subseteq> hash ` set (pm_sent (handle_message hash p))"
    and "set (pm_sent p) \<subseteq> set (pm_sent (handle_message hash p))"
    and "set (pm_sent (handle_message hash p)) \<subseteq> insert m (set (pm_sent p))"
  using assms by (auto simp: handle_message_def pump_ok_def has_room_def)

lemma pump_handles_pending:
  assumes "rest_ok hash self" and "i < length (rt_pumps self)" and "pm_pending (rt_pumps self ! i) = ms"
    and "has_room (rt_pumps self ! i) (length ms)"
  shows "\<exists>p. rt_pumps ((pump_step H hash i ^^ length ms) self) ! i = p \<and> hash ` set ms \<subseteq> hash ` set (pm_sent p)
    \<and> set (pm_sent (rt_pumps self ! i)) \<subseteq> set (pm_sent p) \<and> set (pm_sent p) \<subseteq> set (pm_sent (rt_pumps self ! i)) \<union> set ms"
  using assms
proof (induction ms arbitrary: self)
  case (Cons m ms)
  define q where "q = handle_message hash (rt_pumps self ! i)"
  have step: "pump_step H hash i self = self\<lparr>rt_pumps := (rt_pumps self)[i := q]\<rparr>"
    using Cons.prems by (simp add: pump_step_def q_def Let_def has_room_def)
  note one = handle_one [OF rest_ok_nth [OF Cons.prems(1,2)] Cons.prems(3), of "length ms", folded q_def]
  have "rest_ok hash (pump_step H hash i self)" by (rule rest_step_ok [OF rest_step.pump Cons.prems(1)])
  then obtain p where "rt_pumps ((pump_step H hash i ^^ length ms) (pump_step H hash i self)) ! i = p"
    "hash ` set ms \<subseteq> hash ` set (pm_sent p)" "set (pm_sent q) \<subseteq> set (pm_sent p)" "set (pm_sent p) \<subseteq> set (pm_sent q) \<union> set ms"
    using Cons.IH [of "pump_step H hash i self"] Cons.prems(2,4) one by (auto simp: step)
  moreover have "(pump_step H hash i ^^ length (m # ms)) self = (pump_step H hash i ^^ length ms) (pump_step H hash i self)"
    by (simp add: funpow_swap1)
  moreover have "hash m \<in> hash ` set (pm_sent q)" "set (pm_sent (rt_pumps self ! i)) \<subseteq> set (pm_sent q)"
    "set (pm_sent q) \<subseteq> insert m (set (pm_sent (rt_pumps self ! i)))"
    using one(3-5) Cons.prems(4) by auto
  ultimately show ?case by auto
qed auto

text \<open>A poll that returns messages makes the ones for the topic pending.\<close>

lemma pump_polls:
  assumes "i < length (rt_pumps self)" and "pm_running (rt_pumps self ! i)" and "pm_pending (rt_pumps self ! i) = []"
    and "http_get H (messages_url (rt_waku_url self)) (rt_http self) = (Inr resp, h)" "hr_success resp" "hr_json resp = Some ms"
  shows "pump_step H hash i self = self\<lparr>rt_http := h, rt_pumps := (rt_pumps self)
      [i := (rt_pumps self ! i)\<lparr>pm_pending := topic_payloads (pm_topic (rt_pumps self ! i)) ms\<rparr>]\<rparr>"
  using assms by (simp add: pump_step_def poll_rest_messages_def Let_def)

lemma topic_payloads_published:
  assumes "w \<in> set ms" and "wm_payload w = base64_encode payload" and "wm_content_topic w = Some topic"
  shows "payload \<in> set (topic_payloads topic ms)"
  using assms by (force simp: topic_payloads_def base64_decode_encode)

text \<open>
  C25. A subscription of the REST transport never delivers a message twice, however often the relay returns
  it, and never holds more than 256 messages back: in every state reachable by publications,
  subscriptions, polls and receivers in any order, the messages sent to a receiver have distinct hashes,
  hence are distinct, and at most 256 of them wait.
\<close>

theorem rest_delivers_once:
  assumes "rtranclp (rest_step H hash) (rest_new url h) self" and "i < length (rt_pumps self)"
  shows "distinct (pm_sent (rt_pumps self ! i)) \<and> distinct (map hash (pm_sent (rt_pumps self ! i)))
    \<and> length (fst (rest_drain self i)) \<le> 256"
proof -
  have "rest_ok hash self" by (rule rest_sys.reachable_inv [OF _ assms(1)]) blast
  from rest_ok_nth [OF this assms(2)] show ?thesis
    using assms(2) by (auto simp: pump_ok_def rest_drain_def Let_def distinct_map)
qed

text \<open>A transport with one subscription, over a relay that returns what was posted to it.\<close>

definition example_relay :: "waku_message list http" where
  "example_relay =
     \<lparr>http_post = (\<lambda>_ m ms. (Inr \<lparr>hr_success = True, hr_status = ''200 OK'', hr_text = Some ''OK'', hr_json = None\<rparr>,
        ms @ [\<lparr>wm_payload = rm_payload m, wm_content_topic = Some (rm_content_topic m)\<rparr>])),
      http_get = (\<lambda>_ ms. (Inr \<lparr>hr_success = True, hr_status = ''200 OK'', hr_text = Some [], hr_json = Some ms\<rparr>, ms))\<rparr>"

definition example_rest :: "waku_message list rest" where
  "example_rest =
     snd (rest_publish example_relay 7 (snd (rest_subscribe (rest_new ''http://n/'' []) ''/t'')) ''/t'' [1, 2])"

lemma example_rest_reached:
  "rtranclp (rest_step example_relay hash) (rest_new ''http://n/'' []) example_rest"
proof -
  have "rtranclp (rest_step example_relay hash) (rest_new ''http://n/'' []) (snd (rest_subscribe (rest_new ''http://n/'' []) ''/t''))"
    by (rule r_into_rtranclp) (rule rest_step.subscribe)
  then show ?thesis
    unfolding example_rest_def by (rule rtranclp.rtrancl_into_rtrancl) (rule rest_step.publish)
qed

lemma example_rest_simps:
  "rt_pumps example_rest = [\<lparr>pm_topic = ''/t'', pm_running = True, pm_pending = [], pm_seen = {}, pm_sent = [],
      pm_taken = 0, pm_receiver = True\<rparr>]"
  "rt_http example_rest = [\<lparr>wm_payload = base64_encode [1, 2], wm_content_topic = Some ''/t''\<rparr>]"
  by (simp_all add: example_rest_def rest_publish_def rest_subscribe_def rest_unsubscribe_def rest_new_def example_relay_def hm_get_def Let_def)

theorem rest_delivers_once_witness:
  "distinct (pm_sent (rt_pumps example_rest ! 0)) \<and> length (fst (rest_drain example_rest 0)) \<le> 256"
  using rest_delivers_once [OF example_rest_reached [of "\<lambda>_. 0"], of 0] by (simp add: example_rest_simps)

text \<open>
  C24. What is published arrives. In a reachable state of the REST transport, let a subscription's
  task be about to poll, its receiver alive, and let the relay return a message that carries the
  payload in the form in which \<open>publish\<close> posts it, for the topic of the subscription, with room in the
  channel for all of the poll. Then after the poll and one step per message the receiver has been
  sent the payload, unless another message of the same 64-bit hash was sent in its place; and it has been
  sent nothing but messages of this poll and what it was sent before.
\<close>

theorem rest_publish_arrives:
  assumes reached: "rtranclp (rest_step H hash) (rest_new url h0) self"
    and pump: "i < length (rt_pumps self)" "pm_pending (rt_pumps self ! i) = []" "pm_topic (rt_pumps self ! i) = topic"
    and relay: "http_get H (messages_url (rt_waku_url self)) (rt_http self) = (Inr resp, h)" "hr_success resp"
      "hr_json resp = Some ms"
    and posted: "w \<in> set ms" "wm_payload w = base64_encode payload" "wm_content_topic w = Some topic"
    and room: "has_room (rt_pumps self ! i) (length (topic_payloads topic ms))"
  shows "\<exists>p. rt_pumps ((pump_step H hash i ^^ Suc (length (topic_payloads topic ms))) self) ! i = p
    \<and> hash payload \<in> hash ` set (pm_sent p)
    \<and> (inj_on hash (set (pm_sent (rt_pumps self ! i)) \<union> set (topic_payloads topic ms)) \<longrightarrow> payload \<in> set (pm_sent p))
    \<and> set (pm_sent p) \<subseteq> set (pm_sent (rt_pumps self ! i)) \<union> set (topic_payloads topic ms)"
proof -
  define polled where "polled = pump_step H hash i self"
  have ok: "rest_ok hash self" by (rule rest_sys.reachable_inv [OF _ reached]) blast
  then have polled_ok: "rest_ok hash polled" unfolding polled_def by (rule rest_step_ok [OF rest_step.pump])
  have running: "pm_running (rt_pumps self ! i)" using room by (simp add: has_room_def)
  have polled_simps: "i < length (rt_pumps polled)" "pm_pending (rt_pumps polled ! i) = topic_payloads topic ms"
    "pm_sent (rt_pumps polled ! i) = pm_sent (rt_pumps self ! i)" "has_room (rt_pumps polled ! i) (length (topic_payloads topic ms))"
    using pump(1) room by (simp_all add: polled_def pump_polls [OF pump(1) running pump(2) relay] pump(3) has_room_def)
  from pump_handles_pending [OF polled_ok polled_simps(1,2,4), of H] obtain p where
    p: "rt_pumps ((pump_step H hash i ^^ length (topic_payloads topic ms)) polled) ! i = p"
      "hash ` set (topic_payloads topic ms) \<subseteq> hash ` set (pm_sent p)"
      "set (pm_sent p) \<subseteq> set (pm_sent (rt_pumps self ! i)) \<union> set (topic_payloads topic ms)"
    unfolding polled_simps(3) by blast
  have mem: "payload \<in> set (topic_payloads topic ms)" by (rule topic_payloads_published [OF posted])
  then have hashed: "hash payload \<in> hash ` set (pm_sent p)" using p(2) by blast
  have "payload \<in> set (pm_sent p)"
    if inj: "inj_on hash (set (pm_sent (rt_pumps self ! i)) \<union> set (topic_payloads topic ms))"
  proof -
    obtain q where "q \<in> set (pm_sent p)" "hash payload = hash q" using hashed by blast
    then show ?thesis using inj_onD [OF inj, of payload q] p(3) mem by blast
  qed
  then show ?thesis using p(1,3) hashed by (auto simp: polled_def funpow_swap1)
qed

theorem rest_publish_arrives_witness:
  "[1, 2] \<in> set (pm_sent (rt_pumps ((pump_step example_relay (\<lambda>m. of_nat (length m)) 0 ^^ 2) example_rest) ! 0))"
proof -
  have payloads: "topic_payloads ''/t'' (rt_http example_rest) = [[1, 2]]"
    using base64_decode_encode [of "[1, 2]"] by (simp add: topic_payloads_def example_rest_simps del: base64_encode.simps)
  have "http_get example_relay (messages_url (rt_waku_url example_rest)) (rt_http example_rest)
      = (Inr \<lparr>hr_success = True, hr_status = ''200 OK'', hr_text = Some [], hr_json = Some (rt_http example_rest)\<rparr>, rt_http example_rest)"
    by (simp add: example_relay_def)
  from rest_publish_arrives [OF example_rest_reached [of "\<lambda>m. of_nat (length m)"] _ _ _ this,
      of 0 "''/t''" "rt_http example_rest" "hd (rt_http example_rest)" "[1, 2]"]
  show ?thesis
    by (simp add: payloads [unfolded example_rest_simps] example_rest_simps has_room_def numeral_2_eq_2 del: base64_encode.simps)
qed

end
