(* ===== verification/C_Interface.thy ===== *)
theory C_Interface
  imports Logos_Core Node_Frames Node_Keys Nwaku_Rest
begin

text \<open>
  The C interfaces: \<open>crates/lmao-ffi/src/lib.rs\<close>, whose functions take and return JSON text and share one node
  that the first call creates, and \<open>crates/logos-messaging-a2a-ffi/src/lib.rs\<close>, whose node is created and released
  by the caller. The strings given to C live in a heap until they are given back. A pointer argument is the
  bytes up to the terminator, \<open>None\<close> for null. \<open>serde_json\<close> and the REST transport of the node are
  parameters; a panic of the node crosses the boundary and ends the process.
\<close>

section \<open>Strings on the heap\<close>

text \<open>An address is a positive number, 0 the null pointer.\<close>

record c_heap =
  hp_live :: "(nat, string) hash_map"
  hp_next :: nat

definition heap_new :: c_heap where
  "heap_new = \<lparr>hp_live = [], hp_next = 1\<rparr>"

definition heap_alloc :: "string \<Rightarrow> c_heap \<Rightarrow> nat \<times> c_heap" where
  "heap_alloc s h = (hp_next h, h\<lparr>hp_live := hm_insert (hp_next h) s (hp_live h), hp_next := Suc (hp_next h)\<rparr>)"

text \<open>\<open>CString::from_raw\<close> of a pointer that was not given out or was given back is undefined.\<close>

definition heap_free :: "nat \<Rightarrow> c_heap \<Rightarrow> c_heap ffi" where
  "heap_free p h = (if hm_contains (hp_live h) p then Done (h\<lparr>hp_live := hm_remove p (hp_live h)\<rparr>) else Undef)"

definition lmao_free_string :: "nat \<Rightarrow> c_heap \<Rightarrow> c_heap ffi" where
  "lmao_free_string s h = (if s = 0 then Done h else heap_free s h)"

definition waku_a2a_free_string :: "nat \<Rightarrow> c_heap \<Rightarrow> c_heap ffi" where
  "waku_a2a_free_string s h = (if s \<noteq> 0 then heap_free s h else Done h)"

text \<open>The text of the two conversions: an interior NUL is replaced by \<open>{}\<close> or by the empty string.\<close>

definition to_cstring :: "string \<Rightarrow> c_heap \<Rightarrow> nat \<times> c_heap" where
  "to_cstring s h = heap_alloc (if has_nul s then ''{}'' else s) h"

definition to_c_string :: "string \<Rightarrow> c_heap \<Rightarrow> nat \<times> c_heap" where
  "to_c_string s h = heap_alloc (if has_nul s then [] else s) h"

section \<open>The JSON interface\<close>

text \<open>\<open>utf8_error\<close> is the text of the decoding error.\<close>

definition cstr_to_str :: "(bytes \<Rightarrow> string) \<Rightarrow> bytes option \<Rightarrow> string + string" where
  "cstr_to_str utf8_error ptr =
     (case ptr of
        None \<Rightarrow> Inl ''null pointer''
      | Some bs \<Rightarrow> if valid_utf8 bs then Inr (of_bytes bs) else Inl (''Invalid UTF-8: '' @ utf8_error bs))"

text \<open>A backslash goes before each double quote; nothing else is escaped.\<close>

definition escape_quotes :: "string \<Rightarrow> string" where
  "escape_quotes msg = concat (map (\<lambda>c. if c = CHR 0x22 then [CHR 0x5C, CHR 0x22] else [c]) msg)"

definition error_text :: "string \<Rightarrow> string" where
  "error_text msg =
     ''{'' @ json_quoted ''success'' @ '':false,'' @ json_quoted ''error'' @ '':'' @ json_quoted (escape_quotes msg) @ ''}''"

definition error_json :: "string \<Rightarrow> c_heap \<Rightarrow> nat \<times> c_heap" where
  "error_json msg h = to_cstring (error_text msg) h"

text \<open>The members of a payload are put over \<open>success\<close>; the map of \<open>serde_json\<close> is ordered by key.\<close>

definition success_value :: "json \<Rightarrow> json" where
  "success_value payload =
     (let obj = bt_insert ''success'' (JBool True) []
      in JObj (case payload of
                 JObj m \<Rightarrow> fold (\<lambda>(k, v). bt_insert k v) m obj
               | _ \<Rightarrow> bt_insert ''data'' payload obj))"

definition success_json :: "json_lib \<Rightarrow> json \<Rightarrow> c_heap \<Rightarrow> nat \<times> c_heap" where
  "success_json J payload h =
     to_cstring (case js_to_string J (success_value payload) of Inr s \<Rightarrow> s | Inl _ \<Rightarrow> []) h"

record ('bf, 'tr, 'rx, 'c, 'w, 'sk) capi_env =
  ca_node :: "('bf, 'tr, 'rx, 'c, 'w) node_env"
  ca_keys :: "'sk key_codec"
  ca_transport :: "string \<Rightarrow> 'tr"
  ca_json :: json_lib
  ca_utf8_error :: "bytes \<Rightarrow> string"
  ca_card_json :: "agent_card \<Rightarrow> string option"
  ca_cards_json :: "agent_card list \<Rightarrow> string option"
  ca_tasks_json :: "task list \<Rightarrow> string option"
  ca_task_from :: "string \<Rightarrow> task option"
  ca_waku_url :: "string option"
  ca_version :: string

text \<open>
  What a call draws. \<open>cc_meanwhile\<close> is what the tasks of the transport do while the call sleeps.
\<close>

record ('tr, 'w, 'sk) capi_call =
  cc_now_ms :: u64
  cc_random_key :: 'sk
  cc_secret :: bytes
  cc_world :: 'w
  cc_send :: "bytes \<times> bytes \<times> (u32 \<Rightarrow> u64)"
  cc_uuid :: string
  cc_nonces :: "bytes \<times> bytes"
  cc_clock :: "u64 \<times> u64 \<times> u64"
  cc_session_uuid :: "string \<Rightarrow> string"
  cc_now_secs :: u64
  cc_meanwhile :: "u64 \<Rightarrow> 'tr \<Rightarrow> 'tr"

record ('bf, 'tr, 'rx, 'sk, 'w) capi =
  cp_heap :: c_heap
  cp_node :: "('bf, 'tr, 'rx, 'sk, 'w) node option"

definition get_or_init_node ::
    "('bf, 'tr, 'rx, 'c, 'w, 'sk) capi_env \<Rightarrow> ('tr, 'w, 'sk) capi_call \<Rightarrow> ('bf, 'tr, 'rx, 'sk, 'w) capi
       \<Rightarrow> ('bf, 'tr, 'rx, 'sk, 'w) node" where
  "get_or_init_node C cc st =
     (case cp_node st of
        Some n \<Rightarrow> n
      | None \<Rightarrow>
          let waku_url = (case ca_waku_url C of Some url \<Rightarrow> url | None \<Rightarrow> ''http://localhost:8645'');
              n = node_new (ca_node C) (ca_keys C) (cc_now_ms cc) (cc_random_key cc) ''lmao-agent''
                    ''LMAO A2A agent via Logos Core'' [''text''] (ca_transport C waku_url) (cc_world cc)
          in snd (announce (ca_node C) n))"

definition card_value :: "agent_card \<Rightarrow> json" where
  "card_value c =
     JObj [(''name'', JStr (card_name c)), (''description'', JStr (card_description c)), (''version'', JStr (card_version c)),
           (''capabilities'', JArr (map JStr (card_capabilities c))), (''public_key'', JStr (card_public_key c))]"

text \<open>\<open>as_u64\<close> of a JSON number.\<close>

fun as_u64 :: "json \<Rightarrow> u64 option" where
  "as_u64 (JNum s) = map_option word_of_nat (parse_unsigned (2 ^ 64 - 1) s)"
| "as_u64 _ = None"

definition discover_timeout :: "('bf, 'tr, 'rx, 'c, 'w, 'sk) capi_env \<Rightarrow> bytes option \<Rightarrow> u64" where
  "discover_timeout C args_json =
     (case cstr_to_str (ca_utf8_error C) args_json of
        Inl _ \<Rightarrow> 5000
      | Inr s \<Rightarrow>
          (case js_from_str (ca_json C) s of
             Inl _ \<Rightarrow> 5000
           | Inr v \<Rightarrow> (case Option.bind (json_get ''timeout_ms'' v) as_u64 of Some t \<Rightarrow> t | None \<Rightarrow> 5000)))"

text \<open>An answer: a new string, and the node after the call.\<close>

definition answers ::
    "nat \<times> c_heap \<Rightarrow> ('bf, 'tr, 'rx, 'sk, 'w) node option \<Rightarrow> nat exec \<times> ('bf, 'tr, 'rx, 'sk, 'w) capi" where
  "answers r n = (case r of (p, h) \<Rightarrow> (Returns p, \<lparr>cp_heap = h, cp_node = n\<rparr>))"

definition lmao_discover_agents ::
    "('bf, 'tr, 'rx, 'c, 'w, 'sk) capi_env \<Rightarrow> ('tr, 'w, 'sk) capi_call \<Rightarrow> bytes option \<Rightarrow> ('bf, 'tr, 'rx, 'sk, 'w) capi
       \<Rightarrow> nat exec \<times> ('bf, 'tr, 'rx, 'sk, 'w) capi" where
  "lmao_discover_agents C cc args_json st =
     (let timeout_ms = discover_timeout C args_json;
          n = snd (announce (ca_node C) (get_or_init_node C cc st));
          n1 = set_transport (cc_meanwhile cc timeout_ms (ch_transport (nd_channel n))) n
      in case discover (ca_node C) n1 of
           (Inr cards, n2) \<Rightarrow>
             answers (success_json (ca_json C) (JObj [(''agents'', JArr (map card_value cards))]) (cp_heap st)) (Some n2)
         | (Inl e, n2) \<Rightarrow> answers (error_json (show_node_error e) (cp_heap st)) (Some n2))"

definition lmao_send_task ::
    "('bf, 'tr, 'rx, 'c, 'w, 'sk) capi_env \<Rightarrow> ('tr, 'w, 'sk) capi_call \<Rightarrow> bytes option \<Rightarrow> ('bf, 'tr, 'rx, 'sk, 'w) capi
       \<Rightarrow> nat exec \<times> ('bf, 'tr, 'rx, 'sk, 'w) capi" where
  "lmao_send_task C cc args_json st =
     (let fails = (\<lambda>msg. answers (error_json msg (cp_heap st)) (cp_node st)) in
      case cstr_to_str (ca_utf8_error C) args_json of
        Inl e \<Rightarrow> fails e
      | Inr s \<Rightarrow>
          (case js_from_str (ca_json C) s of
             Inl e \<Rightarrow> fails (''JSON parse error: '' @ e)
           | Inr v \<Rightarrow>
               (case get_str ''agent_pubkey'' v of
                  None \<Rightarrow> fails (''missing '' @ quoted (CHR 0x27) ''agent_pubkey'')
                | Some agent_pubkey \<Rightarrow>
                    (case get_str ''task_text'' v of
                       None \<Rightarrow> fails (''missing '' @ quoted (CHR 0x27) ''task_text'')
                     | Some body \<Rightarrow>
                         (case send_text (ca_node C) (cc_send cc) (cc_uuid cc) agent_pubkey body (get_or_init_node C cc st) of
                            (Panics, n) \<Rightarrow> (Panics, st\<lparr>cp_node := Some n\<rparr>)
                          | (Returns (Inr t), n) \<Rightarrow>
                              answers (success_json (ca_json C) (JObj [(''task_id'', JStr (task_id t)), (''from'', JStr (task_from t)),
                                (''to'', JStr (task_to t))]) (cp_heap st)) (Some n)
                          | (Returns (Inl e), n) \<Rightarrow> answers (error_json (show_node_error e) (cp_heap st)) (Some n))))))"

definition lmao_get_agent_card ::
    "('bf, 'tr, 'rx, 'c, 'w, 'sk) capi_env \<Rightarrow> ('tr, 'w, 'sk) capi_call \<Rightarrow> ('bf, 'tr, 'rx, 'sk, 'w) capi
       \<Rightarrow> nat exec \<times> ('bf, 'tr, 'rx, 'sk, 'w) capi" where
  "lmao_get_agent_card C cc st =
     (let n = get_or_init_node C cc st
      in answers (success_json (ca_json C) (JObj [(''card'', card_value (nd_card n))]) (cp_heap st)) (Some n))"

definition lmao_version ::
    "('bf, 'tr, 'rx, 'c, 'w, 'sk) capi_env \<Rightarrow> ('bf, 'tr, 'rx, 'sk, 'w) capi \<Rightarrow> nat exec \<times> ('bf, 'tr, 'rx, 'sk, 'w) capi" where
  "lmao_version C st = answers (to_cstring (ca_version C) (cp_heap st)) (cp_node st)"

section \<open>The interface of the Qt module\<close>

text \<open>
  The node is in a mutex, which a panic that holds it poisons. A null argument is undefined behaviour. A
  pointer result is null on failure.
\<close>

record ('bf, 'tr, 'rx, 'sk, 'w) qt_state =
  qs_heap :: c_heap
  qs_node :: "('bf, 'tr, 'rx, 'sk, 'w) node option"
  qs_poisoned :: bool

definition qt_new :: "('bf, 'tr, 'rx, 'sk, 'w) qt_state" where
  "qt_new = \<lparr>qs_heap = heap_new, qs_node = None, qs_poisoned = False\<rparr>"

definition lossy_arg :: "bytes option \<Rightarrow> string ffi" where
  "lossy_arg ptr = (case ptr of None \<Rightarrow> Undef | Some bs \<Rightarrow> Done (from_utf8_lossy bs))"

definition waku_a2a_init ::
    "('bf, 'tr, 'rx, 'c, 'w, 'sk) capi_env \<Rightarrow> ('tr, 'w, 'sk) capi_call \<Rightarrow> bytes option \<Rightarrow> bytes option \<Rightarrow> bytes option \<Rightarrow> bool
       \<Rightarrow> ('bf, 'tr, 'rx, 'sk, 'w) qt_state \<Rightarrow> int ffi \<times> ('bf, 'tr, 'rx, 'sk, 'w) qt_state" where
  "waku_a2a_init C cc name description nwaku_url encrypted st =
     (case (lossy_arg name, lossy_arg description, lossy_arg nwaku_url) of
        (Done nm, Done desc, Done url) \<Rightarrow>
          let tr = ca_transport C url; key = cc_random_key cc; pk = public_key_of (ne_crypto (ca_node C)) (ca_keys C) key;
              n = (if encrypted
                   then node_new_encrypted (ca_node C) (cc_now_ms cc) (cc_secret cc) pk nm desc [''text''] tr key (cc_world cc)
                   else node_new (ca_node C) (ca_keys C) (cc_now_ms cc) key nm desc [''text''] tr (cc_world cc))
          in if qs_poisoned st then (Done (- 1), st) else (Done 0, st\<lparr>qs_node := Some n\<rparr>)
      | _ \<Rightarrow> (Undef, st))"

text \<open>An operation on the node under the lock: it needs an unpoisoned lock and a node.\<close>

definition locked ::
    "(('bf, 'tr, 'rx, 'sk, 'w) node \<Rightarrow> c_heap \<Rightarrow> ('a exec \<times> ('bf, 'tr, 'rx, 'sk, 'w) node) \<times> c_heap) \<Rightarrow> 'a
       \<Rightarrow> ('bf, 'tr, 'rx, 'sk, 'w) qt_state \<Rightarrow> 'a exec \<times> ('bf, 'tr, 'rx, 'sk, 'w) qt_state" where
  "locked f fail st =
     (if qs_poisoned st then (Returns fail, st)
      else case qs_node st of
             None \<Rightarrow> (Returns fail, st)
           | Some n \<Rightarrow>
               (case f n (qs_heap st) of
                  ((Panics, n1), h) \<Rightarrow> (Panics, st\<lparr>qs_node := Some n1, qs_heap := h, qs_poisoned := True\<rparr>)
                | ((Returns x, n1), h) \<Rightarrow> (Returns x, st\<lparr>qs_node := Some n1, qs_heap := h\<rparr>)))"

text \<open>A string result, null when there is none.\<close>

definition or_null :: "string option \<Rightarrow> c_heap \<Rightarrow> nat \<times> c_heap" where
  "or_null s h = (case s of None \<Rightarrow> (0, h) | Some text_out \<Rightarrow> to_c_string text_out h)"

definition waku_a2a_pubkey ::
    "('bf, 'tr, 'rx, 'sk, 'w) qt_state \<Rightarrow> nat exec \<times> ('bf, 'tr, 'rx, 'sk, 'w) qt_state" where
  "waku_a2a_pubkey st =
     locked (\<lambda>n h. case to_c_string (pubkey n) h of (p, h1) \<Rightarrow> ((Returns p, n), h1)) 0 st"

definition waku_a2a_agent_card_json ::
    "('bf, 'tr, 'rx, 'c, 'w, 'sk) capi_env \<Rightarrow> ('bf, 'tr, 'rx, 'sk, 'w) qt_state \<Rightarrow> nat exec \<times> ('bf, 'tr, 'rx, 'sk, 'w) qt_state" where
  "waku_a2a_agent_card_json C st =
     locked (\<lambda>n h. case or_null (ca_card_json C (nd_card n)) h of (p, h1) \<Rightarrow> ((Returns p, n), h1)) 0 st"

definition waku_a2a_announce ::
    "('bf, 'tr, 'rx, 'c, 'w, 'sk) capi_env \<Rightarrow> ('bf, 'tr, 'rx, 'sk, 'w) qt_state \<Rightarrow> int exec \<times> ('bf, 'tr, 'rx, 'sk, 'w) qt_state" where
  "waku_a2a_announce C st =
     locked (\<lambda>n h. case announce (ca_node C) n of
                     (Inr _, n1) \<Rightarrow> ((Returns 0, n1), h)
                   | (Inl _, n1) \<Rightarrow> ((Returns (- 1), n1), h)) (- 1) st"

definition waku_a2a_discover ::
    "('bf, 'tr, 'rx, 'c, 'w, 'sk) capi_env \<Rightarrow> ('bf, 'tr, 'rx, 'sk, 'w) qt_state \<Rightarrow> nat exec \<times> ('bf, 'tr, 'rx, 'sk, 'w) qt_state" where
  "waku_a2a_discover C st =
     locked (\<lambda>n h. case discover (ca_node C) n of
                     (Inr cards, n1) \<Rightarrow> (case or_null (ca_cards_json C cards) h of (p, h1) \<Rightarrow> ((Returns p, n1), h1))
                   | (Inl _, n1) \<Rightarrow> ((Returns 0, n1), h)) 0 st"

definition waku_a2a_send_text ::
    "('bf, 'tr, 'rx, 'c, 'w, 'sk) capi_env \<Rightarrow> ('tr, 'w, 'sk) capi_call \<Rightarrow> bytes option \<Rightarrow> bytes option \<Rightarrow> ('bf, 'tr, 'rx, 'sk, 'w) qt_state
       \<Rightarrow> int exec ffi \<times> ('bf, 'tr, 'rx, 'sk, 'w) qt_state" where
  "waku_a2a_send_text C cc to_pubkey content st =
     (case (lossy_arg to_pubkey, lossy_arg content) of
        (Done recipient, Done body) \<Rightarrow>
          (case locked (\<lambda>n h. case send_text (ca_node C) (cc_send cc) (cc_uuid cc) recipient body n of
                                (Panics, n1) \<Rightarrow> ((Panics, n1), h)
                              | (Returns (Inr _), n1) \<Rightarrow> ((Returns 0, n1), h)
                              | (Returns (Inl _), n1) \<Rightarrow> ((Returns (- 1), n1), h)) (- 1) st of
             (r, st1) \<Rightarrow> (Done r, st1))
      | _ \<Rightarrow> (Undef, st))"

definition waku_a2a_poll_tasks ::
    "('bf, 'tr, 'rx, 'c, 'w, 'sk) capi_env \<Rightarrow> ('tr, 'w, 'sk) capi_call \<Rightarrow> ('bf, 'tr, 'rx, 'sk, 'w) qt_state
       \<Rightarrow> nat exec \<times> ('bf, 'tr, 'rx, 'sk, 'w) qt_state" where
  "waku_a2a_poll_tasks C cc st =
     locked (\<lambda>n h. case poll_tasks (ca_node C) (cc_session_uuid cc) (cc_now_secs cc) n of
                     (Panics, n1) \<Rightarrow> ((Panics, n1), h)
                   | (Returns (Inr ts), n1) \<Rightarrow> (case or_null (ca_tasks_json C ts) h of (p, h1) \<Rightarrow> ((Returns p, n1), h1))
                   | (Returns (Inl _), n1) \<Rightarrow> ((Returns 0, n1), h)) 0 st"

definition waku_a2a_respond ::
    "('bf, 'tr, 'rx, 'c, 'w, 'sk) capi_env \<Rightarrow> ('tr, 'w, 'sk) capi_call \<Rightarrow> bytes option \<Rightarrow> bytes option \<Rightarrow> ('bf, 'tr, 'rx, 'sk, 'w) qt_state
       \<Rightarrow> int exec ffi \<times> ('bf, 'tr, 'rx, 'sk, 'w) qt_state" where
  "waku_a2a_respond C cc task_json result_text st =
     (case (lossy_arg task_json, lossy_arg result_text) of
        (Done task_str, Done result) \<Rightarrow>
          (case ca_task_from C task_str of
             None \<Rightarrow> (Done (Returns (- 1)), st)
           | Some t \<Rightarrow>
               (case locked (\<lambda>n h. case node_respond (ca_node C) (cc_nonces cc) (cc_clock cc) t result n of
                                     (Inr _, n1) \<Rightarrow> ((Returns 0, n1), h)
                                   | (Inl _, n1) \<Rightarrow> ((Returns (- 1), n1), h)) (- 1) st of
                  (r, st1) \<Rightarrow> (Done r, st1)))
      | _ \<Rightarrow> (Undef, st))"

definition waku_a2a_shutdown :: "('bf, 'tr, 'rx, 'sk, 'w) qt_state \<Rightarrow> ('bf, 'tr, 'rx, 'sk, 'w) qt_state" where
  "waku_a2a_shutdown st = (if qs_poisoned st then st else st\<lparr>qs_node := None\<rparr>)"

section \<open>The heap\<close>

text \<open>The addresses given out are positive and distinct from those to come.\<close>

definition heap_wf :: "c_heap \<Rightarrow> bool" where
  "heap_wf h \<longleftrightarrow> 0 < hp_next h \<and> (\<forall>p s. hm_get (hp_live h) p = Some s \<longrightarrow> 0 < p \<and> p < hp_next h)"

definition heap_at :: "c_heap \<Rightarrow> nat \<Rightarrow> string option" where
  "heap_at h p = hm_get (hp_live h) p"

lemma heap_alloc_spec:
  assumes "heap_wf h" and "heap_alloc s h = (p, h')"
  shows "heap_wf h'" "p \<noteq> 0" "heap_at h p = None" "heap_at h' = (heap_at h)(p \<mapsto> s)"
  using assms by (auto simp: heap_alloc_def heap_wf_def heap_at_def hm_get_insert less_Suc_eq split: if_splits)

lemma heap_free_live:
  assumes "heap_wf h" and "heap_at h p = Some s"
  shows "\<exists>h'. lmao_free_string p h = Done h' \<and> waku_a2a_free_string p h = Done h' \<and> heap_wf h' \<and> heap_at h' = (heap_at h)(p := None)
    \<and> lmao_free_string p h' = Undef"
proof -
  have "p \<noteq> 0" using assms by (auto simp: heap_wf_def heap_at_def)
  then show ?thesis
    using assms by (auto simp: lmao_free_string_def waku_a2a_free_string_def heap_free_def heap_wf_def heap_at_def hm_contains_def
        hm_get_remove hm_get_def [symmetric] split: if_splits)
qed

section \<open>Errors read back\<close>

lemma escape_no_nul: "has_nul (escape_quotes msg) \<longleftrightarrow> has_nul msg"
  by (induction msg) (auto simp: has_nul_def escape_quotes_def)

lemma lex_escaped:
  assumes "\<forall>c \<in> set msg. c \<noteq> CHR 0x5C \<and> 32 \<le> (of_char c :: nat)"
  shows "lex_string (escape_quotes msg @ CHR 0x22 # rest) = Some (msg, rest)"
  using assms
proof (induction msg)
  case Nil
  then show ?case using lex_plain [of "[]"] by (simp add: escape_quotes_def)
next
  case (Cons c msg)
  have IH: "lex_string (escape_quotes msg @ CHR 0x22 # rest) = Some (msg, rest)" using Cons by simp
  show ?case
  proof (cases "c = CHR 0x22")
    case True
    then have "escape_quotes (c # msg) = CHR 0x5C # CHR 0x22 # escape_quotes msg" by (simp add: escape_quotes_def)
    then show ?thesis using IH True by (simp add: unescape_def)
  next
    case False
    then have "escape_quotes (c # msg) = c # escape_quotes msg" "plain_char c"
      using Cons.prems by (simp_all add: escape_quotes_def plain_char_def)
    then show ?thesis using IH by (simp add: lex_plain_char)
  qed
qed

text \<open>
  An error reaches the C caller. The string that an error returns is a live, non-null allocation
  whose \<open>error\<close> member, read by the grammar of JSON strings, is the message, quotes included, for every message
  without backslashes and control characters; it can be freed once, which leaves the rest of the heap
  as it was, and not twice.
\<close>

lemma error_json_reads_back:
  assumes "heap_wf h" and "error_json msg h = (p, h')" and "\<forall>c \<in> set msg. c \<noteq> CHR 0x5C \<and> 32 \<le> (of_char c :: nat)"
  shows "p \<noteq> 0" "heap_at h p = None"
    "\<exists>opened rest. heap_at h' p = Some (opened @ escape_quotes msg @ CHR 0x22 # rest) \<and> rest = ''}''
       \<and> opened = ''{'' @ json_quoted ''success'' @ '':false,'' @ json_quoted ''error'' @ '':'' @ [CHR 0x22]
       \<and> lex_string (escape_quotes msg @ CHR 0x22 # rest) = Some (msg, rest)"
    "\<exists>h''. lmao_free_string p h' = Done h'' \<and> heap_at h'' = heap_at h \<and> lmao_free_string p h'' = Undef"
proof -
  have "\<not> has_nul msg"
  proof
    assume "has_nul msg"
    then have "32 \<le> (of_char (CHR 0x00) :: nat)" using assms(3) unfolding has_nul_def by blast
    then show False by simp
  qed
  then have "CHR 0x00 \<notin> set (escape_quotes msg)" using escape_no_nul [of msg] by (simp add: has_nul_def)
  then have "\<not> has_nul (error_text msg)" by (simp add: has_nul_def error_text_def json_quoted_def)
  then have alloc: "heap_alloc (error_text msg) h = (p, h')" using assms(2) by (simp add: error_json_def to_cstring_def)
  note spec = heap_alloc_spec [OF assms(1) alloc]
  show "p \<noteq> 0" "heap_at h p = None" using spec by simp_all
  show "\<exists>opened rest. heap_at h' p = Some (opened @ escape_quotes msg @ CHR 0x22 # rest) \<and> rest = ''}''
       \<and> opened = ''{'' @ json_quoted ''success'' @ '':false,'' @ json_quoted ''error'' @ '':'' @ [CHR 0x22]
       \<and> lex_string (escape_quotes msg @ CHR 0x22 # rest) = Some (msg, rest)"
    using spec(4) lex_escaped [OF assms(3)] by (simp add: error_text_def json_quoted_def)
  have "(heap_at h')(p := None) = heap_at h" using spec(3,4) by (auto simp: fun_eq_iff)
  then show "\<exists>h''. lmao_free_string p h' = Done h'' \<and> heap_at h'' = heap_at h \<and> lmao_free_string p h'' = Undef"
    using heap_free_live [OF spec(1), of p] spec(4) by auto
qed

lemma error_json_reads_back_witness:
  "\<exists>h''. lmao_free_string (fst (error_json ''missing'' heap_new)) (snd (error_json ''missing'' heap_new)) = Done h''
     \<and> heap_at h'' = heap_at heap_new"
proof -
  have "heap_wf heap_new" by (simp add: heap_wf_def heap_new_def hm_get_def)
  from error_json_reads_back(4) [OF this prod.collapse [symmetric], of "''missing''"] show ?thesis by auto
qed

text \<open>A message that ends in a backslash gives a document that never closes its string.\<close>

lemma lex_unclosed: "list_all plain_char s \<Longrightarrow> lex_string (s @ [CHR 0x5C, CHR 0x22, CHR 0x7D]) = None"
proof (induction s)
  case (Cons c s)
  then show ?case by (simp add: lex_plain_char)
qed (simp add: unescape_def)

lemma error_json_unclosed:
  assumes "list_all plain_char pre"
  shows "lex_string (escape_quotes (pre @ [CHR 0x5C]) @ CHR 0x22 # ''}'') = None"
proof -
  have "escape_quotes (pre @ [CHR 0x5C]) = pre @ [CHR 0x5C]"
    using assms by (induction pre) (auto simp: escape_quotes_def plain_char_def)
  then show ?thesis using lex_unclosed [OF assms] by simp
qed

section \<open>One node for all calls\<close>

inductive capi_step ::
    "('bf, 'tr, 'rx, 'c, 'w, 'sk) capi_env \<Rightarrow> ('bf, 'tr, 'rx, 'sk, 'w) capi \<Rightarrow> ('bf, 'tr, 'rx, 'sk, 'w) capi \<Rightarrow> bool" for C where
  discover: "lmao_discover_agents C cc args st = (r, st') \<Longrightarrow> capi_step C st st'"
| send: "lmao_send_task C cc args st = (r, st') \<Longrightarrow> capi_step C st st'"
| agent_card: "lmao_get_agent_card C cc st = (r, st') \<Longrightarrow> capi_step C st st'"
| version: "lmao_version C st = (r, st') \<Longrightarrow> capi_step C st st'"
| free: "lmao_free_string p (cp_heap st) = Done h \<Longrightarrow> capi_step C st (st\<lparr>cp_heap := h\<rparr>)"

definition capi_inv :: "agent_card \<Rightarrow> ('bf, 'tr, 'rx, 'sk, 'w) capi \<Rightarrow> bool" where
  "capi_inv c st \<longleftrightarrow> heap_wf (cp_heap st) \<and> (\<exists>n. cp_node st = Some n \<and> nd_card n = c)"

lemma answers_wf: "answers (heap_alloc s h) n = (r, st') \<Longrightarrow> heap_wf h \<Longrightarrow> heap_wf (cp_heap st') \<and> cp_node st' = n"
  using heap_alloc_spec(1) [of h s] by (auto simp: answers_def split: prod.splits)

lemmas answer_texts = error_json_def success_json_def to_cstring_def

lemma announce_card: "nd_card (snd (announce N n)) = nd_card n"
  using keeping.announce [OF prod.collapse [symmetric] refl] keptD(4) by metis

lemma discover_card: "discover N n = (r, n') \<Longrightarrow> nd_card n' = nd_card n"
  using keeping.discover [OF _ refl] keptD(4) by metis

lemma send_text_card: "send_text N d u t b n = (r, n') \<Longrightarrow> nd_card n' = nd_card n"
  using send_text_kept keptD(4) by metis

lemma set_transport_card: "nd_card (set_transport tr n) = nd_card n"
  by (simp add: set_transport_def)

lemma capi_step_inv:
  assumes "capi_step C st st'" and inv: "capi_inv c st"
  shows "capi_inv c st'"
  using assms(1)
proof cases
  case (discover cc args r)
  then show ?thesis using inv
    by (fastforce simp: capi_inv_def lmao_discover_agents_def get_or_init_node_def Let_def answer_texts
        announce_card set_transport_card split: sum.splits prod.splits dest: answers_wf discover_card)
next
  case (send cc args r)
  then show ?thesis using inv
    by (fastforce simp: capi_inv_def lmao_send_task_def get_or_init_node_def Let_def answer_texts
        split: sum.splits prod.splits option.splits exec.splits dest: answers_wf send_text_card)
next
  case (agent_card cc r)
  then show ?thesis using inv
    by (fastforce simp: capi_inv_def lmao_get_agent_card_def get_or_init_node_def Let_def answer_texts dest: answers_wf)
next
  case (version r)
  then show ?thesis using inv by (fastforce simp: capi_inv_def lmao_version_def answer_texts dest: answers_wf)
next
  case (free p h)
  then show ?thesis using inv heap_free_live [of "cp_heap st" p]
    by (cases "heap_at (cp_heap st) p")
       (auto simp: capi_inv_def lmao_free_string_def heap_free_def hm_contains_def heap_at_def hm_get_def split: if_splits)
qed

interpretation capi: step_system "\<lambda>st. capi_inv c st" "capi_step C" "capi_inv c"
  for C :: "('bf, 'tr, 'rx, 'c, 'w, 'sk) capi_env" and c
  by unfold_locales (auto intro: capi_step_inv)

text \<open>
  C33. One identity per process. Once a call has created the node, whatever functions of the interface C
  code calls afterwards, in whatever order, freeing strings in between, there is a node with the same agent
  card: \<open>lmao_get_agent_card\<close> answers with a new non-null string that holds that card.
\<close>

theorem capi_one_identity:
  assumes "heap_wf (cp_heap st)" and "cp_node st = Some n" and "rtranclp (capi_step C) st st'"
    and "js_to_string (ca_json C) (success_value (JObj [(''card'', card_value (nd_card n))])) = Inr s" "\<not> has_nul s"
  shows "\<exists>p st''. lmao_get_agent_card C cc st' = (Returns p, st'') \<and> p \<noteq> 0 \<and> heap_at (cp_heap st') p = None
    \<and> heap_at (cp_heap st'') p = Some s"
proof -
  have "capi_inv (nd_card n) st'"
    using capi.steps_inv [OF assms(3)] assms(1,2) by (simp add: capi_inv_def)
  then obtain n' where n': "heap_wf (cp_heap st')" "cp_node st' = Some n'" "nd_card n' = nd_card n" by (auto simp: capi_inv_def)
  obtain p h where alloc: "heap_alloc s (cp_heap st') = (p, h)" by fastforce
  then have "lmao_get_agent_card C cc st' = (Returns p, \<lparr>cp_heap = h, cp_node = Some n'\<rparr>)"
    using n' assms(4,5) by (simp add: lmao_get_agent_card_def get_or_init_node_def success_json_def to_cstring_def answers_def)
  then show ?thesis using heap_alloc_spec [OF n'(1) alloc] by simp
qed

definition example_capi :: "(string list, bytes list, unit, bytes, unit, unit) capi_env" where
  "example_capi =
     \<lparr>ca_node = key_nenv, ca_keys = unit_keys, ca_transport = (\<lambda>_. []),
      ca_json = \<lparr>js_from_str = (\<lambda>_. Inl ''none''), js_to_string = (\<lambda>_. Inr ''card'')\<rparr>, ca_utf8_error = (\<lambda>_. []),
      ca_card_json = (\<lambda>_. None), ca_cards_json = (\<lambda>_. None), ca_tasks_json = (\<lambda>_. None), ca_task_from = (\<lambda>_. None),
      ca_waku_url = None, ca_version = ''0.1.0''\<rparr>"

definition example_capi_node :: "(string list, bytes list, unit, unit, unit) node" where
  "example_capi_node = node_new key_nenv unit_keys 0 () ''lmao-agent'' [] [''text''] [] ()"

theorem capi_one_identity_witness:
  "\<forall>cc. \<exists>p st''. lmao_get_agent_card example_capi cc (snd (lmao_version example_capi \<lparr>cp_heap = heap_new, cp_node = Some example_capi_node\<rparr>))
     = (Returns p, st'') \<and> heap_at (cp_heap st'') p = Some ''card''"
proof
  fix cc
  let ?st = "\<lparr>cp_heap = heap_new, cp_node = Some example_capi_node\<rparr>"
  have wf: "heap_wf (cp_heap ?st)" "cp_node ?st = Some example_capi_node" by (simp_all add: heap_wf_def heap_new_def hm_get_def)
  have step: "rtranclp (capi_step example_capi) ?st (snd (lmao_version example_capi ?st))"
    by (rule r_into_rtranclp, rule version [OF prod.collapse [symmetric]])
  have text_out: "js_to_string (ca_json example_capi) v = Inr ''card''" "\<not> has_nul ''card''" for v
    by (simp_all add: example_capi_def has_nul_def)
  from capi_one_identity [OF wf step text_out, of cc]
  show "\<exists>p st''. lmao_get_agent_card example_capi cc (snd (lmao_version example_capi ?st)) = (Returns p, st'')
      \<and> heap_at (cp_heap st'') p = Some ''card''"
    by blast
qed

section \<open>The first discovery\<close>

text \<open>
  The node subscribes to the discovery topic when it first drains it, which is after the wait: on a
  transport whose new subscription is empty, the first call finds nobody, whatever was announced while
  it waited and however long that was.
\<close>

lemma discover_first_empty:
  assumes "nd_discover_rx n = None"
    and "\<And>tr. \<exists>rx tr'. tp_subscribe (env_transport (ne_sds N)) tr DISCOVERY = (Inr rx, tr')
           \<and> fst (tp_drain (env_transport (ne_sds N)) tr' rx) = []"
  shows "\<exists>n'. discover N n = (Inr [], n')"
proof -
  obtain rx tr' where "tp_subscribe (env_transport (ne_sds N)) (ch_transport (nd_channel n)) DISCOVERY = (Inr rx, tr')"
    "fst (tp_drain (env_transport (ne_sds N)) tr' rx) = []"
    using assms(2) by blast
  then show ?thesis using assms(1) by (auto simp: discover_def ensure_rx_def drain_rx_def set_transport_def Let_def split: prod.splits)
qed

lemma announce_discover_rx: "nd_discover_rx (snd (announce N n)) = nd_discover_rx n"
  by (auto simp: announce_def node_publish_def count_def set_transport_def split: sum.splits prod.splits)

lemma first_discovery_empty:
  assumes "cp_node st = None" and "\<And>tr. \<exists>rx tr'. tp_subscribe (env_transport (ne_sds (ca_node C))) tr DISCOVERY = (Inr rx, tr')
           \<and> fst (tp_drain (env_transport (ne_sds (ca_node C))) tr' rx) = []"
  shows "\<exists>n. lmao_discover_agents C cc args st
    = answers (success_json (ca_json C) (JObj [(''agents'', JArr [])]) (cp_heap st)) (Some n)"
proof -
  define n where "n = snd (announce (ca_node C) (get_or_init_node C cc st))"
  define n1 where "n1 = set_transport (cc_meanwhile cc (discover_timeout C args) (ch_transport (nd_channel n))) n"
  have "nd_discover_rx n1 = None"
    by (simp add: n1_def n_def set_transport_def announce_discover_rx get_or_init_node_def assms(1) Let_def node_new_def node_with_channel_def)
  from discover_first_empty [OF this assms(2)] obtain n2 where "discover (ca_node C) n1 = (Inr [], n2)" by blast
  then show ?thesis by (auto simp: lmao_discover_agents_def Let_def n1_def n_def)
qed

lemma rest_subscription_empty:
  "\<exists>rx. fst (rest_subscribe self topic) = Inr rx \<and> fst (rest_drain (snd (rest_subscribe self topic)) rx) = []"
  by (cases "rest_unsubscribe self topic") (simp add: rest_subscribe_def rest_drain_def Let_def)

section \<open>The life cycle of the Qt module's node\<close>

text \<open>Without a node, before \<open>init\<close> or after \<open>shutdown\<close>, every operation fails and changes nothing.\<close>

lemma qt_without_node:
  assumes "qs_node st = None"
  shows "waku_a2a_pubkey st = (Returns 0, st)" "waku_a2a_agent_card_json C st = (Returns 0, st)" "waku_a2a_announce C st = (Returns (- 1), st)"
    "waku_a2a_discover C st = (Returns 0, st)" "waku_a2a_poll_tasks C cc st = (Returns 0, st)"
    "waku_a2a_send_text C cc (Some a) (Some b) st = (Done (Returns (- 1)), st)"
    "waku_a2a_respond C cc (Some a) (Some b) st = (Done (Returns (- 1)), st)"
  using assms
  by (simp_all add: locked_def waku_a2a_pubkey_def waku_a2a_agent_card_json_def waku_a2a_announce_def waku_a2a_discover_def
      waku_a2a_poll_tasks_def waku_a2a_send_text_def waku_a2a_respond_def lossy_arg_def split: option.split)

lemma qt_shutdown: "\<not> qs_poisoned st \<Longrightarrow> qs_node (waku_a2a_shutdown st) = None"
  by (simp add: waku_a2a_shutdown_def)

text \<open>After \<open>init\<close> the public key is that of the key drawn for it, whatever node there was before.\<close>

lemma qt_init_pubkey:
  assumes "waku_a2a_init C cc (Some a) (Some b) (Some u) encrypted st = (Done 0, st')" and "heap_wf (qs_heap st)"
    and "\<not> has_nul (public_key_of (ne_crypto (ca_node C)) (ca_keys C) (cc_random_key cc))"
  shows "\<exists>p st''. waku_a2a_pubkey st' = (Returns p, st'') \<and> p \<noteq> 0
    \<and> heap_at (qs_heap st'') p = Some (public_key_of (ne_crypto (ca_node C)) (ca_keys C) (cc_random_key cc))"
proof -
  let ?pk = "public_key_of (ne_crypto (ca_node C)) (ca_keys C) (cc_random_key cc)"
  obtain n where st': "st' = st\<lparr>qs_node := Some n\<rparr>" "\<not> qs_poisoned st" "pubkey n = ?pk"
    using assms(1)
    by (auto simp: waku_a2a_init_def lossy_arg_def Let_def node_new_def node_new_encrypted_def node_with_channel_def card_of_def pubkey_def
        split: if_splits)
  obtain p h where alloc: "heap_alloc ?pk (qs_heap st) = (p, h)" by fastforce
  then show ?thesis using heap_alloc_spec [OF assms(2) alloc] st' assms(3) by (simp add: waku_a2a_pubkey_def locked_def to_c_string_def)
qed

end
