(* ===== verification/Calendar.thy ===== *)
theory Calendar
  imports Node_State "HOL-Library.Signed_Division"
begin

text \<open>
  The date of a history row (\<open>format_unix_ms\<close> and \<open>ymd_from_days\<close> of
  \<open>crates/logos-messaging-a2a-cli/src/task.rs\<close>), and that it is the date of the calendar: the one
  reached from 1 January 1970 by counting days. The machine integers of the code are integers here;
  for every 64-bit timestamp they stay far from their bounds (\<open>ymd_fits\<close>).
\<close>

section \<open>Conversion\<close>

definition ymd_from_days :: "int \<Rightarrow> int \<times> int \<times> int" where
  "ymd_from_days days =
     (let z = days + 719468;
          era = (if 0 \<le> z then z else z - 146096) sdiv 146097;
          doe = z - era * 146097;
          yoe = (doe - doe div 1460 + doe div 36524 - doe div 146096) div 365;
          y = yoe + era * 400;
          doy = doe - (365 * yoe + yoe div 4 - yoe div 100);
          mp = (5 * doy + 2) div 153;
          d = doy - (153 * mp + 2) div 5 + 1;
          m = (if mp < 10 then mp + 3 else mp - 9);
          y1 = (if m \<le> 2 then y + 1 else y)
      in (y1, m, d))"

text \<open>The padding \<open>{:02}\<close> and \<open>{:04}\<close> of a number that is not negative.\<close>

definition zero_padded :: "nat \<Rightarrow> nat \<Rightarrow> string" where
  "zero_padded width n = replicate (width - length (show_nat n)) (CHR ''0'') @ show_nat n"

definition format_unix_ms :: "u64 \<Rightarrow> string" where
  "format_unix_ms ms =
     (let secs = unat ms div 1000;
          days = int (secs div 86400);
          sod = secs mod 86400;
          h = sod div 3600;
          m = (sod mod 3600) div 60;
          s = sod mod 60;
          (y, mo, d) = ymd_from_days days
      in zero_padded 4 (nat y) @ ''-'' @ zero_padded 2 (nat mo) @ ''-'' @ zero_padded 2 (nat d)
         @ '' '' @ zero_padded 2 h @ '':'' @ zero_padded 2 m @ '':'' @ zero_padded 2 s @ ''Z'')"

section \<open>The calendar\<close>

definition leap_year :: "int \<Rightarrow> bool" where
  "leap_year y \<longleftrightarrow> y mod 4 = 0 \<and> (y mod 100 \<noteq> 0 \<or> y mod 400 = 0)"

definition month_days :: "int \<Rightarrow> int \<Rightarrow> int" where
  "month_days y m = (if m = 2 then if leap_year y then 29 else 28 else if m \<in> {4, 6, 9, 11} then 30 else 31)"

definition next_day :: "int \<times> int \<times> int \<Rightarrow> int \<times> int \<times> int" where
  "next_day = (\<lambda>(y, m, d).
     if d < month_days y m then (y, m, d + 1) else if m < 12 then (y, m + 1, 1) else (y + 1, 1, 1))"

section \<open>Years that begin in March\<close>

text \<open>The day a year of an era begins with, its length, and the date of a day of it.\<close>

definition year_start :: "int \<Rightarrow> int" where
  "year_start yoe = 365 * yoe + yoe div 4 - yoe div 100"

definition year_length :: "int \<Rightarrow> int" where
  "year_length yoe = (if leap_year (yoe + 1) then 366 else 365)"

definition march_date :: "int \<Rightarrow> int \<Rightarrow> int \<times> int \<times> int" where
  "march_date y doy =
     (let mp = (5 * doy + 2) div 153;
          m = (if mp < 10 then mp + 3 else mp - 9)
      in (if m \<le> 2 then y + 1 else y, m, doy - (153 * mp + 2) div 5 + 1))"

text \<open>Centuries, leap cycles and years: \<open>yoe = 100 * c + 4 * q + a\<close>.\<close>

lemma year_parts:
  fixes yoe :: int
  assumes "0 \<le> yoe" "yoe < 400"
  obtains c q a where "yoe = 100 * c + 4 * q + a" "0 \<le> c" "c \<le> 3" "0 \<le> q" "q \<le> 24" "0 \<le> a" "a \<le> 3"
    "year_start yoe = 36524 * c + 1461 * q + 365 * a" "leap_year (yoe + 1) \<longleftrightarrow> a = 3 \<and> (q < 24 \<or> c = 3)"
proof -
  define c q a where "c = yoe div 100" and "q = yoe mod 100 div 4" and "a = yoe mod 4"
  have "yoe = 100 * c + yoe mod 100" "yoe mod 100 = 4 * q + a"
    using mult_div_mod_eq [of 100 yoe] mult_div_mod_eq [of 4 "yoe mod 100"] mod_mod_cancel [of 4 100 yoe]
    unfolding c_def q_def a_def by simp_all
  moreover have "0 \<le> yoe mod 100" "yoe mod 100 < 100" "0 \<le> a" "a < 4" by (simp_all add: a_def)
  ultimately have parts: "yoe = 100 * c + 4 * q + a" "0 \<le> c" "c \<le> 3" "0 \<le> q" "q \<le> 24" "0 \<le> a" "a \<le> 3"
    using assms by linarith+
  have "yoe div 4 = 25 * c + q" using parts int_div_pos_eq [of yoe 4 "25 * c + q" a] by simp
  then have start: "year_start yoe = 36524 * c + 1461 * q + 365 * a"
    using parts(1) c_def unfolding year_start_def by linarith
  have "leap_year (yoe + 1) \<longleftrightarrow> a = 3 \<and> (q < 24 \<or> c = 3)"
  proof -
    define r where "r = 4 * q + a + 1"
    have r: "yoe + 1 = 100 * c + r" "0 < r" "r \<le> 100" "r = 100 \<longleftrightarrow> q = 24 \<and> a = 3"
      using parts unfolding r_def by linarith+
    have "(yoe + 1) mod 4 = (a + 1) mod 4" using mod_add_left_eq [of yoe 4 1] by (simp add: a_def mod_add_left_eq)
    then have "(yoe + 1) mod 4 = 0 \<longleftrightarrow> a = 3" using parts by (cases "a = 3") simp_all
    moreover have "(yoe + 1) mod 100 = 0 \<longleftrightarrow> r = 100"
      using r int_mod_pos_eq [of "yoe + 1" 100 c r] by (cases "r = 100") simp_all
    moreover have "(yoe + 1) mod 400 = 0 \<longleftrightarrow> yoe + 1 = 400"
      using assms int_mod_pos_eq [of "yoe + 1" 400 0 "yoe + 1"] by (cases "yoe + 1 = 400") simp_all
    moreover have "yoe + 1 = 400 \<longleftrightarrow> c = 3 \<and> r = 100" using r(1-3) parts(2,3) by linarith
    ultimately show ?thesis using parts r(4) by (auto simp: leap_year_def)
  qed
  then show thesis using that parts start by blast
qed

lemma div_carry:
  fixes n k r :: int
  assumes "0 \<le> r" "r < 2 * n"
  shows "(n * k + r) div n = k + (if n \<le> r then 1 else 0)"
proof (cases "n \<le> r")
  case True
  then show ?thesis using assms int_div_pos_eq [of "n * k + r" n "k + 1" "r - n"] by (simp add: algebra_simps)
qed (use assms int_div_pos_eq [of "n * k + r" n k r] in simp)

text \<open>The year from the day of the era: the leap days up to it are exactly what the divisions take off.\<close>

lemma year_of_era:
  fixes yoe doy doe :: int
  assumes yoe: "0 \<le> yoe" "yoe < 400" and doy: "0 \<le> doy" "doy < year_length yoe" and doe: "doe = year_start yoe + doy"
  shows "(doe - doe div 1460 + doe div 36524 - doe div 146096) div 365 = yoe"
proof -
  from yoe obtain c q a where p: "yoe = 100 * c + 4 * q + a" "0 \<le> c" "c \<le> 3" "0 \<le> q" "q \<le> 24" "0 \<le> a" "a \<le> 3"
    "year_start yoe = 36524 * c + 1461 * q + 365 * a" "leap_year (yoe + 1) \<longleftrightarrow> a = 3 \<and> (q < 24 \<or> c = 3)"
    by (rule year_parts)
  have len: "doy \<le> 364 \<or> (doy = 365 \<and> a = 3 \<and> (q < 24 \<or> c = 3))"
    using doy p(9) by (auto simp: year_length_def split: if_splits)
  have doe': "doe = 1460 * (25 * c + q) + (24 * c + q + 365 * a + doy)" "doe = 36524 * c + (1461 * q + 365 * a + doy)"
    "doe = 146096 * 0 + doe" using doe p(8) by simp_all
  define e1 e2 e3 :: int where "e1 = (if 1460 \<le> 24 * c + q + 365 * a + doy then 1 else 0)"
    and "e2 = (if 36524 \<le> 1461 * q + 365 * a + doy then 1 else 0)" and "e3 = (if 146096 \<le> doe then 1 else 0)"
  have divs: "doe div 1460 = 25 * c + q + e1" "doe div 36524 = c + e2" "doe div 146096 = e3"
    using div_carry [of "24 * c + q + 365 * a + doy" 1460 "25 * c + q", folded doe'(1)]
      div_carry [of "1461 * q + 365 * a + doy" 36524 c, folded doe'(2)] div_carry [of doe 146096 0] p doy len doe
    unfolding e1_def e2_def e3_def by auto
  have "e2 = e3" using p len doe unfolding e2_def e3_def by auto
  then have "doe - doe div 1460 + doe div 36524 - doe div 146096 = 365 * yoe + (doy - e1)"
    using divs doe p(1,8) by simp
  moreover have "0 \<le> doy - e1" "doy - e1 < 365" using p len doy unfolding e1_def by auto
  ultimately show ?thesis using int_div_pos_eq by blast
qed

section \<open>Months\<close>

lemma month_of_day:
  fixes doy k :: int
  assumes "(153 * k + 2) div 5 \<le> doy" "doy < (153 * (k + 1) + 2) div 5"
  shows "(5 * doy + 2) div 153 = k"
proof -
  have "153 * k - 2 \<le> 5 * ((153 * k + 2) div 5)" "5 * ((153 * (k + 1) + 2) div 5) \<le> 153 * (k + 1) + 2"
    using mult_div_mod_eq [of 5 "153 * k + 2"] pos_mod_bound [of 5 "153 * k + 2"]
      mult_div_mod_eq [of 5 "153 * (k + 1) + 2"] pos_mod_sign [of 5 "153 * (k + 1) + 2"] by linarith+
  then have "153 * k \<le> 5 * doy + 2" "5 * doy + 2 < 153 * (k + 1)" using assms by linarith+
  then show ?thesis by (intro int_div_pos_eq [where r = "5 * doy + 2 - 153 * k"]) simp_all
qed

lemma march_date_table:
  assumes "0 \<le> doy" "doy \<le> 365"
  shows "march_date y doy =
     (if doy < 31 then (y, 3, doy + 1)
      else if doy < 61 then (y, 4, doy - 30)
      else if doy < 92 then (y, 5, doy - 60)
      else if doy < 122 then (y, 6, doy - 91)
      else if doy < 153 then (y, 7, doy - 121)
      else if doy < 184 then (y, 8, doy - 152)
      else if doy < 214 then (y, 9, doy - 183)
      else if doy < 245 then (y, 10, doy - 213)
      else if doy < 275 then (y, 11, doy - 244)
      else if doy < 306 then (y, 12, doy - 274)
      else if doy < 337 then (y + 1, 1, doy - 305)
      else (y + 1, 2, doy - 336))"
proof -
  consider "0 \<le> doy \<and> doy < 31" | "31 \<le> doy \<and> doy < 61" | "61 \<le> doy \<and> doy < 92" | "92 \<le> doy \<and> doy < 122" | "122 \<le> doy \<and> doy < 153" | "153 \<le> doy \<and> doy < 184" | "184 \<le> doy \<and> doy < 214" | "214 \<le> doy \<and> doy < 245" | "245 \<le> doy \<and> doy < 275" | "275 \<le> doy \<and> doy < 306" | "306 \<le> doy \<and> doy < 337" | "337 \<le> doy \<and> doy < 367"
    using assms by linarith
  then show ?thesis
    by cases (simp_all add: march_date_def
        month_of_day [of 0 doy] month_of_day [of 1 doy] month_of_day [of 2 doy] month_of_day [of 3 doy] month_of_day [of 4 doy]
        month_of_day [of 5 doy] month_of_day [of 6 doy] month_of_day [of 7 doy] month_of_day [of 8 doy]
        month_of_day [of 9 doy] month_of_day [of 10 doy] month_of_day [of 11 doy])
qed

lemma march_next:
  assumes "0 \<le> doy" "doy + 1 < (if leap_year (y + 1) then 366 else 365)"
  shows "march_date y (doy + 1) = next_day (march_date y doy)"
  using assms by (simp add: march_date_table next_day_def month_days_def split: if_splits)

lemma march_new_year:
  assumes "doy + 1 = (if leap_year (y + 1) then 366 else 365)"
  shows "march_date (y + 1) 0 = next_day (march_date y doy)"
  using assms by (simp add: march_date_table next_day_def month_days_def split: if_splits)

section \<open>Days of an era\<close>

lemma leap_year_era: "leap_year (y + 400 * era) = leap_year y"
proof -
  have "(y + 400 * era) mod n = y mod n" if n: "n dvd 400" for n :: int
  proof -
    obtain k where "400 = n * k" using n by (rule dvdE)
    then show ?thesis by (metis mod_mult_self2 mult.assoc)
  qed
  then show ?thesis by (simp add: leap_year_def)
qed

lemma div_next:
  fixes n y :: int
  assumes "0 < n"
  shows "(y + 1) div n = y div n + (if (y + 1) mod n = 0 then 1 else 0)"
proof -
  have y: "y = n * (y div n) + y mod n" "0 \<le> y mod n" "y mod n < n" using assms by simp_all
  show ?thesis
  proof (cases "y mod n + 1 = n")
    case True
    then have "y + 1 = n * (y div n + 1) + 0" using y(1) distrib_left [of n "y div n" 1] by linarith
    then show ?thesis using assms int_div_pos_eq [of "y + 1" n "y div n + 1" 0] int_mod_pos_eq [of "y + 1" n "y div n + 1" 0] by simp
  next
    case False
    have "y + 1 = n * (y div n) + (y mod n + 1)" using y(1) by simp
    then show ?thesis
      using y False int_div_pos_eq [of "y + 1" n "y div n" "y mod n + 1"] int_mod_pos_eq [of "y + 1" n "y div n" "y mod n + 1"] by simp
  qed
qed

lemma year_start_next:
  assumes "0 \<le> yoe" "yoe < 399"
  shows "year_start (yoe + 1) = year_start yoe + year_length yoe"
proof -
  have "(yoe + 1) mod 400 \<noteq> 0" using assms int_mod_pos_eq [of "yoe + 1" 400 0 "yoe + 1"] by simp
  moreover have "(yoe + 1) mod 100 = 0 \<Longrightarrow> (yoe + 1) mod 4 = 0" using mod_mod_cancel [of 4 100 "yoe + 1"] by simp
  ultimately show ?thesis
    by (auto simp: year_start_def year_length_def leap_year_def div_next)
qed

lemma day_of_era_bounds:
  assumes "0 \<le> yoe" "yoe < 400" "0 \<le> doy" "doy < year_length yoe"
  shows "0 \<le> year_start yoe + doy" and "year_start yoe + doy < 146097"
proof -
  from assms(1,2) obtain c q a where p: "yoe = 100 * c + 4 * q + a" "0 \<le> c" "c \<le> 3" "0 \<le> q" "q \<le> 24" "0 \<le> a" "a \<le> 3"
    "year_start yoe = 36524 * c + 1461 * q + 365 * a" "leap_year (yoe + 1) \<longleftrightarrow> a = 3 \<and> (q < 24 \<or> c = 3)"
    by (rule year_parts)
  have "doy \<le> 365" using assms(4) by (simp add: year_length_def split: if_splits)
  then show "0 \<le> year_start yoe + doy" "year_start yoe + doy < 146097" using p(2-8) assms(3) by linarith+
qed

lemma ymd_era:
  assumes "0 \<le> yoe" "yoe < 400" "0 \<le> doy" "doy < year_length yoe" "0 \<le> era"
    and days: "days = 146097 * era + year_start yoe + doy - 719468"
  shows "ymd_from_days days = march_date (yoe + 400 * era) doy"
proof -
  note bounds = day_of_era_bounds [OF assms(1-4)]
  define doe where "doe = year_start yoe + doy"
  have z: "days + 719468 = 146097 * era + doe" using days by (simp add: doe_def)
  have "0 \<le> days + 719468" "(days + 719468) div 146097 = era"
    using z bounds assms(5) int_div_pos_eq [of "days + 719468" 146097 era doe] by (simp_all add: doe_def)
  then have era: "(if 0 \<le> days + 719468 then days + 719468 else days + 719468 - 146096) sdiv 146097 = era"
    by (auto simp: signed_divide_int_def sgn_if)
  have doe: "days + 719468 - era * 146097 = doe" using z by simp
  note yoe = year_of_era [OF assms(1-4) doe_def]
  have doy: "doe - (365 * yoe + yoe div 4 - yoe div 100) = doy" by (simp add: doe_def year_start_def)
  show ?thesis
    unfolding ymd_from_days_def march_date_def Let_def era doe yoe doy mult.commute [of 400 era] by (rule refl)
qed

text \<open>Every day has a place in an era.\<close>

lemma place_of_day:
  "\<exists>era yoe doy. 0 \<le> yoe \<and> yoe < 400 \<and> 0 \<le> doy \<and> doy < year_length yoe \<and> 0 \<le> era
     \<and> int n = 146097 * era + year_start yoe + doy - 719468
     \<and> march_date (yoe + 400 * era) doy = (next_day ^^ n) (1970, 1, 1)"
proof (induction n)
  case 0
  show ?case
    by (intro exI [of _ 4] exI [of _ 369] exI [of _ 306])
       (simp add: year_start_def year_length_def leap_year_def march_date_def)
next
  case (Suc n)
  then obtain era yoe doy where p: "0 \<le> yoe" "yoe < 400" "0 \<le> doy" "doy < year_length yoe" "0 \<le> era"
    "int n = 146097 * era + year_start yoe + doy - 719468"
    "march_date (yoe + 400 * era) doy = (next_day ^^ n) (1970, 1, 1)" by blast
  have len: "year_length yoe = (if leap_year (yoe + 400 * era + 1) then 366 else 365)"
    using leap_year_era [of "yoe + 1" era] by (simp add: year_length_def algebra_simps)
  consider "doy + 1 < year_length yoe" | "doy + 1 = year_length yoe" "yoe < 399" | "doy + 1 = year_length yoe" "yoe = 399"
    using p(2,4) by linarith
  then show ?case
  proof cases
    case 1
    then show ?thesis using p march_next [of doy "yoe + 400 * era"] len
      by (intro exI [of _ era] exI [of _ yoe] exI [of _ "doy + 1"]) simp
  next
    case 2
    then show ?thesis using p march_new_year [of doy "yoe + 400 * era"] len year_start_next [of yoe]
      by (intro exI [of _ era] exI [of _ "yoe + 1"] exI [of _ 0]) (simp add: year_length_def algebra_simps)
  next
    case 3
    then show ?thesis using p march_new_year [of doy "yoe + 400 * era"] len
      by (intro exI [of _ "era + 1"] exI [of _ 0] exI [of _ 0])
         (simp add: year_length_def year_start_def leap_year_def algebra_simps)
  qed
qed

lemma ymd_fits:
  assumes "n \<le> 2 ^ 64 div 86400000" and "ymd_from_days (int n) = (y, m, d)"
  shows "0 \<le> y" and "y < 2 ^ 31" and "1 \<le> m" and "m \<le> 12" and "1 \<le> d" and "d \<le> 31"
proof -
  obtain era yoe doy where p: "0 \<le> yoe" "yoe < 400" "0 \<le> doy" "doy < year_length yoe" "0 \<le> era"
    "int n = 146097 * era + year_start yoe + doy - 719468" using place_of_day [of n] by blast
  have "ymd_from_days (int n) = march_date (yoe + 400 * era) doy" by (rule ymd_era [OF p])
  moreover have "doy \<le> 365" using p(4) by (simp add: year_length_def split: if_splits)
  ultimately have "y \<le> yoe + 400 * era + 1 \<and> 0 \<le> y \<and> 1 \<le> m \<and> m \<le> 12 \<and> 1 \<le> d \<and> d \<le> 31"
    using assms(2) p(1,3,5) by (auto simp: march_date_table split: if_splits)
  moreover have "146097 * era \<le> int n + 719468" using p(6) day_of_era_bounds(1) [OF p(1-4)] by linarith
  moreover have "int n \<le> 213503982334" using assms(1) by simp
  ultimately show "0 \<le> y" "y < 2 ^ 31" "1 \<le> m" "m \<le> 12" "1 \<le> d" "d \<le> 31"
    using p(2) by simp_all
qed

lemma ymd_from_days_eq: "ymd_from_days (int n) = (next_day ^^ n) (1970, 1, 1)"
  using place_of_day [of n] ymd_era by metis

text \<open>
  C37. The history shows the right time: the text of a timestamp is the date of the Gregorian calendar,
  reached from 1 January 1970 by counting days with the months and leap years of the calendar, and
  the time of day, such that together they count exactly the seconds of the timestamp. The conversion
  itself never counts: it computes the date in constant time with divisions.
\<close>

theorem format_unix_ms_calendar:
  "\<exists>days h m s y mo d. format_unix_ms ms = zero_padded 4 (nat y) @ ''-'' @ zero_padded 2 (nat mo) @ ''-'' @ zero_padded 2 (nat d)
      @ '' '' @ zero_padded 2 h @ '':'' @ zero_padded 2 m @ '':'' @ zero_padded 2 s @ ''Z''
     \<and> (y, mo, d) = (next_day ^^ days) (1970, 1, 1) \<and> h < 24 \<and> m < 60 \<and> s < 60
     \<and> unat ms div 1000 = days * 86400 + h * 3600 + m * 60 + s"
proof -
  define secs where "secs = unat ms div 1000"
  define days sod where "days = secs div 86400" and "sod = secs mod 86400"
  obtain y mo d where ymd: "(next_day ^^ days) (1970, 1, 1) = (y, mo, d)" by (cases "(next_day ^^ days) (1970, 1, 1)")
  have sod: "sod < 86400" "secs = days * 86400 + sod" by (simp_all add: sod_def days_def)
  have "sod mod 3600 mod 60 = sod mod 60" by (simp add: mod_mod_cancel)
  then have "sod = sod div 3600 * 3600 + sod mod 3600 div 60 * 60 + sod mod 60"
    using mult_div_mod_eq [of 3600 sod] mult_div_mod_eq [of 60 "sod mod 3600"] by linarith
  then have total: "secs = days * 86400 + sod div 3600 * 3600 + sod mod 3600 div 60 * 60 + sod mod 60" using sod(2) by linarith
  have bounds: "sod div 3600 < 24" "sod mod 3600 div 60 < 60" "sod mod 60 < 60"
    using sod(1) by (simp_all add: div_less_iff_less_mult)
  have "format_unix_ms ms = zero_padded 4 (nat y) @ ''-'' @ zero_padded 2 (nat mo) @ ''-'' @ zero_padded 2 (nat d)
      @ '' '' @ zero_padded 2 (sod div 3600) @ '':'' @ zero_padded 2 (sod mod 3600 div 60) @ '':'' @ zero_padded 2 (sod mod 60) @ ''Z''"
    using ymd ymd_from_days_eq [of days] unfolding format_unix_ms_def Let_def secs_def [symmetric] days_def [symmetric] sod_def [symmetric]
    by simp
  then show ?thesis using ymd [symmetric] bounds total unfolding secs_def [symmetric] by blast
qed

end
