(* ===== verification/Node_Invariant.thy ===== *)
theory Node_Invariant
  imports Node_Frames
begin

text \<open>
  The well-formed states of a node and that every operation keeps them, as an interpretation of
  \<open>node_frame\<close> and a step relation over all operations; and what holds of the sessions of a node.
\<close>

section \<open>Well-formed nodes\<close>

text \<open>
  Chunks of a stream are buffered under their own task, in the order of their indices, each index once.
\<close>

definition buffer_wf :: "string \<Rightarrow> task_stream_chunk list \<Rightarrow> bool" where
  "buffer_wf tid cs \<longleftrightarrow> sorted_wrt (<) (map chunk_index cs) \<and> list_all (\<lambda>c. chunk_task_id c = tid) cs"

definition node_wf :: "('bf, 'tr, 'rx, 'sk, 'w) node \<Rightarrow> bool" where
  "node_wf self \<longleftrightarrow> trust_wf (nd_trust_list self) \<and> 1 \<le> nd_max_concurrent self \<and> hm_wf (nd_sessions self)
     \<and> hm_wf (nd_peer_map self) \<and> hm_wf (nd_stream_rx self) \<and> hm_wf (nd_stream_chunks self)
     \<and> list_all (\<lambda>(tid, cs). buffer_wf tid cs) (nd_stream_chunks self) \<and> distinct (nd_seen_tx_hashes self)"

lemma merge_distinct: "distinct (map chunk_index cs) \<Longrightarrow> distinct (map chunk_index (fold merge_chunk new cs))"
  by (induction new arbitrary: cs) (simp_all add: merge_chunk_def)

lemma merge_task:
  "list_all (\<lambda>c. chunk_task_id c = tid) cs \<Longrightarrow> \<forall>c \<in> set new. chunk_task_id c = tid
    \<Longrightarrow> list_all (\<lambda>c. chunk_task_id c = tid) (fold merge_chunk new cs)"
  by (induction new arbitrary: cs) (simp_all add: merge_chunk_def)

lemma buffer_wf_merge:
  assumes "buffer_wf tid cs" and "\<forall>c \<in> set new. chunk_task_id c = tid"
  shows "buffer_wf tid (sort_key chunk_index (fold merge_chunk new cs))"
proof -
  let ?cs = "fold merge_chunk new cs"
  have "distinct (map chunk_index cs)" using assms(1) by (simp add: buffer_wf_def strict_sorted_iff)
  then have "distinct (map chunk_index (sort_key chunk_index ?cs))" using merge_distinct [of cs new] by (simp add: distinct_map)
  moreover have "list_all (\<lambda>c. chunk_task_id c = tid) (sort_key chunk_index ?cs)"
    using merge_task [OF _ assms(2), of cs] assms(1) by (simp add: buffer_wf_def list_all_iff)
  ultimately show ?thesis by (simp add: buffer_wf_def strict_sorted_iff)
qed

lemma buffer_of: "list_all (\<lambda>(tid, cs). buffer_wf tid cs) m \<Longrightarrow> hm_get m tid = Some cs \<Longrightarrow> buffer_wf tid cs"
  by (auto simp: hm_get_def list_all_iff dest: map_of_SomeD)

lemma buffers_insert:
  "list_all (\<lambda>(tid, cs). buffer_wf tid cs) m \<Longrightarrow> buffer_wf tid cs
    \<Longrightarrow> list_all (\<lambda>(tid, cs). buffer_wf tid cs) (hm_insert tid cs m)"
  by (induction m) (auto simp: hm_insert_def)

lemma hm_wf_insert: "hm_wf m \<Longrightarrow> hm_wf (hm_insert k v m)"
  by (rule hm.invar_ins)

lemma node_wf_stream:
  assumes cs: "\<forall>c \<in> set cs. chunk_task_id c = tid" and wf: "node_wf self"
  shows "node_wf (self\<lparr>nd_stream_chunks := hm_insert tid (sort_key chunk_index (fold merge_chunk cs
    (case hm_get (nd_stream_chunks self) tid of None \<Rightarrow> [] | Some chunks \<Rightarrow> chunks))) (nd_stream_chunks self)\<rparr>)"
proof -
  have "buffer_wf tid (case hm_get (nd_stream_chunks self) tid of None \<Rightarrow> [] | Some chunks \<Rightarrow> chunks)"
    using wf buffer_of [of "nd_stream_chunks self" tid] by (auto simp: node_wf_def buffer_wf_def split: option.split)
  from buffer_wf_merge [OF this cs] show ?thesis using wf by (simp add: node_wf_def hm_wf_insert buffers_insert)
qed

text \<open>A node that is well-formed and has the given public key.\<close>

definition node_inv :: "string \<Rightarrow> ('bf, 'tr, 'rx, 'sk, 'w) node \<Rightarrow> bool" where
  "node_inv pk self \<longleftrightarrow> node_wf self \<and> pubkey self = pk"

lemma node_inv_stream:
  "\<forall>c \<in> set cs. chunk_task_id c = tid \<Longrightarrow> node_inv pk self
    \<Longrightarrow> node_inv pk (self\<lparr>nd_stream_chunks := hm_insert tid (sort_key chunk_index (fold merge_chunk cs
      (case hm_get (nd_stream_chunks self) tid of None \<Rightarrow> [] | Some chunks \<Rightarrow> chunks))) (nd_stream_chunks self)\<rparr>)"
  unfolding node_inv_def by (intro conjI node_wf_stream) (simp_all add: pubkey_def)

lemmas node_inv_defs = node_inv_def node_wf_def pubkey_def

interpretation well_formed: node_frame "node_inv pk"
  for pk
  by unfold_locales
    ((rule node_inv_stream; assumption) | simp add: node_inv_defs hm_wf_insert peers_update_with_load_def)+

section \<open>Every operation\<close>

inductive node_step ::
    "('bf, 'tr, 'rx, 'c, 'w) node_env \<Rightarrow> ('sk, 'vk, 'sig) signing \<Rightarrow> ('bf, 'tr, 'rx, 'sk, 'w) node
       \<Rightarrow> ('bf, 'tr, 'rx, 'sk, 'w) node \<Rightarrow> bool" for N S where
  offload: "node_step N S self (with_storage_offload n self)"
| payment: "node_step N S self (with_payment cfg self)"
| retry: "node_step N S self (with_retry rc self)"
| trust_list: "trust_wf l \<Longrightarrow> node_step N S self (with_trust_list l self)"
| registry: "node_step N S self (with_registry self)"
| history: "node_step N S self (with_history self)"
| max_concurrent: "node_step N S self (with_max_concurrent m self)"
| identity: "node_step N S self (with_identity N i self)"
| load_inc: "node_step N S self (snd (load_inc self))"
| load_dec: "node_step N S self (snd (load_dec self))"
| trust_add: "node_step N S self (node_trust_add e self)"
| trust_remove: "node_step N S self (snd (node_trust_remove target self))"
| trust_mode: "node_step N S self (node_trust_set_mode mode self)"
| create_session: "node_step N S self (snd (create_session uuid now peer self))"
| evict_sessions: "node_step N S self (snd (evict_idle_sessions now age self))"
| evict_peers: "node_step N S self (self\<lparr>nd_peer_map := snd (peers_evict_expired now (nd_peer_map self))\<rparr>)"
| send_task: "send_task N draws t self = (r, self') \<Longrightarrow> node_step N S self self'"
| send_text: "send_text N draws u recipient content self = (r1, self') \<Longrightarrow> node_step N S self self'"
| send_in_session: "send_in_session N draws u sid content self = (r1, self') \<Longrightarrow> node_step N S self self'"
| respond: "publish_response N nonces clk t body recipient failed self = (r2, self') \<Longrightarrow> node_step N S self self'"
| respond_stream: "respond_stream N t cs self = (r2, self') \<Longrightarrow> node_step N S self self'"
| poll_tasks: "poll_tasks N uuids now self = (r3, self') \<Longrightarrow> node_step N S self self'"
| poll_stream: "poll_stream_chunks N tid self = (r4, self') \<Longrightarrow> node_step N S self self'"
| poll_presence: "poll_presence N S traced now self = (r5, self') \<Longrightarrow> node_step N S self self'"
| announce: "announce N self = (r2, self') \<Longrightarrow> node_step N S self self'"
| announce_presence: "announce_presence_with_ttl N S sealing ttl self = (r2, self') \<Longrightarrow> node_step N S self self'"
| discover: "discover_all N it self = (r6, self') \<Longrightarrow> node_step N S self self'"
| register: "register_in_registry N self = (r2, self') \<Longrightarrow> node_step N S self self'"
| update_registry: "update_registry N self = (r2, self') \<Longrightarrow> node_step N S self self'"
| deregister: "deregister_from_registry N self = (r2, self') \<Longrightarrow> node_step N S self self'"
| delegate: "delegate_task fuel N pit now uuids tm u req self = Some (r7, self') \<Longrightarrow> node_step N S self self'"
| delegate_direct: "delegate_direct fuel N uuids tm u req p self = Some (r7, self') \<Longrightarrow> node_step N S self self'"
| delegate_broadcast: "delegate_broadcast fuel N pit now uuids tms us req self = Some (r8, self') \<Longrightarrow> node_step N S self self'"

lemma builders_inv:
  assumes "node_inv pk self"
  shows "node_inv pk (with_storage_offload n self)" "node_inv pk (with_payment cfg self)" "node_inv pk (with_retry rc self)"
    "trust_wf l \<Longrightarrow> node_inv pk (with_trust_list l self)" "node_inv pk (with_registry self)" "node_inv pk (with_history self)"
    "node_inv pk (with_max_concurrent m self)" "node_inv pk (with_identity N i self)"
    "node_inv pk (snd (load_inc self))" "node_inv pk (snd (load_dec self))"
  using assms
  by (auto simp: node_inv_defs with_storage_offload_def with_payment_def with_retry_def with_trust_list_def with_registry_def
      with_history_def with_max_concurrent_def with_identity_def load_inc_def load_dec_def intro: max.cobounded2)

lemma trust_remove_wf:
  "trust_wf l \<Longrightarrow> trust_wf (snd (trust_remove k l))" "trust_wf l \<Longrightarrow> trust_wf (snd (remove_by_nickname k l))"
  by (auto simp: trust_remove_def remove_by_nickname_def wf_remove split: option.split)

lemma trust_edits_inv:
  assumes "node_inv pk self"
  shows "node_inv pk (node_trust_add e self)" "node_inv pk (snd (node_trust_remove target self))"
    "node_inv pk (node_trust_set_mode m self)"
proof -
  have edit: "node_inv pk (self\<lparr>nd_trust_list := l\<rparr>)" if "trust_wf l" for l using assms that by (simp add: node_inv_defs)
  have wf: "trust_wf (nd_trust_list self)" using assms by (simp add: node_inv_defs)
  show "node_inv pk (node_trust_add e self)" using wf_insert [OF wf] by (auto simp: node_trust_add_def trust_add_def intro: edit)
  show "node_inv pk (node_trust_set_mode m self)"
    using wf by (auto simp: node_trust_set_mode_def set_mode_def trust_wf_def intro!: edit)
  obtain r l where l: "trust_remove target (nd_trust_list self) = (r, l)" by fastforce
  then have "trust_wf l" using trust_remove_wf(1) [OF wf, of target] by simp
  then show "node_inv pk (snd (node_trust_remove target self))"
    using l trust_remove_wf(2) [of l target]
    by (auto simp: node_trust_remove_def case_prod_beta Let_def split: option.split intro!: edit)
qed

lemma evictions_inv:
  assumes "node_inv pk self"
  shows "node_inv pk (self\<lparr>nd_peer_map := snd (peers_evict_expired now (nd_peer_map self))\<rparr>)"
    "node_inv pk (snd (evict_idle_sessions now age self))"
  using assms by (simp_all add: node_inv_defs peers_evict_expired_def evict_idle_sessions_def Let_def hm_wf_retain)

lemma step_inv:
  assumes "node_step N S self self'" and "node_inv pk self"
  shows "node_inv pk self'"
  using assms
proof (induction rule: node_step.induct)
  case (create_session self uuid now peer)
  then show ?case by (simp add: create_session_def Let_def well_formed.upd_sessions)
qed ((erule well_formed.operations, assumption) | simp add: builders_inv trust_edits_inv evictions_inv)+

interpretation node_sys: step_system "\<lambda>self. \<exists>now name desc caps tr key w. self = node_from_key N now pk name desc caps tr key w"
    "node_step N S" "node_inv pk"
  for N :: "('bf, 'tr, 'rx, 'c, 'w) node_env" and S :: "('sk, 'vk, 'sig) signing" and pk
proof unfold_locales
  fix s :: "('bf, 'tr, 'rx, 'sk, 'w) node"
  assume "\<exists>now name desc caps tr key w. s = node_from_key N now pk name desc caps tr key w"
  then show "node_inv pk s"
    by (auto simp: node_inv_defs node_from_key_def node_with_channel_def card_of_def wf_empty peers_new_def)
qed (rule step_inv)

section \<open>Sessions\<close>

interpretation same_sessions: send_frame "\<lambda>self. nd_sessions self = ss"
  for ss
  by unfold_locales simp_all

text \<open>The tasks of a session in a batch, and what tracking makes of the session.\<close>

definition session_tasks :: "string \<Rightarrow> task list \<Rightarrow> task list" where
  "session_tasks sid ts = filter (\<lambda>t. task_session_id t = Some sid) ts"

definition tracked :: "(string \<Rightarrow> string) \<Rightarrow> u64 \<Rightarrow> string \<Rightarrow> task list \<Rightarrow> session option \<Rightarrow> session option" where
  "tracked uuid now sid ts old =
     fold (\<lambda>t s. Some (push_task now (task_id t) (case s of Some s \<Rightarrow> s | None \<Rightarrow> session_new (uuid sid) now (task_from t))))
       (session_tasks sid ts) old"

lemma track_sessions_get:
  "hm_get (nd_sessions (track_sessions uuid now ts self)) sid = tracked uuid now sid ts (hm_get (nd_sessions self) sid)"
proof (induction ts arbitrary: self)
  case (Cons t ts)
  then show ?case
    by (auto simp: tracked_def session_tasks_def Let_def hm_get_insert split: option.split)
qed (simp add: tracked_def session_tasks_def)

lemma poll_sessions:
  assumes "poll_tasks N uuid now self = (Returns (Inr ts), self')"
  shows "get_session self' sid = tracked uuid now sid ts (get_session self sid)"
  using assms
proof (cases rule: poll_tasks_cases)
  case (ok tasks s4 vs s5)
  have "nd_sessions s4 = nd_sessions self" using ok(1) by (simp add: admitting_def same_policy_def)
  then have "nd_sessions s5 = nd_sessions self" using same_sessions.verify_all [of s4 "nd_sessions self" N tasks] ok(2) by simp
  then show ?thesis using ok(3,4) by (simp add: get_session_def track_sessions_get)
qed simp

lemma push_task_simps [simp]:
  "sess_id (push_task now k s) = sess_id s" "sess_peer (push_task now k s) = sess_peer s" "sess_last_seen (push_task now k s) = now"
  by (simp_all add: push_task_def Let_def)

definition session_bounded :: "session \<Rightarrow> bool" where
  "session_bounded s \<longleftrightarrow> length (sess_task_ids s) \<le> MAX_TASK_IDS"

lemma push_task_bounded: "session_bounded s \<Longrightarrow> session_bounded (push_task now k s)"
  by (simp add: session_bounded_def push_task_def Let_def keep_last_le)

lemma push_task_member: "k \<in> set (sess_task_ids (push_task now k s))"
  by (simp add: push_task_def Let_def keep_last_def MAX_TASK_IDS_def)

lemma session_new_simps [simp]:
  "sess_id (session_new u now p) = u" "sess_peer (session_new u now p) = p" "session_bounded (session_new u now p)"
  by (simp_all add: session_new_def session_bounded_def)

text \<open>The session after a batch with tasks for it, from the session before.\<close>

definition continues_as :: "(string \<Rightarrow> string) \<Rightarrow> u64 \<Rightarrow> string \<Rightarrow> task list \<Rightarrow> session option \<Rightarrow> session \<Rightarrow> bool" where
  "continues_as uuid now sid ts old s \<longleftrightarrow>
     sess_last_seen s = now
     \<and> sess_id s = (case old of Some s0 \<Rightarrow> sess_id s0 | None \<Rightarrow> uuid sid)
     \<and> sess_peer s = (case old of Some s0 \<Rightarrow> sess_peer s0 | None \<Rightarrow> task_from (hd ts))
     \<and> task_id (last ts) \<in> set (sess_task_ids s)
     \<and> (pred_option session_bounded old \<longrightarrow> session_bounded s)"

lemma tracked_continues:
  assumes "session_tasks sid ts \<noteq> []"
  shows "\<exists>s. tracked uuid now sid ts old = Some s \<and> continues_as uuid now sid (session_tasks sid ts) old s"
proof -
  let ?f = "\<lambda>t s. Some (push_task now (task_id t) (case s of Some s \<Rightarrow> s | None \<Rightarrow> session_new (uuid sid) now (task_from t)))"
  have "xs \<noteq> [] \<Longrightarrow> \<exists>s. fold ?f xs old = Some s \<and> continues_as uuid now sid xs old s" for xs
  proof (induction xs rule: rev_induct)
    case (snoc t xs)
    show ?case
    proof (cases "xs = []")
      case True
      then show ?thesis
        by (auto simp: continues_as_def push_task_member push_task_bounded split: option.split)
    next
      case False
      then obtain s where "fold ?f xs old = Some s" "continues_as uuid now sid xs old s" using snoc.IH by blast
      then show ?thesis
        using False by (simp add: continues_as_def push_task_member push_task_bounded hd_append split: option.split)
    qed
  qed simp
  then show ?thesis using assms by (simp add: tracked_def)
qed

section \<open>Closed examples\<close>

text \<open>A node that receives one task in a session.\<close>

definition session_task :: task where
  "session_task = task_new_in_session ''1'' ''02ab'' ''02ffffffff'' ''hi'' ''s1''"

definition session_nenv :: "(string list, bytes list, unit, bytes, unit) node_env" where
  "session_nenv = example_nenv [([1], EnvTask session_task)]"

lemma session_example_simps:
  "task_session_id session_task = Some ''s1''" "get_session (example_node q) k = None" "session_tasks ''s1'' [session_task] = [session_task]"
  "session_tasks ''fresh'' [session_task] = []"
  by (simp_all add: session_task_def task_new_in_session_def get_session_def example_node_def node_from_key_def
      node_with_channel_def hm_get_def session_tasks_def)

lemma session_polled:
  "\<exists>self'. poll_tasks session_nenv (\<lambda>_. ''fresh'') 9 (example_node [[1]]) = (Returns (Inr [session_task]), self')"
  by (simp add: session_nenv_def example_nenv_def example_node_def session_task_def poll_defs hm_get_def)

text \<open>A network on which every send is published and never acknowledged.\<close>

definition replying_nenv :: "(string list, bytes list, unit, bytes, unit) node_env" where
  "replying_nenv = answering_nenv\<lparr>ne_sds := (ne_sds answering_nenv)\<lparr>env_to_vec := (\<lambda>_. Inr [0])\<rparr>\<rparr>"

lemma quiet_retransmit:
  "env_transport E = queue_transport \<Longrightarrow> retransmit k E topic encoded mid timeout rx tr = (Inr False, tr)"
  by (induction k) (simp_all add: queue_transport_def)

lemma quiet_send:
  fixes ch :: "(string list, bytes list) channel"
  shows "\<exists>m. send_reliable (ne_sds replying_nenv) topic [0] ch =
    (Inr (m, False), record_in_history (compute_message_id (env_sha (ne_sds replying_nenv)) [0]) (ch_lamport ch + 1)
       (mark_seen (ne_sds replying_nenv) (compute_message_id (env_sha (ne_sds replying_nenv)) [0]) (ch\<lparr>ch_lamport := ch_lamport ch + 1\<rparr>)))"
proof -
  have E: "env_transport (ne_sds replying_nenv) = queue_transport" "env_to_vec (ne_sds replying_nenv) m = Inr [0]" for m
    by (simp_all add: replying_nenv_def answering_nenv_def example_nenv_def)
  have T: "tp_subscribe queue_transport q t = (Inr (), q)" "tp_unsubscribe queue_transport q t = (Inr (), q)" for q t
    by (simp_all add: queue_transport_def)
  have R: "retransmit k (ne_sds replying_nenv) topic [0] mid timeout rx tr = (Inr False, tr)" for k mid timeout rx tr
    by (rule quiet_retransmit [OF E(1)])
  show ?thesis by (simp add: send_reliable_def next_timestamp_def E R T Let_def del: retransmit.simps)
qed

definition session_sender :: "(string list, bytes list, unit, unit, unit) node" where
  "session_sender = snd (create_session ''s1'' 5 ''02ab'' (example_node []))"

lemma session_sent:
  "\<exists>self'. send_in_session replying_nenv ([], [], \<lambda>_. 0) ''u'' ''s1'' ''do'' session_sender =
     (Returns (Inr (task_new_in_session ''u'' ''02ffffffff'' ''02ab'' ''do'' ''s1'')), self')"
proof -
  have N: "ne_env_to_vec replying_nenv e = Inr [0]" for e by (simp add: replying_nenv_def answering_nenv_def)
  obtain m ch where "send_reliable (ne_sds replying_nenv) (task_topic ''02ab'') [0] (nd_channel session_sender) = (Inr (m, False), ch)"
    using quiet_send by blast
  moreover have "nd_payment session_sender = None" "nd_identity session_sender = None" "nd_storage_offload session_sender = None"
    "nd_retry_config session_sender = None" "pubkey session_sender = ''02ffffffff''"
    "hm_get (nd_sessions session_sender) ''s1'' = Some (session_new ''s1'' 5 ''02ab'')"
    by (simp_all add: session_sender_def create_session_def example_node_def node_from_key_def node_with_channel_def pubkey_def
        card_of_def count_def session_new_def hm_insert_def hm_get_def Let_def)
  ultimately show ?thesis
    by (simp add: send_in_session_def send_task_def send_task_to_def maybe_auto_pay_def prepare_payload_def maybe_encrypt_task_def
        channel_send_reliable_def N Let_def task_new_in_session_def task_new_def)
qed

section \<open>Properties\<close>



text \<open>
  Polling keeps the books of the sessions. After a poll that returned tasks, a session that had no
  task among them is unchanged; one that had is there, seen now, has the last of its tasks, and is the
  session that was there before or a new one with the first sender; it stays within 64 task ids if it was.
\<close>

lemma poll_tracks_sessions:
  assumes "poll_tasks N uuid now self = (Returns (Inr ts), self')"
  shows "if session_tasks sid ts = [] then get_session self' sid = get_session self sid
    else \<exists>s. get_session self' sid = Some s \<and> continues_as uuid now sid (session_tasks sid ts) (get_session self sid) s"
  using poll_sessions [OF assms, of sid] tracked_continues [of sid ts uuid now "get_session self sid"]
  by (simp add: tracked_def)

lemma poll_tracks_sessions_witness:
  "\<exists>s. get_session (snd (poll_tasks session_nenv (\<lambda>_. ''fresh'') 9 (example_node [[1]]))) ''s1'' = Some s
     \<and> continues_as (\<lambda>_. ''fresh'') 9 ''s1'' [session_task] None s"
proof -
  obtain self' where run: "poll_tasks session_nenv (\<lambda>_. ''fresh'') 9 (example_node [[1]]) = (Returns (Inr [session_task]), self')"
    using session_polled by blast
  show ?thesis
    using poll_tracks_sessions [OF run, of "''s1''"] by (simp add: run session_example_simps)
qed

text \<open>
  A session that the other side opened cannot be continued under the id it shows. When a poll
  returns a task of an unknown session, the node files the session under the id of the task but gives it a
  fresh id of its own: that id is not the key of any session, and sending in the session with the id
  fails.
\<close>

lemma received_session_unaddressable:
  assumes "poll_tasks N uuid now self = (Returns (Inr ts), self')"
    and "session_tasks sid ts \<noteq> []" and "get_session self sid = None"
    and fresh: "get_session self (uuid sid) = None" "session_tasks (uuid sid) ts = []"
  shows "\<exists>s. get_session self' sid = Some s \<and> get_session self' (sess_id s) = None
    \<and> send_in_session N draws u (sess_id s) content self'
        = (Returns (Inl (NOther (''Session '' @ sess_id s @ '' not found''))), self')"
proof -
  obtain s where s: "get_session self' sid = Some s" "sess_id s = uuid sid"
    using poll_sessions [OF assms(1), of sid] tracked_continues [OF assms(2), of uuid now None] assms(3)
    by (auto simp: continues_as_def)
  moreover have "get_session self' (uuid sid) = None"
    using poll_sessions [OF assms(1), of "uuid sid"] fresh by (simp add: tracked_def)
  ultimately show ?thesis by (simp add: send_in_session_def get_session_def)
qed

lemma received_session_unaddressable_witness:
  "\<exists>s. get_session (snd (poll_tasks session_nenv (\<lambda>_. ''fresh'') 9 (example_node [[1]]))) ''s1'' = Some s
     \<and> get_session (snd (poll_tasks session_nenv (\<lambda>_. ''fresh'') 9 (example_node [[1]]))) (sess_id s) = None"
proof -
  obtain self' where run: "poll_tasks session_nenv (\<lambda>_. ''fresh'') 9 (example_node [[1]]) = (Returns (Inr [session_task]), self')"
    using session_polled by blast
  show ?thesis
    using received_session_unaddressable [OF run, of "''s1''" "([], [], \<lambda>_. 0)" "''u''" "''x''"] by (auto simp: run session_example_simps)
qed

text \<open>
  Sending does not keep a session alive and is not bounded. A successful send in a session appends the
  task id without the limit of 64 and leaves the time of the last activity as it was; an eviction of idle
  sessions then drops the session although it is in use.
\<close>

lemma session_evicted_while_sending:
  assumes "hm_wf (nd_sessions self)" and "get_session self sid = Some s"
    and "send_in_session N draws u sid content self = (Returns (Inr t), self')"
    and "age < sat_sub now (sess_last_seen s)"
  shows "get_session self' sid = Some (s\<lparr>sess_task_ids := sess_task_ids s @ [task_id t]\<rparr>)
    \<and> get_session (snd (evict_idle_sessions now age self')) sid = None"
proof -
  let ?s = "s\<lparr>sess_task_ids := sess_task_ids s @ [task_id t]\<rparr>"
  have self': "nd_sessions self' = hm_insert sid ?s (nd_sessions self)"
    using assms(2,3) by (auto simp: send_in_session_def get_session_def Let_def split: prod.splits exec.splits sum.splits
        dest!: same_sessions.send_task [OF _ refl])
  moreover have "hm_wf (hm_insert sid ?s (nd_sessions self))" using assms(1) by (rule hm_wf_insert)
  ultimately show ?thesis
    using assms(4) by (simp add: get_session_def hm_get_insert evict_idle_sessions_def Let_def hm_get_retain)
qed

lemma session_evicted_while_sending_witness:
  "get_session (snd (evict_idle_sessions 100 60 (snd (send_in_session replying_nenv ([], [], \<lambda>_. 0) ''u'' ''s1'' ''do'' session_sender)))) ''s1'' = None"
proof -
  obtain self' where sent: "send_in_session replying_nenv ([], [], \<lambda>_. 0) ''u'' ''s1'' ''do'' session_sender =
     (Returns (Inr (task_new_in_session ''u'' ''02ffffffff'' ''02ab'' ''do'' ''s1'')), self')" using session_sent by blast
  have "hm_wf (nd_sessions session_sender)" "get_session session_sender ''s1'' = Some (session_new ''s1'' 5 ''02ab'')"
    by (simp_all add: session_sender_def create_session_def example_node_def node_from_key_def node_with_channel_def
        get_session_def count_def session_new_def hm_insert_def hm_get_def hm_wf_def Let_def)
  from session_evicted_while_sending [OF this sent, of 60 100] show ?thesis
    by (simp add: sent session_new_def sat_sub_def)
qed

end
