(* ===== verification/Cli_Task.thy ===== *)
theory Cli_Task
  imports Calendar Daemon_Safety Node_Invariant Node_Keys Utf8 "HOL-Library.Sublist"
begin

text \<open>
  \<open>lmao task\<close> (\<open>crates/logos-messaging-a2a-cli/src/task.rs\<close>) and \<open>lmao session\<close> (\<open>session.rs\<close>). A command
  goes to the daemon when one listens, else it builds a node of its own and runs the operation there.
  The result is what the command reports, as data; a slice of the text mode that would cut a character
  is a panic. Clocks, draws and the connection are arguments.
\<close>

section \<open>Commands and reports\<close>

datatype task_action =
    TaskSend string string
  | TaskStatus string
  | TaskStream string u64
  | TaskDelegate (ta_to: "string option") (ta_capability: "string option") (ta_text: string) (ta_parent_id: string)
      (ta_timeout: u64) (ta_broadcast: bool) (ta_strategy: "string option")
  | TaskHistory nat nat "string option" "string option"
  | TaskGet string

text \<open>\<open>StreamReport\<close> has the chunks printed and, when the stream was complete, the number of its chunks.\<close>

datatype task_report =
    ViaDaemon response
  | SendReport string string string "string + bool"
  | StatusReport string string "string + task list"
  | StreamReport "task_stream_chunk list" "nat option"
  | DirectReport string string string string "string + bool"
  | DelegateReport string "string + delegation_result"
  | BroadcastReport string "string + delegation_result list"

section \<open>Through the daemon\<close>

text \<open>The request of a command; streams are not part of the protocol.\<close>

definition task_request :: "task_action \<Rightarrow> request option" where
  "task_request action =
     (case action of
        TaskSend recipient content \<Rightarrow> Some (ReqTaskSend recipient content)
      | TaskStatus tid \<Rightarrow> Some (ReqTaskStatus tid)
      | TaskDelegate recipient capability content parent_id timeout broadcast strategy \<Rightarrow>
          Some (ReqTaskDelegate recipient capability content parent_id timeout broadcast strategy None)
      | TaskStream _ _ \<Rightarrow> None
      | TaskHistory limit offset direction capability \<Rightarrow>
          Some (ReqTaskHistoryList (Some limit) (Some offset) direction capability None)
      | TaskGet tid \<Rightarrow> Some (ReqTaskHistoryGet tid))"

definition row_panics :: "history_entry_wire \<Rightarrow> bool" where
  "row_panics e = (str_prefix_min (if hw_peer_name e = [] then 12 else 8) (hw_peer_pubkey e) = Panics)"

definition print_daemon_response :: "(response \<Rightarrow> string) \<Rightarrow> response \<Rightarrow> bool \<Rightarrow> (string + task_report) exec" where
  "print_daemon_response debug resp json =
     (case resp of
        RespTaskSend _ _ _ \<Rightarrow> Returns (Inr (ViaDaemon resp))
      | RespTaskStatus _ \<Rightarrow> Returns (Inr (ViaDaemon resp))
      | RespTaskDelegate results \<Rightarrow>
          if \<not> json \<and> list_ex (\<lambda>r. str_prefix_min 12 (dw_agent_id r) = Panics) results then Panics
          else Returns (Inr (ViaDaemon resp))
      | RespTaskHistoryList entries _ \<Rightarrow>
          if \<not> json \<and> list_ex row_panics entries then Panics else Returns (Inr (ViaDaemon resp))
      | RespTaskHistoryGet _ \<Rightarrow> Returns (Inr (ViaDaemon resp))
      | RespError message \<Rightarrow> Returns (Inl (''daemon error: '' @ message))
      | other \<Rightarrow> Returns (Inl (''unexpected daemon response: '' @ debug other)))"

text \<open>\<open>None\<close> when the command has to run on a node of its own.\<close>

definition try_via_daemon ::
    "(response \<Rightarrow> string) \<Rightarrow> string + conn \<Rightarrow> (request \<Rightarrow> string + response) \<Rightarrow> task_action \<Rightarrow> bool
       \<Rightarrow> (string + task_report) exec option" where
  "try_via_daemon debug socket ask action json =
     (if \<not> probe socket then None
      else case task_request action of
             None \<Rightarrow> None
           | Some request \<Rightarrow>
               (case ask request of
                  Inl e \<Rightarrow> Some (Returns (Inl e))
                | Inr resp \<Rightarrow> Some (print_daemon_response debug resp json)))"

section \<open>Following a stream\<close>

text \<open>The loop over the chunks of a poll: those beyond the last index are printed.\<close>

fun print_new :: "u32 option \<Rightarrow> task_stream_chunk list \<Rightarrow> task_stream_chunk list \<times> u32 option" where
  "print_new last_index [] = ([], last_index)"
| "print_new last_index (chunk # chunks) =
     (if last_index = None \<or> the last_index < chunk_index chunk then
        let (printed, last1) = print_new (Some (chunk_index chunk)) chunks in (chunk # printed, last1)
      else print_new last_index chunks)"

text \<open>
  \<open>elapsed i\<close> is the time in nanoseconds since the start when the condition of the loop is evaluated
  for the \<open>i\<close>-th time; the deadline is the timeout in nanoseconds.
\<close>

fun follow_stream ::
    "nat \<Rightarrow> ('bf, 'tr, 'rx, 'c, 'w) node_env \<Rightarrow> (nat \<Rightarrow> nat) \<Rightarrow> nat \<Rightarrow> string \<Rightarrow> nat \<Rightarrow> u32 option \<Rightarrow> ('bf, 'tr, 'rx, 'sk, 'w) node
       \<Rightarrow> (task_stream_chunk list \<times> nat option \<times> ('bf, 'tr, 'rx, 'sk, 'w) node) option" where
  "follow_stream 0 N elapsed deadline tid i last_index self = None"
| "follow_stream (Suc fuel) N elapsed deadline tid i last_index self =
     (if \<not> elapsed i < deadline then Some ([], None, self)
      else case poll_stream_chunks N tid self of
             (Inr chunks, self1) \<Rightarrow>
               let (printed, last1) = print_new last_index chunks
               in if list_ex chunk_is_final chunks then Some (printed, Some (length chunks), self1)
                  else (case follow_stream fuel N elapsed deadline tid (Suc i) last1 self1 of
                          None \<Rightarrow> None
                        | Some (printed1, complete, self2) \<Rightarrow> Some (printed @ printed1, complete, self2))
           | (Inl e, self1) \<Rightarrow> follow_stream fuel N elapsed deadline tid (Suc i) last_index self1)"

section \<open>Delegating\<close>

text \<open>The strategy that the flags select when there is no \<open>--to\<close>.\<close>

definition flag_strategy :: "string option \<Rightarrow> string option \<Rightarrow> delegation_strategy" where
  "flag_strategy capability strategy =
     (case strategy of
        Some s \<Rightarrow>
          if s = ''round-robin'' then RoundRobin
          else if s = ''broadcast'' then BroadcastCollect
          else if s = ''first-available'' then FirstAvailable
          else (case capability of Some c \<Rightarrow> CapabilityMatch c | None \<Rightarrow> FirstAvailable)
      | None \<Rightarrow> (case capability of Some c \<Rightarrow> CapabilityMatch c | None \<Rightarrow> FirstAvailable))"

text \<open>
  The wait for peers: \<open>secs i\<close> is the system time of the \<open>i\<close>-th round, \<open>secs2 i\<close> that of the poll two
  seconds later. An error of a poll ends the command.
\<close>

fun await_peers ::
    "nat \<Rightarrow> ('bf, 'tr, 'rx, 'c, 'w) node_env \<Rightarrow> ('sk, 'vk, 'sig) signing \<Rightarrow> bool \<Rightarrow> (peer_map \<Rightarrow> (string \<times> peer_info) list)
       \<Rightarrow> (nat \<Rightarrow> nat) \<Rightarrow> (nat \<Rightarrow> u64) \<Rightarrow> (nat \<Rightarrow> u64) \<Rightarrow> nat \<Rightarrow> nat \<Rightarrow> ('bf, 'tr, 'rx, 'sk, 'w) node
       \<Rightarrow> ((node_error + unit) exec \<times> ('bf, 'tr, 'rx, 'sk, 'w) node) option" where
  "await_peers 0 N S traced it elapsed secs secs2 deadline i self = None"
| "await_peers (Suc fuel) N S traced it elapsed secs secs2 deadline i self =
     (if \<not> elapsed i < deadline then Some (Returns (Inr ()), self)
      else case poll_presence N S traced (secs i) self of
             (Panics, self1) \<Rightarrow> Some (Panics, self1)
           | (Returns (Inl e), self1) \<Rightarrow> Some (Returns (Inl e), self1)
           | (Returns (Inr _), self1) \<Rightarrow>
               if peers_all_live it (secs i) (nd_peer_map self1) \<noteq> [] then
                 (case poll_presence N S traced (secs2 i) self1 of
                    (Panics, self2) \<Rightarrow> Some (Panics, self2)
                  | (Returns (Inl e), self2) \<Rightarrow> Some (Returns (Inl e), self2)
                  | (Returns (Inr _), self2) \<Rightarrow> Some (Returns (Inr ()), self2))
               else await_peers fuel N S traced it elapsed secs secs2 deadline (Suc i) self1)"

text \<open>\<open>LMAO_DELEGATE_DISCOVERY_SECS\<close>, in nanoseconds.\<close>

definition discovery_deadline :: "string option \<Rightarrow> nat" where
  "discovery_deadline var =
     (case Option.bind var (parse_unsigned (2 ^ 64 - 1)) of Some s \<Rightarrow> s | None \<Rightarrow> 25) * 10 ^ 9"

section \<open>The command\<close>

text \<open>What a command on a node of its own draws and reads from the clock.\<close>

record ('bf, 'tr, 'rx, 'c, 'w, 'sk, 'vk, 'sig) task_env =
  tk_node :: "('bf, 'tr, 'rx, 'c, 'w) node_env"
  tk_signing :: "('sk, 'vk, 'sig) signing"
  tk_keys :: "'sk key_codec"
  tk_files :: "'w key_files"
  tk_now_ms :: u64
  tk_random_key :: 'sk
  tk_random_secret :: bytes
  tk_transport :: 'tr
  tk_identity :: identity_config
  tk_debug :: "response \<Rightarrow> string"
  tk_socket :: "string + conn"
  tk_ask :: "request \<Rightarrow> string + response"
  tk_traced :: bool
  tk_fuel :: nat
  tk_elapsed :: "nat \<Rightarrow> nat"
  tk_secs :: "nat \<Rightarrow> u64"
  tk_secs2 :: "nat \<Rightarrow> u64"
  tk_discovery :: "string option"
  tk_iter :: "peer_map \<Rightarrow> (string \<times> peer_info) list"
  tk_call :: call

definition cli_node ::
    "('bf, 'tr, 'rx, 'c, 'w, 'sk, 'vk, 'sig) task_env \<Rightarrow> string \<Rightarrow> string \<Rightarrow> 'w \<Rightarrow> (string + ('bf, 'tr, 'rx, 'sk, 'w) node) \<times> 'w" where
  "cli_node T name desc w =
     build_node (tk_node T) (tk_keys T) (tk_files T) (tk_now_ms T) (tk_random_key T) (tk_random_secret T) name desc []
       (tk_transport T) (tk_identity T) w"

definition prefix_panics :: "bool \<Rightarrow> string \<Rightarrow> bool" where
  "prefix_panics json s = (\<not> json \<and> str_prefix_min 12 s = Panics)"

definition sent_outcome :: "(node_error + bool) exec \<Rightarrow> (string + bool) exec" where
  "sent_outcome r =
     (case r of
        Panics \<Rightarrow> Panics
      | Returns (Inl e) \<Rightarrow> Returns (Inl (show_node_error e))
      | Returns (Inr acked) \<Rightarrow> Returns (Inr acked))"

definition local_send ::
    "('bf, 'tr, 'rx, 'c, 'w, 'sk, 'vk, 'sig) task_env \<Rightarrow> string \<Rightarrow> string \<Rightarrow> bool \<Rightarrow> ('bf, 'tr, 'rx, 'sk, 'w) node
       \<Rightarrow> (string + task_report) exec \<times> ('bf, 'tr, 'rx, 'sk, 'w) node" where
  "local_send T recipient content json self =
     (if prefix_panics json recipient then (Panics, self)
      else
        let t = task_new (cl_uuid (tk_call T)) (pubkey self) recipient content;
            (r, self1) = send_task (tk_node T) (cl_send (tk_call T)) t self
        in (case sent_outcome r of
              Panics \<Rightarrow> Panics
            | Returns out \<Rightarrow> Returns (Inr (SendReport (task_id t) (pubkey self) recipient out)), self1))"

definition local_status ::
    "('bf, 'tr, 'rx, 'c, 'w, 'sk, 'vk, 'sig) task_env \<Rightarrow> string \<Rightarrow> ('bf, 'tr, 'rx, 'sk, 'w) node
       \<Rightarrow> (string + task_report) exec \<times> ('bf, 'tr, 'rx, 'sk, 'w) node" where
  "local_status T tid self =
     (case poll_tasks (tk_node T) (cl_session_uuid (tk_call T)) (cl_now_secs (tk_call T)) self of
        (Panics, self1) \<Rightarrow> (Panics, self1)
      | (Returns (Inl e), self1) \<Rightarrow> (Returns (Inr (StatusReport tid (pubkey self) (Inl (show_node_error e)))), self1)
      | (Returns (Inr ts), self1) \<Rightarrow>
          (Returns (Inr (StatusReport tid (pubkey self) (Inr (filter (\<lambda>t. task_id t = tid) ts)))), self1))"

text \<open>A direct delegation only sends the task; it does not wait for a result.\<close>

definition local_direct ::
    "('bf, 'tr, 'rx, 'c, 'w, 'sk, 'vk, 'sig) task_env \<Rightarrow> string \<Rightarrow> string \<Rightarrow> string \<Rightarrow> bool \<Rightarrow> ('bf, 'tr, 'rx, 'sk, 'w) node
       \<Rightarrow> (string + task_report) exec \<times> ('bf, 'tr, 'rx, 'sk, 'w) node" where
  "local_direct T agent_key content parent_id json self =
     (if prefix_panics json agent_key then (Panics, self)
      else
        let t = task_new (cl_uuid (tk_call T)) (pubkey self) agent_key content;
            (r, self1) = send_task (tk_node T) (cl_send (tk_call T)) t self
        in (case sent_outcome r of
              Panics \<Rightarrow> Panics
            | Returns out \<Rightarrow> Returns (Inr (DirectReport (task_id t) (pubkey self) agent_key parent_id out)), self1))"

definition run_delegation ::
    "('bf, 'tr, 'rx, 'c, 'w, 'sk, 'vk, 'sig) task_env \<Rightarrow> delegation_request \<Rightarrow> bool \<Rightarrow> bool \<Rightarrow> ('bf, 'tr, 'rx, 'sk, 'w) node
       \<Rightarrow> ((string + task_report) exec \<times> ('bf, 'tr, 'rx, 'sk, 'w) node) option" where
  "run_delegation T request broadcast json self =
     (let cl = tk_call T; parent_id = dr_parent_task_id request in
      if broadcast then
        (case delegate_broadcast (cl_fuel cl) (tk_node T) (tk_iter T) (cl_now_secs cl) (cl_session_uuid cl) (cl_timings cl)
                (cl_uuids cl) request self of
           None \<Rightarrow> None
         | Some (Panics, self1) \<Rightarrow> Some (Panics, self1)
         | Some (Returns (Inl e), self1) \<Rightarrow> Some (Returns (Inr (BroadcastReport parent_id (Inl (show_node_error e)))), self1)
         | Some (Returns (Inr results), self1) \<Rightarrow>
             if list_ex (\<lambda>r. prefix_panics json (res_agent_id r)) results then Some (Panics, self1)
             else Some (Returns (Inr (BroadcastReport parent_id (Inr results))), self1))
      else
        (case delegate_task (cl_fuel cl) (tk_node T) (tk_iter T) (cl_now_secs cl) (cl_session_uuid cl) (cl_timing cl)
                (cl_uuid cl) request self of
           None \<Rightarrow> None
         | Some (Panics, self1) \<Rightarrow> Some (Panics, self1)
         | Some (Returns (Inl e), self1) \<Rightarrow> Some (Returns (Inr (DelegateReport parent_id (Inl (show_node_error e)))), self1)
         | Some (Returns (Inr r), self1) \<Rightarrow>
             if prefix_panics json (res_agent_id r) then Some (Panics, self1)
             else Some (Returns (Inr (DelegateReport parent_id (Inr r))), self1)))"

definition local_delegate ::
    "('bf, 'tr, 'rx, 'c, 'w, 'sk, 'vk, 'sig) task_env \<Rightarrow> string option \<Rightarrow> string \<Rightarrow> string \<Rightarrow> u64 \<Rightarrow> bool \<Rightarrow> string option \<Rightarrow> bool
       \<Rightarrow> ('bf, 'tr, 'rx, 'sk, 'w) node \<Rightarrow> ((string + task_report) exec \<times> ('bf, 'tr, 'rx, 'sk, 'w) node) option" where
  "local_delegate T capability content parent_id timeout broadcast strategy json self =
     (case await_peers (tk_fuel T) (tk_node T) (tk_signing T) (tk_traced T) (tk_iter T) (tk_elapsed T) (tk_secs T) (tk_secs2 T)
             (discovery_deadline (tk_discovery T)) 0 self of
        None \<Rightarrow> None
      | Some (Panics, self1) \<Rightarrow> Some (Panics, self1)
      | Some (Returns (Inl e), self1) \<Rightarrow> Some (Returns (Inl (show_node_error e)), self1)
      | Some (Returns (Inr _), self1) \<Rightarrow>
          run_delegation T
            \<lparr>dr_parent_task_id = parent_id, dr_subtask_text = content, dr_strategy = flag_strategy capability strategy,
             dr_timeout_secs = timeout, dr_session_id = None\<rparr> broadcast json self1)"

definition history_needs_daemon :: string where
  "history_needs_daemon =
     ''task history requires a running '' @ quoted (CHR 0x60) ''lmao agent run'' @ '' daemon '' @ [CHR 0xE2, CHR 0x80, CHR 0x94]
       @ '' history is daemon-side state. Set --daemon-socket or run '' @ quoted (CHR 0x60) ''lmao agent run'' @ '' first.''"

text \<open>\<open>None\<close> is a loop that has not ended within its fuel; the node, if one was built, is dropped at the end.\<close>

definition task_command ::
    "('bf, 'tr, 'rx, 'c, 'w, 'sk, 'vk, 'sig) task_env \<Rightarrow> task_action \<Rightarrow> bool \<Rightarrow> 'w
       \<Rightarrow> ((string + task_report) exec \<times> ('bf, 'tr, 'rx, 'sk, 'w) node option) option" where
  "task_command T action json w =
     (case try_via_daemon (tk_debug T) (tk_socket T) (tk_ask T) action json of
        Some r \<Rightarrow> Some (r, None)
      | None \<Rightarrow>
          let on_own_node = (\<lambda>name desc run. (case cli_node T name desc w of
                (Inl e, _) \<Rightarrow> Some (Returns (Inl e), None)
              | (Inr self, _) \<Rightarrow> (case run self of None \<Rightarrow> None | Some (r, self1) \<Rightarrow> Some (r, Some self1))))
          in case action of
               TaskSend recipient content \<Rightarrow>
                 on_own_node ''cli-sender'' ''CLI client'' (\<lambda>self. Some (local_send T recipient content json self))
             | TaskStatus tid \<Rightarrow> on_own_node ''cli-poller'' ''CLI client'' (\<lambda>self. Some (local_status T tid self))
             | TaskStream tid timeout \<Rightarrow>
                 on_own_node ''cli-stream'' ''CLI client''
                   (\<lambda>self. case follow_stream (tk_fuel T) (tk_node T) (tk_elapsed T) (unat timeout * 10 ^ 9) tid 0 None self of
                      None \<Rightarrow> None
                    | Some (printed, complete, self1) \<Rightarrow> Some (Returns (Inr (StreamReport printed complete)), self1))
             | TaskDelegate recipient capability content parent_id timeout broadcast strategy \<Rightarrow>
                 on_own_node ''cli-delegator'' ''CLI delegation client''
                   (\<lambda>self. case recipient of
                      Some agent_key \<Rightarrow> Some (local_direct T agent_key content parent_id json self)
                    | None \<Rightarrow> local_delegate T capability content parent_id timeout broadcast strategy json self)
             | TaskHistory _ _ _ _ \<Rightarrow> Some (Returns (Inl history_needs_daemon), None)
             | TaskGet _ \<Rightarrow> Some (Returns (Inl history_needs_daemon), None))"

section \<open>Sessions\<close>

datatype session_action = SessionList | SessionShow string

datatype session_report = SessionsReport "(string \<times> string \<times> nat) list" | ShownSession session | NoSession string

definition session_command ::
    "('bf, 'tr, 'rx, 'c, 'w, 'sk, 'vk, 'sig) task_env \<Rightarrow> ((string, session) hash_map \<Rightarrow> (string \<times> session) list)
       \<Rightarrow> session_action \<Rightarrow> 'w \<Rightarrow> string + session_report" where
  "session_command T it action w =
     (case fst (cli_node T ''cli-session'' ''CLI client'' w) of
        Inl e \<Rightarrow> Inl e
      | Inr self \<Rightarrow>
          (case action of
             SessionList \<Rightarrow> Inr (SessionsReport (map (\<lambda>s. (sess_id s, sess_peer s, length (sess_task_ids s))) (list_sessions it self)))
           | SessionShow sid \<Rightarrow> Inr (case get_session self sid of Some s \<Rightarrow> ShownSession s | None \<Rightarrow> NoSession sid)))"

section \<open>What is printed\<close>

definition last_of :: "task_stream_chunk list \<Rightarrow> u32 option" where
  "last_of cs = (if cs = [] then None else Some (chunk_index (last cs)))"

lemma print_new_append:
  "print_new l (xs @ ys) = (let (p, l1) = print_new l xs; (q, l2) = print_new l1 ys in (p @ q, l2))"
  by (induction l xs rule: print_new.induct) (auto simp: Let_def split: prod.splits)

lemma print_new_seen: "\<forall>c \<in> set cs. chunk_index c \<le> k \<Longrightarrow> print_new (Some k) cs = ([], Some k)"
  by (induction cs) auto

lemma print_new_beyond:
  "sorted_wrt (<) (map chunk_index cs) \<Longrightarrow> l = None \<or> (\<forall>c \<in> set cs. the l < chunk_index c)
    \<Longrightarrow> print_new l cs = (cs, if cs = [] then l else Some (chunk_index (last cs)))"
  by (induction l cs rule: print_new.induct) auto

lemma print_new_fresh:
  assumes "sorted_wrt (<) (map chunk_index (old @ new))"
  shows "print_new (last_of old) (old @ new) = (new, last_of (old @ new))"
proof (cases "old = []")
  case True
  then show ?thesis using print_new_beyond [of new None] assms by (simp add: last_of_def)
next
  case False
  then obtain xs y where old: "old = xs @ [y]" using rev_exhaust by blast
  have "\<forall>c \<in> set old. chunk_index c \<le> chunk_index (last old)" using assms by (auto simp: old sorted_wrt_append less_imp_le)
  then have "print_new (last_of old) old = ([], last_of old)" using False print_new_seen by (simp add: last_of_def)
  moreover have "\<forall>c \<in> set new. chunk_index (last old) < chunk_index c"
    using assms False by (simp add: sorted_wrt_append)
  then have "print_new (last_of old) new = (new, last_of (old @ new))"
    using print_new_beyond [of new "last_of old"] assms False by (simp add: last_of_def sorted_wrt_append)
  ultimately show ?thesis by (simp add: print_new_append)
qed

lemma poll_stream_buffer:
  assumes "poll_stream_chunks N tid self = (r, self1)"
  shows "case r of Inr chunks \<Rightarrow> chunks = buffered self1 tid | Inl _ \<Rightarrow> nd_stream_chunks self1 = nd_stream_chunks self"
  using assms
  by (auto simp: poll_stream_chunks_def ensure_rx_def set_transport_def Let_def hm_get_insert split: option.splits sum.splits prod.splits)

text \<open>The states after polls, and that each poll adds chunks behind those that were there.\<close>

fun polled_state ::
    "('bf, 'tr, 'rx, 'c, 'w) node_env \<Rightarrow> string \<Rightarrow> nat \<Rightarrow> ('bf, 'tr, 'rx, 'sk, 'w) node \<Rightarrow> ('bf, 'tr, 'rx, 'sk, 'w) node" where
  "polled_state N tid 0 self = self"
| "polled_state N tid (Suc n) self = polled_state N tid n (snd (poll_stream_chunks N tid self))"

definition in_order :: "('bf, 'tr, 'rx, 'c, 'w) node_env \<Rightarrow> string \<Rightarrow> ('bf, 'tr, 'rx, 'sk, 'w) node \<Rightarrow> bool" where
  "in_order N tid self \<longleftrightarrow>
     (\<forall>n. prefix (buffered (polled_state N tid n self) tid) (buffered (polled_state N tid (Suc n) self) tid))"

lemma in_order_step:
  assumes "in_order N tid self"
  shows "in_order N tid (snd (poll_stream_chunks N tid self))" "prefix (buffered self tid) (buffered (snd (poll_stream_chunks N tid self)) tid)"
  using assms [unfolded in_order_def, rule_format, of "Suc n" for n] assms [unfolded in_order_def, rule_format, of 0]
  by (simp_all add: in_order_def)

lemma wf_buffer_sorted: "node_wf self \<Longrightarrow> sorted_wrt (<) (map chunk_index (buffered self tid))"
  using buffer_of [of "nd_stream_chunks self" tid] by (auto simp: node_wf_def buffer_wf_def split: option.split)

lemma follow_buffer:
  assumes "follow_stream fuel N elapsed deadline tid i (last_of (buffered self tid)) self = Some (printed, complete, self')"
    and "node_wf self" and "in_order N tid self"
  shows "buffered self' tid = buffered self tid @ printed \<and> sorted_wrt (<) (map chunk_index (buffered self' tid))
    \<and> (\<forall>n. complete = Some n \<longrightarrow> n = length (buffered self' tid) \<and> list_ex chunk_is_final (buffered self' tid))"
  using assms
proof (induction fuel arbitrary: i self printed)
  case (Suc fuel)
  obtain r s1 where poll: "poll_stream_chunks N tid self = (r, s1)" by fastforce
  have s1: "node_wf s1" "in_order N tid s1" "prefix (buffered self tid) (buffered s1 tid)"
    using well_formed.poll_stream [OF poll, of "pubkey self"] in_order_step [OF Suc.prems(3)] Suc.prems(2) poll
    by (simp_all add: node_inv_def)
  show ?case
  proof (cases "elapsed i < deadline")
    case False
    then show ?thesis using Suc.prems(1) wf_buffer_sorted [OF Suc.prems(2), of tid] by simp
  next
    case True
    show ?thesis
    proof (cases r)
      case (Inl e)
      then have same: "buffered s1 tid = buffered self tid" using poll_stream_buffer [OF poll] by simp
      have "follow_stream fuel N elapsed deadline tid (Suc i) (last_of (buffered s1 tid)) s1 = Some (printed, complete, self')"
        using Suc.prems(1) True poll Inl by (simp add: same)
      from Suc.IH [OF this s1(1,2)] show ?thesis unfolding same .
    next
      case (Inr chunks)
      then have chunks: "chunks = buffered s1 tid" using poll_stream_buffer [OF poll] by simp
      obtain new where new: "buffered s1 tid = buffered self tid @ new" using s1(3) by (auto simp: prefix_def)
      have pn: "print_new (last_of (buffered self tid)) chunks = (new, last_of (buffered s1 tid))"
        unfolding chunks new using wf_buffer_sorted [OF s1(1), of tid] unfolding new by (rule print_new_fresh)
      show ?thesis
      proof (cases "list_ex chunk_is_final chunks")
        case True
        then show ?thesis using Suc.prems(1) \<open>elapsed i < deadline\<close> poll Inr pn new chunks wf_buffer_sorted [OF s1(1), of tid] by auto
      next
        case False
        then obtain printed1 where f: "follow_stream fuel N elapsed deadline tid (Suc i) (last_of (buffered s1 tid)) s1
            = Some (printed1, complete, self')" "printed = new @ printed1"
          using Suc.prems(1) True poll Inr pn by (auto split: option.splits)
        from Suc.IH [OF f(1) s1(1,2)] show ?thesis unfolding new f(2) append_assoc .
      qed
    qed
  qed
qed simp

section \<open>Nodes of a command\<close>

lemma cli_node_fresh:
  assumes "cli_node T name desc w = (Inr self, w')"
  shows "nd_sessions self = []" "nd_stream_chunks self = []" "ic_keyfile (tk_identity T) = None \<longrightarrow>
    pubkey self = public_key_of (ne_crypto (tk_node T)) (tk_keys T) (tk_random_key T)"
  using assms
  by (auto simp: cli_node_def build_node_def node_from_keyfile_def node_from_key_def node_new_def node_new_encrypted_def node_with_channel_def
      with_identity_def pubkey_def card_of_def Let_def split: option.splits prod.splits sum.splits if_splits)

text \<open>\<open>lmao session list\<close> never lists a session, and no session is ever shown: the node is a new one.\<close>

lemma session_command_empty:
  assumes "session_command T (\<lambda>m. m) action w = Inr r"
  shows "r = (case action of SessionList \<Rightarrow> SessionsReport [] | SessionShow sid \<Rightarrow> NoSession sid)"
proof -
  obtain self w' where n: "cli_node T ''cli-session'' ''CLI client'' w = (Inr self, w')"
    using assms by (cases "cli_node T ''cli-session'' ''CLI client'' w") (auto simp: session_command_def split: sum.splits)
  show ?thesis
    using assms n cli_node_fresh(1) [OF n]
    by (simp add: session_command_def list_sessions_def get_session_def hm_get_def split: session_action.splits)
qed

text \<open>The strategy is the one that the daemon would use.\<close>

lemma flag_strategy_daemon: "flag_strategy capability strategy = build_strategy None capability strategy"
  by (auto simp: flag_strategy_def build_strategy_def split: option.split)

lemma follow_ends_from:
  assumes "\<And>i. elapsed i + 500000000 \<le> elapsed (Suc i)" and "deadline \<le> elapsed i + 500000000 * (fuel - 1)" and "0 < fuel"
  shows "follow_stream fuel N elapsed deadline tid i l self \<noteq> None"
  using assms(2,3)
proof (induction fuel arbitrary: i l self)
  case (Suc fuel)
  show ?case
  proof (cases "elapsed i < deadline")
    case True
    then have "0 < fuel" "deadline \<le> elapsed (Suc i) + 500000000 * (fuel - 1)"
      using Suc.prems(1) assms(1) [of i] by (cases fuel; simp)+
    note rest = Suc.IH [OF this(2,1)]
    obtain r s1 where poll: "poll_stream_chunks N tid self = (r, s1)" by fastforce
    show ?thesis
    proof (cases r)
      case (Inr chunks)
      then show ?thesis using True poll rest [of "snd (print_new l chunks)" s1] by (auto simp: case_prod_beta Let_def split: option.splits)
    qed (use True poll rest [of l s1] in simp)
  qed simp
qed simp

section \<open>Properties\<close>

text \<open>
  C36. Following a stream prints the response. On a node that had nothing of the task, when the chunks
  arrive in the order of the stream, the command prints exactly the chunks that arrived, in order, each
  once; and when it reports that the stream is complete, what it printed is the response that the
  node reassembles and the number it reports is the number of the chunks.
\<close>

theorem follow_stream_prints_response:
  assumes "follow_stream fuel N elapsed deadline tid i None self = Some (printed, complete, self')"
    and "node_wf self" and "hm_get (nd_stream_chunks self) tid = None" and "in_order N tid self"
  shows "printed = buffered self' tid \<and> sorted_wrt (<) (map chunk_index printed)
    \<and> (\<forall>n. complete = Some n \<longrightarrow> n = length printed \<and> reassemble_stream self' tid = Some (concat (map chunk_text printed)))"
proof -
  have "last_of (buffered self tid) = None" using assms(3) by (simp add: last_of_def)
  note buffer = follow_buffer [of fuel N elapsed deadline tid i self printed complete self', unfolded this, OF assms(1,2,4)]
  have f1: "buffered self' tid = printed" using buffer assms(3) by simp
  then have f: "sorted_wrt (<) (map chunk_index printed)" "\<forall>n. complete = Some n \<longrightarrow> n = length printed \<and> list_ex chunk_is_final printed"
    using buffer unfolding f1 by blast+
  have "reassemble_stream self' tid = Some (concat (map chunk_text printed))" if "list_ex chunk_is_final printed"
    using f1 that by (auto simp: reassemble_stream_def split: option.splits)
  then show ?thesis using f f1 by blast
qed

text \<open>A stream of two chunks that arrives, with a foreign message, at every poll.\<close>

abbreviation two_chunks :: "task_stream_chunk list" where
  "two_chunks \<equiv> [stream_chunk ''1'' 2 0 ''a'', stream_chunk ''1'' 2 1 ''b'']"

lemma stream_polled:
  fixes self :: "(string list, unit \<times> tp_log, unit, 'sk, unit) node"
  assumes "buffered self ''1'' = [] \<or> buffered self ''1'' = two_chunks"
  shows "\<exists>self1. poll_stream_chunks stream_nenv ''1'' self = (Inr two_chunks, self1) \<and> buffered self1 ''1'' = two_chunks"
proof -
  obtain tr l where tr: "ch_transport (nd_channel self) = (tr, l)" by (cases "ch_transport (nd_channel self)")
  show ?thesis
    using assms tr
    by (cases "hm_get (nd_stream_rx self) ''1''"; cases "hm_get (nd_stream_chunks self) ''1''")
       (auto simp: poll_stream_chunks_def ensure_rx_def drain_rx_def set_transport_def Let_def count_def merge_chunk_def
         hm_get_insert stream_nenv_def stream_transport_def quiet_transport_def logged_env_def stream_chunk_def)
qed

lemma stream_in_order: "in_order stream_nenv ''1'' stream_node"
proof -
  have states: "buffered (polled_state stream_nenv ''1'' n self) ''1'' = two_chunks"
    if "buffered self ''1'' = two_chunks" for n and self :: "(string list, unit \<times> tp_log, unit, unit, unit) node"
    using that
  proof (induction n arbitrary: self)
    case (Suc n)
    then obtain self1 where "poll_stream_chunks stream_nenv ''1'' self = (Inr two_chunks, self1)" "buffered self1 ''1'' = two_chunks"
      using stream_polled by blast
    then show ?case using Suc.IH [of self1] by simp
  qed simp
  have empty: "buffered stream_node ''1'' = []" by (simp add: stream_node_def node_with_channel_def hm_get_def)
  then obtain s1 where s1: "poll_stream_chunks stream_nenv ''1'' stream_node = (Inr two_chunks, s1)" "buffered s1 ''1'' = two_chunks"
    using stream_polled by blast
  have "prefix (buffered (polled_state stream_nenv ''1'' n stream_node) ''1'')
      (buffered (polled_state stream_nenv ''1'' (Suc n) stream_node) ''1'')" for n
  proof (cases n)
    case 0
    then show ?thesis using empty by simp
  next
    case (Suc m)
    have "snd (poll_stream_chunks stream_nenv ''1'' stream_node) = s1" using s1(1) by simp
    then show ?thesis using states [OF s1(2), of m] states [OF s1(2), of "Suc m"] Suc by simp
  qed
  then show ?thesis unfolding in_order_def by blast
qed

theorem follow_stream_prints_response_witness:
  "\<exists>self'. follow_stream 3 stream_nenv (\<lambda>i. 500000000 * i) (10 ^ 9) ''1'' 0 None stream_node = Some (two_chunks, Some 2, self')
     \<and> reassemble_stream self' ''1'' = Some ''ab''"
proof -
  have empty: "hm_get (nd_stream_chunks stream_node) ''1'' = None" and wf: "node_wf stream_node"
    by (simp_all add: stream_node_def node_with_channel_def hm_get_def node_wf_def wf_empty peers_new_def)
  obtain s1 where s1: "poll_stream_chunks stream_nenv ''1'' stream_node = (Inr two_chunks, s1)"
    using stream_polled [of stream_node] empty by auto
  have run: "follow_stream (Suc 2) stream_nenv (\<lambda>i. 500000000 * i) (10 ^ 9) ''1'' 0 None stream_node = Some (two_chunks, Some 2, s1)"
    by (subst follow_stream.simps) (simp add: s1 stream_chunk_def)
  from follow_stream_prints_response [OF this wf empty stream_in_order] show ?thesis
    using run by (simp add: stream_chunk_def numeral_3_eq_3 numeral_2_eq_2)
qed

text \<open>
  Following a stream ends. Each round of the loop sleeps for half a second, so after two rounds per
  second of the timeout, and one more look at the clock, the command has returned, whatever the network does.
\<close>

lemma follow_stream_ends:
  assumes "\<And>i. elapsed i + 500000000 \<le> elapsed (Suc i)"
  shows "follow_stream (Suc (2 * timeout)) N elapsed (timeout * 10 ^ 9) tid 0 None self \<noteq> None"
  by (rule follow_ends_from) (use assms in simp_all)

lemma follow_stream_ends_witness:
  "follow_stream 3 stream_nenv (\<lambda>i. 600000000 * i) (10 ^ 9) ''1'' 0 None stream_node \<noteq> None"
  using follow_stream_ends [of "\<lambda>i. 600000000 * i" 1 stream_nenv "''1''" stream_node] by (simp add: numeral_3_eq_3 numeral_2_eq_2)

text \<open>A chunk that arrives after one with a larger index is never printed.\<close>

lemma late_chunk_not_printed:
  "let c = (\<lambda>i. stream_chunk ''1'' 3 i ''x''); (p1, l1) = print_new None [c 0, c 2]; (p2, l2) = print_new l1 [c 0, c 1, c 2]
   in p1 = [c 0, c 2] \<and> p2 = []"
  by (simp add: stream_chunk_def)

text \<open>
  Without a key file, \<open>lmao task status\<close> cannot see the answer to \<open>lmao task send\<close>. When no daemon
  listens, each of the two commands draws a key of its own: the answer is addressed to the key that sent the
  task, and the status command listens on the topic of another.
\<close>

lemma offline_status_misses_answer:
  assumes "task_command T1 (TaskSend recipient content) json w = Some (Returns (Inr (SendReport tid sender r out)), n1)"
    and "task_command T2 (TaskStatus tid) json w2 = Some (Returns (Inr (StatusReport tid listener found)), n2)"
    and "\<not> probe (tk_socket T1)" "\<not> probe (tk_socket T2)"
    and "ic_keyfile (tk_identity T1) = None" "ic_keyfile (tk_identity T2) = None"
    and "public_key_of (ne_crypto (tk_node T1)) (tk_keys T1) (tk_random_key T1)
       \<noteq> public_key_of (ne_crypto (tk_node T2)) (tk_keys T2) (tk_random_key T2)"
  shows "task_topic sender \<noteq> task_topic listener"
proof -
  obtain s1 w1 where n1: "cli_node T1 ''cli-sender'' ''CLI client'' w = (Inr s1, w1)" "sender = pubkey s1"
    using assms(1,3) by (auto simp: task_command_def try_via_daemon_def local_send_def sent_outcome_def Let_def
        split: prod.splits sum.splits exec.splits if_splits)
  obtain s2 w3 where n2: "cli_node T2 ''cli-poller'' ''CLI client'' w2 = (Inr s2, w3)" "listener = pubkey s2"
    using assms(2,4) by (auto simp: task_command_def try_via_daemon_def local_status_def Let_def
        split: prod.splits sum.splits exec.splits)
  have "sender \<noteq> listener" using cli_node_fresh(3) [OF n1(1)] cli_node_fresh(3) [OF n2(1)] n1(2) n2(2) assms(5-7) by simp
  then show ?thesis by (simp add: task_topic_def)
qed

text \<open>Two invocations on the same network, with the keys that they draw.\<close>

definition byte_keys :: "bytes key_codec" where
  "byte_keys = \<lparr>sk_from_bytes = Inr, sk_to_bytes = (\<lambda>k. k), sk_public = (\<lambda>k. k)\<rparr>"

definition example_task_env :: "bytes \<Rightarrow> (string list, bytes list, unit, bytes, unit, bytes, unit, bytes) task_env" where
  "example_task_env key =
     \<lparr>tk_node = replying_nenv,
      tk_signing = \<lparr>canonical_json = (\<lambda>_ _ _ _ _ _. []), agent_hex_decode = (\<lambda>_. Inr []), vk_from_sec1 = (\<lambda>_. Inr ()),
        sig_from_der = Inr, sig_to_der = (\<lambda>s. s), sk_sign = (\<lambda>_ m. m), vk_verify = (\<lambda>_ _ _. Inr ())\<rparr>,
      tk_keys = byte_keys, tk_files = key_world, tk_now_ms = 7, tk_random_key = key, tk_random_secret = [], tk_transport = [],
      tk_identity = \<lparr>ic_keyfile = None, ic_encrypt = False\<rparr>, tk_debug = (\<lambda>_. []), tk_socket = Inl ''refused'',
      tk_ask = (\<lambda>_. Inl ''refused''), tk_traced = False, tk_fuel = 1, tk_elapsed = (\<lambda>i. i), tk_secs = (\<lambda>_. 9),
      tk_secs2 = (\<lambda>_. 11), tk_discovery = None, tk_iter = (\<lambda>m. m),
      tk_call = example_call\<rparr>"

lemma example_task_node:
  "cli_node (example_task_env [k]) name desc () = (Inr (node_new replying_nenv byte_keys 7 [k] name desc [] [] ()), ())"
  by (simp add: cli_node_def build_node_def example_task_env_def)

lemma example_task_socket: "tk_socket (example_task_env k) = Inl ''refused''"
  by (simp add: example_task_env_def)

lemma example_task_sent:
  "\<exists>n. task_command (example_task_env [50]) (TaskSend ''02ab'' ''do'') True () =
     Some (Returns (Inr (SendReport ''u'' [CHR 0x32] ''02ab'' (Inr False))), n)"
proof -
  let ?n = "node_new replying_nenv byte_keys 7 [50] ''cli-sender'' ''CLI client'' [] [] ()"
  have N: "ne_env_to_vec replying_nenv e = Inr [0]" for e by (simp add: replying_nenv_def answering_nenv_def)
  obtain m ch where "send_reliable (ne_sds replying_nenv) (task_topic ''02ab'') [0] (nd_channel ?n) = (Inr (m, False), ch)"
    using quiet_send by blast
  moreover have "nd_payment ?n = None" "nd_identity ?n = None" "nd_storage_offload ?n = None" "nd_retry_config ?n = None"
    "pubkey ?n = [CHR 0x32]"
    by (simp_all add: node_new_def node_with_channel_def pubkey_def card_of_def public_key_of_def byte_keys_def replying_nenv_def
        answering_nenv_def example_nenv_def toy_prims_def Let_def char_of_def bit_0)
  ultimately have "fst (local_send (example_task_env [50]) ''02ab'' ''do'' True ?n) =
      Returns (Inr (SendReport ''u'' [CHR 0x32] ''02ab'' (Inr False)))"
    by (simp add: local_send_def prefix_panics_def sent_outcome_def send_task_def send_task_to_def maybe_auto_pay_def prepare_payload_def
        maybe_encrypt_task_def channel_send_reliable_def N Let_def task_new_def example_task_env_def example_call_def)
  then obtain s1 where "local_send (example_task_env [50]) ''02ab'' ''do'' True ?n =
      (Returns (Inr (SendReport ''u'' [CHR 0x32] ''02ab'' (Inr False))), s1)" by (metis prod.collapse)
  then show ?thesis
    using example_task_node [of 50 "''cli-sender''" "''CLI client''"]
    by (simp add: task_command_def try_via_daemon_def Let_def example_task_socket probe_def)
qed

lemma example_task_polled:
  "\<exists>out n. task_command (example_task_env [51]) (TaskStatus ''u'') True () = Some (Returns (Inr (StatusReport ''u'' [CHR 0x33] out)), n)"
proof -
  let ?n = "node_new replying_nenv byte_keys 7 [51] ''cli-poller'' ''CLI client'' [] [] ()"
  have "fst (poll_tasks replying_nenv (\<lambda>s. s) 9 ?n) = Returns (Inr [])" "pubkey ?n = [CHR 0x33]"
    by (simp_all add: node_new_def public_key_of_def byte_keys_def replying_nenv_def answering_nenv_def example_nenv_def toy_prims_def char_of_def bit_0 poll_defs)
  then obtain s1 where "poll_tasks replying_nenv (\<lambda>s. s) 9 ?n = (Returns (Inr []), s1)" by (metis prod.collapse)
  then have "local_status (example_task_env [51]) ''u'' ?n = (Returns (Inr (StatusReport ''u'' [CHR 0x33] (Inr []))), s1)"
    using \<open>pubkey ?n = [CHR 0x33]\<close> by (simp add: local_status_def example_task_env_def example_call_def)
  then show ?thesis
    using example_task_node [of 51 "''cli-poller''" "''CLI client''"]
    by (simp add: task_command_def try_via_daemon_def Let_def example_task_socket probe_def)
qed

lemma offline_status_misses_answer_witness:
  "task_topic [CHR 0x32] \<noteq> task_topic [CHR 0x33]"
proof -
  obtain n1 n2 out where run: "task_command (example_task_env [50]) (TaskSend ''02ab'' ''do'') True () =
      Some (Returns (Inr (SendReport ''u'' [CHR 0x32] ''02ab'' (Inr False))), n1)"
    "task_command (example_task_env [51]) (TaskStatus ''u'') True () = Some (Returns (Inr (StatusReport ''u'' [CHR 0x33] out)), n2)"
    using example_task_sent example_task_polled by blast
  show ?thesis
    by (rule offline_status_misses_answer [OF run])
       (simp_all add: example_task_env_def probe_def public_key_of_def byte_keys_def replying_nenv_def answering_nenv_def
         example_nenv_def toy_prims_def char_of_def bit_0)
qed

end
