(* ===== verification/Mcp.thy ===== *)
theory Mcp
  imports Node_Invariant Node_Keys Utf8
begin

text \<open>
  The MCP bridge (\<open>crates/logos-messaging-a2a-mcp/src/server.rs\<close>, \<open>state.rs\<close>): its state, the five tools
  and the loop that waits for the answer of an agent. A tool returns a result for the model, or an
  error of the protocol; a tool whose code panics ends without an answer. The clock is an argument, in
  nanoseconds for the monotonic one and in seconds for the system's.
\<close>

section \<open>State and results\<close>

record ('bf, 'tr, 'rx, 'sk, 'w) bridge =
  br_node :: "('bf, 'tr, 'rx, 'sk, 'w) node"
  br_agents :: "agent_card list"
  br_timeout_secs :: u64

datatype error_code = InternalError | InvalidParams

datatype mcp_error = McpError (me_code: error_code) (me_message: string)

datatype tool_result = ToolSuccess string | ToolError string

type_synonym ('bf, 'tr, 'rx, 'sk, 'w) tool_outcome =
  "(mcp_error + tool_result) exec \<times> ('bf, 'tr, 'rx, 'sk, 'w) bridge"

definition from_node :: "('bf, 'tr, 'rx, 'sk, 'w) node \<Rightarrow> u64 \<Rightarrow> ('bf, 'tr, 'rx, 'sk, 'w) bridge" where
  "from_node n timeout_secs = \<lparr>br_node = n, br_agents = [], br_timeout_secs = timeout_secs\<rparr>"

text \<open>The UTF-8 bytes of a dash and of a bullet.\<close>

definition em_dash :: string where
  "em_dash = [CHR 0xE2, CHR 0x80, CHR 0x94]"

definition bullet :: string where
  "bullet = [CHR 0xE2, CHR 0x80, CHR 0xA2]"

text \<open>\<open>LogosA2ABridge::new\<close>; \<open>tr\<close> is the REST transport of the given URL.\<close>

definition bridge_new ::
    "('bf, 'tr, 'rx, 'c, 'w) node_env \<Rightarrow> 'sk key_codec \<Rightarrow> u64 \<Rightarrow> 'sk \<Rightarrow> 'tr \<Rightarrow> 'w \<Rightarrow> u64
       \<Rightarrow> ('bf, 'tr, 'rx, 'sk, 'w) bridge" where
  "bridge_new N K now_ms random_key tr w timeout_secs =
     from_node (node_new N K now_ms random_key ''mcp-bridge''
       (''MCP bridge '' @ em_dash @ '' proxies tool calls to Logos A2A agents'') [''mcp-bridge''] tr w) timeout_secs"

text \<open>The flags of the server, and its start: the failure of the announcement is only logged.\<close>

record mcp_cli =
  mc_waku_url :: string
  mc_timeout :: u64

definition mcp_cli_default :: mcp_cli where
  "mcp_cli_default = \<lparr>mc_waku_url = ''http://localhost:8645'', mc_timeout = 30\<rparr>"

definition mcp_start ::
    "('bf, 'tr, 'rx, 'c, 'w) node_env \<Rightarrow> 'sk key_codec \<Rightarrow> (string \<Rightarrow> 'tr) \<Rightarrow> u64 \<Rightarrow> 'sk \<Rightarrow> 'w \<Rightarrow> mcp_cli
       \<Rightarrow> ('bf, 'tr, 'rx, 'sk, 'w) bridge" where
  "mcp_start N K connect now_ms random_key w cli =
     (let b = bridge_new N K now_ms random_key (connect (mc_waku_url cli)) w (mc_timeout cli)
      in b\<lparr>br_node := snd (announce N (br_node b))\<rparr>)"

section \<open>Discovery\<close>

text \<open>One card merged into the cache: the first card with its key is replaced, else it is appended.\<close>

fun merge_card :: "agent_card \<Rightarrow> agent_card list \<Rightarrow> agent_card list" where
  "merge_card c [] = [c]"
| "merge_card c (existing # agents) =
     (if card_public_key existing = card_public_key c then c # agents else existing # merge_card c agents)"

definition merge_cards :: "agent_card list \<Rightarrow> agent_card list \<Rightarrow> agent_card list" where
  "merge_cards new_cards agents = fold merge_card new_cards agents"

definition card_summary :: "nat \<times> agent_card \<Rightarrow> string exec" where
  "card_summary ic =
     (let (i, c) = ic in
      case str_prefix 16 (card_public_key c) of
        Panics \<Rightarrow> Panics
      | Returns key \<Rightarrow>
          Returns (show_nat (i + 1) @ ''. **'' @ card_name c @ ''** (v'' @ card_version c @ '') '' @ em_dash @ '' ''
            @ card_description c @ [newline] @ ''   Capabilities: ['' @ join '', '' (card_capabilities c) @ '']''
            @ [newline] @ ''   Public key: '' @ key @ ''...''))"

definition discover_agents ::
    "('bf, 'tr, 'rx, 'c, 'w) node_env \<Rightarrow> ('bf, 'tr, 'rx, 'sk, 'w) bridge \<Rightarrow> ('bf, 'tr, 'rx, 'sk, 'w) tool_outcome" where
  "discover_agents N self =
     (case discover N (br_node self) of
        (Inl e, n) \<Rightarrow>
          (Returns (Inl (McpError InternalError (''Discovery failed: '' @ show_node_error e))), self\<lparr>br_node := n\<rparr>)
      | (Inr new_cards, n) \<Rightarrow>
          let cards = merge_cards new_cards (br_agents self);
              self1 = self\<lparr>br_node := n, br_agents := cards\<rparr>
          in if cards = [] then
               (Returns (Inr (ToolSuccess
                  ''No agents found on the network. Make sure nwaku is running and agents are announced.'')), self1)
             else
               (case exec_map card_summary (enumerate 0 cards) of
                  Panics \<Rightarrow> (Panics, self1)
                | Returns summary \<Rightarrow>
                    (Returns (Inr (ToolSuccess (''Found '' @ show_nat (length cards) @ '' agent(s):''
                       @ [newline, newline] @ join [newline, newline] summary))), self1)))"

definition list_cached_agents :: "('bf, 'tr, 'rx, 'sk, 'w) bridge \<Rightarrow> tool_result" where
  "list_cached_agents self =
     (if br_agents self = [] then ToolSuccess ''No cached agents. Call discover_agents first.''
      else ToolSuccess (join [newline]
             (map (\<lambda>c. bullet @ '' '' @ card_name c @ '' '' @ em_dash @ '' '' @ card_description c) (br_agents self))))"

section \<open>Sending\<close>

text \<open>
  What one call draws: the randomness of the send, the task id, the monotonic clock when the deadline
  is computed and at each test of the loop, and the system clock and session ids of each poll.
\<close>

record tool_call =
  tc_send :: "bytes \<times> bytes \<times> (u32 \<Rightarrow> u64)"
  tc_uuid :: string
  tc_start :: nat
  tc_now :: "nat \<Rightarrow> nat"
  tc_secs :: "nat \<Rightarrow> u64"
  tc_session_uuid :: "string \<Rightarrow> string"

text \<open>
  \<open>Instant + Duration\<close> in nanoseconds: the seconds of an instant are a signed 64-bit number, and the
  addition panics when they overflow.
\<close>

definition instant_add_secs :: "nat \<Rightarrow> u64 \<Rightarrow> nat exec" where
  "instant_add_secs t secs =
     (if t div 10 ^ 9 + unat secs < 2 ^ 63 then Returns (t + unat secs * 10 ^ 9) else Panics)"

text \<open>The text of the parts of a result, one per line.\<close>

definition response_body :: "task \<Rightarrow> string" where
  "response_body t =
     (case task_result t of
        Some m \<Rightarrow> join [newline] (map part_text (msg_parts m))
      | None \<Rightarrow> ''(no result body)'')"

text \<open>The answer to the model for a task that has come back, \<open>None\<close> when the loop goes on.\<close>

definition answer_for :: "string \<Rightarrow> string \<Rightarrow> task \<Rightarrow> tool_result option" where
  "answer_for agent_name tid response =
     (case task_state response of
        Completed \<Rightarrow>
          Some (ToolSuccess (''Response from '' @ quoted (CHR 0x27) agent_name @ '':'' @ [newline, newline]
            @ response_body response))
      | Failed \<Rightarrow>
          Some (ToolError (''Agent '' @ quoted (CHR 0x27) agent_name @ '' reported task failed (task '' @ tid @ '')''))
      | _ \<Rightarrow> None)"

definition timeout_text :: "string \<Rightarrow> string \<Rightarrow> string" where
  "timeout_text agent_name tid =
     ''Timeout waiting for response from '' @ quoted (CHR 0x27) agent_name @ '' (task '' @ tid
     @ ''). The agent may still be processing.''"

text \<open>The loop; \<open>None\<close> means that it has not ended within the fuel.\<close>

fun await_answer ::
    "nat \<Rightarrow> ('bf, 'tr, 'rx, 'c, 'w) node_env \<Rightarrow> tool_call \<Rightarrow> string \<Rightarrow> nat \<Rightarrow> string \<Rightarrow> nat \<Rightarrow> ('bf, 'tr, 'rx, 'sk, 'w) node
       \<Rightarrow> ((mcp_error + tool_result) exec \<times> ('bf, 'tr, 'rx, 'sk, 'w) node) option" where
  "await_answer 0 N tc agent_name deadline tid i n = None"
| "await_answer (Suc fuel) N tc agent_name deadline tid i n =
     (if deadline < tc_now tc i then Some (Returns (Inr (ToolSuccess (timeout_text agent_name tid))), n)
      else case poll_tasks N (tc_session_uuid tc) (tc_secs tc i) n of
             (Panics, n1) \<Rightarrow> Some (Panics, n1)
           | (Returns (Inl e), n1) \<Rightarrow>
               Some (Returns (Inl (McpError InternalError (''Poll failed: '' @ show_node_error e))), n1)
           | (Returns (Inr tasks), n1) \<Rightarrow>
               (case Option.bind (find (\<lambda>t. task_id t = tid) tasks) (answer_for agent_name tid) of
                  Some r \<Rightarrow> Some (Returns (Inr r), n1)
                | None \<Rightarrow> await_answer fuel N tc agent_name deadline tid (Suc i) n1))"

definition send_to_agent ::
    "nat \<Rightarrow> ('bf, 'tr, 'rx, 'c, 'w) node_env \<Rightarrow> tool_call \<Rightarrow> string \<Rightarrow> string \<Rightarrow> ('bf, 'tr, 'rx, 'sk, 'w) bridge
       \<Rightarrow> ('bf, 'tr, 'rx, 'sk, 'w) tool_outcome option" where
  "send_to_agent fuel N tc agent_name content self =
     (case find (\<lambda>c. card_name c = agent_name) (br_agents self) of
        None \<Rightarrow>
          Some (Returns (Inl (McpError InvalidParams (''Agent '' @ quoted (CHR 0x27) agent_name
            @ '' not found. Call discover_agents first to refresh the list.''))), self)
      | Some c \<Rightarrow>
          (case send_text N (tc_send tc) (tc_uuid tc) (card_public_key c) content (br_node self) of
             (Panics, n) \<Rightarrow> Some (Panics, self\<lparr>br_node := n\<rparr>)
           | (Returns (Inl e), n) \<Rightarrow>
               Some (Returns (Inl (McpError InternalError (''Failed to send task: '' @ show_node_error e))),
                     self\<lparr>br_node := n\<rparr>)
           | (Returns (Inr t), n) \<Rightarrow>
               (case instant_add_secs (tc_start tc) (br_timeout_secs self) of
                  Panics \<Rightarrow> Some (Panics, self\<lparr>br_node := n\<rparr>)
                | Returns deadline \<Rightarrow>
                    map_option (\<lambda>(r, n1). (r, self\<lparr>br_node := n1\<rparr>))
                      (await_answer fuel N tc agent_name deadline (task_id t) 0 n))))"

section \<open>Presence\<close>

definition format_peer_entry :: "nat \<Rightarrow> string \<Rightarrow> peer_info \<Rightarrow> string exec" where
  "format_peer_entry index agent_id info =
     (case str_prefix_min 16 agent_id of
        Panics \<Rightarrow> Panics
      | Returns short \<Rightarrow>
          Returns (show_nat index @ ''. **'' @ pi_name info @ ''** '' @ em_dash @ '' [''
            @ join '', '' (pi_capabilities info) @ '']'' @ [newline] @ ''   Agent ID: '' @ short @ ''...'' @ [newline]
            @ ''   Topic: '' @ pi_waku_topic info @ [newline] @ ''   TTL: '' @ show_nat (unat (pi_ttl_secs info)) @ ''s''))"

definition presence_error_text :: "node_error \<Rightarrow> mcp_error" where
  "presence_error_text e = McpError InternalError (''Presence poll failed: '' @ show_node_error e)"

text \<open>\<open>it\<close> is the iteration order of the peer map; \<open>now\<close> and \<open>now1\<close> the clock of the poll and of the query.\<close>

definition discover_agents_presence ::
    "('bf, 'tr, 'rx, 'c, 'w) node_env \<Rightarrow> ('sk, 'vk, 'sig) signing \<Rightarrow> (peer_map \<Rightarrow> (string \<times> peer_info) list) \<Rightarrow> bool \<Rightarrow> u64 \<Rightarrow> u64
       \<Rightarrow> ('bf, 'tr, 'rx, 'sk, 'w) bridge \<Rightarrow> ('bf, 'tr, 'rx, 'sk, 'w) tool_outcome" where
  "discover_agents_presence N S it traced now now1 self =
     (case poll_presence N S traced now (br_node self) of
        (Panics, n) \<Rightarrow> (Panics, self\<lparr>br_node := n\<rparr>)
      | (Returns (Inl e), n) \<Rightarrow> (Returns (Inl (presence_error_text e)), self\<lparr>br_node := n\<rparr>)
      | (Returns (Inr _), n) \<Rightarrow>
          let live_peers = peers_all_live it now1 (nd_peer_map n); self1 = self\<lparr>br_node := n\<rparr>
          in if live_peers = [] then
               (Returns (Inr (ToolSuccess (''No agents currently online via presence. Agents may not have announced''
                  @ '' presence yet, or their TTL may have expired.''))), self1)
             else
               (case exec_map (\<lambda>(i, agent_id, info). format_peer_entry (i + 1) agent_id info) (enumerate 0 live_peers) of
                  Panics \<Rightarrow> (Panics, self1)
                | Returns summary \<Rightarrow>
                    (Returns (Inr (ToolSuccess (''Found '' @ show_nat (length live_peers)
                       @ '' live agent(s) via presence:'' @ [newline, newline] @ join [newline, newline] summary))), self1)))"

definition get_agent_status ::
    "('bf, 'tr, 'rx, 'c, 'w) node_env \<Rightarrow> ('sk, 'vk, 'sig) signing \<Rightarrow> bool \<Rightarrow> u64 \<Rightarrow> u64 \<Rightarrow> u64 \<Rightarrow> string
       \<Rightarrow> ('bf, 'tr, 'rx, 'sk, 'w) bridge \<Rightarrow> ('bf, 'tr, 'rx, 'sk, 'w) tool_outcome" where
  "get_agent_status N S traced now now1 now2 agent_id self =
     (case poll_presence N S traced now (br_node self) of
        (Panics, n) \<Rightarrow> (Panics, self\<lparr>br_node := n\<rparr>)
      | (Returns (Inl e), n) \<Rightarrow> (Returns (Inl (presence_error_text e)), self\<lparr>br_node := n\<rparr>)
      | (Returns (Inr _), n) \<Rightarrow>
          let self1 = self\<lparr>br_node := n\<rparr> in
          (case peers_get now1 (nd_peer_map n) agent_id of
             Some info \<Rightarrow>
               (case str_prefix_min 16 agent_id of
                  Panics \<Rightarrow> (Panics, self1)
                | Returns short \<Rightarrow>
                    (Returns (Inr (ToolSuccess (''Agent **'' @ pi_name info @ ''** is ONLINE'' @ [newline]
                       @ bullet @ '' Agent ID: '' @ short @ ''...'' @ [newline]
                       @ bullet @ '' Capabilities: ['' @ join '', '' (pi_capabilities info) @ '']'' @ [newline]
                       @ bullet @ '' Waku topic: '' @ pi_waku_topic info @ [newline]
                       @ bullet @ '' TTL: '' @ show_nat (unat (pi_ttl_secs info)) @ ''s (last seen ''
                       @ show_nat (unat (sat_sub now2 (pi_last_seen info))) @ ''s ago)''))), self1))
           | None \<Rightarrow>
               (Returns (Inr (ToolSuccess (''Agent '' @ quoted (CHR 0x27) agent_id @ '' is OFFLINE or unknown. The agent may''
                  @ '' not have announced presence, or its TTL has expired.''))), self1)))"

section \<open>The cache of agents\<close>

text \<open>As a keyed store the cache is an association list from public keys, updated by each card.\<close>

definition by_key :: "agent_card list \<Rightarrow> (string, agent_card) hash_map" where
  "by_key cards = map (\<lambda>c. (card_public_key c, c)) cards"

lemma by_key_merge_card: "by_key (merge_card c agents) = hm_insert (card_public_key c) c (by_key agents)"
  by (induction c agents rule: merge_card.induct) (auto simp: by_key_def hm_insert_def)

lemma by_key_merge_cards: "by_key (merge_cards cs agents) = fold (\<lambda>(k, c). hm_insert k c) (by_key cs) (by_key agents)"
  unfolding merge_cards_def
  by (induction cs arbitrary: agents) (simp_all add: by_key_merge_card, simp_all add: by_key_def)

lemma set_merge_card: "set (merge_card c agents) \<subseteq> insert c (set agents)" "c \<in> set (merge_card c agents)"
  by (induction c agents rule: merge_card.induct) auto

lemma merge_card_keys: "card_public_key ` set (merge_card c agents) = insert (card_public_key c) (card_public_key ` set agents)"
  by (induction c agents rule: merge_card.induct) auto

lemma merge_cards_keys:
  "card_public_key ` set (merge_cards cs agents) = card_public_key ` set cs \<union> card_public_key ` set agents"
  unfolding merge_cards_def by (induction cs arbitrary: agents) (simp_all add: merge_card_keys)

lemma card_summary_panics: "card_summary ic = Panics \<longleftrightarrow> str_prefix 16 (card_public_key (snd ic)) = Panics"
  by (simp add: card_summary_def case_prod_beta split: exec.split)

lemma summary_panics:
  "exec_map card_summary (enumerate k cards) = Panics \<longleftrightarrow> (\<exists>c \<in> set cards. str_prefix 16 (card_public_key c) = Panics)"
proof -
  have "(\<exists>c \<in> set (map snd (enumerate k cards)). str_prefix 16 (card_public_key c) = Panics)
    \<longleftrightarrow> (\<exists>x \<in> set (enumerate k cards). card_summary x = Panics)"
    by (simp add: card_summary_panics del: map_snd_enumerate)
  then show ?thesis by (simp add: exec_map_panics_iff)
qed

lemma discover_agents_ok:
  assumes "discover N (br_node self) = (Inr cards, n)"
  shows "br_agents (snd (discover_agents N self)) = merge_cards cards (br_agents self)"
    and "br_node (snd (discover_agents N self)) = n"
    and "fst (discover_agents N self) = Panics \<longleftrightarrow>
      (\<exists>c \<in> set (merge_cards cards (br_agents self)). str_prefix 16 (card_public_key c) = Panics)"
    and "fst (discover_agents N self) \<noteq> Returns (Inl e)"
proof -
  let ?cards = "merge_cards cards (br_agents self)"
  have "br_agents (snd (discover_agents N self)) = ?cards \<and> br_node (snd (discover_agents N self)) = n
    \<and> (fst (discover_agents N self) = Panics \<longleftrightarrow> (\<exists>c \<in> set ?cards. str_prefix 16 (card_public_key c) = Panics))
    \<and> fst (discover_agents N self) \<noteq> Returns (Inl e)"
    using assms summary_panics [of 0 ?cards]
    by (cases "exec_map card_summary (enumerate 0 ?cards)") (auto simp: discover_agents_def Let_def)
  then show "br_agents (snd (discover_agents N self)) = ?cards" "br_node (snd (discover_agents N self)) = n"
    "fst (discover_agents N self) = Panics \<longleftrightarrow> (\<exists>c \<in> set ?cards. str_prefix 16 (card_public_key c) = Panics)"
    "fst (discover_agents N self) \<noteq> Returns (Inl e)" by blast+
qed

lemma map_of_map_key_find: "map_of (map (\<lambda>c. (f c, c)) cs) k = find (\<lambda>c. f c = k) cs"
  by (induction cs) auto

text \<open>
  The cache of the bridge keeps the latest card of every agent ever discovered: after a successful
  discovery the card cached for a key is the last one received for it, else the one cached before; no
  key is cached twice. A failed discovery leaves the cache alone.
\<close>

lemma mcp_cache_keeps_latest:
  assumes "discover_agents N self = (r, self')" and "hm_wf (by_key (br_agents self))"
  shows "case fst (discover N (br_node self)) of
      Inl e \<Rightarrow> r = Returns (Inl (McpError InternalError (''Discovery failed: '' @ show_node_error e)))
             \<and> br_agents self' = br_agents self
    | Inr cards \<Rightarrow> hm_wf (by_key (br_agents self'))
        \<and> (\<forall>k. hm_get (by_key (br_agents self')) k =
              (case find (\<lambda>c. card_public_key c = k) (rev cards) of
                 Some c \<Rightarrow> Some c
               | None \<Rightarrow> hm_get (by_key (br_agents self)) k))"
proof (cases "discover N (br_node self)")
  case (Pair d n)
  show ?thesis
  proof (cases d)
    case (Inl e)
    then show ?thesis using Pair assms(1) by (auto simp: discover_agents_def)
  next
    case (Inr cards)
    have last: "map_of (rev (by_key cards)) k = find (\<lambda>c. card_public_key c = k) (rev cards)" for k
      by (simp add: by_key_def rev_map map_of_map_key_find)
    have "br_agents self' = merge_cards cards (br_agents self)"
      using discover_agents_ok(1) [of N self cards n] Pair Inr assms(1) by simp
    then show ?thesis
      using Pair Inr hm.ins_all_invar [OF assms(2)] hm.get_ins_all [OF assms(2)]
      by (simp add: by_key_merge_cards last)
  qed
qed

definition listed_card :: "string \<Rightarrow> string \<Rightarrow> agent_card" where
  "listed_card name pk = card_of name ''d'' [''text''] pk None"

definition example_bridge :: "bytes list \<Rightarrow> agent_card list \<Rightarrow> (string list, bytes list, unit, unit, unit) bridge" where
  "example_bridge q cached = (from_node (example_node q) 4)\<lparr>br_agents := cached\<rparr>"

definition cards_nenv :: "(string list, bytes list, unit, bytes, unit) node_env" where
  "cards_nenv = example_nenv
     [([1], EnvAgentCard (listed_card ''old'' ''0123456789abcdef01'')), ([2], EnvAgentCard (listed_card ''new'' ''0123456789abcdef01'')),
      ([3], EnvAgentCard (listed_card ''bad'' ''0x''))]"

lemma example_discover:
  "fst (discover cards_nenv (br_node (example_bridge q cached))) = Inr (cards_of cards_nenv ''02ffffffff'' q)"
  by (simp add: example_bridge_def from_node_def example_node_def discover_def cards_nenv_def example_nenv_def poll_defs)

lemma listed_cards:
  "cards_of cards_nenv ''02ffffffff'' [[1], [2]] = [listed_card ''old'' ''0123456789abcdef01'', listed_card ''new'' ''0123456789abcdef01'']"
  "cards_of cards_nenv ''02ffffffff'' [[3], [2]] = [listed_card ''bad'' ''0x'', listed_card ''new'' ''0123456789abcdef01'']"
  by (simp_all add: cards_nenv_def example_nenv_def listed_card_def card_of_def)

lemma mcp_cache_keeps_latest_witness:
  "let self = example_bridge [[1], [2]] [listed_card ''other'' ''ffffffffffffffffff'', listed_card ''older'' ''0123456789abcdef01''];
       self' = snd (discover_agents cards_nenv self)
   in hm_get (by_key (br_agents self')) ''0123456789abcdef01'' = Some (listed_card ''new'' ''0123456789abcdef01'')
      \<and> hm_wf (by_key (br_agents self'))"
proof -
  define self where "self = example_bridge [[1], [2]] [listed_card ''other'' ''ffffffffffffffffff'', listed_card ''older'' ''0123456789abcdef01'']"
  have wf: "hm_wf (by_key (br_agents self))"
    by (simp add: self_def example_bridge_def by_key_def hm_wf_def listed_card_def card_of_def)
  have d: "fst (discover cards_nenv (br_node self)) = Inr [listed_card ''old'' ''0123456789abcdef01'', listed_card ''new'' ''0123456789abcdef01'']"
    by (simp only: self_def example_discover listed_cards)
  obtain r self' where run: "discover_agents cards_nenv self = (r, self')" by fastforce
  from mcp_cache_keeps_latest [OF run wf] show ?thesis
    unfolding self_def [symmetric] using d run by (simp add: Let_def listed_card_def card_of_def)
qed

section \<open>Keys that are too short\<close>

text \<open>A card whose key cannot be shown: shorter than 16 bytes, or cut inside a character.\<close>

definition unshowable :: "agent_card \<Rightarrow> bool" where
  "unshowable c = (str_prefix 16 (card_public_key c) = Panics)"

text \<open>
  A single announced card with a short key disables discovery for good. \<open>discover_agents\<close> caches a
  card before it slices its key at byte 16 for the summary, and cards are not authenticated: once such a
  card is cached, every later call panics or fails, and the card stays in the cache.
\<close>

lemma mcp_short_key_disables_discovery:
  assumes "c \<in> set (br_agents self)" and "unshowable c"
    and "discover_agents N self = (r, self')"
  shows "(r = Panics \<or> (\<exists>e. r = Returns (Inl e))) \<and> (\<exists>c' \<in> set (br_agents self'). unshowable c')"
proof (cases "discover N (br_node self)")
  case (Pair d n)
  show ?thesis
  proof (cases d)
    case (Inl e)
    then show ?thesis using Pair assms by (auto simp: discover_agents_def)
  next
    case (Inr cards)
    have "card_public_key c \<in> card_public_key ` set (merge_cards cards (br_agents self))"
      using assms(1) by (simp add: merge_cards_keys)
    then obtain c' where c': "c' \<in> set (merge_cards cards (br_agents self))" "card_public_key c' = card_public_key c" by auto
    then have "unshowable c'" using assms(2) by (simp add: unshowable_def)
    then show ?thesis
      using c'(1) discover_agents_ok(1,3) [of N self cards n] Pair Inr assms(3) by (auto simp: unshowable_def)
  qed
qed

lemma mcp_short_key_disables_discovery_witness:
  "let self1 = snd (discover_agents cards_nenv (example_bridge [[3], [2]] []));
       (r, self2) = discover_agents cards_nenv self1
   in length (br_agents self1) = 2 \<and> (r = Panics \<or> (\<exists>e. r = Returns (Inl e)))"
proof -
  let ?s = "example_bridge [[3], [2]] []"
  define self1 where "self1 = snd (discover_agents cards_nenv ?s)"
  obtain n where d: "discover cards_nenv (br_node ?s) = (Inr [listed_card ''bad'' ''0x'', listed_card ''new'' ''0123456789abcdef01''], n)"
    using example_discover [of "[[3], [2]]" "[]"] listed_cards(2) by (cases "discover cards_nenv (br_node ?s)") simp
  have a: "br_agents self1 = [listed_card ''bad'' ''0x'', listed_card ''new'' ''0123456789abcdef01'']"
    using discover_agents_ok(1) [OF d]
    by (simp add: self1_def merge_cards_def example_bridge_def from_node_def listed_card_def card_of_def)
  have bad: "unshowable (listed_card ''bad'' ''0x'')"
    by (simp add: unshowable_def listed_card_def card_of_def str_prefix_short)
  obtain r self2 where run: "discover_agents cards_nenv self1 = (r, self2)" by fastforce
  have "r = Panics \<or> (\<exists>e. r = Returns (Inl e))"
    using mcp_short_key_disables_discovery [OF _ bad run] a by simp
  then show ?thesis using a run by (simp add: Let_def self1_def)
qed

section \<open>Waiting for an answer\<close>

lemma await_answer_ends:
  fixes N :: "('bf, 'tr, 'rx, 'c, 'w) node_env" and n :: "('bf, 'tr, 'rx, 'sk, 'w) node"
  assumes "\<And>i. tc_now tc i + 2 * 10 ^ 9 \<le> tc_now tc (Suc i)" and "0 < fuel"
    and "deadline < tc_now tc i + 2 * 10 ^ 9 * (fuel - 1)"
  shows "await_answer fuel N tc name deadline tid i n \<noteq> None"
  using assms(2,3)
proof (induction fuel arbitrary: i n)
  case (Suc fuel)
  have "await_answer fuel N tc name deadline tid (Suc i) n1 \<noteq> None" if "\<not> deadline < tc_now tc i"
    for n1 :: "('bf, 'tr, 'rx, 'sk, 'w) node"
  proof (rule Suc.IH)
    show "0 < fuel" using that Suc.prems(2) by (cases fuel) auto
    then show "deadline < tc_now tc (Suc i) + 2 * 10 ^ 9 * (fuel - 1)"
      using Suc.prems(2) assms(1) [of i] by (cases fuel) auto
  qed
  then show ?case by (auto split: prod.split exec.split sum.split option.split)
qed simp

text \<open>What the loop returns is the answer for a task it polled, or the timeout after the deadline.\<close>

lemma await_answer_sound:
  assumes "await_answer fuel N tc name deadline tid i n = Some (Returns (Inr r), n')"
  shows "(\<exists>t. task_id t = tid \<and> admitted (nd_trust_list n) t \<and> answer_for name tid t = Some r)
    \<or> r = ToolSuccess (timeout_text name tid) \<and> (\<exists>j. deadline < tc_now tc j)"
  using assms
proof (induction fuel arbitrary: i n)
  case (Suc fuel)
  show ?case
  proof (cases "deadline < tc_now tc i")
    case True
    then show ?thesis using Suc.prems by auto
  next
    case False
    obtain ts n1 where p: "poll_tasks N (tc_session_uuid tc) (tc_secs tc i) n = (Returns (Inr ts), n1)"
      and rest: "(case Option.bind (find (\<lambda>t. task_id t = tid) ts) (answer_for name tid) of
          Some r \<Rightarrow> Some (Returns (Inr r), n1)
        | None \<Rightarrow> await_answer fuel N tc name deadline tid (Suc i) n1) = Some (Returns (Inr r), n')"
      using Suc.prems False by (auto split: prod.splits exec.splits sum.splits)
    show ?thesis
    proof (cases "Option.bind (find (\<lambda>t. task_id t = tid) ts) (answer_for name tid)")
      case None
      then show ?thesis using rest Suc.IH [of "Suc i" n1] poll_keeps(1) [OF p] by simp
    next
      case (Some r')
      then obtain t where t: "find (\<lambda>t. task_id t = tid) ts = Some t" "answer_for name tid t = Some r'"
        by (auto split: Option.bind_splits)
      then have "t \<in> set ts" "task_id t = tid" by (auto simp: find_Some_iff)
      then show ?thesis using poll_keeps(3) [OF p refl, of t] t(2) rest Some by auto
    qed
  qed
qed simp

text \<open>
  \<open>send_to_agent\<close> ends: the loop sleeps two seconds between two polls, and when the clock shows that
  it polls at most \<open>timeout / 2 + 1\<close> times before the tool has an answer, an error or the timeout, whatever
  the network does.
\<close>

lemma mcp_send_ends:
  assumes "\<forall>i. tc_now tc i + 2 * 10 ^ 9 \<le> tc_now tc (Suc i)" and "tc_start tc \<le> tc_now tc 0"
    and "unat (br_timeout_secs self) div 2 + 2 \<le> fuel"
  shows "\<exists>out. send_to_agent fuel N tc name content self = Some out"
proof -
  have "await_answer fuel N tc name (tc_start tc + unat (br_timeout_secs self) * 10 ^ 9) tid 0 n \<noteq> None" for tid n
  proof (rule await_answer_ends)
    have "unat (br_timeout_secs self) < 2 * (fuel - 1)" using assms(3) by linarith
    then have "unat (br_timeout_secs self) * 10 ^ 9 < 2 * (fuel - 1) * 10 ^ 9" by simp
    then show "tc_start tc + unat (br_timeout_secs self) * 10 ^ 9 < tc_now tc 0 + 2 * 10 ^ 9 * (fuel - 1)"
      using assms(2) by (simp add: mult.commute mult.left_commute)
  qed (use assms in auto)
  then show ?thesis
    by (auto simp: send_to_agent_def instant_add_secs_def split: option.split prod.split exec.split sum.split)
qed


text \<open>A call whose clock advances two seconds per poll, and an environment where the answer is waiting.\<close>

definition example_tool_call :: tool_call where
  "example_tool_call = \<lparr>tc_send = ([], [], \<lambda>_. 0), tc_uuid = ''u'', tc_start = 0, tc_now = (\<lambda>i. 2 * 10 ^ 9 * i),
     tc_secs = (\<lambda>_. 9), tc_session_uuid = (\<lambda>s. s)\<rparr>"

lemma mcp_send_ends_witness:
  "\<exists>out. send_to_agent 4 replying_nenv example_tool_call ''a'' ''do'' (example_bridge [] [listed_card ''a'' ''02ab'']) = Some out"
  by (rule mcp_send_ends) (simp_all add: example_tool_call_def example_bridge_def from_node_def)

lemma example_send:
  "\<exists>n. send_text replying_nenv ([], [], \<lambda>_. 0) ''u'' ''02ab'' ''do'' (example_node [[1]]) =
       (Returns (Inr (task_new ''u'' ''02ffffffff'' ''02ab'' ''do'')), n)
     \<and> fst (poll_tasks replying_nenv (\<lambda>s. s) 9 n) = Returns (Inr [example_answer])"
proof -
  have N: "ne_env_to_vec replying_nenv e = Inr [0]" for e by (simp add: replying_nenv_def answering_nenv_def)
  obtain m where "send_reliable (ne_sds replying_nenv) (task_topic ''02ab'') [0] (nd_channel (example_node [[1]])) =
    (Inr (m, False), record_in_history (compute_message_id (env_sha (ne_sds replying_nenv)) [0]) (ch_lamport (nd_channel (example_node [[1]])) + 1)
       (mark_seen (ne_sds replying_nenv) (compute_message_id (env_sha (ne_sds replying_nenv)) [0])
         ((nd_channel (example_node [[1]]))\<lparr>ch_lamport := ch_lamport (nd_channel (example_node [[1]])) + 1\<rparr>)))"
    using quiet_send by blast
  moreover have "nd_payment (example_node [[1]]) = None" "nd_identity (example_node [[1]]) = None"
    "nd_storage_offload (example_node [[1]]) = None" "nd_retry_config (example_node [[1]]) = None" "pubkey (example_node [[1]]) = ''02ffffffff''"
    by (simp_all add: example_node_def node_from_key_def node_with_channel_def pubkey_def card_of_def)
  ultimately show ?thesis
    by (simp add: send_text_def send_task_def send_task_to_def maybe_auto_pay_def prepare_payload_def maybe_encrypt_task_def
      channel_send_reliable_def N Let_def task_new_def)
       (simp add: record_in_history_def replying_nenv_def answering_nenv_def
      example_nenv_def example_node_def poll_defs example_answer_def task_respond_def respond_with_state_def)
qed


end
