(* ===== verification/Cli_Presence.thy ===== *)
theory Cli_Presence
  imports Cli_Task Mcp Memory_Transport
begin

text \<open>
  \<open>lmao presence\<close> (\<open>crates/logos-messaging-a2a-cli/src/presence.rs\<close>): announcing, once or repeatedly, listening
  for a while, and watching. The result is what is printed, as data. A loop that never ends is modelled by its
  first rounds. The environment of a command on a node of its own is that of \<open>lmao task\<close>.
\<close>

section \<open>Commands and reports\<close>

datatype presence_action =
    PresenceAnnounce (pr_name: string) (pr_capabilities: string) (pr_ttl: u64) (pr_repeat: bool)
  | PresenceDiscover (pr_capability: "string option") (pr_watch: bool) (pr_timeout: u64)
  | PresencePeers (pr_capability: "string option") (pr_watch: bool) (pr_timeout: u64)

text \<open>A printed peer: its id, its entry, and whether it is marked as expired.\<close>

type_synonym peer_row = "string \<times> peer_info \<times> bool"

datatype presence_report =
    PeersFromDaemon "peer_wire list"
  | Announced string string u64 bool "(string + unit) list"
  | AnnounceFailed string
  | PeersFound "peer_row list" "string option"
  | PeersWatched "peer_row list" "string list"

definition peer_row_of :: "u64 \<Rightarrow> string \<times> peer_info \<Rightarrow> peer_row" where
  "peer_row_of now p = (fst p, snd p, is_expired_at (snd p) now)"

section \<open>Through the daemon\<close>

text \<open>\<open>None\<close> when no daemon listens.\<close>

definition try_peers_via_daemon ::
    "(response \<Rightarrow> string) \<Rightarrow> string + conn \<Rightarrow> (request \<Rightarrow> string + response) \<Rightarrow> string option \<Rightarrow> (string + presence_report) option" where
  "try_peers_via_daemon debug socket ask capability =
     (if \<not> probe socket then None
      else case ask (ReqPresencePeers capability) of
             Inl e \<Rightarrow> Some (Inl e)
           | Inr (RespPresencePeers peers) \<Rightarrow> Some (Inr (PeersFromDaemon peers))
           | Inr (RespError message) \<Rightarrow> Some (Inl (''daemon error: '' @ message))
           | Inr other \<Rightarrow> Some (Inl (''unexpected daemon response: '' @ debug other)))"

section \<open>Announcing\<close>

definition repeat_interval :: "u64 \<Rightarrow> u64" where
  "repeat_interval ttl = max (ttl div 2) 1"

text \<open>The first rounds of the endless loop; \<open>draws i\<close> are those of the \<open>i\<close>-th announcement.\<close>

fun reannounce ::
    "nat \<Rightarrow> ('bf, 'tr, 'rx, 'c, 'w) node_env \<Rightarrow> ('sk, 'vk, 'sig) signing \<Rightarrow> (nat \<Rightarrow> string \<Rightarrow> bytes \<times> bytes) \<Rightarrow> u64 \<Rightarrow> nat
       \<Rightarrow> ('bf, 'tr, 'rx, 'sk, 'w) node \<Rightarrow> (string + unit) list \<times> ('bf, 'tr, 'rx, 'sk, 'w) node" where
  "reannounce 0 N S draws ttl i self = ([], self)"
| "reannounce (Suc rounds) N S draws ttl i self =
     (case announce_presence_with_ttl N S (draws i) ttl self of
        (r, self1) \<Rightarrow>
          (case reannounce rounds N S draws ttl (Suc i) self1 of
             (events, self2) \<Rightarrow> ((case r of Inl e \<Rightarrow> Inl (show_node_error e) | Inr _ \<Rightarrow> Inr ()) # events, self2)))"

section \<open>Listening\<close>

definition known_peers ::
    "(peer_map \<Rightarrow> (string \<times> peer_info) list) \<Rightarrow> u64 \<Rightarrow> string option \<Rightarrow> ('bf, 'tr, 'rx, 'sk, 'w) node \<Rightarrow> (string \<times> peer_info) list" where
  "known_peers it now capability self =
     (case capability of
        Some cap \<Rightarrow> find_peers_by_capability it now cap self
      | None \<Rightarrow> peers_all_live it now (nd_peer_map self))"

text \<open>The loop up to the deadline; an error of a poll ends it and is printed.\<close>

fun listen_presence ::
    "nat \<Rightarrow> ('bf, 'tr, 'rx, 'c, 'w) node_env \<Rightarrow> ('sk, 'vk, 'sig) signing \<Rightarrow> bool \<Rightarrow> (nat \<Rightarrow> nat) \<Rightarrow> (nat \<Rightarrow> u64) \<Rightarrow> nat \<Rightarrow> nat
       \<Rightarrow> ('bf, 'tr, 'rx, 'sk, 'w) node \<Rightarrow> (string option exec \<times> ('bf, 'tr, 'rx, 'sk, 'w) node) option" where
  "listen_presence 0 N S traced elapsed secs deadline i self = None"
| "listen_presence (Suc fuel) N S traced elapsed secs deadline i self =
     (if \<not> elapsed i < deadline then Some (Returns None, self)
      else case poll_presence N S traced (secs i) self of
             (Panics, self1) \<Rightarrow> Some (Panics, self1)
           | (Returns (Inl e), self1) \<Rightarrow> Some (Returns (Some (show_node_error e)), self1)
           | (Returns (Inr _), self1) \<Rightarrow> listen_presence fuel N S traced elapsed secs deadline (Suc i) self1)"

section \<open>Watching\<close>

text \<open>The rows whose key was not seen before, and the keys seen then.\<close>

fun print_unseen :: "(string \<times> peer_info \<Rightarrow> string) \<Rightarrow> string list \<Rightarrow> (string \<times> peer_info) list \<Rightarrow> (string \<times> peer_info) list \<times> string list" where
  "print_unseen key seen [] = ([], seen)"
| "print_unseen key seen (p # ps) =
     (if key p \<in> set seen then print_unseen key seen ps
      else case print_unseen key (key p # seen) ps of (out, seen1) \<Rightarrow> (p # out, seen1))"

text \<open>\<open>discover --watch\<close> prints a peer again when it was seen at another time, \<open>peers --watch\<close> prints it once.\<close>

definition sighting_key :: "string \<times> peer_info \<Rightarrow> string" where
  "sighting_key p = fst p @ ''-'' @ show_nat (unat (pi_last_seen (snd p)))"

definition id_key :: "string \<times> peer_info \<Rightarrow> string" where
  "id_key p = fst p"

fun watch_presence ::
    "nat \<Rightarrow> ('bf, 'tr, 'rx, 'c, 'w) node_env \<Rightarrow> ('sk, 'vk, 'sig) signing \<Rightarrow> bool \<Rightarrow> (peer_map \<Rightarrow> (string \<times> peer_info) list)
       \<Rightarrow> (nat \<Rightarrow> u64) \<Rightarrow> string option \<Rightarrow> (string \<times> peer_info \<Rightarrow> string) \<Rightarrow> nat \<Rightarrow> string list \<Rightarrow> ('bf, 'tr, 'rx, 'sk, 'w) node
       \<Rightarrow> (peer_row list \<times> string list) exec \<times> ('bf, 'tr, 'rx, 'sk, 'w) node" where
  "watch_presence 0 N S traced it secs capability key i seen self = (Returns ([], seen), self)"
| "watch_presence (Suc rounds) N S traced it secs capability key i seen self =
     (case poll_presence N S traced (secs i) self of
        (Panics, self1) \<Rightarrow> (Panics, self1)
      | (Returns r, self1) \<Rightarrow>
          (let (out, seen1) =
                 (case r of
                    Inl _ \<Rightarrow> ([], seen)
                  | Inr n \<Rightarrow> if 0 < n then print_unseen key seen (known_peers it (secs i) capability self1) else ([], seen))
           in case watch_presence rounds N S traced it secs capability key (Suc i) seen1 self1 of
                (Panics, self2) \<Rightarrow> (Panics, self2)
              | (Returns (rows, seen2), self2) \<Rightarrow> (Returns (map (peer_row_of (secs i)) out @ rows, seen2), self2)))"

section \<open>The command\<close>

text \<open>
  \<open>pe_rounds\<close> is how many rounds of an endless loop are observed, \<open>pe_start\<close> the monotonic clock when a deadline is
  computed, \<open>pe_after\<close> the system clock when the peers are printed after listening.
\<close>

record presence_env =
  pe_draws :: "nat \<Rightarrow> string \<Rightarrow> bytes \<times> bytes"
  pe_rounds :: nat
  pe_start :: nat
  pe_after :: u64

definition local_announce ::
    "('bf, 'tr, 'rx, 'c, 'w, 'sk, 'vk, 'sig) task_env \<Rightarrow> presence_env \<Rightarrow> string \<Rightarrow> u64 \<Rightarrow> bool \<Rightarrow> ('bf, 'tr, 'rx, 'sk, 'w) node
       \<Rightarrow> presence_report \<times> ('bf, 'tr, 'rx, 'sk, 'w) node" where
  "local_announce T P name ttl rep self =
     (case announce_presence_with_ttl (tk_node T) (tk_signing T) (pe_draws P 0) ttl self of
        (Inl e, self1) \<Rightarrow> (AnnounceFailed (show_node_error e), self1)
      | (Inr _, self1) \<Rightarrow>
          (case (if rep then reannounce (pe_rounds P) (tk_node T) (tk_signing T) (pe_draws P) ttl 1 self1 else ([], self1)) of
             (events, self2) \<Rightarrow> (Announced (card_name (nd_card self)) (pubkey self) ttl (ic_encrypt (tk_identity T)) events, self2)))"

definition local_listen ::
    "('bf, 'tr, 'rx, 'c, 'w, 'sk, 'vk, 'sig) task_env \<Rightarrow> presence_env \<Rightarrow> string option \<Rightarrow> bool \<Rightarrow> u64 \<Rightarrow> (string \<times> peer_info \<Rightarrow> string)
       \<Rightarrow> ('bf, 'tr, 'rx, 'sk, 'w) node \<Rightarrow> (presence_report exec \<times> ('bf, 'tr, 'rx, 'sk, 'w) node) option" where
  "local_listen T P capability watch timeout key self =
     (if watch then
        (case watch_presence (pe_rounds P) (tk_node T) (tk_signing T) (tk_traced T) (tk_iter T) (tk_secs T) capability key 0 [] self of
           (Panics, self1) \<Rightarrow> Some (Panics, self1)
         | (Returns (rows, seen), self1) \<Rightarrow> Some (Returns (PeersWatched rows seen), self1))
      else
        (case instant_add_secs (pe_start P) timeout of
           Panics \<Rightarrow> Some (Panics, self)
         | Returns _ \<Rightarrow>
             (case listen_presence (tk_fuel T) (tk_node T) (tk_signing T) (tk_traced T) (tk_elapsed T) (tk_secs T) (unat timeout * 10 ^ 9) 0 self of
                None \<Rightarrow> None
              | Some (Panics, self1) \<Rightarrow> Some (Panics, self1)
              | Some (Returns e, self1) \<Rightarrow>
                  Some (Returns (PeersFound (map (peer_row_of (pe_after P)) (known_peers (tk_iter T) (pe_after P) capability self1)) e), self1))))"

definition presence_node ::
    "('bf, 'tr, 'rx, 'c, 'w, 'sk, 'vk, 'sig) task_env \<Rightarrow> string \<Rightarrow> string \<Rightarrow> string list \<Rightarrow> 'w \<Rightarrow> (string + ('bf, 'tr, 'rx, 'sk, 'w) node) \<times> 'w" where
  "presence_node T name desc caps w =
     build_node (tk_node T) (tk_keys T) (tk_files T) (tk_now_ms T) (tk_random_key T) (tk_random_secret T) name desc caps
       (tk_transport T) (tk_identity T) w"

definition on_presence_node ::
    "('bf, 'tr, 'rx, 'c, 'w, 'sk, 'vk, 'sig) task_env \<Rightarrow> string \<Rightarrow> string \<Rightarrow> string list \<Rightarrow> 'w
       \<Rightarrow> (('bf, 'tr, 'rx, 'sk, 'w) node \<Rightarrow> (presence_report exec \<times> ('bf, 'tr, 'rx, 'sk, 'w) node) option)
       \<Rightarrow> ((string + presence_report) exec \<times> ('bf, 'tr, 'rx, 'sk, 'w) node option) option" where
  "on_presence_node T name desc caps w run =
     (case fst (presence_node T name desc caps w) of
        Inl e \<Rightarrow> Some (Returns (Inl e), None)
      | Inr self \<Rightarrow>
          (case run self of
             None \<Rightarrow> None
           | Some (Panics, self1) \<Rightarrow> Some (Panics, Some self1)
           | Some (Returns r, self1) \<Rightarrow> Some (Returns (Inr r), Some self1)))"

definition presence_command ::
    "('bf, 'tr, 'rx, 'c, 'w, 'sk, 'vk, 'sig) task_env \<Rightarrow> presence_env \<Rightarrow> presence_action \<Rightarrow> 'w
       \<Rightarrow> ((string + presence_report) exec \<times> ('bf, 'tr, 'rx, 'sk, 'w) node option) option" where
  "presence_command T P action w =
     (case (case action of
              PresencePeers capability watch _ \<Rightarrow>
                if watch then None else try_peers_via_daemon (tk_debug T) (tk_socket T) (tk_ask T) capability
            | _ \<Rightarrow> None) of
        Some r \<Rightarrow> Some (Returns r, None)
      | None \<Rightarrow>
          (case action of
             PresenceAnnounce name capabilities ttl rep \<Rightarrow>
               on_presence_node T name (name @ '' agent'') (parse_capabilities capabilities) w
                 (\<lambda>self. case local_announce T P name ttl rep self of (r, self1) \<Rightarrow> Some (Returns r, self1))
           | PresenceDiscover capability watch timeout \<Rightarrow>
               on_presence_node T ''presence-discover'' ''temporary'' [] w (local_listen T P capability watch timeout sighting_key)
           | PresencePeers capability watch timeout \<Rightarrow>
               on_presence_node T ''presence-peers'' ''temporary'' [] w (local_listen T P capability watch timeout id_key)))"

section \<open>What is announced stays alive\<close>

text \<open>
  An entry is live at every moment until the next announcement, for every positive TTL.
\<close>

lemma repeat_interval_alive:
  assumes "ttl \<noteq> 0" and "unat now \<le> unat (pi_last_seen info) + unat (repeat_interval ttl)" and "pi_ttl_secs info = ttl"
  shows "\<not> is_expired_at info now"
proof -
  have "unat (ttl div 2) \<le> unat ttl" by (simp add: unat_div)
  moreover have "0 < unat ttl" using assms(1) by (simp add: unat_gt_0)
  ultimately have "unat (repeat_interval ttl) \<le> unat ttl"
    by (auto simp: repeat_interval_def max_def word_le_nat_alt)
  then show ?thesis using assms by (simp add: is_expired_at_def word_less_nat_alt unat_sat_sub)
qed

section \<open>Rows are printed once\<close>

lemma print_unseen_spec:
  assumes "print_unseen key seen ps = (out, seen')"
  shows "seen' = rev (map key out) @ seen" "distinct seen \<Longrightarrow> distinct seen'" "set (map key ps) \<subseteq> set seen'" "set out \<subseteq> set ps"
proof -
  have "seen' = rev (map key out) @ seen \<and> (distinct seen \<longrightarrow> distinct seen') \<and> set (map key ps) \<subseteq> set seen' \<and> set out \<subseteq> set ps"
    using assms
  proof (induction key seen ps arbitrary: out rule: print_unseen.induct)
    case (2 key seen p ps)
    show ?case
    proof (cases "key p \<in> set seen")
      case True
      then show ?thesis using 2 by (auto simp del: distinct_append)
    next
      case False
      then obtain out1 where "print_unseen key (key p # seen) ps = (out1, seen')" "out = p # out1"
        using "2.prems" by (auto split: prod.splits)
      then show ?thesis using "2.IH"(2) [OF False] False by (auto simp del: distinct_append)
    qed
  qed simp
  then show "seen' = rev (map key out) @ seen" "distinct seen \<Longrightarrow> distinct seen'" "set (map key ps) \<subseteq> set seen'" "set out \<subseteq> set ps"
    by blast+
qed

lemma watch_seen:
  assumes "watch_presence rounds N S traced it secs capability key i seen self = (Returns (rows, seen'), self')"
  shows "seen' = rev (map (\<lambda>(id, info, _). key (id, info)) rows) @ seen \<and> (distinct seen \<longrightarrow> distinct seen')"
  using assms
proof (induction rounds arbitrary: i seen self rows)
  case (Suc rounds)
  obtain r self1 where poll: "poll_presence N S traced (secs i) self = (Returns r, self1)"
    using Suc.prems by (auto split: prod.splits exec.splits)
  obtain out seen1 where out: "(case r of Inl _ \<Rightarrow> ([], seen)
      | Inr n \<Rightarrow> if 0 < n then print_unseen key seen (known_peers it (secs i) capability self1) else ([], seen)) = (out, seen1)"
    by fastforce
  then have seen1: "seen1 = rev (map key out) @ seen" "distinct seen \<longrightarrow> distinct seen1"
    using print_unseen_spec(1,2) by (fastforce split: sum.splits if_splits)+
  obtain rows1 where rest: "watch_presence rounds N S traced it secs capability key (Suc i) seen1 self1 = (Returns (rows1, seen'), self')"
    "rows = map (peer_row_of (secs i)) out @ rows1"
    using Suc.prems poll out by (auto split: prod.splits exec.splits)
  have keys: "map ((\<lambda>(id, info, _). key (id, info)) \<circ> peer_row_of (secs i)) out = map key out"
    by (simp add: peer_row_of_def)
  have IH: "seen' = rev (map (\<lambda>(id, info, _). key (id, info)) rows1) @ seen1" "distinct seen1 \<longrightarrow> distinct seen'"
    using Suc.IH [OF rest(1)] by blast+
  have "seen' = rev (map (\<lambda>(id, info, _). key (id, info)) rows) @ seen" by (simp add: IH(1) seen1(1) rest(2) keys)
  then show ?case using IH(2) seen1(2) by blast
qed simp

text \<open>
  Watching prints each peer once. Over any number of rounds \<open>peers --watch\<close> prints no agent id twice and
  \<open>discover --watch\<close> no sighting of an agent twice, and the number of unique peers it reports is the number
  of rows printed.
\<close>

lemma watch_prints_once:
  assumes "local_listen T P capability True timeout key self = Some (Returns (PeersWatched rows seen), self')"
  shows "distinct (map (\<lambda>(id, info, _). key (id, info)) rows)" "length seen = length rows"
proof -
  obtain s where "watch_presence (pe_rounds P) (tk_node T) (tk_signing T) (tk_traced T) (tk_iter T) (tk_secs T) capability key 0 [] self
      = (Returns (rows, seen), s)"
    using assms by (auto simp: local_listen_def split: prod.splits exec.splits)
  from watch_seen [OF this] show "distinct (map (\<lambda>(id, info, _). key (id, info)) rows)" "length seen = length rows"
    by (auto dest: arg_cong [where f = set] simp: distinct_rev)
qed

definition watch_env :: "(string list, unit \<times> tp_log, unit, bytes, unit, unit, unit, bytes) task_env" where
  "watch_env =
     \<lparr>tk_node = presence_nenv, tk_signing = example_signing, tk_keys = unit_keys, tk_files = key_world, tk_now_ms = 7, tk_random_key = (),
      tk_random_secret = [], tk_transport = ch_transport (nd_channel presence_B),
      tk_identity = \<lparr>ic_keyfile = None, ic_encrypt = False\<rparr>, tk_debug = (\<lambda>_. []), tk_socket = Inl ''refused'',
      tk_ask = (\<lambda>_. Inl ''refused''), tk_traced = False, tk_fuel = 1, tk_elapsed = (\<lambda>i. i), tk_secs = (\<lambda>_. 9),
      tk_secs2 = (\<lambda>_. 11), tk_discovery = None, tk_iter = (\<lambda>m. m), tk_call = example_call\<rparr>"

definition watch_once :: presence_env where
  "watch_once = \<lparr>pe_draws = (\<lambda>_ _. ([], [])), pe_rounds = 1, pe_start = 0, pe_after = 9\<rparr>"

lemma watch_prints_once_witness:
  "\<exists>rows seen s. local_listen watch_env watch_once None True 10 id_key presence_B = Some (Returns (PeersWatched rows seen), s)
     \<and> distinct (map fst rows) \<and> length seen = length rows"
proof -
  obtain B' where "poll_presence presence_nenv example_signing False 9 presence_B = (Returns (Inr 1), B')"
    using presence_polled by blast
  then obtain rows seen s where r: "local_listen watch_env watch_once None True 10 id_key presence_B = Some (Returns (PeersWatched rows seen), s)"
    by (cases "print_unseen id_key [] (known_peers (\<lambda>m. m) 9 None B')") (auto simp: local_listen_def watch_env_def watch_once_def)
  have "(\<lambda>(id, info, _). id_key (id, info)) = (fst :: peer_row \<Rightarrow> string)" by (auto simp: id_key_def)
  then show ?thesis using watch_prints_once [OF r] r by auto
qed

end
