(* ===== verification/Logos_Delivery.thy ===== *)
theory Logos_Delivery
  imports Logos_Core Memory_Transport
begin

text \<open>
  The transports over the Logos libraries (\<open>crates/logos-messaging-a2a-transport/src\<close>): the delivery module of
  Basecamp (\<open>delivery_module_transport.rs\<close>), the delivery plugin of Logos Core (\<open>logos_core_transport.rs\<close>) and the
  embedded node (\<open>logos_delivery.rs\<close>). Each calls a library to publish and subscribe and takes the messages from
  an event callback, which forwards them to one channel per content topic. The libraries, \<open>serde_json\<close> and
  Base64 are parameters. A blocking task that is joined has not panicked.
\<close>

section \<open>Channels per topic\<close>

definition CHANNEL_BUFFER :: nat where
  "CHANNEL_BUFFER = 256"

text \<open>
  The map from topics to senders, the channels, and the library's world. Subscribing to a topic again
  replaces its sender. A channel is its position in \<open>br_channels\<close>.
\<close>

record 'w delivery =
  br_subs :: "(string, nat) hash_map"
  br_channels :: "mpsc list"
  br_world :: 'w

definition delivery_new :: "'w \<Rightarrow> 'w delivery" where
  "delivery_new w = \<lparr>br_subs = [], br_channels = [], br_world = w\<rparr>"

definition attach :: "string \<Rightarrow> 'w delivery \<Rightarrow> nat \<times> 'w delivery" where
  "attach topic st =
     (length (br_channels st),
      st\<lparr>br_channels := br_channels st @ [\<lparr>mp_queue = [], mp_open = True\<rparr>],
         br_subs := hm_insert topic (length (br_channels st)) (br_subs st)\<rparr>)"

definition detach :: "string \<Rightarrow> 'w delivery \<Rightarrow> 'w delivery" where
  "detach topic st = st\<lparr>br_subs := hm_remove topic (br_subs st)\<rparr>"

text \<open>\<open>tx.try_send(payload)\<close>, whose failure is ignored.\<close>

definition forward :: "string \<Rightarrow> bytes \<Rightarrow> 'w delivery \<Rightarrow> 'w delivery" where
  "forward topic payload st =
     (case hm_get (br_subs st) topic of
        None \<Rightarrow> st
      | Some tx \<Rightarrow>
          let ch = br_channels st ! tx in
          if mp_open ch \<and> length (mp_queue ch) < CHANNEL_BUFFER
          then st\<lparr>br_channels := (br_channels st)[tx := ch\<lparr>mp_queue := mp_queue ch @ [payload]\<rparr>]\<rparr>
          else st)"

text \<open>The receiver: what it takes with \<open>try_recv\<close> until the channel is empty, and its drop.\<close>

definition delivery_drain :: "'w delivery \<Rightarrow> nat \<Rightarrow> bytes list \<times> 'w delivery" where
  "delivery_drain st rx =
     (mp_queue (br_channels st ! rx),
      st\<lparr>br_channels := (br_channels st)[rx := (br_channels st ! rx)\<lparr>mp_queue := []\<rparr>]\<rparr>)"

definition delivery_drop :: "nat \<Rightarrow> 'w delivery \<Rightarrow> 'w delivery" where
  "delivery_drop rx st = st\<lparr>br_channels := (br_channels st)[rx := \<lparr>mp_queue = [], mp_open = False\<rparr>]\<rparr>"

section \<open>The delivery module\<close>

definition DELIVERY_MODULE :: string where
  "DELIVERY_MODULE = ''delivery_module''"

definition EVENT_MESSAGE_RECEIVED :: string where
  "EVENT_MESSAGE_RECEIVED = ''messageReceived''"

definition DM_SHORT_TIMEOUT_MS :: int where
  "DM_SHORT_TIMEOUT_MS = 30000"

definition STARTUP_TIMEOUT_MS :: int where
  "STARTUP_TIMEOUT_MS = 120000"

definition POLL_TIMEOUT_MS :: int where
  "POLL_TIMEOUT_MS = 250"

text \<open>\<open>dm_show\<close> is the \<open>Display\<close> of a JSON value.\<close>

record 'w delivery_env =
  dm_shim :: "'w shim_lib"
  dm_json :: json_lib
  dm_show :: "json \<Rightarrow> string"
  dm_encode :: "bytes \<Rightarrow> string"
  dm_decode :: "string \<Rightarrow> bytes option"

definition dm_call ::
    "'w delivery_env \<Rightarrow> string \<Rightarrow> string \<Rightarrow> int \<Rightarrow> 'w \<Rightarrow> (transport_error + json) \<times> 'w" where
  "dm_call E meth args_json timeout_ms w =
     (case shim_call (dm_shim E) DELIVERY_MODULE meth args_json timeout_ms w of
        (Inl e, w1) \<Rightarrow> (Inl (TErr_Transport (''delivery_module '' @ meth @ '': '' @ show_shim_error e)), w1)
      | (Inr raw, w1) \<Rightarrow>
          (case js_from_str (dm_json E) raw of
             Inl e \<Rightarrow> (Inl (TErr_Transport (''delivery_module '' @ meth @ '' bad JSON: '' @ e)), w1)
           | Inr v \<Rightarrow> (Inr v, w1)))"

definition error_message :: "json \<Rightarrow> string option" where
  "error_message v = (case kind_error v of Some msg \<Rightarrow> Some msg | None \<Rightarrow> get_str ''error'' v)"

definition check_bool :: "'w delivery_env \<Rightarrow> json \<Rightarrow> string \<Rightarrow> transport_error + unit" where
  "check_bool E v meth =
     (case error_message v of
        Some err \<Rightarrow> Inl (TErr_Transport (meth @ '': '' @ err))
      | None \<Rightarrow>
          if as_bool v = Some True then Inr ()
          else if Option.bind (json_get ''value'' v) as_bool = Some True then Inr ()
          else Inl (TErr_Transport (meth @ '': unexpected response '' @ dm_show E v)))"

text \<open>A method on a JSON array of strings; the response goes to \<open>check\<close>.\<close>

definition dm_invoke ::
    "'w delivery_env \<Rightarrow> string \<Rightarrow> string list \<Rightarrow> int \<Rightarrow> (json \<Rightarrow> transport_error + unit) \<Rightarrow> 'w \<Rightarrow> (transport_error + unit) \<times> 'w" where
  "dm_invoke E meth args timeout_ms check w =
     (case js_to_string (dm_json E) (JArr (map JStr args)) of
        Inl e \<Rightarrow> (Inl (TErr_Transport (meth @ '' args: '' @ e)), w)
      | Inr args_json \<Rightarrow>
          (case dm_call E meth args_json timeout_ms w of
             (Inl e, w1) \<Rightarrow> (Inl e, w1)
           | (Inr resp, w1) \<Rightarrow> (check resp, w1)))"

definition dm_setup :: "'w delivery_env \<Rightarrow> string \<Rightarrow> 'w \<Rightarrow> (transport_error + unit) \<times> 'w" where
  "dm_setup E cfg_json w =
     (case dm_invoke E ''createNode'' [cfg_json] STARTUP_TIMEOUT_MS (\<lambda>resp. check_bool E resp ''createNode'') w of
        (Inl e, w1) \<Rightarrow> (Inl e, w1)
      | (Inr _, w1) \<Rightarrow>
          (case dm_call E ''start'' ''[]'' STARTUP_TIMEOUT_MS w1 of
             (Inl e, w2) \<Rightarrow> (Inl e, w2)
           | (Inr resp, w2) \<Rightarrow>
               (case check_bool E resp ''start'' of
                  Inl e \<Rightarrow> (Inl e, w2)
                | Inr _ \<Rightarrow>
                    (case shim_listen (dm_shim E) DELIVERY_MODULE EVENT_MESSAGE_RECEIVED w2 of
                       (Inl e, w3) \<Rightarrow> (Inl (TErr_Transport (''listen: '' @ show_shim_error e)), w3)
                     | (Inr _, w3) \<Rightarrow> (Inr (), w3)))))"

definition dm_new :: "'w delivery_env \<Rightarrow> string \<Rightarrow> 'w \<Rightarrow> (transport_error + 'w delivery) \<times> 'w" where
  "dm_new E cfg_json w =
     (case dm_setup E cfg_json w of (Inl e, w1) \<Rightarrow> (Inl e, w1) | (Inr _, w1) \<Rightarrow> (Inr (delivery_new w1), w1))"

definition send_check :: "json \<Rightarrow> transport_error + unit" where
  "send_check resp = (case error_message resp of Some err \<Rightarrow> Inl (TErr_Transport (''send: '' @ err)) | None \<Rightarrow> Inr ())"

definition dm_publish :: "'w delivery_env \<Rightarrow> 'w delivery \<Rightarrow> string \<Rightarrow> bytes \<Rightarrow> (transport_error + unit) \<times> 'w delivery" where
  "dm_publish E st topic payload =
     (let (r, w) = dm_invoke E ''send'' [topic, dm_encode E payload] DM_SHORT_TIMEOUT_MS send_check (br_world st)
      in (r, st\<lparr>br_world := w\<rparr>))"

definition dm_subscribe :: "'w delivery_env \<Rightarrow> 'w delivery \<Rightarrow> string \<Rightarrow> (transport_error + nat) \<times> 'w delivery" where
  "dm_subscribe E st topic =
     (case dm_invoke E ''subscribe'' [topic] DM_SHORT_TIMEOUT_MS (\<lambda>resp. check_bool E resp ''subscribe'') (br_world st) of
        (Inl e, w) \<Rightarrow> (Inl e, st\<lparr>br_world := w\<rparr>)
      | (Inr _, w) \<Rightarrow> (case attach topic (st\<lparr>br_world := w\<rparr>) of (rx, st1) \<Rightarrow> (Inr rx, st1)))"

definition dm_unsubscribe :: "'w delivery_env \<Rightarrow> 'w delivery \<Rightarrow> string \<Rightarrow> (transport_error + unit) \<times> 'w delivery" where
  "dm_unsubscribe E st topic =
     (let st1 = detach topic st;
          (r, w) = dm_invoke E ''unsubscribe'' [topic] DM_SHORT_TIMEOUT_MS (\<lambda>resp. check_bool E resp ''unsubscribe'') (br_world st1)
      in (r, st1\<lparr>br_world := w\<rparr>))"

text \<open>\<open>data.get(i).and_then(as_str).unwrap_or("")\<close>\<close>

definition str_at :: "json list \<Rightarrow> nat \<Rightarrow> string" where
  "str_at data i = (if i < length data then (case as_str (data ! i) of Some s \<Rightarrow> s | None \<Rightarrow> []) else [])"

definition dispatch_event :: "'w delivery_env \<Rightarrow> string \<Rightarrow> 'w delivery \<Rightarrow> 'w delivery" where
  "dispatch_event E json_text st =
     (case js_from_str (dm_json E) json_text of
        Inl _ \<Rightarrow> st
      | Inr env \<Rightarrow>
          if get_str ''event'' env \<noteq> Some EVENT_MESSAGE_RECEIVED then st
          else case Option.bind (json_get ''data'' env) as_array of
                 None \<Rightarrow> st
               | Some data \<Rightarrow>
                   let topic = str_at data 1; payload_b64 = str_at data 2 in
                   if topic = [] then st
                   else case dm_decode E payload_b64 of
                          None \<Rightarrow> st
                        | Some payload \<Rightarrow> forward topic payload st)"

text \<open>One round of the task that drains the shim, and its loop: each round first looks whether the transport was dropped.\<close>

definition dm_poll :: "'w delivery_env \<Rightarrow> 'w delivery \<Rightarrow> 'w delivery" where
  "dm_poll E st =
     (case shim_poll_event (dm_shim E) POLL_TIMEOUT_MS (br_world st) of
        (Inl _, w) \<Rightarrow> st\<lparr>br_world := w\<rparr>
      | (Inr None, w) \<Rightarrow> st\<lparr>br_world := w\<rparr>
      | (Inr (Some json_text), w) \<Rightarrow> dispatch_event E json_text (st\<lparr>br_world := w\<rparr>))"

fun dm_poll_loop :: "'w delivery_env \<Rightarrow> bool list \<Rightarrow> 'w delivery \<Rightarrow> 'w delivery" where
  "dm_poll_loop E [] st = st"
| "dm_poll_loop E (dropped # rounds) st = (if dropped then st else dm_poll_loop E rounds (dm_poll E st))"

section \<open>The delivery plugin of Logos Core\<close>

text \<open>
  A subscription is an unbounded channel, which the event task fills, and a task that moves its messages to
  the bounded channel of the receiver, waiting for room.
\<close>

record relay_channel =
  rl_unbounded :: "bytes list"
  rl_bounded :: "bytes list"
  rl_open :: bool

record 'w core_delivery =
  cd_subs :: "(string, nat) hash_map"
  cd_channels :: "relay_channel list"
  cd_world :: 'w

text \<open>A method that answers \<open>true\<close>; the outer option is \<open>None\<close> when the callback never comes.\<close>

definition core_expect_true ::
    "'w plugin_lib \<Rightarrow> string \<Rightarrow> string \<Rightarrow> 'w \<Rightarrow> (transport_error + unit) exec option \<times> 'w" where
  "core_expect_true L meth params w =
     (case call_plugin_method L DELIVERY_MODULE meth params w of
        (None, w1) \<Rightarrow> (None, w1)
      | (Some Panics, w1) \<Rightarrow> (Some Panics, w1)
      | (Some (Returns (Inl e)), w1) \<Rightarrow> (Some (Returns (Inl (TErr_Transport (''delivery_module '' @ meth @ '' failed: '' @ e)))), w1)
      | (Some (Returns (Inr result)), w1) \<Rightarrow>
          if result \<noteq> ''true'' then
            (Some (Returns (Inl (TErr_Transport (''delivery_module '' @ meth @ '' returned: '' @ result)))), w1)
          else (Some (Returns (Inr ())), w1))"

definition core_new :: "'w plugin_lib \<Rightarrow> string \<Rightarrow> 'w \<Rightarrow> (transport_error + 'w core_delivery) exec option \<times> 'w" where
  "core_new L cfg w =
     (case core_expect_true L ''createNode'' (string_params [(''cfg'', cfg)]) w of
        (None, w1) \<Rightarrow> (None, w1)
      | (Some Panics, w1) \<Rightarrow> (Some Panics, w1)
      | (Some (Returns (Inl e)), w1) \<Rightarrow> (Some (Returns (Inl e)), w1)
      | (Some (Returns (Inr _)), w1) \<Rightarrow>
          (case core_expect_true L ''start'' ''[]'' w1 of
             (None, w2) \<Rightarrow> (None, w2)
           | (Some Panics, w2) \<Rightarrow> (Some Panics, w2)
           | (Some (Returns (Inl e)), w2) \<Rightarrow> (Some (Returns (Inl e)), w2)
           | (Some (Returns (Inr _)), w2) \<Rightarrow>
               let w3 = pl_listen L DELIVERY_MODULE ''messageReceived'' w2
               in (Some (Returns (Inr \<lparr>cd_subs = [], cd_channels = [], cd_world = w3\<rparr>)), w3)))"

definition core_publish ::
    "'w plugin_lib \<Rightarrow> (bytes \<Rightarrow> string) \<Rightarrow> 'w core_delivery \<Rightarrow> string \<Rightarrow> bytes
       \<Rightarrow> (transport_error + unit) exec option \<times> 'w core_delivery" where
  "core_publish L enc st topic payload =
     (case call_plugin_method L DELIVERY_MODULE ''send''
             (string_params [(''contentTopic'', topic), (''payload'', enc payload)]) (cd_world st) of
        (None, w) \<Rightarrow> (None, st\<lparr>cd_world := w\<rparr>)
      | (Some Panics, w) \<Rightarrow> (Some Panics, st\<lparr>cd_world := w\<rparr>)
      | (Some (Returns (Inl e)), w) \<Rightarrow>
          (Some (Returns (Inl (TErr_Transport (''delivery_module send failed: '' @ e)))), st\<lparr>cd_world := w\<rparr>)
      | (Some (Returns (Inr result)), w) \<Rightarrow>
          if starts_with ''error'' result \<or> starts_with ''Error'' result then
            (Some (Returns (Inl (TErr_Transport (''delivery_module send returned error: '' @ result)))), st\<lparr>cd_world := w\<rparr>)
          else (Some (Returns (Inr ())), st\<lparr>cd_world := w\<rparr>))"

definition core_attach :: "string \<Rightarrow> 'w core_delivery \<Rightarrow> nat \<times> 'w core_delivery" where
  "core_attach topic st =
     (length (cd_channels st),
      st\<lparr>cd_channels := cd_channels st @ [\<lparr>rl_unbounded = [], rl_bounded = [], rl_open = True\<rparr>],
         cd_subs := hm_insert topic (length (cd_channels st)) (cd_subs st)\<rparr>)"

definition core_subscribe ::
    "'w plugin_lib \<Rightarrow> 'w core_delivery \<Rightarrow> string \<Rightarrow> (transport_error + nat) exec option \<times> 'w core_delivery" where
  "core_subscribe L st topic =
     (case core_expect_true L ''subscribe'' (string_params [(''contentTopic'', topic)]) (cd_world st) of
        (None, w) \<Rightarrow> (None, st\<lparr>cd_world := w\<rparr>)
      | (Some Panics, w) \<Rightarrow> (Some Panics, st\<lparr>cd_world := w\<rparr>)
      | (Some (Returns (Inl e)), w) \<Rightarrow> (Some (Returns (Inl e)), st\<lparr>cd_world := w\<rparr>)
      | (Some (Returns (Inr _)), w) \<Rightarrow>
          (case core_attach topic (st\<lparr>cd_world := w\<rparr>) of (rx, st1) \<Rightarrow> (Some (Returns (Inr rx)), st1)))"

definition core_unsubscribe ::
    "'w plugin_lib \<Rightarrow> 'w core_delivery \<Rightarrow> string \<Rightarrow> (transport_error + unit) exec option \<times> 'w core_delivery" where
  "core_unsubscribe L st topic =
     (let st1 = st\<lparr>cd_subs := hm_remove topic (cd_subs st)\<rparr>;
          (r, w) = core_expect_true L ''unsubscribe'' (string_params [(''contentTopic'', topic)]) (cd_world st1)
      in (r, st1\<lparr>cd_world := w\<rparr>))"

text \<open>\<open>tx.send(payload)\<close> of an unbounded channel fails only when its receiver, the relaying task, has ended.\<close>

definition core_forward :: "string \<Rightarrow> bytes \<Rightarrow> 'w core_delivery \<Rightarrow> 'w core_delivery" where
  "core_forward topic payload st =
     (case hm_get (cd_subs st) topic of
        None \<Rightarrow> st
      | Some tx \<Rightarrow>
          let ch = cd_channels st ! tx in
          if rl_open ch then st\<lparr>cd_channels := (cd_channels st)[tx := ch\<lparr>rl_unbounded := rl_unbounded ch @ [payload]\<rparr>]\<rparr>
          else st)"

definition core_event ::
    "json_lib \<Rightarrow> (string \<Rightarrow> bytes option) \<Rightarrow> string \<Rightarrow> 'w core_delivery \<Rightarrow> 'w core_delivery" where
  "core_event J dec event_json st =
     (case js_from_str J event_json of
        Inl _ \<Rightarrow> st
      | Inr v \<Rightarrow>
          (case dec (case get_str ''payload'' v of Some s \<Rightarrow> s | None \<Rightarrow> []) of
             None \<Rightarrow> st
           | Some payload \<Rightarrow> core_forward (case get_str ''contentTopic'' v of Some s \<Rightarrow> s | None \<Rightarrow> []) payload st))"

text \<open>The relaying task: one message, when the bounded channel has room; it ends when the receiver is gone.\<close>

definition core_relay :: "nat \<Rightarrow> 'w core_delivery \<Rightarrow> 'w core_delivery" where
  "core_relay rx st =
     (let ch = cd_channels st ! rx in
      case rl_unbounded ch of
        [] \<Rightarrow> st
      | m # ms \<Rightarrow>
          if rl_open ch \<and> length (rl_bounded ch) < CHANNEL_BUFFER
          then st\<lparr>cd_channels := (cd_channels st)[rx := ch\<lparr>rl_unbounded := ms, rl_bounded := rl_bounded ch @ [m]\<rparr>]\<rparr>
          else st)"

definition core_drain :: "'w core_delivery \<Rightarrow> nat \<Rightarrow> bytes list \<times> 'w core_delivery" where
  "core_drain st rx =
     (rl_bounded (cd_channels st ! rx),
      st\<lparr>cd_channels := (cd_channels st)[rx := (cd_channels st ! rx)\<lparr>rl_bounded := []\<rparr>]\<rparr>)"

section \<open>The embedded node\<close>

definition RET_OK :: int where
  "RET_OK = 0"

record node_config =
  nc_log_level :: "string option"
  nc_mode :: "string option"
  nc_preset :: "string option"
  nc_tcp_port :: "nat option"
  nc_discv5_udp_port :: "nat option"
  nc_entry_nodes :: "string list"

definition logos_dev :: node_config where
  "logos_dev = \<lparr>nc_log_level = Some ''INFO'', nc_mode = Some ''Core'', nc_preset = Some ''logos.dev'', nc_tcp_port = None,
     nc_discv5_udp_port = None, nc_entry_nodes = []\<rparr>"

text \<open>
  A C function returns a code and may call back with a code and a message. Undefined behaviour is here a
  reference count released more often than it was taken.
\<close>

type_synonym callback_reply = "(int \<times> bytes option) option"

record 'w delivery_lib =
  dl_create_node :: "string \<Rightarrow> 'w \<Rightarrow> (nat \<times> callback_reply) \<times> 'w"
  dl_set_event_callback :: "nat \<Rightarrow> 'w \<Rightarrow> 'w"
  dl_start_node :: "nat \<Rightarrow> 'w \<Rightarrow> (int \<times> callback_reply) \<times> 'w"
  dl_stop_node :: "nat \<Rightarrow> 'w \<Rightarrow> (int \<times> callback_reply) \<times> 'w"
  dl_destroy :: "nat \<Rightarrow> 'w \<Rightarrow> (int \<times> callback_reply) \<times> 'w"
  dl_send :: "nat \<Rightarrow> string \<Rightarrow> 'w \<Rightarrow> (int \<times> callback_reply) \<times> 'w"
  dl_subscribe :: "nat \<Rightarrow> string \<Rightarrow> 'w \<Rightarrow> (int \<times> callback_reply) \<times> 'w"
  dl_unsubscribe :: "nat \<Rightarrow> string \<Rightarrow> 'w \<Rightarrow> (int \<times> callback_reply) \<times> 'w"

definition delivery_outcome :: "int \<Rightarrow> bytes option \<Rightarrow> string + string" where
  "delivery_outcome ret msg = (if ret = RET_OK then Inr (c_text msg) else Inl (c_text msg))"

text \<open>
  The references to the state of a call: \<open>make_call_ud\<close> gives two, one of them to C; the callback gives that one
  back, as does \<open>drop_call_ud\<close> after a failure; the caller drops its own at the end.
\<close>

definition refs_after :: "bool \<Rightarrow> callback_reply \<Rightarrow> int" where
  "refs_after failed cb = 2 - (if cb = None then 0 else 1) - (if failed then 1 else 0) - (if \<not> failed \<and> cb = None then 0 else 1)"

definition await_reply :: "bool \<Rightarrow> 'e \<Rightarrow> callback_reply \<Rightarrow> ('e + (string + string)) ffi" where
  "await_reply failed err cb =
     (if refs_after failed cb < 0 then Undef
      else if failed then Done (Inl err)
      else case cb of None \<Rightarrow> Hangs | Some (ret, msg) \<Rightarrow> Done (Inr (delivery_outcome ret msg)))"

definition delivery_call :: "string \<Rightarrow> int \<times> callback_reply \<Rightarrow> (transport_error + string) ffi" where
  "delivery_call what r =
     (case await_reply (fst r \<noteq> RET_OK) () (snd r) of
        Undef \<Rightarrow> Undef
      | Hangs \<Rightarrow> Hangs
      | Done (Inl _) \<Rightarrow> Done (Inl (TErr_Transport (what @ '' rc='' @ show_int (fst r))))
      | Done (Inr (Inl e)) \<Rightarrow> Done (Inl (TErr_Transport (what @ '' failed: '' @ e)))
      | Done (Inr (Inr s)) \<Rightarrow> Done (Inr s))"

text \<open>The embedded transport: its node and the channels. \<open>to_json\<close> is the serialized configuration.\<close>

definition embedded_new ::
    "'w delivery_lib \<Rightarrow> (node_config \<Rightarrow> string + string) \<Rightarrow> string \<Rightarrow> node_config \<Rightarrow> 'w
       \<Rightarrow> (transport_error + nat \<times> 'w delivery) ffi \<times> 'w" where
  "embedded_new L to_json nul_error config w =
     (case to_json config of
        Inl e \<Rightarrow> (Done (Inl (TErr_Serialization e)), w)
      | Inr cfg_json \<Rightarrow>
          if has_nul cfg_json then (Done (Inl (TErr_Other nul_error)), w)
          else
            let ((ctx, cb), w1) = dl_create_node L cfg_json w in
            case await_reply (ctx = 0) () cb of
              Undef \<Rightarrow> (Undef, w1)
            | Hangs \<Rightarrow> (Hangs, w1)
            | Done (Inl _) \<Rightarrow> (Done (Inl (TErr_Transport ''create_node returned NULL'')), w1)
            | Done (Inr (Inl e)) \<Rightarrow> (Done (Inl (TErr_Transport (''create_node failed: '' @ e))), w1)
            | Done (Inr (Inr _)) \<Rightarrow>
                let w2 = dl_set_event_callback L ctx w1; ((rc, cb1), w3) = dl_start_node L ctx w2 in
                case await_reply (rc \<noteq> RET_OK) () cb1 of
                  Undef \<Rightarrow> (Undef, w3)
                | Hangs \<Rightarrow> (Hangs, w3)
                | Done (Inl _) \<Rightarrow> (Done (Inl (TErr_Transport (''start_node returned rc='' @ show_int rc))), w3)
                | Done (Inr (Inl e)) \<Rightarrow> (Done (Inl (TErr_Transport (''start_node failed: '' @ e))), w3)
                | Done (Inr (Inr _)) \<Rightarrow> (Done (Inr (ctx, delivery_new w3)), w3))"

text \<open>A call on the world of the channels; its result is discarded by \<open>shutdown\<close>.\<close>

definition quiet_call :: "int \<times> callback_reply \<Rightarrow> unit ffi" where
  "quiet_call r = (case await_reply (fst r \<noteq> RET_OK) () (snd r) of Undef \<Rightarrow> Undef | Hangs \<Rightarrow> Hangs | Done _ \<Rightarrow> Done ())"

definition embedded_shutdown :: "'w delivery_lib \<Rightarrow> nat \<Rightarrow> 'w delivery \<Rightarrow> (transport_error + unit) ffi \<times> 'w" where
  "embedded_shutdown L ctx st =
     (case dl_stop_node L ctx (br_world st) of
        (r, w) \<Rightarrow>
          (case quiet_call r of
             Undef \<Rightarrow> (Undef, w)
           | Hangs \<Rightarrow> (Hangs, w)
           | Done _ \<Rightarrow>
               (case dl_destroy L ctx w of
                  (r1, w1) \<Rightarrow>
                    (case quiet_call r1 of
                       Undef \<Rightarrow> (Undef, w1)
                     | Hangs \<Rightarrow> (Hangs, w1)
                     | Done _ \<Rightarrow> (Done (Inr ()), w1)))))"

text \<open>\<open>message\<close> is the serialized \<open>OutgoingMessage\<close> with the content topic and the Base64 payload, not ephemeral.\<close>

definition embedded_publish ::
    "'w delivery_lib \<Rightarrow> (string \<Rightarrow> string \<Rightarrow> bool \<Rightarrow> string + string) \<Rightarrow> (bytes \<Rightarrow> string) \<Rightarrow> string \<Rightarrow> nat \<Rightarrow> 'w delivery \<Rightarrow> string
       \<Rightarrow> bytes \<Rightarrow> (transport_error + unit) ffi \<times> 'w delivery" where
  "embedded_publish L message enc nul_error ctx st topic payload =
     (case message topic (enc payload) False of
        Inl e \<Rightarrow> (Done (Inl (TErr_Serialization e)), st)
      | Inr json_text \<Rightarrow>
          if has_nul json_text then (Done (Inl (TErr_Other nul_error)), st)
          else case dl_send L ctx json_text (br_world st) of
                 (r, w) \<Rightarrow>
                   (case delivery_call ''send'' r of
                      Undef \<Rightarrow> Undef
                    | Hangs \<Rightarrow> Hangs
                    | Done (Inl e) \<Rightarrow> Done (Inl e)
                    | Done (Inr _) \<Rightarrow> Done (Inr ()), st\<lparr>br_world := w\<rparr>))"

definition embedded_subscribe ::
    "'w delivery_lib \<Rightarrow> string \<Rightarrow> nat \<Rightarrow> 'w delivery \<Rightarrow> string \<Rightarrow> (transport_error + nat) ffi \<times> 'w delivery" where
  "embedded_subscribe L nul_error ctx st topic =
     (if has_nul topic then (Done (Inl (TErr_Other nul_error)), st)
      else case dl_subscribe L ctx topic (br_world st) of
             (r, w) \<Rightarrow>
               (case delivery_call ''subscribe'' r of
                  Undef \<Rightarrow> (Undef, st\<lparr>br_world := w\<rparr>)
                | Hangs \<Rightarrow> (Hangs, st\<lparr>br_world := w\<rparr>)
                | Done (Inl e) \<Rightarrow> (Done (Inl e), st\<lparr>br_world := w\<rparr>)
                | Done (Inr _) \<Rightarrow>
                    (case attach topic (st\<lparr>br_world := w\<rparr>) of (rx, st1) \<Rightarrow> (Done (Inr rx), st1))))"

text \<open>The sender goes once the library has answered, whatever it answered.\<close>

definition embedded_unsubscribe ::
    "'w delivery_lib \<Rightarrow> string \<Rightarrow> nat \<Rightarrow> 'w delivery \<Rightarrow> string \<Rightarrow> (transport_error + unit) ffi \<times> 'w delivery" where
  "embedded_unsubscribe L nul_error ctx st topic =
     (if has_nul topic then (Done (Inl (TErr_Other nul_error)), st)
      else case dl_unsubscribe L ctx topic (br_world st) of
             ((rc, cb), w) \<Rightarrow>
               (case await_reply (rc \<noteq> RET_OK) () cb of
                  Undef \<Rightarrow> (Undef, st\<lparr>br_world := w\<rparr>)
                | Hangs \<Rightarrow> (Hangs, st\<lparr>br_world := w\<rparr>)
                | Done (Inl _) \<Rightarrow> (Done (Inl (TErr_Transport (''unsubscribe rc='' @ show_int rc))), st\<lparr>br_world := w\<rparr>)
                | Done (Inr _) \<Rightarrow> (Done (Inr ()), detach topic (st\<lparr>br_world := w\<rparr>))))"

text \<open>\<open>parse\<close> reads an event: its type and the content topic and payload of its message.\<close>

definition embedded_event ::
    "(string \<Rightarrow> (string \<times> (string \<times> bytes) option) option) \<Rightarrow> int \<Rightarrow> bytes option \<Rightarrow> 'w delivery \<Rightarrow> 'w delivery" where
  "embedded_event parse ret msg st =
     (case msg of
        None \<Rightarrow> st
      | Some bs \<Rightarrow>
          if ret \<noteq> RET_OK \<or> bs = [] \<or> \<not> valid_utf8 bs then st
          else case parse (of_bytes bs) of
                 Some (event_type, Some (content_topic, payload)) \<Rightarrow>
                   if event_type \<noteq> ''message_received'' then st else forward content_topic payload st
               | _ \<Rightarrow> st)"

section \<open>Routing by topic\<close>

text \<open>
  What the transports share: a topic has one receiver, messages of the topic go there, in order, as long
  as there is room, and nowhere else.
\<close>

locale topic_routing =
  fixes sub :: "'s \<Rightarrow> string \<Rightarrow> nat option"
    and queue :: "'s \<Rightarrow> nat \<Rightarrow> bytes list"
    and room :: "'s \<Rightarrow> nat \<Rightarrow> nat \<Rightarrow> bool"
    and deliver :: "string \<Rightarrow> bytes \<Rightarrow> 's \<Rightarrow> 's"
    and join_topic :: "string \<Rightarrow> 's \<Rightarrow> nat \<times> 's"
    and cap :: "nat \<Rightarrow> bool"
    and wf :: "'s \<Rightarrow> bool"
  assumes wf_deliver: "wf s \<Longrightarrow> wf (deliver t p s)"
    and wf_join: "wf s \<Longrightarrow> wf (snd (join_topic t s))"
    and one_topic: "wf s \<Longrightarrow> sub s t = Some rx \<Longrightarrow> sub s t' = Some rx \<Longrightarrow> t = t'"
    and sub_deliver: "sub (deliver t p s) = sub s"
    and deliver_hit: "wf s \<Longrightarrow> sub s t = Some rx \<Longrightarrow> room s rx (Suc n) \<Longrightarrow>
      queue (deliver t p s) rx = queue s rx @ [p] \<and> room (deliver t p s) rx n"
    and deliver_miss: "wf s \<Longrightarrow> sub s t \<noteq> Some rx \<Longrightarrow> queue (deliver t p s) rx = queue s rx \<and> room (deliver t p s) rx n = room s rx n"
    and joined: "wf s \<Longrightarrow> join_topic t s = (rx, s') \<Longrightarrow> sub s' t = Some rx \<and> queue s' rx = [] \<and> (cap n \<longrightarrow> room s' rx n)"
begin

lemma delivered:
  assumes "wf s" and "sub s t = Some rx" and "room s rx (length (filter (\<lambda>(u, _). u = t) evs))"
  shows "queue (fold (\<lambda>(u, p). deliver u p) evs s) rx = queue s rx @ map snd (filter (\<lambda>(u, _). u = t) evs)"
  using assms
proof (induction evs arbitrary: s)
  case (Cons ev evs)
  obtain u p where ev: "ev = (u, p)" by fastforce
  have wf: "wf (deliver u p s)" "sub (deliver u p s) t = Some rx" using Cons.prems by (simp_all add: wf_deliver sub_deliver)
  show ?case
  proof (cases "u = t")
    case True
    then have "queue (deliver u p s) rx = queue s rx @ [p]"
      "room (deliver u p s) rx (length (filter (\<lambda>(u, _). u = t) evs))"
      using deliver_hit [of s t rx _ p] Cons.prems by (simp_all add: ev)
    then show ?thesis using Cons.IH [OF wf] True by (simp add: ev)
  next
    case False
    then have "sub s u \<noteq> Some rx" using one_topic Cons.prems(1,2) by blast
    from deliver_miss [OF Cons.prems(1) this] show ?thesis using Cons.IH [OF wf] Cons.prems(3) False by (simp add: ev)
  qed
qed simp

lemma receives_topic:
  assumes "wf s" and "join_topic t s = (rx, s')" and "cap (length (filter (\<lambda>(u, _). u = t) evs))"
  shows "queue (fold (\<lambda>(u, p). deliver u p) evs s') rx = map snd (filter (\<lambda>(u, _). u = t) evs)"
  using delivered [of s' t rx evs] wf_join [OF assms(1), of t] joined [OF assms(1,2)] assms(2,3) by simp

end

definition topic_map_wf :: "(string, nat) hash_map \<Rightarrow> nat \<Rightarrow> bool" where
  "topic_map_wf m n \<longleftrightarrow> (\<forall>t rx. hm_get m t = Some rx \<longrightarrow> rx < n \<and> (\<forall>t'. hm_get m t' = Some rx \<longrightarrow> t' = t))"

lemma topic_map_wf_insert: "topic_map_wf m n \<Longrightarrow> topic_map_wf (hm_insert t n m) (Suc n)"
  by (auto simp: topic_map_wf_def less_Suc_eq split: if_splits)

lemma topic_map_unique: "topic_map_wf m n \<Longrightarrow> hm_get m t = Some rx \<Longrightarrow> hm_get m t' = Some rx \<Longrightarrow> t = t'"
  by (metis topic_map_wf_def)

lemma topic_map_wf_remove: "topic_map_wf m n \<Longrightarrow> topic_map_wf (hm_remove t m) n"
  by (auto simp: topic_map_wf_def split: if_splits)

definition delivery_wf :: "'w delivery \<Rightarrow> bool" where
  "delivery_wf st \<longleftrightarrow> topic_map_wf (br_subs st) (length (br_channels st))
     \<and> (\<forall>ch \<in> set (br_channels st). length (mp_queue ch) \<le> CHANNEL_BUFFER)"

definition has_room_for :: "'w delivery \<Rightarrow> nat \<Rightarrow> nat \<Rightarrow> bool" where
  "has_room_for st rx n \<longleftrightarrow> mp_open (br_channels st ! rx) \<and> length (mp_queue (br_channels st ! rx)) + n \<le> CHANNEL_BUFFER"

lemma forward_wf: "delivery_wf st \<Longrightarrow> delivery_wf (forward t p st)"
  by (auto simp: delivery_wf_def forward_def Let_def split: option.split dest!: set_update_subset_insert [THEN subsetD])

lemma attach_wf: "delivery_wf st \<Longrightarrow> delivery_wf (snd (attach t st))"
  using topic_map_wf_insert [of "br_subs st" "length (br_channels st)"] by (auto simp: delivery_wf_def attach_def)

interpretation bounded: topic_routing "\<lambda>st. hm_get (br_subs st)" "\<lambda>st rx. mp_queue (br_channels st ! rx)" has_room_for forward attach
  "\<lambda>n. n \<le> CHANNEL_BUFFER" delivery_wf
proof
  show "hm_get (br_subs (forward t p s)) = hm_get (br_subs s)" for t p and s :: "'a delivery"
    by (simp add: forward_def Let_def split: option.split)
  show "mp_queue (br_channels (forward t p s) ! rx) = mp_queue (br_channels s ! rx) @ [p] \<and> has_room_for (forward t p s) rx n"
    if "delivery_wf s" "hm_get (br_subs s) t = Some rx" "has_room_for s rx (Suc n)" for s :: "'a delivery" and t rx n p
    using that by (auto simp: forward_def Let_def has_room_for_def delivery_wf_def topic_map_wf_def)
  show "mp_queue (br_channels (forward t p s) ! rx) = mp_queue (br_channels s ! rx) \<and> has_room_for (forward t p s) rx n = has_room_for s rx n"
    if "delivery_wf s" "hm_get (br_subs s) t \<noteq> Some rx" for s :: "'a delivery" and t rx p n
    using that by (auto simp: forward_def Let_def has_room_for_def split: option.split)
  show "hm_get (br_subs s') t = Some rx \<and> mp_queue (br_channels s' ! rx) = [] \<and> (n \<le> CHANNEL_BUFFER \<longrightarrow> has_room_for s' rx n)"
    if "delivery_wf s" "attach t s = (rx, s')" for s s' :: "'a delivery" and t rx n
    using that by (auto simp: attach_def has_room_for_def)
  show "t = t'" if "delivery_wf s" "hm_get (br_subs s) t = Some rx" "hm_get (br_subs s) t' = Some rx" for s :: "'a delivery" and t t' rx
    using that topic_map_unique unfolding delivery_wf_def by blast
qed (simp_all add: forward_wf attach_wf)

definition core_wf :: "'w core_delivery \<Rightarrow> bool" where
  "core_wf st \<longleftrightarrow> topic_map_wf (cd_subs st) (length (cd_channels st))
     \<and> (\<forall>ch \<in> set (cd_channels st). length (rl_bounded ch) \<le> CHANNEL_BUFFER)"

text \<open>The messages on their way to a receiver of the plugin's transport.\<close>

definition core_queue :: "'w core_delivery \<Rightarrow> nat \<Rightarrow> bytes list" where
  "core_queue st rx = rl_bounded (cd_channels st ! rx) @ rl_unbounded (cd_channels st ! rx)"

lemma core_forward_wf: "core_wf st \<Longrightarrow> core_wf (core_forward t p st)"
  by (auto simp: core_wf_def core_forward_def Let_def topic_map_wf_def split: option.split
      dest!: set_update_subset_insert [THEN subsetD])

lemma core_attach_wf: "core_wf st \<Longrightarrow> core_wf (snd (core_attach t st))"
  using topic_map_wf_insert [of "cd_subs st" "length (cd_channels st)"] by (auto simp: core_wf_def core_attach_def)

interpretation unbounded: topic_routing "\<lambda>st. hm_get (cd_subs st)" core_queue "\<lambda>st rx _. rl_open (cd_channels st ! rx)"
  core_forward core_attach "\<lambda>_. True" core_wf
proof
  show "hm_get (cd_subs (core_forward t p s)) = hm_get (cd_subs s)" for t p and s :: "'a core_delivery"
    by (simp add: core_forward_def Let_def split: option.split)
  show "core_queue (core_forward t p s) rx = core_queue s rx @ [p] \<and> rl_open (cd_channels (core_forward t p s) ! rx)"
    if "core_wf s" "hm_get (cd_subs s) t = Some rx" "rl_open (cd_channels s ! rx)" for s :: "'a core_delivery" and t rx p
    using that by (auto simp: core_forward_def Let_def core_queue_def core_wf_def topic_map_wf_def)
  show "core_queue (core_forward t p s) rx = core_queue s rx \<and> rl_open (cd_channels (core_forward t p s) ! rx) = rl_open (cd_channels s ! rx)"
    if "core_wf s" "hm_get (cd_subs s) t \<noteq> Some rx" for s :: "'a core_delivery" and t rx p
    using that by (auto simp: core_forward_def Let_def core_queue_def split: option.split)
  show "hm_get (cd_subs s') t = Some rx \<and> core_queue s' rx = [] \<and> (True \<longrightarrow> rl_open (cd_channels s' ! rx))"
    if "core_wf s" "core_attach t s = (rx, s')" for s s' :: "'a core_delivery" and t rx
    using that by (auto simp: core_attach_def core_queue_def)
  show "t = t'" if "core_wf s" "hm_get (cd_subs s) t = Some rx" "hm_get (cd_subs s) t' = Some rx" for s :: "'a core_delivery" and t t' rx
    using that topic_map_unique unfolding core_wf_def by blast
qed (simp_all add: core_forward_wf core_attach_wf)

text \<open>The relaying task neither loses nor reorders: what was drained, with what is on its way, stays the same sequence.\<close>

lemma core_relay_queue: "core_queue (core_relay rx st) rx' = core_queue st rx'"
  by (cases "rx < length (cd_channels st)")
     (auto simp: core_relay_def core_queue_def Let_def nth_list_update list_update_beyond linorder_not_less split: list.split)

lemma core_relay_wf: "core_wf st \<Longrightarrow> core_wf (core_relay rx st)"
  by (auto simp: core_wf_def core_relay_def Let_def split: list.split dest!: set_update_subset_insert [THEN subsetD])

lemma core_drain_queue:
  assumes "rx < length (cd_channels st)"
  shows "fst (core_drain st rx) @ core_queue (snd (core_drain st rx)) rx = core_queue st rx"
  using assms by (simp add: core_drain_def core_queue_def)

section \<open>Messages arrive\<close>

text \<open>The event of the module for a message, which carries the payload in Base64.\<close>

definition message_event :: "string \<Rightarrow> string \<Rightarrow> string \<Rightarrow> string \<Rightarrow> json" where
  "message_event hash topic payload_b64 ts =
     JObj [(''module'', JStr DELIVERY_MODULE), (''event'', JStr EVENT_MESSAGE_RECEIVED),
           (''data'', JArr [JStr hash, JStr topic, JStr payload_b64, JStr ts])]"

lemma dispatch_message:
  assumes "js_from_str (dm_json E) json_text = Inr (message_event hash topic b64 ts)" and "dm_decode E b64 = Some p" and "topic \<noteq> []"
  shows "dispatch_event E json_text st = forward topic p st"
  using assms by (simp add: dispatch_event_def message_event_def str_at_def)

lemma core_event_message:
  assumes "js_from_str J json_text = Inr (JObj [(''contentTopic'', JStr topic), (''payload'', JStr b64)])" and "dec b64 = Some p"
  shows "core_event J dec json_text st = core_forward topic p st"
  using assms by (simp add: core_event_def)

lemma embedded_event_message:
  assumes "parse (of_bytes bs) = Some (''message_received'', Some (topic, p))" and "bs \<noteq> []" "valid_utf8 bs"
  shows "embedded_event parse RET_OK (Some bs) st = forward topic p st"
  using assms by (simp add: embedded_event_def)

lemma fold_mapped: "(\<And>x. x \<in> set xs \<Longrightarrow> f (g x) = h x) \<Longrightarrow> fold f (map g xs) s = fold h xs s"
  by (induction xs arbitrary: s) auto

text \<open>A subscription that the module accepts is a new channel.\<close>

lemma dm_subscribe_attach:
  assumes "dm_subscribe E st topic = (Inr rx, st1)" and "delivery_wf st"
  obtains w where "attach topic (st\<lparr>br_world := w\<rparr>) = (rx, st1)" "delivery_wf (st\<lparr>br_world := w\<rparr>)"
  using assms by (auto simp: dm_subscribe_def delivery_wf_def split: prod.splits sum.splits)

text \<open>
  C17. Messages of a topic arrive, in order and nowhere else. After a subscription through the delivery
  module, the receiver drains exactly the payloads of its topic among the messages that the module
  reports, in the order of the reports, as long as at most 256 of them are waiting: each was published in
  Base64 and is decoded.
\<close>

theorem module_messages_arrive:
  assumes sub: "dm_subscribe E st topic = (Inr rx, st1)" "delivery_wf st"
    and base64: "\<forall>bs. dm_decode E (dm_encode E bs) = Some bs"
    and events: "\<forall>(u, p) \<in> set msgs. u \<noteq> [] \<and> (\<exists>hash ts. js_from_str (dm_json E) (encoding (u, p)) = Inr (message_event hash u (dm_encode E p) ts))"
    and room: "length (filter (\<lambda>(u, _). u = topic) msgs) \<le> CHANNEL_BUFFER"
  shows "fst (delivery_drain (fold (dispatch_event E) (map encoding msgs) st1) rx) = map snd (filter (\<lambda>(u, _). u = topic) msgs)"
proof -
  have same: "fold (dispatch_event E) (map encoding msgs) st1 = fold (\<lambda>(u, p). forward u p) msgs st1"
  proof (rule fold_mapped)
    fix x assume x: "x \<in> set msgs"
    obtain u p where up: "x = (u, p)" by fastforce
    obtain hash ts where "js_from_str (dm_json E) (encoding x) = Inr (message_event hash u (dm_encode E p) ts)" "u \<noteq> []"
      using events x unfolding up by blast
    then show "dispatch_event E (encoding x) = (case x of (u, p) \<Rightarrow> forward u p)"
      using base64 by (intro ext) (simp add: dispatch_message up)
  qed
  obtain w where "attach topic (st\<lparr>br_world := w\<rparr>) = (rx, st1)" "delivery_wf (st\<lparr>br_world := w\<rparr>)"
    using dm_subscribe_attach [OF sub] .
  from bounded.receives_topic [OF this(2,1) room] show ?thesis by (simp add: delivery_drain_def same)
qed

text \<open>A module that accepts every call and reports one message.\<close>

definition example_delivery :: "unit delivery_env" where
  "example_delivery =
     \<lparr>dm_shim = \<lparr>sl_real = True, sl_new = (\<lambda>_ w. (1, w)), sl_call = (\<lambda>_ _ _ _ w. (1, w)), sl_listen = (\<lambda>_ _ w. (1, w)),
        sl_poll = (\<lambda>_ w. (0, w)), sl_str = (\<lambda>_ _. []), sl_free = (\<lambda>_ w. w), sl_destroy = (\<lambda>_ w. w)\<rparr>,
      dm_json = \<lparr>js_from_str = (\<lambda>s. Inr (if s = [] then JBool True else message_event ''h'' (butlast s) [last s] ''0'')),
        js_to_string = (\<lambda>_. Inr ''args'')\<rparr>,
      dm_show = (\<lambda>_. []), dm_encode = of_bytes, dm_decode = (\<lambda>s. Some (as_bytes s))\<rparr>"

lemma as_of_bytes: "as_bytes (of_bytes bs) = bs"
  by (induction bs) (simp_all add: as_bytes_def of_bytes_def)

theorem module_messages_arrive_witness:
  "fst (delivery_drain (fold (dispatch_event example_delivery) [''ta'', ''ub'', ''tc''] (snd (dm_subscribe example_delivery (delivery_new ()) ''t''))) 0)
     = [[97], [99]]"
proof -
  let ?msgs = "[(''t'', [97]), (''u'', [98]), (''t'', [99])] :: (string \<times> bytes) list"
  have sub: "dm_subscribe example_delivery (delivery_new ()) ''t'' = (Inr 0, snd (dm_subscribe example_delivery (delivery_new ()) ''t''))"
    by (simp add: dm_subscribe_def dm_invoke_def dm_call_def shim_call_def take_str_def example_delivery_def has_nul_def DELIVERY_MODULE_def
        check_bool_def error_message_def kind_error_def attach_def delivery_new_def of_bytes_def)
  have wf: "delivery_wf (delivery_new ())" by (simp add: delivery_wf_def delivery_new_def topic_map_wf_def hm_get_def)
  have "fst (delivery_drain (fold (dispatch_event example_delivery) (map (\<lambda>(u, p). u @ of_bytes p) ?msgs)
      (snd (dm_subscribe example_delivery (delivery_new ()) ''t''))) 0) = map snd (filter (\<lambda>(u, _). u = ''t'') ?msgs)"
    by (rule module_messages_arrive [OF sub wf])
       (simp_all add: example_delivery_def as_of_bytes CHANNEL_BUFFER_def, auto simp: of_bytes_def)
  moreover have "of_bytes [97] = ''a''" "of_bytes [98] = ''b''" "of_bytes [99] = ''c''" by code_simp+
  ultimately show ?thesis by simp
qed

section \<open>The references of a call\<close>

lemma await_reply_cases:
  "await_reply failed e cb = Undef \<longleftrightarrow> failed \<and> cb \<noteq> None"
  "await_reply failed e cb = Hangs \<longleftrightarrow> \<not> failed \<and> cb = None"
  by (auto simp: await_reply_def refs_after_def split: option.splits)

text \<open>A library that calls back once for each call that it accepts, and not for one that it refuses.\<close>

definition calls_back :: "'w delivery_lib \<Rightarrow> bool" where
  "calls_back L \<longleftrightarrow>
     (\<forall>cfg w. (fst (fst (dl_create_node L cfg w)) = 0) = (snd (fst (dl_create_node L cfg w)) = None))
   \<and> (\<forall>f \<in> {dl_start_node L, dl_stop_node L, dl_destroy L}. \<forall>ctx w. (fst (fst (f ctx w)) \<noteq> RET_OK) = (snd (fst (f ctx w)) = None))
   \<and> (\<forall>f \<in> {dl_send L, dl_subscribe L, dl_unsubscribe L}. \<forall>ctx s w. (fst (fst (f ctx s w)) \<noteq> RET_OK) = (snd (fst (f ctx s w)) = None))"

lemma await_accepted: "failed = (cb = None) \<Longrightarrow> \<exists>r. await_reply failed e cb = Done r \<and> refs_after failed cb = 0"
  by (auto simp: await_reply_def refs_after_def split: option.splits)

lemma delivery_call_done: "(fst r \<noteq> RET_OK) = (snd r = None) \<Longrightarrow> \<exists>x. delivery_call what r = Done x"
  using await_accepted [of "fst r \<noteq> RET_OK" "snd r" "()"]
  by (cases "fst r = RET_OK") (auto simp: delivery_call_def split: ffi.splits sum.splits)

lemma quiet_call_done: "(fst r \<noteq> RET_OK) = (snd r = None) \<Longrightarrow> quiet_call r = Done ()"
  using await_accepted [of "fst r \<noteq> RET_OK" "snd r" "()"]
  by (cases "fst r = RET_OK") (auto simp: quiet_call_def split: ffi.splits sum.splits)

lemma calls_back_call:
  assumes "calls_back L" and "f \<in> {dl_send L, dl_subscribe L, dl_unsubscribe L}"
  shows "(fst (fst (f ctx s w)) \<noteq> RET_OK) = (snd (fst (f ctx s w)) = None)"
proof -
  have "\<forall>ctx s w. (fst (fst (f ctx s w)) \<noteq> RET_OK) = (snd (fst (f ctx s w)) = None)"
    using assms(1)[unfolded calls_back_def, THEN conjunct2, THEN conjunct2] assms(2) by (rule bspec)
  then show ?thesis by (elim allE)
qed

lemma calls_back_node:
  assumes "calls_back L" and "f \<in> {dl_start_node L, dl_stop_node L, dl_destroy L}"
  shows "(fst (fst (f ctx w)) \<noteq> RET_OK) = (snd (fst (f ctx w)) = None)"
proof -
  have "\<forall>ctx w. (fst (fst (f ctx w)) \<noteq> RET_OK) = (snd (fst (f ctx w)) = None)"
    using assms(1)[unfolded calls_back_def, THEN conjunct2, THEN conjunct1] assms(2) by (rule bspec)
  then show ?thesis by (elim allE)
qed

lemma calls_back_create:
  assumes "calls_back L"
  shows "(fst (fst (dl_create_node L cfg w)) = 0) = (snd (fst (dl_create_node L cfg w)) = None)"
  using assms [unfolded calls_back_def, THEN conjunct1] by (elim allE)

lemma embedded_new_done:
  assumes "calls_back L"
  shows "\<exists>r. fst (embedded_new L to_json nul_error config w) = Done r"
proof (cases "to_json config")
  case (Inr cfg)
  obtain ctx cb w1 where new: "dl_create_node L cfg w = ((ctx, cb), w1)" by (metis surj_pair)
  obtain rc cb1 w3 where start: "dl_start_node L ctx (dl_set_event_callback L ctx w1) = ((rc, cb1), w3)" by (metis surj_pair)
  obtain r r1 where "await_reply (ctx = 0) () cb = Done r" "await_reply (rc \<noteq> RET_OK) () cb1 = Done r1"
    using await_accepted [of "ctx = 0" cb "()"] await_accepted [of "rc \<noteq> RET_OK" cb1 "()"] new start
      calls_back_create [OF assms, of cfg w] calls_back_node [OF assms, of "dl_start_node L" ctx "dl_set_event_callback L ctx w1"]
    by auto
  then show ?thesis using Inr new start by (simp add: embedded_new_def split: sum.split)
qed (simp add: embedded_new_def)


text \<open>A library that accepts everything.\<close>

definition example_library :: "unit delivery_lib" where
  "example_library =
     (let ok = (\<lambda>ctx w. ((RET_OK, Some (RET_OK, None)), w)); ok1 = (\<lambda>ctx s w. ((RET_OK, Some (RET_OK, None)), w))
      in \<lparr>dl_create_node = (\<lambda>_ w. ((1, Some (RET_OK, None)), w)), dl_set_event_callback = (\<lambda>_ w. w), dl_start_node = ok,
          dl_stop_node = ok, dl_destroy = ok, dl_send = ok1, dl_subscribe = ok1, dl_unsubscribe = ok1\<rparr>)"


text \<open>
  The library documents that a failed \<open>create_node\<close>, which returns null, reports its result through the
  callback as well. The release after a null context is then one too many.
\<close>

lemma create_node_released_twice:
  assumes "to_json config = Inr cfg" "\<not> has_nul cfg" "dl_create_node L cfg w = ((0, Some reply), w1)"
  shows "fst (embedded_new L to_json nul_error config w) = Undef" "refs_after True (Some reply) = - 1"
  using assms await_reply_cases(1) [of True "()" "Some reply"] by (simp_all add: embedded_new_def refs_after_def)

end
