(* ===== verification/Storage.thy ===== *)
theory Storage
  imports Agent_Loop Daemon_Safety Base64
begin

text \<open>
  The storage backend over the REST interface of Codex (\<open>crates/logos-messaging-a2a-storage/src/lib.rs\<close>)
  and \<open>lmao storage fetch\<close> (\<open>crates/logos-messaging-a2a-cli/src/storage.rs\<close>). HTTP, the Base64 crate and
  the file system are parameters. The log of an execution that an agent uploads is what the delegating side fetches.
\<close>

section \<open>The backend\<close>

datatype storage_error = SHttp string | SApi nat string

fun show_storage_error :: "storage_error \<Rightarrow> string" where
  "show_storage_error (SHttp msg) = ''storage HTTP error: '' @ msg"
| "show_storage_error (SApi status body) = ''storage API error ('' @ show_nat status @ ''): '' @ body"

text \<open>A response: its status and what reading its body as text or as bytes gives.\<close>

record storage_reply =
  sr_status :: nat
  sr_text :: "string + string"
  sr_bytes :: "string + bytes"

record 'w storage_http =
  sh_post :: "string \<Rightarrow> bytes \<Rightarrow> 'w \<Rightarrow> (string + storage_reply) \<times> 'w"
  sh_get :: "string \<Rightarrow> 'w \<Rightarrow> (string + storage_reply) \<times> 'w"

record storage_rest =
  base_url :: string

definition storage_new :: "string \<Rightarrow> storage_rest" where
  "storage_new url = \<lparr>base_url = trim_end_matches (CHR ''/'') url\<rparr>"

definition default_local :: storage_rest where
  "default_local = storage_new ''http://127.0.0.1:8080''"

definition is_success :: "nat \<Rightarrow> bool" where
  "is_success status = (200 \<le> status \<and> status < 300)"

definition api_error :: "storage_reply \<Rightarrow> storage_error" where
  "api_error resp = SApi (sr_status resp) (case sr_text resp of Inr body \<Rightarrow> body | Inl _ \<Rightarrow> [])"

definition upload_url :: "storage_rest \<Rightarrow> string" where
  "upload_url self = base_url self @ ''/api/storage/v1/data''"

definition download_url :: "storage_rest \<Rightarrow> string \<Rightarrow> string" where
  "download_url self cid = base_url self @ ''/api/storage/v1/data/'' @ cid @ ''/network/stream''"

definition storage_upload ::
    "'w storage_http \<Rightarrow> storage_rest \<Rightarrow> bytes \<Rightarrow> 'w \<Rightarrow> (storage_error + string) \<times> 'w" where
  "storage_upload H self data w =
     (case sh_post H (upload_url self) data w of
        (Inl e, w1) \<Rightarrow> (Inl (SHttp e), w1)
      | (Inr resp, w1) \<Rightarrow>
          if \<not> is_success (sr_status resp) then (Inl (api_error resp), w1)
          else (case sr_text resp of
                  Inl e \<Rightarrow> (Inl (SHttp e), w1)
                | Inr body \<Rightarrow> (Inr (str_trim body), w1)))"

definition storage_download ::
    "'w storage_http \<Rightarrow> storage_rest \<Rightarrow> string \<Rightarrow> 'w \<Rightarrow> (storage_error + bytes) \<times> 'w" where
  "storage_download H self cid w =
     (case sh_get H (download_url self cid) w of
        (Inl e, w1) \<Rightarrow> (Inl (SHttp e), w1)
      | (Inr resp, w1) \<Rightarrow>
          if \<not> is_success (sr_status resp) then (Inl (api_error resp), w1)
          else (case sr_bytes resp of Inl e \<Rightarrow> (Inl (SHttp e), w1) | Inr bs \<Rightarrow> (Inr bs, w1)))"

definition DEFAULT_OFFLOAD_THRESHOLD :: nat where
  "DEFAULT_OFFLOAD_THRESHOLD = 100 * 1024"

text \<open>\<open>upload\<close> is the backend's.\<close>

definition maybe_offload ::
    "(bytes \<Rightarrow> 'w \<Rightarrow> (storage_error + string) \<times> 'w) \<Rightarrow> bytes \<Rightarrow> nat \<Rightarrow> 'w \<Rightarrow> (storage_error + string option) \<times> 'w" where
  "maybe_offload upload data threshold w =
     (if threshold < length data then
        (case upload data w of (Inl e, w1) \<Rightarrow> (Inl e, w1) | (Inr cid, w1) \<Rightarrow> (Inr (Some cid), w1))
      else (Inr None, w))"

text \<open>The threshold of a node: \<open>StorageOffloadConfig::new\<close> of \<open>node/src/storage.rs\<close>.\<close>

definition offload_config_new :: nat where
  "offload_config_new = 65536"

text \<open>The backend as its callers see it, with its error as text.\<close>

definition shown :: "(storage_error + 'a) \<times> 'w \<Rightarrow> (string + 'a) \<times> 'w" where
  "shown r = (case r of (Inl e, w) \<Rightarrow> (Inl (show_storage_error e), w) | (Inr x, w) \<Rightarrow> (Inr x, w))"

section \<open>Fetching\<close>

datatype fetch_report =
    FetchWrote string nat path
  | FetchJson string nat string
  | FetchRaw bytes

text \<open>
  \<open>ask\<close> is \<open>client.send\<close>, \<open>decode\<close> the Base64 crate's, \<open>wr\<close> \<open>std::fs::write\<close>; an error is the outermost text
  that \<open>anyhow\<close> shows. Writing to the standard output succeeds.
\<close>

definition storage_fetch ::
    "(response \<Rightarrow> string) \<Rightarrow> string + conn \<Rightarrow> (request \<Rightarrow> string + response) \<Rightarrow> (string \<Rightarrow> string + bytes)
       \<Rightarrow> ('w \<Rightarrow> path \<Rightarrow> bytes \<Rightarrow> (string + unit) \<times> 'w) \<Rightarrow> path \<Rightarrow> string \<Rightarrow> path option \<Rightarrow> bool \<Rightarrow> 'w
       \<Rightarrow> (string + fetch_report) \<times> 'w" where
  "storage_fetch debug socket ask decode wr socket_path cid output json w =
     (if \<not> probe socket then
        (Inl (''no daemon listening at '' @ show_path socket_path @ [newline, newline]
           @ ''storage fetch requires a running '' @ quoted (CHR 0x60) ''lmao agent run''
           @ '' daemon with --storage libstorage; the embedded blockstore lives in that process ''
           @ ''and isn'' @ [CHR 0x27] @ ''t reachable by a one-shot CLI invocation.''), w)
      else case ask (ReqStorageFetch cid) of
             Inl e \<Rightarrow> (Inl e, w)
           | Inr (RespStorageFetch _ payload_b64) \<Rightarrow>
               (case decode payload_b64 of
                  Inl e \<Rightarrow> (Inl (''decoding daemon'' @ [CHR 0x27] @ ''s base64 payload''), w)
                | Inr bs \<Rightarrow>
                    (case output of
                       Some p \<Rightarrow>
                         (case wr w p bs of
                            (Inl e, w1) \<Rightarrow> (Inl (''writing to '' @ show_path p), w1)
                          | (Inr _, w1) \<Rightarrow> (Inr (FetchWrote cid (length bs) p), w1))
                     | None \<Rightarrow> (Inr (if json then FetchJson cid (length bs) payload_b64 else FetchRaw bs), w)))
           | Inr resp \<Rightarrow> (Inl (''unexpected daemon response: '' @ debug resp), w))"

section \<open>What is uploaded can be fetched\<close>

text \<open>
  Codex answers an upload with the content identifier, possibly in white space, under which the data
  can then be streamed.
\<close>

definition codex_ok :: "'w storage_http \<Rightarrow> storage_rest \<Rightarrow> bool" where
  "codex_ok H self \<longleftrightarrow>
     (\<forall>data w w' resp body. sh_post H (upload_url self) data w = (Inr resp, w') \<longrightarrow> is_success (sr_status resp)
        \<longrightarrow> sr_text resp = Inr body
        \<longrightarrow> (\<exists>resp' w''. sh_get H (download_url self (str_trim body)) w' = (Inr resp', w'') \<and> is_success (sr_status resp')
              \<and> sr_bytes resp' = Inr data))"

lemma upload_then_download:
  assumes "codex_ok H self" and "storage_upload H self data w = (Inr cid, w')"
  shows "\<exists>w''. storage_download H self cid w' = (Inr data, w'')"
proof -
  obtain resp body where up: "sh_post H (upload_url self) data w = (Inr resp, w')" "is_success (sr_status resp)"
    "sr_text resp = Inr body" "cid = str_trim body"
    using assms(2) by (auto simp: storage_upload_def split: prod.splits sum.splits if_splits)
  then obtain resp' w'' where "sh_get H (download_url self cid) w' = (Inr resp', w'')" "is_success (sr_status resp')"
    "sr_bytes resp' = Inr data" using assms(1) unfolding codex_ok_def by blast
  then show ?thesis by (simp add: storage_download_def)
qed

text \<open>A node on a backend with this law has the storage that offloaded payloads rely on.\<close>

lemma shown_storage_ok:
  assumes "\<And>data w cid w'. up data w = (Inr cid, w') \<Longrightarrow> \<exists>w''. down cid w' = (Inr data, w'')"
    and "ne_upload N = (\<lambda>data w. shown (up data w))" "ne_download N = (\<lambda>cid w. shown (down cid w))"
  shows "storage_ok N"
proof -
  have "\<exists>w''. ne_download N cid w' = (Inr data, w'')" if "ne_upload N data w = (Inr cid, w')" for data w cid w'
  proof -
    have "up data w = (Inr cid, w')" using that by (auto simp: assms(2) shown_def split: prod.splits sum.splits)
    from assms(1) [OF this] show ?thesis by (auto simp: assms(3) shown_def)
  qed
  then show ?thesis unfolding storage_ok_def by blast
qed

lemma rest_storage_ok:
  assumes "codex_ok H self" and "ne_upload N = (\<lambda>data w. shown (storage_upload H self data w))"
    and "ne_download N = (\<lambda>cid w. shown (storage_download H self cid w))"
  shows "storage_ok N"
  by (rule shown_storage_ok [OF _ assms(2,3)]) (use upload_then_download [OF assms(1)] in blast)

text \<open>
  What \<open>client.send\<close> returns when the daemon in the given state serves the request over an unbroken
  connection and within the frame limit.
\<close>

definition daemon_ask ::
    "('bf, 'tr, 'rx, 'c, 'w, 'sk, 'vk, 'sig) daemon_env \<Rightarrow> call \<Rightarrow> ('bf, 'tr, 'rx, 'sk, 'w) server \<Rightarrow> request
       \<Rightarrow> string + response" where
  "daemon_ask D cl self req =
     (case dispatch D cl req self of
        Some (Returns r, _) \<Rightarrow> (case answer_of r of RespError m \<Rightarrow> Inl (''daemon error: '' @ m) | resp \<Rightarrow> Inr resp)
      | _ \<Rightarrow> Inl ''reading frame length'')"

lemma dispatch_fetch:
  assumes "ds_storage self" and "de_download D cid (nd_world (ds_node self)) = (Inr data, w)"
  shows "\<exists>self'. dispatch D cl (ReqStorageFetch cid) self = Some (Returns (Inr (RespStorageFetch cid (de_base64 D data))), self')"
  using assms by (simp add: dispatch_def dispatch_storage_fetch_def)

lemma daemon_ask_fetch:
  assumes "ds_storage self" and "de_download D cid (nd_world (ds_node self)) = (Inr data, w)"
  shows "daemon_ask D cl self (ReqStorageFetch cid) = Inr (RespStorageFetch cid (de_base64 D data))"
  using dispatch_fetch [OF assms, of cl] by (auto simp: daemon_ask_def answer_of_def)

lemma uploaded_log:
  assumes "upload_log (Some (\<lambda>data w. shown (storage_upload H rest data w))) log w = (Some cid, w1)"
  shows "storage_upload H rest (as_bytes log) w = (Inr cid, w1)"
  using assms by (auto simp: upload_log_def shown_def split: prod.splits sum.splits if_splits)


text \<open>A service that stores one blob.\<close>

definition example_codex :: "unit storage_http" where
  "example_codex =
     \<lparr>sh_post = (\<lambda>_ data w. (if data = as_bytes ''ls'' then Inr \<lparr>sr_status = 201, sr_text = Inr (''zQm'' @ [newline]), sr_bytes = Inl ''read''\<rparr>
                            else Inl ''refused'', w)),
      sh_get = (\<lambda>url w. (if url = ''http://127.0.0.1:8080/api/storage/v1/data/zQm/network/stream''
                         then Inr \<lparr>sr_status = 200, sr_text = Inr ''ls'', sr_bytes = Inr (as_bytes ''ls'')\<rparr> else Inl ''refused'', w))\<rparr>"

lemma example_codex_simps:
  "base_url default_local = ''http://127.0.0.1:8080''" "str_trim (''zQm'' @ [newline]) = ''zQm''"
  by (simp_all add: default_local_def storage_new_def trim_end_matches_def str_trim_def is_continuation_def is_whitespace_def)

lemma example_codex_ok: "codex_ok example_codex default_local"
  using example_codex_simps by (auto simp: codex_ok_def example_codex_def download_url_def is_success_def split: if_splits)


end
