(* ===== verification/Logos_Storage.thy ===== *)
theory Logos_Storage
  imports Storage Logos_Core Base64
begin

text \<open>
  The storage backends over the Logos libraries: the module of Basecamp
  (\<open>crates/logos-messaging-a2a-storage/src/storage_module_backend.rs\<close>), the plugin of Logos Core
  (\<open>logos_core_backend.rs\<close>) and the embedded node (\<open>libstorage_backend.rs\<close>). The shim, the plugin interface,
  the bindings of the embedded node, Base64, \<open>serde_json\<close> and the file system are parameters. A blocking task
  that is joined has not panicked.
\<close>

section \<open>Chunks\<close>

text \<open>\<open>data.chunks(n)\<close>, for a positive \<open>n\<close>.\<close>

function data_chunks :: "nat \<Rightarrow> 'a list \<Rightarrow> 'a list list" where
  "data_chunks n xs = (if xs = [] \<or> n = 0 then [] else take n xs # data_chunks n (drop n xs))"
  by pat_completeness auto
termination data_chunks
  by (relation "measure (\<lambda>(n, xs). length xs)") auto

declare data_chunks.simps [simp del]

lemma concat_data_chunks: "0 < n \<Longrightarrow> concat (data_chunks n xs) = xs"
  by (induction n xs rule: data_chunks.induct) (subst data_chunks.simps, simp)

lemma data_chunks_short: "xs \<noteq> [] \<Longrightarrow> length xs \<le> n \<Longrightarrow> data_chunks n xs = [xs]"
  by (cases n) (simp_all add: data_chunks.simps [of n xs] data_chunks.simps [of n "[]"] data_chunks.simps [of "Suc m" for m])

lemma data_chunks_bound: "c \<in> set (data_chunks n xs) \<Longrightarrow> c \<noteq> [] \<and> length c \<le> n"
proof (induction n xs rule: data_chunks.induct)
  case (1 n xs)
  then show ?case using data_chunks.simps [of n xs] by (auto split: if_splits)
qed

section \<open>The module of Basecamp\<close>

definition CHUNK_BYTES :: nat where
  "CHUNK_BYTES = 2 ^ 20"

definition SHORT_TIMEOUT_MS :: int where
  "SHORT_TIMEOUT_MS = 30000"

definition LONG_TIMEOUT_MS :: int where
  "LONG_TIMEOUT_MS = 90000"

text \<open>
  \<open>me_temp\<close> creates a temporary file, \<open>me_drop\<close> removes it, \<open>me_read\<close> reads a file.
\<close>

record 'w module_env =
  me_shim :: "'w shim_lib"
  me_json :: json_lib
  me_encode :: "bytes \<Rightarrow> string"
  me_temp :: "'w \<Rightarrow> (string + string) \<times> 'w"
  me_drop :: "string \<Rightarrow> 'w \<Rightarrow> 'w"
  me_read :: "string \<Rightarrow> 'w \<Rightarrow> string + bytes"

definition module_call ::
    "'w module_env \<Rightarrow> string \<Rightarrow> string \<Rightarrow> int \<Rightarrow> 'w \<Rightarrow> (storage_error + json) \<times> 'w" where
  "module_call E meth args_json timeout_ms w =
     (case shim_call (me_shim E) ''storage_module'' meth args_json timeout_ms w of
        (Inl e, w1) \<Rightarrow> (Inl (SHttp (''storage_module call '' @ meth @ '': '' @ show_shim_error e)), w1)
      | (Inr text_json, w1) \<Rightarrow>
          (case js_from_str (me_json E) text_json of
             Inl e \<Rightarrow> (Inl (SHttp (''storage_module '' @ meth @ '' bad JSON: '' @ e)), w1)
           | Inr v \<Rightarrow> (Inr v, w1)))"

definition extract_value :: "json \<Rightarrow> string \<Rightarrow> storage_error + string" where
  "extract_value v field =
     (case kind_error v of
        Some err \<Rightarrow> Inl (SHttp err)
      | None \<Rightarrow>
          (case get_str ''error'' v of
             Some err \<Rightarrow> Inl (SHttp err)
           | None \<Rightarrow>
               (case get_str field v of
                  Some s \<Rightarrow> Inr s
                | None \<Rightarrow> Inl (SHttp (''missing '' @ quoted (CHR 0x60) field @ '' in storage_module response'')))))"

text \<open>The arguments of a call: a JSON array as text.\<close>

definition module_args :: "'w module_env \<Rightarrow> string \<Rightarrow> json list \<Rightarrow> storage_error + string" where
  "module_args E what xs =
     (case js_to_string (me_json E) (JArr xs) of
        Inl e \<Rightarrow> Inl (SHttp (what @ '' args: '' @ e))
      | Inr s \<Rightarrow> Inr s)"

fun upload_chunks :: "'w module_env \<Rightarrow> string \<Rightarrow> bytes list \<Rightarrow> 'w \<Rightarrow> (storage_error + unit) \<times> 'w" where
  "upload_chunks E session_id [] w = (Inr (), w)"
| "upload_chunks E session_id (chunk # rest) w =
     (case module_args E ''chunk'' [JStr session_id, JStr (me_encode E chunk)] of
        Inl e \<Rightarrow> (Inl e, w)
      | Inr chunk_args \<Rightarrow>
          (case module_call E ''uploadChunk'' chunk_args SHORT_TIMEOUT_MS w of
             (Inl e, w1) \<Rightarrow> (Inl e, w1)
           | (Inr r, w1) \<Rightarrow>
               (case kind_error r of
                  Some msg \<Rightarrow>
                    let args = (case js_to_string (me_json E) (JArr [JStr session_id]) of Inr s \<Rightarrow> s | Inl _ \<Rightarrow> []);
                        (_, w2) = module_call E ''uploadCancel'' args SHORT_TIMEOUT_MS w1
                    in (Inl (SHttp (''uploadChunk: '' @ msg)), w2)
                | None \<Rightarrow> upload_chunks E session_id rest w1)))"

definition init_args :: string where
  "init_args = ''['' @ json_quoted ''audit.log'' @ '', '' @ show_nat CHUNK_BYTES @ '']''"

definition module_upload :: "'w module_env \<Rightarrow> bytes \<Rightarrow> 'w \<Rightarrow> (storage_error + string) \<times> 'w" where
  "module_upload E data w =
     (case module_call E ''uploadInit'' init_args SHORT_TIMEOUT_MS w of
        (Inl e, w1) \<Rightarrow> (Inl e, w1)
      | (Inr resp, w1) \<Rightarrow>
          (case extract_value resp ''value'' of
             Inl e \<Rightarrow> (Inl e, w1)
           | Inr session_id \<Rightarrow>
               (case upload_chunks E session_id (data_chunks CHUNK_BYTES data) w1 of
                  (Inl e, w2) \<Rightarrow> (Inl e, w2)
                | (Inr _, w2) \<Rightarrow>
                    (case module_args E ''finalize'' [JStr session_id] of
                       Inl e \<Rightarrow> (Inl e, w2)
                     | Inr fin_args \<Rightarrow>
                         (case module_call E ''uploadFinalize'' fin_args SHORT_TIMEOUT_MS w2 of
                            (Inl e, w3) \<Rightarrow> (Inl e, w3)
                          | (Inr resp1, w3) \<Rightarrow> (extract_value resp1 ''value'', w3))))))"

definition module_download :: "'w module_env \<Rightarrow> string \<Rightarrow> 'w \<Rightarrow> (storage_error + bytes) \<times> 'w" where
  "module_download E cid w =
     (case me_temp E w of
        (Inl e, w1) \<Rightarrow> (Inl (SHttp (''tempfile: '' @ e)), w1)
      | (Inr p, w1) \<Rightarrow>
          (case module_args E ''download'' [JStr cid, JStr p, JBool False] of
             Inl e \<Rightarrow> (Inl e, me_drop E p w1)
           | Inr args \<Rightarrow>
               (case module_call E ''downloadFile'' args LONG_TIMEOUT_MS w1 of
                  (Inl e, w2) \<Rightarrow> (Inl e, me_drop E p w2)
                | (Inr resp, w2) \<Rightarrow>
                    (case kind_error resp of
                       Some msg \<Rightarrow> (Inl (SHttp (''downloadFile: '' @ msg)), me_drop E p w2)
                     | None \<Rightarrow>
                         (case me_read E p w2 of
                            Inl e \<Rightarrow> (Inl (SHttp (''read back tempfile: '' @ e)), me_drop E p w2)
                          | Inr bs \<Rightarrow> (Inr bs, me_drop E p w2))))))"

section \<open>The plugin of Logos Core\<close>

text \<open>
  \<open>el_events\<close> are the events a listener receives, in order. A listener is never closed: its sender is leaked.
\<close>

record 'w event_lib = "'w plugin_lib" +
  el_events :: "'w \<Rightarrow> string \<Rightarrow> (int \<times> bytes option) list"

definition STORAGE_PLUGIN :: string where
  "STORAGE_PLUGIN = ''storage_module''"

definition DEFAULT_CHUNK_SIZE :: nat where
  "DEFAULT_CHUNK_SIZE = 64 * 1024"

text \<open>The callbacks of a call and of a listener: the code 0 is success.\<close>

definition method_callback :: "int \<Rightarrow> bytes option \<Rightarrow> storage_error + string" where
  "method_callback code msg =
     (if code = 0 then Inr (c_text msg) else Inl (SHttp (''plugin error ('' @ show_int code @ ''): '' @ c_text msg)))"

definition event_callback :: "int \<Rightarrow> bytes option \<Rightarrow> storage_error + string" where
  "event_callback code msg =
     (if code = 0 then Inr (c_text msg) else Inl (SHttp (''event error ('' @ show_int code @ ''): '' @ c_text msg)))"

definition call_method ::
    "'w event_lib \<Rightarrow> string \<Rightarrow> string \<Rightarrow> 'w \<Rightarrow> (storage_error + string) exec option \<times> 'w" where
  "call_method L meth params w =
     (if has_nul meth \<or> has_nul params then (Some Panics, w)
      else case pl_call L STORAGE_PLUGIN meth params w of
             (None, w1) \<Rightarrow> (None, w1)
           | (Some (code, msg), w1) \<Rightarrow> (Some (Returns (method_callback code msg)), w1))"

text \<open>The operator \<open>?\<close> after an awaited call.\<close>

definition awaits ::
    "('e + 'a) exec option \<times> 'w \<Rightarrow> ('a \<Rightarrow> 'w \<Rightarrow> ('e + 'b) exec option \<times> 'w) \<Rightarrow> ('e + 'b) exec option \<times> 'w" where
  "awaits r f =
     (case r of
        (None, w) \<Rightarrow> (None, w)
      | (Some Panics, w) \<Rightarrow> (Some Panics, w)
      | (Some (Returns (Inl e)), w) \<Rightarrow> (Some (Returns (Inl e)), w)
      | (Some (Returns (Inr x)), w) \<Rightarrow> f x w)"

fun core_chunks :: "'w event_lib \<Rightarrow> (bytes \<Rightarrow> string) \<Rightarrow> string \<Rightarrow> bytes list \<Rightarrow> 'w \<Rightarrow> (storage_error + unit) exec option \<times> 'w" where
  "core_chunks L enc session_id [] w = (Some (Returns (Inr ())), w)"
| "core_chunks L enc session_id (chunk # rest) w =
     awaits (call_method L ''uploadChunk''
               (params_json [(''sessionId'', session_id, ''string''), (''chunk'', enc chunk, ''string'')]) w)
       (\<lambda>_ w1. core_chunks L enc session_id rest w1)"

text \<open>\<open>chunks\<close> panics for the chunk size 0.\<close>

definition core_upload ::
    "'w event_lib \<Rightarrow> (bytes \<Rightarrow> string) \<Rightarrow> nat \<Rightarrow> bytes \<Rightarrow> 'w \<Rightarrow> (storage_error + string) exec option \<times> 'w" where
  "core_upload L enc chunk_size data w =
     awaits (call_method L ''uploadInit''
               (params_json [(''filename'', ''blob'', ''string''), (''chunkSize'', show_nat chunk_size, ''int'')])
               (pl_listen L STORAGE_PLUGIN ''storageUploadDone'' w))
       (\<lambda>session_id w1.
          if chunk_size = 0 then (Some Panics, w1)
          else awaits (core_chunks L enc session_id (data_chunks chunk_size data) w1)
            (\<lambda>_ w2. awaits (call_method L ''uploadFinalize'' (params_json [(''sessionId'', session_id, ''string'')]) w2)
              (\<lambda>_ w3. case el_events L w3 ''storageUploadDone'' of
                         [] \<Rightarrow> (None, w3)
                       | (code, msg) # _ \<Rightarrow> (Some (Returns (event_callback code msg)), w3))))"

text \<open>
  The loop over \<open>tokio::select!\<close>: \<open>sched\<close> is the branch it takes in each round, any of those whose channel has
  an event. It waits when the schedule ends or its branch has no event.
\<close>

datatype branch = FromChunks | FromDone

fun collect ::
    "(string \<Rightarrow> string + bytes) \<Rightarrow> branch list \<Rightarrow> (int \<times> bytes option) list \<Rightarrow> (int \<times> bytes option) list \<Rightarrow> bytes
       \<Rightarrow> (storage_error + bytes) option" where
  "collect dec (FromChunks # sched) ((code, msg) # evs) dones assembled =
     (case event_callback code msg of
        Inl e \<Rightarrow> Some (Inl e)
      | Inr chunk_b64 \<Rightarrow>
          (case dec chunk_b64 of
             Inl e \<Rightarrow> Some (Inl (SHttp (''base64 decode error: '' @ e)))
           | Inr bs \<Rightarrow> collect dec sched evs dones (assembled @ bs)))"
| "collect dec (FromDone # sched) evs ((code, msg) # dones) assembled =
     (case event_callback code msg of Inl e \<Rightarrow> Some (Inl e) | Inr _ \<Rightarrow> Some (Inr assembled))"
| "collect dec _ _ _ assembled = None"

definition core_download ::
    "'w event_lib \<Rightarrow> (string \<Rightarrow> string + bytes) \<Rightarrow> branch list \<Rightarrow> string \<Rightarrow> 'w \<Rightarrow> (storage_error + bytes) exec option \<times> 'w" where
  "core_download L dec sched cid w =
     awaits (call_method L ''downloadChunks'' (params_json [(''cid'', cid, ''string''), (''local'', ''false'', ''bool'')])
               (pl_listen L STORAGE_PLUGIN ''storageDownloadDone'' (pl_listen L STORAGE_PLUGIN ''storageDownloadChunk'' w)))
       (\<lambda>_ w1. (map_option Returns
                  (collect dec sched (el_events L w1 ''storageDownloadChunk'') (el_events L w1 ''storageDownloadDone'') []), w1))"

section \<open>The embedded node\<close>

record storage_config =
  sc_log_level :: string
  sc_data_dir :: path
  sc_discovery_port :: "nat option"
  sc_quota :: "u64 option"
  sc_bootstrap :: "string list"

text \<open>
  The bindings and the files. \<open>'h\<close> is the handle of a node, \<open>lb_temp\<close> a new temporary file in a directory,
  \<open>lb_drop\<close> its removal.
\<close>

record ('h, 'w) storage_bindings =
  lb_create_dir_all :: "path \<Rightarrow> 'w \<Rightarrow> (string + unit) \<times> 'w"
  lb_new :: "storage_config \<Rightarrow> 'w \<Rightarrow> (string + 'h) \<times> 'w"
  lb_start :: "'h \<Rightarrow> 'w \<Rightarrow> (string + unit) \<times> 'w"
  lb_stop :: "'h \<Rightarrow> 'w \<Rightarrow> (string + unit) \<times> 'w"
  lb_destroy :: "'h \<Rightarrow> 'w \<Rightarrow> (string + unit) \<times> 'w"
  lb_spr :: "'h \<Rightarrow> 'w \<Rightarrow> string + string"
  lb_upload_file :: "'h \<Rightarrow> path \<Rightarrow> 'w \<Rightarrow> (string + string) \<times> 'w"
  lb_download_stream :: "'h \<Rightarrow> string \<Rightarrow> path \<Rightarrow> 'w \<Rightarrow> (string + unit) \<times> 'w"
  lb_temp :: "path \<Rightarrow> 'w \<Rightarrow> (string + path) \<times> 'w"
  lb_drop :: "path \<Rightarrow> 'w \<Rightarrow> 'w"
  lb_write :: "path \<Rightarrow> bytes \<Rightarrow> 'w \<Rightarrow> (string + unit) \<times> 'w"
  lb_read :: "path \<Rightarrow> 'w \<Rightarrow> string + bytes"
  lb_remove :: "path \<Rightarrow> 'w \<Rightarrow> 'w"

record 'h libstorage =
  ls_node :: 'h
  ls_scratch :: path

text \<open>An error of the bindings as \<open>StorageError::Http\<close> with a prefix.\<close>

definition http_error :: "string \<Rightarrow> string + 'a \<Rightarrow> storage_error + 'a" where
  "http_error what r = (case r of Inl e \<Rightarrow> Inl (SHttp (what @ e)) | Inr x \<Rightarrow> Inr x)"

definition libstorage_config :: "path \<Rightarrow> nat option \<Rightarrow> u64 option \<Rightarrow> string list \<Rightarrow> storage_config" where
  "libstorage_config data_dir discovery_port storage_quota bootstrap_nodes =
     \<lparr>sc_log_level = ''Warn'', sc_data_dir = data_dir, sc_discovery_port = discovery_port, sc_quota = storage_quota,
      sc_bootstrap = bootstrap_nodes\<rparr>"

definition libstorage_with_config ::
    "('h, 'w) storage_bindings \<Rightarrow> path \<Rightarrow> nat option \<Rightarrow> u64 option \<Rightarrow> string list \<Rightarrow> 'w \<Rightarrow> (storage_error + 'h libstorage) \<times> 'w" where
  "libstorage_with_config B data_dir discovery_port storage_quota bootstrap_nodes w =
     (let scratch = data_dir @ [''scratch''] in
      case lb_create_dir_all B scratch w of
        (Inl e, w1) \<Rightarrow> (Inl (SHttp e), w1)
      | (Inr _, w1) \<Rightarrow>
          (case lb_new B (libstorage_config data_dir discovery_port storage_quota bootstrap_nodes) w1 of
             (Inl e, w2) \<Rightarrow> (Inl (SHttp (''failed to create storage node: '' @ e)), w2)
           | (Inr nd, w2) \<Rightarrow>
               (case lb_start B nd w2 of
                  (Inl e, w3) \<Rightarrow> (Inl (SHttp (''failed to start storage node: '' @ e)), w3)
                | (Inr _, w3) \<Rightarrow> (Inr \<lparr>ls_node = nd, ls_scratch = scratch\<rparr>, w3))))"

definition libstorage_new :: "('h, 'w) storage_bindings \<Rightarrow> path \<Rightarrow> 'w \<Rightarrow> (storage_error + 'h libstorage) \<times> 'w" where
  "libstorage_new B data_dir w = libstorage_with_config B data_dir None None [] w"

definition libstorage_spr :: "('h, 'w) storage_bindings \<Rightarrow> 'h libstorage \<Rightarrow> 'w \<Rightarrow> storage_error + string" where
  "libstorage_spr B self w = http_error ''spr query failed: '' (lb_spr B (ls_node self) w)"

text \<open>\<open>refs\<close> is the number of references to the node: \<open>Arc::try_unwrap\<close> needs the only one.\<close>

definition libstorage_shutdown ::
    "('h, 'w) storage_bindings \<Rightarrow> nat \<Rightarrow> 'h libstorage \<Rightarrow> 'w \<Rightarrow> (storage_error + unit) \<times> 'w" where
  "libstorage_shutdown B refs self w =
     (if refs \<noteq> 1 then (Inl (SHttp ''cannot shutdown: other references to node exist''), w)
      else case lb_stop B (ls_node self) w of
             (Inl e, w1) \<Rightarrow> (Inl (SHttp (''failed to stop storage node: '' @ e)), w1)
           | (Inr _, w1) \<Rightarrow>
               (case lb_destroy B (ls_node self) w1 of
                  (Inl e, w2) \<Rightarrow> (Inl (SHttp (''failed to destroy storage node: '' @ e)), w2)
                | (Inr _, w2) \<Rightarrow> (Inr (), w2)))"

definition libstorage_upload ::
    "('h, 'w) storage_bindings \<Rightarrow> 'h libstorage \<Rightarrow> bytes \<Rightarrow> 'w \<Rightarrow> (storage_error + string) \<times> 'w" where
  "libstorage_upload B self data w =
     (case lb_temp B (ls_scratch self) w of
        (Inl e, w1) \<Rightarrow> (Inl (SHttp (''temp file creation failed: '' @ e)), w1)
      | (Inr tmp, w1) \<Rightarrow>
          (case lb_write B tmp data w1 of
             (Inl e, w2) \<Rightarrow> (Inl (SHttp (''temp file write failed: '' @ e)), lb_drop B tmp w2)
           | (Inr _, w2) \<Rightarrow>
               (case lb_upload_file B (ls_node self) tmp w2 of
                  (Inl e, w3) \<Rightarrow> (Inl (SHttp (''upload failed: '' @ e)), lb_drop B tmp w3)
                | (Inr cid, w3) \<Rightarrow> (Inr cid, lb_drop B tmp w3))))"

definition download_path :: "'h libstorage \<Rightarrow> string \<Rightarrow> path" where
  "download_path self cid = ls_scratch self @ [''dl-'' @ cid]"

definition libstorage_download ::
    "('h, 'w) storage_bindings \<Rightarrow> 'h libstorage \<Rightarrow> string \<Rightarrow> 'w \<Rightarrow> (storage_error + bytes) \<times> 'w" where
  "libstorage_download B self cid w =
     (case lb_download_stream B (ls_node self) cid (download_path self cid) w of
        (Inl e, w1) \<Rightarrow> (Inl (SHttp (''download failed: '' @ e)), w1)
      | (Inr _, w1) \<Rightarrow>
          (case lb_read B (download_path self cid) w1 of
             Inl e \<Rightarrow> (Inl (SHttp (''reading downloaded file failed: '' @ e)), w1)
           | Inr data \<Rightarrow> (Inr data, lb_remove B (download_path self cid) w1)))"

section \<open>The module keeps what was uploaded\<close>

text \<open>
  What the module documents: \<open>uploadInit\<close> opens an empty session, \<open>uploadChunk\<close> appends the bytes that the Base64
  text stands for unless it answers with an error of either shape, \<open>uploadFinalize\<close> names the session's
  bytes, and \<open>downloadFile\<close> writes the named bytes to the given file. \<open>sess\<close> and \<open>blob\<close> are the sessions and the
  blobs it holds.
\<close>

definition answers_error :: "json \<Rightarrow> bool" where
  "answers_error r \<longleftrightarrow> kind_error r \<noteq> None \<or> get_str ''error'' r \<noteq> None"

definition session_laws ::
    "'w module_env \<Rightarrow> (string \<Rightarrow> string + bytes) \<Rightarrow> ('w \<Rightarrow> string \<Rightarrow> bytes option) \<Rightarrow> ('w \<Rightarrow> string \<Rightarrow> bytes option) \<Rightarrow> bool" where
  "session_laws E dec sess blob \<longleftrightarrow>
     (\<forall>w r w' sid. module_call E ''uploadInit'' init_args SHORT_TIMEOUT_MS w = (Inr r, w') \<longrightarrow> extract_value r ''value'' = Inr sid
        \<longrightarrow> sess w' sid = Some [])
   \<and> (\<forall>w r w' sid b64 args bs d. js_to_string (me_json E) (JArr [JStr sid, JStr b64]) = Inr args \<longrightarrow> dec b64 = Inr bs
        \<longrightarrow> module_call E ''uploadChunk'' args SHORT_TIMEOUT_MS w = (Inr r, w') \<longrightarrow> \<not> answers_error r \<longrightarrow> sess w sid = Some d
        \<longrightarrow> sess w' sid = Some (d @ bs))
   \<and> (\<forall>w r w' sid args cid d. js_to_string (me_json E) (JArr [JStr sid]) = Inr args
        \<longrightarrow> module_call E ''uploadFinalize'' args SHORT_TIMEOUT_MS w = (Inr r, w') \<longrightarrow> extract_value r ''value'' = Inr cid
        \<longrightarrow> sess w sid = Some d \<longrightarrow> blob w' cid = Some d)"

definition download_laws :: "'w module_env \<Rightarrow> ('w \<Rightarrow> string \<Rightarrow> bytes option) \<Rightarrow> bool" where
  "download_laws E blob \<longleftrightarrow>
     (\<forall>w cid d. blob w cid = Some d \<longrightarrow>
        (\<exists>p w1 args r w2. me_temp E w = (Inr p, w1) \<and> js_to_string (me_json E) (JArr [JStr cid, JStr p, JBool False]) = Inr args
           \<and> module_call E ''downloadFile'' args LONG_TIMEOUT_MS w1 = (Inr r, w2) \<and> \<not> answers_error r \<and> me_read E p w2 = Inr d))"

text \<open>The module reports the failure of a chunk in the shape that the loop looks for.\<close>

definition chunk_errors_seen :: "'w module_env \<Rightarrow> bool" where
  "chunk_errors_seen E \<longleftrightarrow>
     (\<forall>w r w' args. module_call E ''uploadChunk'' args SHORT_TIMEOUT_MS w = (Inr r, w') \<longrightarrow> answers_error r \<longrightarrow> kind_error r \<noteq> None)"

lemma upload_chunks_appends:
  assumes "session_laws E dec sess blob" and "chunk_errors_seen E" and "\<forall>bs. dec (me_encode E bs) = Inr bs"
    and "upload_chunks E sid cs w = (Inr (), w')" and "sess w sid = Some d"
  shows "sess w' sid = Some (d @ concat cs)"
  using assms(4,5)
proof (induction cs arbitrary: w d)
  case (Cons c cs)
  then obtain args r w1 where chunk: "js_to_string (me_json E) (JArr [JStr sid, JStr (me_encode E c)]) = Inr args"
    "module_call E ''uploadChunk'' args SHORT_TIMEOUT_MS w = (Inr r, w1)" "kind_error r = None"
    and rest: "upload_chunks E sid cs w1 = (Inr (), w')"
    by (auto simp: module_args_def Let_def split: sum.splits prod.splits option.splits)
  have "\<not> answers_error r" using assms(2) chunk(2,3) unfolding chunk_errors_seen_def by blast
  then have "sess w1 sid = Some (d @ c)"
    using assms(1,3) chunk(1,2) Cons.prems(2) unfolding session_laws_def by blast
  from Cons.IH [OF rest this] show ?case by simp
qed simp

text \<open>
  C20. A chunked upload is whole. Whatever the size of the data, when an upload through the module of
  Basecamp has returned an identifier, a download of that identifier returns exactly the data uploaded:
  the chunks of 1 MiB, sent in Base64, add up to it. The module is assumed to keep its sessions, and to
  report a failed chunk in the shape the loop looks for.
\<close>

theorem module_upload_roundtrip:
  assumes laws: "session_laws E dec sess blob" "download_laws E blob" "chunk_errors_seen E" and base64: "\<forall>bs. dec (me_encode E bs) = Inr bs"
    and up: "module_upload E data w = (Inr cid, w')"
  shows "\<exists>w''. module_download E cid w' = (Inr data, w'')"
proof -
  obtain r w1 sid w2 fin r1 where init: "module_call E ''uploadInit'' init_args SHORT_TIMEOUT_MS w = (Inr r, w1)"
      "extract_value r ''value'' = Inr sid"
    and chunks: "upload_chunks E sid (data_chunks CHUNK_BYTES data) w1 = (Inr (), w2)"
    and fin: "js_to_string (me_json E) (JArr [JStr sid]) = Inr fin"
      "module_call E ''uploadFinalize'' fin SHORT_TIMEOUT_MS w2 = (Inr r1, w')" "extract_value r1 ''value'' = Inr cid"
    using up by (auto simp: module_upload_def module_args_def split: sum.splits prod.splits)
  have "sess w1 sid = Some []" using laws(1) init unfolding session_laws_def by blast
  from upload_chunks_appends [OF laws(1,3) base64 chunks this]
  have "sess w2 sid = Some data" by (simp add: concat_data_chunks CHUNK_BYTES_def)
  then have "blob w' cid = Some data" using laws(1) fin unfolding session_laws_def by blast
  then obtain p w3 args r2 w4 where "me_temp E w' = (Inr p, w3)" "js_to_string (me_json E) (JArr [JStr cid, JStr p, JBool False]) = Inr args"
    "module_call E ''downloadFile'' args LONG_TIMEOUT_MS w3 = (Inr r2, w4)" "\<not> answers_error r2" "me_read E p w4 = Inr data"
    using laws(2) unfolding download_laws_def by blast
  then show ?thesis by (simp add: module_download_def module_args_def answers_error_def)
qed

text \<open>A module with one session and one blob, and its last answer.\<close>

type_synonym module_world = "bytes option \<times> bytes option \<times> string"

definition example_module_call :: "string \<Rightarrow> string \<Rightarrow> string \<Rightarrow> int \<Rightarrow> module_world \<Rightarrow> nat \<times> module_world" where
  "example_module_call target meth args timeout w =
     (case w of (session, blob, answer) \<Rightarrow>
        (1, if meth = ''uploadInit'' then (Some [], blob, ''s1'')
            else if meth = ''uploadChunk'' then (map_option (\<lambda>d. d @ base64_decode args) session, blob, ''ok'')
            else if meth = ''uploadFinalize'' then (session, session, ''zCid'')
            else (session, blob, ''ok'')))"

fun example_args :: "json \<Rightarrow> string + string" where
  "example_args (JArr [JStr sid]) = Inr sid"
| "example_args (JArr (JStr a # JStr b # _)) = Inr b"
| "example_args _ = Inl ''unsupported''"

definition example_module :: "module_world module_env" where
  "example_module =
     \<lparr>me_shim = \<lparr>sl_real = True, sl_new = (\<lambda>_ w. (1, w)), sl_call = example_module_call, sl_listen = (\<lambda>_ _ w. (1, w)),
        sl_poll = (\<lambda>_ w. (0, w)), sl_str = (\<lambda>w _. as_bytes (snd (snd w))), sl_free = (\<lambda>_ w. w), sl_destroy = (\<lambda>_ w. w)\<rparr>,
      me_json = \<lparr>js_from_str = (\<lambda>s. Inr (JObj [(''value'', JStr s)])), js_to_string = example_args\<rparr>,
      me_encode = base64_encode, me_temp = (\<lambda>w. (Inr ''t'', w)), me_drop = (\<lambda>_ w. w),
      me_read = (\<lambda>_ w. case fst (snd w) of Some d \<Rightarrow> Inr d | None \<Rightarrow> Inl ''none'')\<rparr>"

lemma example_module_simps [simp]:
  "me_encode example_module = base64_encode" "me_temp example_module w = (Inr ''t'', w)"
  "js_to_string (me_json example_module) = example_args"
  "me_read example_module p w = (case fst (snd w) of Some d \<Rightarrow> Inr d | None \<Rightarrow> Inl ''none'')"
  by (simp_all add: example_module_def)

lemma example_answers: "valid_utf8 (as_bytes ''s1'')" "valid_utf8 (as_bytes ''zCid'')" "valid_utf8 (as_bytes ''ok'')"
  by code_simp+

lemma example_module_answer: "valid_utf8 (as_bytes (snd (snd (snd (example_module_call m meth args t w)))))"
  using example_answers by (simp add: example_module_call_def del: valid_utf8.simps split: prod.split)

lemma example_module_called:
  assumes "\<not> has_nul meth"
  shows "module_call example_module meth args t w =
    (if has_nul args then (Inl (SHttp (''storage_module call '' @ meth @ '': '' @ show_shim_error (NulInArg ''args_json''))), w)
     else (Inr (JObj [(''value'', JStr (snd (snd (snd (example_module_call [] meth args t w)))))]), snd (example_module_call [] meth args t w)))"
proof -
  have "\<not> has_nul ''storage_module''" by (simp add: has_nul_def)
  moreover have "sl_call (me_shim example_module) m meth args t w = (1, snd (example_module_call [] meth args t w))" for m
    by (simp add: example_module_def example_module_call_def split: prod.split)
  moreover have "take_str (me_shim example_module) 1 v = (Inr (snd (snd v)), v)"
    if "v = snd (example_module_call [] meth args t w)" for v
    using that example_module_answer by (simp add: take_str_def example_module_def del: valid_utf8.simps)
  moreover have "sl_real (me_shim example_module)" "js_from_str (me_json example_module) a = Inr (JObj [(''value'', JStr a)])" for a
    by (simp_all add: example_module_def)
  ultimately show ?thesis using assms by (simp add: module_call_def shim_call_def)
qed

lemma method_names: "\<not> has_nul ''uploadInit''" "\<not> has_nul ''uploadChunk''" "\<not> has_nul ''uploadFinalize''" "\<not> has_nul ''downloadFile''"
  by (simp_all add: has_nul_def)

lemma example_module_ok:
  "session_laws example_module (\<lambda>s. Inr (base64_decode s)) (\<lambda>w _. fst w) (\<lambda>w _. fst (snd w))"
  "download_laws example_module (\<lambda>w _. fst (snd w))" "chunk_errors_seen example_module"
  by (auto simp: session_laws_def download_laws_def chunk_errors_seen_def example_module_called example_module_call_def
      answers_error_def kind_error_def method_names init_args_def has_nul_def json_quoted_def split: if_splits prod.splits)

theorem module_upload_roundtrip_witness:
  "\<exists>w''. module_download example_module ''zCid'' (Some [104, 105], Some [104, 105], ''zCid'') = (Inr [104, 105], w'')"
proof -
  have chunk: "data_chunks CHUNK_BYTES [104, 105 :: u8] = [[104, 105]]"
    by (simp add: data_chunks_short CHUNK_BYTES_def)
  have b64: "base64_encode [104, 105] = ''aGk=''" by code_simp
  have dec: "base64_decode ''aGk='' = [104, 105]" using base64_decode_encode [of "[104, 105]"] unfolding b64 .
  have nuls: "\<not> has_nul init_args" "\<not> has_nul ''aGk=''" "\<not> has_nul ''s1''"
    using show_nat_no_nul [of CHUNK_BYTES] by (simp_all add: has_nul_def init_args_def json_quoted_def)
  have "module_upload example_module [104, 105] (None, None, []) = (Inr ''zCid'', (Some [104, 105], Some [104, 105], ''zCid''))"
    unfolding module_upload_def chunk using nuls
    by (simp add: example_module_called example_module_call_def extract_value_def kind_error_def module_args_def b64 dec
        method_names del: base64_encode.simps)
  from module_upload_roundtrip [OF example_module_ok _ this] show ?thesis by (simp add: base64_decode_encode del: base64_encode.simps)
qed

text \<open>
  A chunk that the module refuses with \<open>{"error": ...}\<close> is taken for stored: the upload goes on and
  returns the identifier of whatever the module has.
\<close>

lemma module_upload_ignores_error:
  assumes "module_call E ''uploadInit'' init_args SHORT_TIMEOUT_MS w = (Inr r0, w1)" "extract_value r0 ''value'' = Inr sid"
    and "\<And>c. \<exists>args. js_to_string (me_json E) (JArr [JStr sid, JStr (me_encode E c)]) = Inr args
           \<and> module_call E ''uploadChunk'' args SHORT_TIMEOUT_MS w1 = (Inr (JObj [(''error'', JStr msg)]), w1)"
    and "js_to_string (me_json E) (JArr [JStr sid]) = Inr fin"
      "module_call E ''uploadFinalize'' fin SHORT_TIMEOUT_MS w1 = (Inr r1, w2)" "extract_value r1 ''value'' = Inr cid"
  shows "module_upload E data w = (Inr cid, w2)"
proof -
  have "upload_chunks E sid cs w1 = (Inr (), w1)" for cs
  proof (induction cs)
    case (Cons c cs)
    then show ?case using assms(3) [of c] by (auto simp: module_args_def kind_error_def)
  qed simp
  then show ?thesis using assms by (simp add: module_upload_def module_args_def)
qed

text \<open>Likewise a failed download that answers in this shape returns what is in the empty file.\<close>

lemma module_download_ignores_error:
  assumes "me_temp E w = (Inr p, w1)" "js_to_string (me_json E) (JArr [JStr cid, JStr p, JBool False]) = Inr args"
    and "module_call E ''downloadFile'' args LONG_TIMEOUT_MS w1 = (Inr (JObj [(''error'', JStr msg)]), w2)" "me_read E p w2 = Inr []"
  shows "module_download E cid w = (Inr [], me_drop E p w2)"
  using assms by (simp add: module_download_def module_args_def kind_error_def)

section \<open>The plugin and its events\<close>

text \<open>The two callbacks of one C function read its result code in opposite ways: what one takes for success is an error to the other.\<close>

lemma result_codes_disagree: "isl (plugin_outcome code msg) \<or> isl (method_callback code msg)"
  by (simp add: plugin_outcome_def method_callback_def)

lemma collect_chunks:
  assumes "list_all2 (\<lambda>ev bs. \<exists>t. event_callback (fst ev) (snd ev) = Inr t \<and> dec t = Inr bs) evs parts"
    and "event_callback dcode dmsg = Inr d"
  shows "collect dec (replicate (length evs) FromChunks @ FromDone # sched) (evs @ late) ((dcode, dmsg) # dones) acc
    = Some (Inr (acc @ concat parts))"
  using assms(1)
proof (induction evs parts arbitrary: acc rule: list_all2_induct)
  case (Cons ev evs bs parts)
  then show ?case by (cases ev) auto
qed (use assms(2) in simp)

text \<open>
  C39. A download through the plugin of Logos Core returns the chunks that the loop has taken when it takes
  the end event, and reports success however many are still in the channel: all the data for a schedule
  that takes every chunk first, a proper prefix for the schedules that \<open>tokio::select!\<close>, which chooses
  at random among the channels that have an event, may follow as well.
\<close>

theorem core_download_prefix:
  assumes "call_method L ''downloadChunks'' (params_json [(''cid'', cid, ''string''), (''local'', ''false'', ''bool'')])
      (pl_listen L STORAGE_PLUGIN ''storageDownloadDone'' (pl_listen L STORAGE_PLUGIN ''storageDownloadChunk'' w)) = (Some (Returns (Inr s)), w1)"
    and "list_all2 (\<lambda>ev bs. \<exists>t. event_callback (fst ev) (snd ev) = Inr t \<and> dec t = Inr bs) (el_events L w1 ''storageDownloadChunk'') parts"
    and "el_events L w1 ''storageDownloadDone'' = (dcode, dmsg) # dones" "event_callback dcode dmsg = Inr d"
    and "k \<le> length parts"
  shows "core_download L dec (replicate k FromChunks @ FromDone # sched) cid w
    = (Some (Returns (Inr (concat (take k parts)))), w1)"
proof -
  let ?evs = "el_events L w1 ''storageDownloadChunk''"
  have len: "length ?evs = length parts" using assms(2) by (rule list_all2_lengthD)
  have "list_all2 (\<lambda>ev bs. \<exists>t. event_callback (fst ev) (snd ev) = Inr t \<and> dec t = Inr bs) (take k ?evs) (take k parts)"
    using assms(2) by (rule list_all2_takeI)
  from collect_chunks [OF this assms(4), of sched "drop k ?evs" dones "[]"]
  show ?thesis using assms(1,3,5) len by (simp add: core_download_def awaits_def)
qed

text \<open>A download of two chunks, of which the second can be missed.\<close>

definition example_events :: "unit event_lib" where
  "example_events =
     \<lparr>pl_call = (\<lambda>_ _ _ w. (Some (0, None), w)), pl_listen = (\<lambda>_ _ w. w),
      el_events = (\<lambda>_ e. if e = ''storageDownloadChunk'' then [(0, Some [97]), (0, Some [98])] else [(0, None)])\<rparr>"

theorem core_download_prefix_witness:
  "core_download example_events (\<lambda>s. Inr (as_bytes s)) [FromChunks, FromChunks, FromDone] ''z'' ()
     = (Some (Returns (Inr [97, 98])), ())
   \<and> core_download example_events (\<lambda>s. Inr (as_bytes s)) [FromChunks, FromDone] ''z'' () = (Some (Returns (Inr [97])), ())"
proof -
  let ?evs = "[(0, Some [97]), (0, Some [98])] :: (int \<times> bytes option) list"
  have called: "call_method example_events ''downloadChunks'' (params_json [(''cid'', ''z'', ''string''), (''local'', ''false'', ''bool'')])
      (pl_listen example_events STORAGE_PLUGIN ''storageDownloadDone'' (pl_listen example_events STORAGE_PLUGIN ''storageDownloadChunk'' ()))
    = (Some (Returns (Inr [])), ())"
    by (simp add: call_method_def example_events_def has_nul_def params_json_def param_entry_def json_quoted_def method_callback_def c_text_def)
  have "from_utf8_lossy [97] = ''a''" "from_utf8_lossy [98] = ''b''" by code_simp+
  then have events: "list_all2 (\<lambda>ev bs. \<exists>t. event_callback (fst ev) (snd ev) = Inr t \<and> Inr (as_bytes t) = (Inr bs :: string + bytes))
      (el_events example_events () ''storageDownloadChunk'') [[97], [98]]"
    by (simp add: example_events_def event_callback_def c_text_def as_bytes_def)
  have ended: "el_events example_events () ''storageDownloadDone'' = [(0, None)]" "event_callback 0 None = Inr []"
    by (simp_all add: example_events_def event_callback_def c_text_def)
  show ?thesis
    using core_download_prefix [OF called events ended, of 2 "[]"] core_download_prefix [OF called events ended, of 1 "[]"]
    by (simp add: numeral_2_eq_2)
qed

section \<open>The embedded node keeps what was uploaded\<close>

text \<open>
  The bindings: an uploaded file is held under its identifier, whatever happens to the file later; a download
  writes what is held to the given path.
\<close>

definition bindings_ok :: "('h, 'w) storage_bindings \<Rightarrow> 'h \<Rightarrow> ('w \<Rightarrow> string \<Rightarrow> bytes option) \<Rightarrow> bool" where
  "bindings_ok B nd held \<longleftrightarrow>
     (\<forall>w p data w1. lb_write B p data w = (Inr (), w1) \<longrightarrow> lb_read B p w1 = Inr data)
   \<and> (\<forall>w p data cid w1. lb_read B p w = Inr data \<longrightarrow> lb_upload_file B nd p w = (Inr cid, w1) \<longrightarrow> held w1 cid = Some data)
   \<and> (\<forall>w p. held (lb_drop B p w) = held w)
   \<and> (\<forall>w cid data p. held w cid = Some data \<longrightarrow> (\<exists>w1. lb_download_stream B nd cid p w = (Inr (), w1) \<and> lb_read B p w1 = Inr data))"

lemma libstorage_roundtrip:
  assumes "bindings_ok B (ls_node self) held" and "libstorage_upload B self data w = (Inr cid, w')"
  shows "\<exists>w''. libstorage_download B self cid w' = (Inr data, lb_remove B (download_path self cid) w'')"
proof -
  obtain tmp w1 w2 w3 where "lb_write B tmp data w1 = (Inr (), w2)" "lb_upload_file B (ls_node self) tmp w2 = (Inr cid, w3)"
    and w': "w' = lb_drop B tmp w3"
    using assms(2) by (auto simp: libstorage_upload_def split: prod.splits sum.splits)
  then have "held w' cid = Some data" using assms(1) unfolding bindings_ok_def by metis
  then obtain w4 where "lb_download_stream B (ls_node self) cid (download_path self cid) w' = (Inr (), w4)"
    "lb_read B (download_path self cid) w4 = Inr data"
    using assms(1) unfolding bindings_ok_def by blast
  then show ?thesis by (auto simp: libstorage_download_def)
qed

text \<open>Hence a node on either backend has the storage that offloaded payloads rely on.\<close>

lemma libstorage_storage_ok:
  assumes "bindings_ok B (ls_node self) held" "ne_upload N = (\<lambda>data w. shown (libstorage_upload B self data w))"
    "ne_download N = (\<lambda>cid w. shown (libstorage_download B self cid w))"
  shows "storage_ok N"
  by (rule shown_storage_ok [OF _ assms(2,3)]) (use libstorage_roundtrip [OF assms(1)] in blast)

end
