(* ===== verification/Cli_Main.thy ===== *)
theory Cli_Main
  imports Cli_Presence Logos_Delivery Logos_Storage
begin

text \<open>
  The entry of the command line (\<open>crates/logos-messaging-a2a-cli/src/main.rs\<close>, \<open>cli.rs\<close>, \<open>shim.rs\<close>): which transport and which
  storage a command gets, and the commands \<open>info\<close>, \<open>daemon\<close>, \<open>health\<close> and \<open>metrics\<close>
  (\<open>info.rs\<close>, \<open>daemon_cmd.rs\<close>, \<open>health.rs\<close>, \<open>metrics.rs\<close>). All the Cargo features are enabled. The parsing of the
  arguments, HTTP and the connection to the daemon are parameters.
\<close>

section \<open>Flags\<close>

datatype transport_kind = TkLogosDelivery | TkRest | TkDeliveryModule

datatype storage_kind = SkNone | SkLibstorage | SkStorageModule

record cli_flags =
  fl_transport :: transport_kind
  fl_waku :: string
  fl_preset :: string
  fl_tcp_port :: nat
  fl_udp_port :: nat
  fl_entry_nodes :: "string list"
  fl_storage :: storage_kind
  fl_storage_data_dir :: "path option"
  fl_storage_port :: nat
  fl_storage_bootstrap :: "string list"
  fl_delivery_module_cfg :: "string option"
  fl_keyfile :: "path option"
  fl_encrypt :: bool
  fl_json :: bool

datatype daemon_action = DaemonStatus | DaemonStop

datatype command =
    CmdAgent
  | CmdTask task_action
  | CmdPresence presence_action
  | CmdSession session_action
  | CmdHealth
  | CmdMetrics
  | CmdCompletion
  | CmdInfo
  | CmdStorage
  | CmdDaemon daemon_action
  | CmdTrust

definition flags_identity :: "cli_flags \<Rightarrow> identity_config" where
  "flags_identity fl = \<lparr>ic_keyfile = fl_keyfile fl, ic_encrypt = fl_encrypt fl\<rparr>"

section \<open>The shim\<close>

definition cli_needs_shim :: "cli_flags \<Rightarrow> bool" where
  "cli_needs_shim fl \<longleftrightarrow> fl_transport fl = TkDeliveryModule \<or> fl_storage fl = SkStorageModule"

definition shim_build :: "'w shim_lib \<Rightarrow> 'w \<Rightarrow> (string + nat) \<times> 'w" where
  "shim_build L w =
     (if \<not> sl_real L then
        (Inl (''shim backend requested but '' @ quoted (CHR 0x60) ''logos-core-bindings'' @ '' was built in stub mode '' @ em_dash
           @ '' rebuild this crate with '' @ quoted (CHR 0x60) ''LOGOS_CPP_SDK_DIR'' @ '' pointing at a logos-cpp-sdk checkout''), w)
      else case shim_new L ''lmao-cli'' w of
             (Inl _, w1) \<Rightarrow> (Inl (''failed to construct LogosAPI shim '' @ em_dash @ '' is logos-core / Basecamp running?''), w1)
           | (Inr h, w1) \<Rightarrow> (Inr h, w1))"

section \<open>The transport\<close>

text \<open>What is constructed: an embedded node, the REST client, the delivery module, or the in-memory placeholder.\<close>

datatype transport_plan = PlanEmbedded node_config | PlanRest string | PlanModule string | PlanPlaceholder

definition embedded_config :: "string option \<Rightarrow> cli_flags \<Rightarrow> node_config" where
  "embedded_config log_level_var fl =
     logos_dev\<lparr>nc_preset := Some (fl_preset fl),
       nc_tcp_port := (if fl_tcp_port fl \<noteq> 0 then Some (fl_tcp_port fl) else None),
       nc_discv5_udp_port := (if fl_udp_port fl \<noteq> 0 then Some (fl_udp_port fl) else None),
       nc_entry_nodes := (if fl_entry_nodes fl \<noteq> [] then fl_entry_nodes fl else []),
       nc_log_level := Some (case log_level_var of Some v \<Rightarrow> v | None \<Rightarrow> ''WARN'')\<rparr>"

text \<open>\<open>J\<close> and \<open>show\<close> are \<open>serde_json\<close>'s, \<open>debug\<close> the \<open>Debug\<close> of a list of strings.\<close>

definition cfg_from_preset ::
    "'w shim_lib \<Rightarrow> json_lib \<Rightarrow> (json \<Rightarrow> string) \<Rightarrow> (string list \<Rightarrow> string) \<Rightarrow> string \<Rightarrow> 'w \<Rightarrow> (string + string) \<times> 'w" where
  "cfg_from_preset L J show_value debug preset w =
     (case shim_call L DELIVERY_MODULE ''getAvailableConfigs'' ''[]'' 60000 w of
        (Inl e, w1) \<Rightarrow> (Inl (''delivery_module getAvailableConfigs: '' @ show_shim_error e), w1)
      | (Inr raw, w1) \<Rightarrow>
          (case js_from_str J raw of
             Inl e \<Rightarrow> (Inl (''getAvailableConfigs returned non-JSON: '' @ raw @ '': '' @ e), w1)
           | Inr m \<Rightarrow>
               (case get_str ''error'' m of
                  Some err \<Rightarrow> (Inl (''delivery_module getAvailableConfigs: '' @ err), w1)
                | None \<Rightarrow>
                    (case kind_error m of
                       Some msg \<Rightarrow> (Inl (''delivery_module getAvailableConfigs: '' @ msg), w1)
                     | None \<Rightarrow>
                         let catalog = (case json_get ''value'' m of Some v \<Rightarrow> v | None \<Rightarrow> m) in
                         (case json_get preset catalog of
                            Some (JStr s) \<Rightarrow> (Inr s, w1)
                          | Some other \<Rightarrow> (Inr (show_value other), w1)
                          | None \<Rightarrow>
                              let presets = (case catalog of JObj members \<Rightarrow> map fst members | _ \<Rightarrow> [])
                              in (Inl (''preset '' @ quoted (CHR 0x60) preset @ '' not in delivery_module catalog (available: '' @ debug presets
                                    @ ''). Override with --delivery-module-cfg <json>.''), w1))))))"

text \<open>
  What \<open>main.rs\<close> is built with: the shim, \<open>serde_json\<close>, the environment variable of the log level, and the
  constructors \<open>LogosDeliveryTransport::new\<close>, \<open>DeliveryModuleTransport::new\<close> and \<open>LibstorageBackend::with_config\<close>, of
  which only the error matters here.
\<close>

record 'w main_env =
  mn_shim :: "'w shim_lib"
  mn_json :: json_lib
  mn_show :: "json \<Rightarrow> string"
  mn_debug :: "string list \<Rightarrow> string"
  mn_log_level :: "string option"
  mn_temp_dir :: path
  mn_pid :: nat
  mn_embedded :: "node_config \<Rightarrow> 'w \<Rightarrow> (string + unit) \<times> 'w"
  mn_module :: "string \<Rightarrow> 'w \<Rightarrow> (string + unit) \<times> 'w"
  mn_libstorage :: "path \<Rightarrow> nat option \<Rightarrow> string list \<Rightarrow> 'w \<Rightarrow> (string + unit) \<times> 'w"

definition started :: "(string + unit) \<times> 'w \<Rightarrow> (string \<Rightarrow> string) \<Rightarrow> 'p \<Rightarrow> (string + 'p) \<times> 'w" where
  "started r context plan = (case r of (Inl e, w) \<Rightarrow> (Inl (context e), w) | (Inr _, w) \<Rightarrow> (Inr plan, w))"

text \<open>\<open>shim\<close> is whether there is a shim.\<close>

definition build_transport :: "'w main_env \<Rightarrow> cli_flags \<Rightarrow> bool \<Rightarrow> 'w \<Rightarrow> (string + transport_plan) \<times> 'w" where
  "build_transport M fl shim w =
     (case fl_transport fl of
        TkLogosDelivery \<Rightarrow>
          let config = embedded_config (mn_log_level M) fl
          in started (mn_embedded M config w) (\<lambda>e. e) (PlanEmbedded config)
      | TkRest \<Rightarrow> (Inr (PlanRest (fl_waku fl)), w)
      | TkDeliveryModule \<Rightarrow>
          if \<not> shim then (Inl ''--transport delivery-module requires the shim to be available'', w)
          else
            (case (case fl_delivery_module_cfg fl of
                     Some c \<Rightarrow> (Inr c, w)
                   | None \<Rightarrow> cfg_from_preset (mn_shim M) (mn_json M) (mn_show M) (mn_debug M) (fl_preset fl) w) of
               (Inl e, w1) \<Rightarrow> (Inl e, w1)
             | (Inr c, w1) \<Rightarrow> started (mn_module M c w1) (\<lambda>e. ''delivery_module transport: '' @ e) (PlanModule c)))"

section \<open>The storage\<close>

datatype storage_plan = PlanNoStorage | PlanLibstorage path "nat option" "string list" | PlanStorageModule

text \<open>The directory, when none was given, is the process's own. The record of the node, which is printed, is left out.\<close>

definition build_storage :: "'w main_env \<Rightarrow> cli_flags \<Rightarrow> bool \<Rightarrow> 'w \<Rightarrow> (string + storage_plan) \<times> 'w" where
  "build_storage M fl shim w =
     (case fl_storage fl of
        SkNone \<Rightarrow> (Inr PlanNoStorage, w)
      | SkLibstorage \<Rightarrow>
          let data_dir = (case fl_storage_data_dir fl of Some p \<Rightarrow> p | None \<Rightarrow> mn_temp_dir M @ [''lmao-storage-'' @ show_nat (mn_pid M)]);
              port = (if fl_storage_port fl = 0 then None else Some (fl_storage_port fl))
          in started (mn_libstorage M data_dir port (fl_storage_bootstrap fl) w) (\<lambda>e. e) (PlanLibstorage data_dir port (fl_storage_bootstrap fl))
      | SkStorageModule \<Rightarrow>
          if shim then (Inr PlanStorageModule, w) else (Inl ''--storage storage-module requires the shim to be available'', w))"

section \<open>Main\<close>

text \<open>
  Commands that go to the daemon or a file need no transport; the others get one, which is the placeholder for
  the task and presence commands when a daemon listens.
\<close>

datatype route = Direct command | Backed command transport_plan storage_plan

definition daemon_can_handle :: "command \<Rightarrow> bool \<Rightarrow> bool" where
  "daemon_can_handle cmd up =
     (case cmd of CmdTask _ \<Rightarrow> up | CmdPresence _ \<Rightarrow> up | _ \<Rightarrow> False)"

definition direct_command :: "command \<Rightarrow> bool" where
  "direct_command cmd =
     (case cmd of CmdInfo \<Rightarrow> True | CmdStorage \<Rightarrow> True | CmdDaemon _ \<Rightarrow> True | CmdTrust \<Rightarrow> True | _ \<Rightarrow> False)"

definition main_route :: "'w main_env \<Rightarrow> cli_flags \<Rightarrow> command \<Rightarrow> bool \<Rightarrow> 'w \<Rightarrow> (string + route) \<times> 'w" where
  "main_route M fl cmd up w =
     (if direct_command cmd then (Inr (Direct cmd), w)
      else if daemon_can_handle cmd up then (Inr (Backed cmd PlanPlaceholder PlanNoStorage), w)
      else
        (case (if cli_needs_shim fl then (case shim_build (mn_shim M) w of (Inl e, w1) \<Rightarrow> (Inl e, w1) | (Inr _, w1) \<Rightarrow> (Inr True, w1))
               else (Inr False, w)) of
           (Inl e, w1) \<Rightarrow> (Inl e, w1)
         | (Inr shim, w1) \<Rightarrow>
             (case build_transport M fl shim w1 of
                (Inl e, w2) \<Rightarrow> (Inl e, w2)
              | (Inr tr, w2) \<Rightarrow>
                  (case build_storage M fl shim w2 of
                     (Inl e, w3) \<Rightarrow> (Inl e, w3)
                   | (Inr st, w3) \<Rightarrow> (Inr (Backed cmd tr st), w3)))))"

section \<open>Information and the daemon\<close>

datatype info_report = InfoFromDaemon response | InfoOwn string string bool

definition print_via_daemon :: "(response \<Rightarrow> string) \<Rightarrow> (request \<Rightarrow> string + response) \<Rightarrow> string + info_report" where
  "print_via_daemon debug ask =
     (case ask ReqInfo of
        Inl e \<Rightarrow> Inl e
      | Inr (RespInfo a b c d e f g h) \<Rightarrow> Inr (InfoFromDaemon (RespInfo a b c d e f g h))
      | Inr resp \<Rightarrow> Inl (''unexpected response variant from daemon: '' @ debug resp))"

text \<open>The fallback builds the transport without a shim, and a node on it.\<close>

definition print_via_ephemeral ::
    "'v main_env \<Rightarrow> cli_flags \<Rightarrow> 'v \<Rightarrow> ('bf, 'tr, 'rx, 'c, 'w, 'sk, 'vk, 'sig) task_env \<Rightarrow> 'w \<Rightarrow> string + info_report" where
  "print_via_ephemeral M fl v T w =
     (case fst (build_transport M fl False v) of
        Inl e \<Rightarrow> Inl e
      | Inr _ \<Rightarrow>
          (case fst (cli_node T ''info'' ''info command'' w) of
             Inl e \<Rightarrow> Inl e
           | Inr self \<Rightarrow>
               Inr (InfoOwn (pubkey self) (task_topic (pubkey self))
                 (ic_encrypt (tk_identity T) \<or> card_intro_bundle (nd_card self) \<noteq> None))))"

definition info_command ::
    "'v main_env \<Rightarrow> cli_flags \<Rightarrow> 'v \<Rightarrow> ('bf, 'tr, 'rx, 'c, 'w, 'sk, 'vk, 'sig) task_env \<Rightarrow> 'w \<Rightarrow> string + info_report" where
  "info_command M fl v T w =
     (if probe (tk_socket T) then print_via_daemon (tk_debug T) (tk_ask T) else print_via_ephemeral M fl v T w)"

datatype daemon_report = NotRunning path | Running response | NothingToStop path | Stopped path

definition daemon_command ::
    "(response \<Rightarrow> string) \<Rightarrow> string + conn \<Rightarrow> (request \<Rightarrow> string + response) \<Rightarrow> path \<Rightarrow> daemon_action \<Rightarrow> string + daemon_report" where
  "daemon_command debug socket ask socket_path action =
     (case action of
        DaemonStatus \<Rightarrow>
          if \<not> probe socket then Inr (NotRunning socket_path)
          else (case ask ReqInfo of
                  Inl e \<Rightarrow> Inl e
                | Inr (RespInfo a b c d e f g h) \<Rightarrow> Inr (Running (RespInfo a b c d e f g h))
                | Inr resp \<Rightarrow> Inl (''unexpected daemon response: '' @ debug resp))
      | DaemonStop \<Rightarrow>
          if \<not> probe socket then Inr (NothingToStop socket_path)
          else (case ask ReqShutdown of
                  Inl e \<Rightarrow> Inl e
                | Inr RespShutdownAck \<Rightarrow> Inr (Stopped socket_path)
                | Inr (RespError message) \<Rightarrow> Inl (''daemon error: '' @ message)
                | Inr other \<Rightarrow> Inl (''unexpected daemon response: '' @ debug other)))"

section \<open>Health and metrics\<close>

text \<open>A response of the node: its status and body; the parsers read a body as JSON of the given type.\<close>

record health_http =
  hh_get :: "string \<Rightarrow> string + nat \<times> string"
  hh_info :: "string \<Rightarrow> (string option \<times> string list option) option"
  hh_subs :: "string \<Rightarrow> string list option"
  hh_peers :: "string \<Rightarrow> nat option"

datatype health_report =
    HealthError string string
  | HealthReport bool string "string option" "string list option" "string list option" "nat option"

definition ok_body :: "string + nat \<times> string \<Rightarrow> string option" where
  "ok_body r = (case r of Inr (status, body) \<Rightarrow> if is_success status then Some body else None | Inl _ \<Rightarrow> None)"

definition health_command :: "health_http \<Rightarrow> string \<Rightarrow> health_report" where
  "health_command H waku_url =
     (let base = trim_end_matches (CHR ''/'') waku_url in
      case hh_get H (base @ ''/debug/v1/info'') of
        Inl e \<Rightarrow> HealthError base e
      | Inr resp \<Rightarrow>
          let info = map_option (\<lambda>body. case hh_info H body of Some i \<Rightarrow> i | None \<Rightarrow> (None, None)) (ok_body (Inr resp));
              subs = Option.bind (ok_body (hh_get H (base @ ''/relay/v1/subscriptions''))) (hh_subs H);
              peers = Option.bind (ok_body (hh_get H (base @ ''/admin/v1/peers''))) (hh_peers H)
          in HealthReport (info \<noteq> None) base (Option.bind info fst) (Option.bind info snd) subs peers)"

definition snapshot :: "metrics \<Rightarrow> metrics" where
  "snapshot m = \<lparr>tasks_sent = tasks_sent m, tasks_received = tasks_received m, tasks_failed = tasks_failed m,
     messages_published = messages_published m, messages_received = messages_received m, discoveries = discoveries m,
     announcements_sent = announcements_sent m, peers_discovered = peers_discovered m, encryptions = encryptions m,
     decryptions = decryptions m, sessions_created = sessions_created m, delegations_sent = delegations_sent m,
     stream_chunks_sent = stream_chunks_sent m, stream_chunks_received = stream_chunks_received m,
     retry_attempts = retry_attempts m, retries_exhausted = retries_exhausted m, responses_sent = responses_sent m,
     tasks_dropped_untrusted = tasks_dropped_untrusted m\<rparr>"

definition metrics_command ::
    "('bf, 'tr, 'rx, 'c, 'w, 'sk, 'vk, 'sig) task_env \<Rightarrow> 'w \<Rightarrow> string + metrics" where
  "metrics_command T w =
     (case fst (cli_node T ''metrics'' ''metrics probe'' w) of Inl e \<Rightarrow> Inl e | Inr self \<Rightarrow> Inr (snapshot (nd_metrics self)))"

section \<open>The plan follows the flags\<close>

fun transport_of_kind :: "transport_kind \<Rightarrow> transport_plan \<Rightarrow> bool" where
  "transport_of_kind TkLogosDelivery p = (case p of PlanEmbedded _ \<Rightarrow> True | _ \<Rightarrow> False)"
| "transport_of_kind TkRest p = (case p of PlanRest _ \<Rightarrow> True | _ \<Rightarrow> False)"
| "transport_of_kind TkDeliveryModule p = (case p of PlanModule _ \<Rightarrow> True | _ \<Rightarrow> False)"

fun storage_of_kind :: "storage_kind \<Rightarrow> storage_plan \<Rightarrow> bool" where
  "storage_of_kind SkNone p = (p = PlanNoStorage)"
| "storage_of_kind SkLibstorage p = (case p of PlanLibstorage _ _ _ \<Rightarrow> True | _ \<Rightarrow> False)"
| "storage_of_kind SkStorageModule p = (p = PlanStorageModule)"

lemma started_plan: "started r context plan = (Inr p, w) \<Longrightarrow> p = plan"
  by (simp add: started_def split: prod.splits sum.splits)

lemma build_transport_kind:
  "build_transport M fl shim w = (Inr tr, w') \<Longrightarrow> transport_of_kind (fl_transport fl) tr"
  by (cases "fl_transport fl")
     (auto simp: build_transport_def Let_def dest!: started_plan split: if_splits option.splits prod.splits sum.splits)

lemma build_storage_kind:
  "build_storage M fl shim w = (Inr st, w') \<Longrightarrow> storage_of_kind (fl_storage fl) st"
  by (cases "fl_storage fl") (auto simp: build_storage_def Let_def dest!: started_plan split: if_splits)

lemma main_route_plan:
  assumes "main_route M fl cmd up w = (Inr (Backed cmd' tr st), w')" and "\<not> daemon_can_handle cmd up"
  shows "cmd' = cmd" "\<not> direct_command cmd" "transport_of_kind (fl_transport fl) tr" "storage_of_kind (fl_storage fl) st"
  using assms
  by (auto simp: main_route_def build_transport_kind build_storage_kind split: if_splits prod.splits sum.splits)

text \<open>Without a backend that needs it, the shim is never called: the outcome is the same with any other.\<close>

lemma main_route_no_shim:
  assumes "\<not> cli_needs_shim fl"
  shows "main_route (M\<lparr>mn_shim := L\<rparr>) fl cmd up w = main_route M fl cmd up w"
proof -
  have "build_transport (M\<lparr>mn_shim := L\<rparr>) fl shim w = build_transport M fl shim w" for shim w
    using assms by (cases "fl_transport fl") (simp_all add: build_transport_def cli_needs_shim_def)
  moreover have "build_storage (M\<lparr>mn_shim := L\<rparr>) fl shim w = build_storage M fl shim w" for shim w
    by (cases "fl_storage fl"; cases "fl_storage_data_dir fl") (simp_all add: build_storage_def)
  ultimately show ?thesis using assms by (simp add: main_route_def split: prod.split sum.split)
qed

text \<open>In stub mode nothing that needs the shim is started, and the shim is not called.\<close>

lemma main_route_stub:
  assumes "cli_needs_shim fl" and "\<not> sl_real (mn_shim M)" and "\<not> direct_command cmd" and "\<not> daemon_can_handle cmd up"
  shows "\<exists>e. main_route M fl cmd up w = (Inl e, w)"
  using assms by (simp add: main_route_def shim_build_def)

text \<open>A preset that the catalog does not have is refused; no other preset of the module is taken in its place.\<close>

lemma preset_no_fallback:
  assumes "json_get preset (JObj catalog) = None" and "js_from_str J raw = Inr (JObj [(''value'', JObj catalog)])"
    and "shim_call L DELIVERY_MODULE ''getAvailableConfigs'' ''[]'' 60000 w = (Inr raw, w1)"
  shows "\<exists>e. cfg_from_preset L J show_value debug preset w = (Inl e, w1)"
  using assms by (simp add: cfg_from_preset_def get_str_def kind_error_def)

section \<open>What a node of the command line holds\<close>

lemma build_node_fresh:
  assumes "fst (build_node N K F now rk rs name desc caps tr ident w) = Inr self"
  shows "nd_metrics self = metrics_new" "ch_transport (nd_channel self) = tr" "card_name (nd_card self) = name"
  using assms
  by (auto simp: build_node_def node_from_keyfile_def node_from_key_def node_new_def node_new_encrypted_def node_with_channel_def
      with_identity_def card_of_def channel_new_def channel_with_config_def Let_def split: option.splits prod.splits sum.splits if_splits)

text \<open>\<open>lmao metrics\<close> prints zeros, whatever other nodes have done: it builds a node and reads its counters at once.\<close>

lemma metrics_always_zero:
  assumes "metrics_command T w = Inr m"
  shows "m = metrics_new"
  using assms build_node_fresh(1)
  by (fastforce simp: metrics_command_def cli_node_def snapshot_def split: sum.splits)

lemma local_announce_on_memory:
  assumes T: "env_transport (ne_sds (tk_node T)) = mem_transport others"
    and codec: "\<forall>e. \<exists>b. ne_env_to_vec (tk_node T) e = Inr b"
    and self: "ms_subscribers (ch_transport (nd_channel self)) = []"
  shows "\<exists>self'. local_announce T P name ttl False self
      = (Announced (card_name (nd_card self)) (pubkey self) ttl (ic_encrypt (tk_identity T)) [], self')
    \<and> ms_channels (ch_transport (nd_channel self')) = ms_channels (ch_transport (nd_channel self))"
proof -
  obtain b where b: "ne_env_to_vec (tk_node T) (EnvPresence (sign (tk_signing T) (nd_signing_key self)
      (presence_of self ttl (build_sealed_status_envelopes (tk_node T) (pe_draws P 0) self)))) = Inr b"
    using codec by blast
  have "tp_publish (mem_transport others) (ch_transport (nd_channel self)) PRESENCE b
      = (Inr (), (ch_transport (nd_channel self))\<lparr>ms_history := entry_push PRESENCE b (ms_history (ch_transport (nd_channel self)))\<rparr>)"
    using self by (simp add: mem_transport_def mem_publish_def hm_get_def)
  then show ?thesis
    by (simp add: local_announce_def announce_presence_with_ttl_def b node_publish_def ch_publish_def T count_def)
qed


definition placeholder_nenv :: "(string list, mem_state, nat, bytes, unit) node_env" where
  "placeholder_nenv = \<lparr>
     ne_sds = \<lparr>env_bloom = exact_crate, env_sha = map (\<lambda>b. char_of (unat b)), env_to_vec = (\<lambda>_. Inl ''none''),
       env_from_slice = (\<lambda>_. None), env_ack_to_vec = (\<lambda>_. Inr []), env_ack_message_id = (\<lambda>_. None),
       env_transport = mem_transport (\<lambda>_ st. st)\<rparr>,
     ne_crypto = toy_prims,
     ne_status = \<lparr>status_to_vec = (\<lambda>_. Inl ''none''), status_from_slice = (\<lambda>_. Inl ''none'')\<rparr>,
     ne_env_to_vec = (\<lambda>_. Inr [1]), ne_env_from_slice = (\<lambda>_. None),
     ne_task_to_vec = (\<lambda>_. Inl ''none''), ne_task_from_slice = (\<lambda>_. Inl ''none''), ne_rows = example_rows,
     ne_upload = (\<lambda>_ w. (Inl ''none'', w)), ne_download = (\<lambda>_ w. (Inl ''none'', w)),
     ne_pay = (\<lambda>_ _ w. (Inl ''none'', w)), ne_verify_transfer = (\<lambda>_ w. (Inl ''none'', w)),
     ne_append = (\<lambda>_ w. (Inr (), w)), ne_registry = ne_registry presence_nenv\<rparr>"

definition placeholder_env :: "(string list, mem_state, nat, bytes, unit, unit, unit, bytes) task_env" where
  "placeholder_env =
     \<lparr>tk_node = placeholder_nenv, tk_signing = example_signing, tk_keys = unit_keys, tk_files = key_world, tk_now_ms = 7,
      tk_random_key = (), tk_random_secret = [], tk_transport = mem_new, tk_identity = \<lparr>ic_keyfile = None, ic_encrypt = False\<rparr>,
      tk_debug = (\<lambda>_. []), tk_socket = Inr \<lparr>cn_in = [], cn_out = [], cn_broken = None\<rparr>, tk_ask = (\<lambda>_. Inl ''refused''), tk_traced = False, tk_fuel = 1,
      tk_elapsed = (\<lambda>i. i), tk_secs = (\<lambda>_. 9), tk_secs2 = (\<lambda>_. 11), tk_discovery = None, tk_iter = (\<lambda>m. m), tk_call = example_call\<rparr>"


end
