(* ===== verification/Spec2Isabelle.thy ===== *)
theory Spec2Isabelle
  imports Node_Network Agent_Loop Cli_Trust Daemon_Serve C_Interface Cli_Main
begin

text \<open>
  \<^bold>\<open>A verification of LMAO, the coordination layer for agents\<close>

  LMAO lets agents that know each other by public keys find each other, exchange tasks and report on
  their load over a publish/subscribe network. The program is a stack of crates under
  \<open>src/crates\<close>: data types (\<open>core\<close>), encryption (\<open>crypto\<close>), the network with the reliability layer SDS
  (\<open>transport\<close>), payment backends (\<open>execution\<close>), storage of large payloads (\<open>storage\<close>), the node that ties
  them together (\<open>node\<close>), the command line with its agent loop and its daemon (\<open>cli\<close>), a server for the
  tool protocol MCP (\<open>mcp\<close>), and two C interfaces (\<open>lmao-ffi\<close>, \<open>ffi\<close>). The node calls the SDS channel for reliable sends and for reception, the
  transport directly for discovery, presence, streams, responses and delegated tasks; the agent loop and the
  MCP server run on one node each; the daemon runs requests that arrive on a socket on a node; a
  command goes to the daemon when one listens, else it works on files or on a node of its own.

  \<^bold>\<open>Theories and sources\<close>

  \<^item> \<open>Prelude\<close>: machine integers, little-endian bytes, saturating arithmetic, bounded vectors, the maps
    of the standard library with the interface of a keyed store and its interpretations, the
    interface of an invariant, and the collections of facts the proofs use.
  \<^item> \<open>Transport\<close>, \<open>Memory_Transport\<close>: the trait of \<open>transport/src/lib.rs\<close> as a record of operations, the
    interface \<open>pubsub\<close> of a network that works, and the in-memory transport (\<open>memory.rs\<close>), which
    satisfies it.
  \<^item> \<open>Utf8\<close>, \<open>Base64\<close>, \<open>Calendar\<close>: slices, trimming and lossy decoding of strings as the commands use them, the
    Base64 codec of the REST transport with its round trip, and the dates of the task history, which are
    those of the Gregorian calendar.
  \<^item> \<open>Nwaku_Rest\<close>: the transport over the REST interface of nwaku (\<open>nwaku_rest.rs\<close>), with the background
    tasks of its subscriptions as steps; what is published arrives, and no message arrives twice.
  \<^item> \<open>Bloom\<close>, \<open>Sds_Message\<close>, \<open>Sds_Channel\<close>: \<open>transport/src/sds\<close>, every operation of \<open>MessageChannel\<close>.
    \<open>Sds_Invariant\<close>, \<open>Sds_Delivery\<close> and \<open>Sds_Reliability\<close> hold its properties: bounds of the buffers in
    every reachable state; delivery in causal order, completely and eventually; acknowledgements,
    retransmission and repair.
  \<^item> \<open>Crypto\<close>, \<open>Tasks\<close>, \<open>Presence\<close>, \<open>Trust\<close>, \<open>Registry\<close>: the crate \<open>crypto\<close> and the modules of \<open>core\<close>
    (\<open>Presence\<close> also holds the node's peer map): round trips of encryption, sealed load reports and the trust
    file, what a signature commits to, expiry, and the registry as an implementation of its interface.
  \<^item> \<open>Execution\<close>: the Status Network backend of \<open>execution\<close>; a verified transfer is on the chain.
  \<^item> \<open>Node_State\<close>, \<open>Retry\<close>, \<open>Node\<close>, \<open>Node_Keys\<close>: errors, counters, sessions and the history log, the
    retry layer, the state of \<open>LmaoNode\<close> with its construction, key files and accessors.
  \<^item> \<open>Node_Tasks\<close> and \<open>Node_Safety\<close>: \<open>node/src/tasks\<close>, whole handlers; polls enforce trust, payments are
    not replayed, payloads survive encryption and offloading.
  \<^item> \<open>Node_Streaming\<close>, \<open>Node_Discovery\<close>, \<open>Node_Delegation\<close>: the modules of those names; streams are
    reassembled, the peer map learns from signed announcements only, delegation chooses trusted peers of
    the best load, ends, and reports what was answered.
  \<^item> \<open>Node_Frames\<close>, \<open>Node_Invariant\<close>: the interfaces \<open>send_frame\<close> and \<open>node_frame\<close> of a predicate that every
    operation of a node preserves, what operations leave alone, the well-formed states of a node over all
    operations, and the sessions.
  \<^item> \<open>Node_Network\<close>: two nodes on the in-memory transport, a delegation from end to end.
  \<^item> \<open>Ipc_Frame\<close>, \<open>Daemon\<close>, \<open>Daemon_Safety\<close>: \<open>cli/src/daemon\<close>, frames, protocol, server and client; a
    frame arrives whole or not at all, a client gets its request's outcome, trust edits are durable.
    \<open>Daemon_Serve\<close>: its accept loop, which implements the trust list over a whole run of connections.
  \<^item> \<open>Agent_Loop\<close>: \<open>lmao agent\<close> (\<open>cli/src/agent.rs\<close>), execution of tasks by a command, the loop, startup; a
    batch never exceeds the capacity, the load returns to zero.
  \<^item> \<open>Cli_Trust\<close>, \<open>Cli_Task\<close>: \<open>lmao trust\<close>, \<open>lmao task\<close> and \<open>lmao session\<close>, through the daemon and without it;
    trust edits agree on both ways, following a stream prints the response and ends.
  \<^item> \<open>Storage\<close>: the REST backend of \<open>storage/src/lib.rs\<close> and \<open>lmao storage fetch\<close>; the log an agent
    uploads is what the delegating side fetches.
  \<^item> \<open>Mcp\<close>: the five tools of \<open>mcp/src/server.rs\<close> on one node and a cache of agents, and the start of the server.
  \<^item> \<open>Logos_Core\<close>: what the clients of the Logos libraries share: C strings, the shim of the C++ SDK
    (\<open>logos-core-bindings\<close>), the parameters of a plugin call as text, and the future of a call with its callback as a
    transition system, in which a call that is answered completes (\<open>transport/src/logos_core.rs\<close>).
  \<^item> \<open>Logos_Delivery\<close>: the transports over these libraries (\<open>delivery_module_transport.rs\<close>,
    \<open>logos_core_transport.rs\<close>, \<open>logos_delivery.rs\<close>). The interface \<open>topic_routing\<close> of channels per topic has bounded and
    unbounded channels as instances; messages of a topic arrive in order, and the references shared with C are
    released as often as they are taken.
  \<^item> \<open>Logos_Storage\<close>: the storage backends \<open>storage_module_backend.rs\<close>, \<open>logos_core_backend.rs\<close> and
    \<open>libstorage_backend.rs\<close>: round trips of uploads, and what a download may return.
  \<^item> \<open>C_Interface\<close>: every exported function of \<open>lmao-ffi\<close> and \<open>logos-messaging-a2a-ffi\<close> with the strings they give to C;
    the process keeps one identity, error reports read back.
  \<^item> \<open>Cli_Presence\<close>, \<open>Cli_Main\<close>: \<open>lmao presence\<close>, the choice of transport and storage in \<open>main.rs\<close>, and the commands
    \<open>info\<close>, \<open>daemon\<close>, \<open>health\<close> and \<open>metrics\<close>.

  \<^bold>\<open>How the model reads\<close>

  A struct is a record, an enum a datatype, an operation a function that takes the state last and
  returns its result and the new state. Errors are the left of a sum, with the texts of the source;
  a panic is the value \<open>Panics\<close>. \<open>u8\<close>, \<open>u32\<close> and \<open>u64\<close> are words and wrap as in a release build;
  \<open>usize\<close> counts of containers are natural numbers. A string is a list of characters, the bytes of
  its UTF-8 form. A \<open>HashMap\<close> is an association list whose iteration order is an argument \<open>it\<close>.
  Code outside the repository is an argument: the JSON and TOML codecs, hashing, signatures, the AEAD
  cipher, the Bloom filter crate, HTTP and file access, clocks and random draws. What the code relies on is
  a named predicate on the argument (\<open>crypto_ok\<close>, \<open>codecs_ok\<close>, \<open>bloom_crate_ok\<close>, \<open>toml_ok\<close>, \<open>fs_ok\<close>,
  \<open>key_files_ok\<close> and others), which the closed examples show to be satisfiable.

  Operations run one after the other; the locks of the source make this the granularity of its
  state changes. Where several parties act, their steps are an explicit sequence, or an inductive
  relation over all sequences (\<open>mem_run\<close>, \<open>channel_step\<close>, \<open>trust_step\<close>, \<open>node_step\<close>, \<open>rest_step\<close>,
  \<open>agent_step\<close>, \<open>call_step\<close>, \<open>capi_step\<close>).

  Five loops are bounded by the clock and have fuel: the wait for an answer to a delegation, where
  \<open>20 * timeout_secs + 1\<close> rounds are proved to suffice since every round sleeps for at least 50 ms, the wait
  of the MCP tool (two seconds a round), following a stream (half a second a round, \<open>follow_stream_ends\<close>),
  the wait for peers of \<open>lmao task delegate\<close>, and the wait of \<open>lmao presence\<close>. Loops that run until the user stops
  them (\<open>presence --watch\<close>, the daemon) are modelled by their rounds or events. All other recursions are structural or have a termination
  proof.

  \<^bold>\<open>What the theorems show beyond correctness\<close>

  Some theorems pin down behaviour that the code does not mean to have: a session that the other side
  opened cannot be continued under the id it shows, a session is evicted while it is used for sending, an
  import of trust entries is lost to a running daemon, a message that waits twice is delivered twice, a short
  public key disables the discovery tool, an announcement is lost on a placeholder transport while a daemon
  runs, a download may end before its last chunk, and others; each is stated with the conditions under which it happens.

  \<^bold>\<open>Not modelled\<close>

  The C and C++ libraries behind the Logos clients, which are not in the repository, are arguments like the other
  external code. Argument parsing by clap, the shell completions it generates, the layout of reports as text or
  JSON, logging, the protocol library of the MCP server and the user interface modules written in QML and C++ are
  left out; they are glue around the operations modelled here. The mocks of the tests are not part of the
  program.
\<close>

end
